(* ===== verification/Prelude.thy ===== *)
theory Prelude
  imports Main "HOL-Library.Word" "HOL-Library.Multiset"
begin

text \<open>
  Shared vocabulary of the development: machine integers and byte strings, the three ways a
  Go call can end (a value, an error, a run-time panic), guard chains (``if bad, return an
  error''), big-endian encodings, and the two generic contracts that stateful components
  satisfy (an invariant kept by every operation, and a relation every operation moves along).
\<close>

section \<open>Types\<close>

type_synonym byte = "8 word"
type_synonym bytes = "byte list"
type_synonym u8 = "8 word"
type_synonym u16 = "16 word"
type_synonym u32 = "32 word"
type_synonym u64 = "64 word"

text \<open>\<open>[32]byte\<close> and \<open>common.Hash\<close>, and \<open>common.Address\<close> (\<open>[20]byte\<close>): fixed-size
  arrays compared as a whole, read as big-endian numbers of that width.\<close>

type_synonym bytes32 = "256 word"
type_synonym address = "160 word"

text \<open>A Go call returns a value, returns an error, or panics.\<close>

datatype ('e, 'a) res = Ok 'a | Err 'e | Panic

fun res_bind :: "('e, 'a) res \<Rightarrow> ('a \<Rightarrow> ('e, 'b) res) \<Rightarrow> ('e, 'b) res" where
  "res_bind (Ok a) f = f a"
| "res_bind (Err e) f = Err e"
| "res_bind Panic f = Panic"

text \<open>A chain of \<open>if cond { return err }\<close> statements: the first guard that holds decides.\<close>

fun first_err :: "(bool \<times> 'e) list \<Rightarrow> 'e option" where
  "first_err [] = None"
| "first_err ((c, e) # gs) = (if c then Some e else first_err gs)"

text \<open>Big-endian bytes: \<open>be_bytes k n\<close> are the low \<open>k\<close> bytes of \<open>n\<close>, \<open>be_nat\<close> reads bytes back
  (\<open>big.Int.SetBytes\<close>).\<close>

fun be_bytes :: "nat \<Rightarrow> nat \<Rightarrow> bytes" where
  "be_bytes 0 n = []"
| "be_bytes (Suc k) n = be_bytes k (n div 256) @ [of_nat (n mod 256)]"

definition be_nat :: "bytes \<Rightarrow> nat" where
  "be_nat bs = foldl (\<lambda>a b. a * 256 + unat b) 0 bs"

definition bytes_of_bytes32 :: "bytes32 \<Rightarrow> bytes" where
  "bytes_of_bytes32 h = be_bytes 32 (unat h)"

definition bytes32_of_bytes :: "bytes \<Rightarrow> bytes32" where
  "bytes32_of_bytes bs = of_nat (be_nat bs)"

text \<open>Swapping two cells of a slice, as Go's parallel assignment does.\<close>

definition swap :: "nat \<Rightarrow> nat \<Rightarrow> 'a list \<Rightarrow> 'a list" where
  "swap i j xs = xs[i := xs ! j, j := xs ! i]"

section \<open>Results and guard chains\<close>

named_theorems res_simps

lemma res_bind_eq_Ok [res_simps]:
  "res_bind r f = Ok b \<longleftrightarrow> (\<exists>a. r = Ok a \<and> f a = Ok b)"
  by (cases r) auto

lemma res_bind_eq_Panic [res_simps]:
  "res_bind r f = Panic \<longleftrightarrow> r = Panic \<or> (\<exists>a. r = Ok a \<and> f a = Panic)"
  by (cases r) auto

lemma res_bind_eq_Err [res_simps]:
  "res_bind r f = Err e \<longleftrightarrow> r = Err e \<or> (\<exists>a. r = Ok a \<and> f a = Err e)"
  by (cases r) auto

lemma first_err_None_iff [res_simps]:
  "first_err gs = None \<longleftrightarrow> (\<forall>g \<in> set gs. \<not> fst g)"
  by (induction gs rule: first_err.induct) auto

lemma first_err_SomeD: "first_err gs = Some e \<Longrightarrow> (True, e) \<in> set gs"
  by (induction gs rule: first_err.induct) (auto split: if_splits)

lemma first_err_append:
  "first_err (gs @ hs) = (case first_err gs of None \<Rightarrow> first_err hs | Some e \<Rightarrow> Some e)"
  by (induction gs rule: first_err.induct) auto

section \<open>Big-endian encodings\<close>

lemma length_be_bytes [simp]: "length (be_bytes k n) = k"
  by (induction k arbitrary: n) auto

lemma be_nat_Nil [simp]: "be_nat [] = 0"
  by (simp add: be_nat_def)

lemma be_nat_snoc [simp]: "be_nat (bs @ [b]) = be_nat bs * 256 + unat b"
  by (simp add: be_nat_def)

lemma unat_byte_less [simp]: "unat (b :: byte) < 256"
  using unsigned_less [of b] by simp

lemma unat_of_nat_byte [simp]: "unat (of_nat (n mod 256) :: byte) = n mod 256"
  by (simp add: unat_of_nat)

lemma be_nat_be_bytes: "be_nat (be_bytes k n) = n mod 256 ^ k"
proof (induction k arbitrary: n)
  case 0
  then show ?case by simp
next
  case (Suc k)
  have "be_nat (be_bytes (Suc k) n) = (n div 256 mod 256 ^ k) * 256 + n mod 256"
    by (simp add: Suc.IH)
  also have "\<dots> = n mod (256 * 256 ^ k)"
    by (simp add: mod_mult2_eq)
  finally show ?case by (simp add: mult.commute)
qed

lemma be_nat_less: "be_nat bs < 256 ^ length bs"
proof (induction bs rule: rev_induct)
  case Nil
  then show ?case by simp
next
  case (snoc b bs)
  have "be_nat bs + 1 \<le> 256 ^ length bs" using snoc by simp
  then have "(be_nat bs + 1) * 256 \<le> 256 ^ length bs * 256" by (rule mult_le_mono1)
  then have "be_nat bs * 256 + 256 \<le> 256 ^ length bs * 256" by (simp only: distrib_right mult_1)
  moreover have "unat b < 256" by simp
  ultimately have "be_nat bs * 256 + unat b < 256 ^ length bs * 256"
    by linarith
  then show ?case by (simp add: mult.commute)
qed

lemma be_bytes_be_nat: "be_bytes (length bs) (be_nat bs) = bs"
proof (induction bs rule: rev_induct)
  case Nil
  then show ?case by simp
next
  case (snoc b bs)
  have "unat b mod 256 = unat b" by (rule mod_less) simp
  then have "(be_nat bs * 256 + unat b) mod 256 = unat b"
    and "(be_nat bs * 256 + unat b) div 256 = be_nat bs"
    by simp_all
  with snoc show ?case by simp
qed

lemma unat_bytes32_less: "unat (h :: bytes32) < 256 ^ 32"
  using unsigned_less [of h] by simp

lemma bytes32_roundtrip [simp]: "bytes32_of_bytes (bytes_of_bytes32 h) = h"
  unfolding bytes32_of_bytes_def bytes_of_bytes32_def be_nat_be_bytes
    mod_less [OF unat_bytes32_less]
  by simp

lemma length_bytes_of_bytes32 [simp]: "length (bytes_of_bytes32 h) = 32"
  by (simp add: bytes_of_bytes32_def)

lemma bytes_of_bytes32_inject [simp]:
  "bytes_of_bytes32 g = bytes_of_bytes32 h \<longleftrightarrow> g = h"
  by (metis bytes32_roundtrip)

lemma bytes32_of_bytes_inverse:
  assumes "length bs = 32"
  shows "bytes_of_bytes32 (bytes32_of_bytes bs) = bs"
proof -
  have lt: "be_nat bs < 2 ^ 256"
    using be_nat_less [of bs] assms by simp
  then have "unat (of_nat (be_nat bs) :: bytes32) = be_nat bs"
    by (simp add: unat_of_nat take_bit_nat_eq_self)
  then show ?thesis
    using be_bytes_be_nat [of bs] assms
    by (simp add: bytes_of_bytes32_def bytes32_of_bytes_def)
qed

section \<open>Swapping\<close>

lemma length_swap [simp]: "length (swap i j xs) = length xs"
  by (simp add: swap_def)

lemma mset_swap_list:
  "i < length xs \<Longrightarrow> j < length xs \<Longrightarrow> mset (swap i j xs) = mset xs"
  by (simp add: swap_def mset_swap)

lemma nth_swap:
  "i < length xs \<Longrightarrow> j < length xs \<Longrightarrow>
     swap i j xs ! k = (if k = i then xs ! j else if k = j then xs ! i else xs ! k)"
  by (auto simp: swap_def nth_list_update)

section \<open>Contracts of stateful components\<close>

text \<open>A component whose every operation keeps an invariant keeps it along every run.\<close>

locale invariant_machine =
  fixes step :: "'op \<Rightarrow> 's \<Rightarrow> 's" and inv :: "'s \<Rightarrow> bool"
  assumes inv_step: "inv s \<Longrightarrow> inv (step op s)"
begin

lemma inv_run: "inv s \<Longrightarrow> inv (fold step ops s)"
  by (induction ops arbitrary: s) (auto intro: inv_step)

end

text \<open>If, on top of that, every operation moves along a preorder, so does every run.\<close>

locale monotone_machine = invariant_machine +
  fixes rel :: "'s \<Rightarrow> 's \<Rightarrow> bool"
  assumes rel_refl: "rel s s"
    and rel_trans: "rel s t \<Longrightarrow> rel t u \<Longrightarrow> rel s u"
    and rel_step: "inv s \<Longrightarrow> rel s (step op s)"
begin

lemma rel_run: "inv s \<Longrightarrow> rel s (fold step ops s)"
proof (induction ops arbitrary: s)
  case Nil
  then show ?case by (simp add: rel_refl)
next
  case (Cons op ops)
  then have "rel s (step op s)" and "rel (step op s) (fold step ops (step op s))"
    by (simp_all add: rel_step inv_step)
  then show ?case by (auto intro: rel_trans)
qed

end

text \<open>A concrete step relation implements an abstract one when matching states stay matched, the abstract
  side taking any number of steps.\<close>

locale forward_simulation =
  fixes cstep :: "'c \<Rightarrow> 'c \<Rightarrow> bool" and astep :: "'a \<Rightarrow> 'a \<Rightarrow> bool" and match :: "'c \<Rightarrow> 'a \<Rightarrow> bool"
  assumes simulate: "cstep c c' \<Longrightarrow> match c a \<Longrightarrow> \<exists>a'. astep\<^sup>*\<^sup>* a a' \<and> match c' a'"
begin

lemma simulate_run: "cstep\<^sup>*\<^sup>* c c' \<Longrightarrow> match c a \<Longrightarrow> \<exists>a'. astep\<^sup>*\<^sup>* a a' \<and> match c' a'"
proof (induction rule: rtranclp_induct)
  case base
  then show ?case by blast
next
  case (step c1 c2)
  then obtain a1 where "astep\<^sup>*\<^sup>* a a1" "match c1 a1" by blast
  with simulate [OF step.hyps(2)] show ?case by (blast intro: rtranclp_trans)
qed

end

end
