(* ===== verification/GoLib.thy ===== *)
theory GoLib
  imports Prelude "HOL-Library.Sublist"
begin

text \<open>
  The parts of Go's standard library the program computes with: \<open>encoding/hex\<close>,
  \<open>encoding/base64\<close>, \<open>strings\<close>, \<open>strconv\<close>, decimal formatting (\<open>%d\<close>), the string encoder of
  \<open>encoding/json\<close> and the address classes of \<open>net.IP\<close>. A Go string is a sequence of bytes, as an
  Isabelle \<open>string\<close> is. Case mapping and white space are those of the ASCII range, which is all
  the program's hosts, selectors and configuration files use.
\<close>

unbundle bit_operations_syntax

section \<open>Characters and strings\<close>

definition char_in :: "char \<Rightarrow> char \<Rightarrow> char \<Rightarrow> bool" where
  "char_in lo hi c \<longleftrightarrow> (of_char lo :: nat) \<le> of_char c \<and> (of_char c :: nat) \<le> of_char hi"

definition is_digit :: "char \<Rightarrow> bool" where
  "is_digit c \<longleftrightarrow> char_in CHR ''0'' CHR ''9'' c"

definition is_hex_digit :: "char \<Rightarrow> bool" where
  "is_hex_digit c \<longleftrightarrow>
     is_digit c \<or> char_in CHR ''a'' CHR ''f'' c \<or> char_in CHR ''A'' CHR ''F'' c"

definition to_lower_char :: "char \<Rightarrow> char" where
  "to_lower_char c = (if char_in CHR ''A'' CHR ''Z'' c then char_of ((of_char c :: nat) + 32) else c)"

definition ToLower :: "string \<Rightarrow> string" where
  "ToLower s = map to_lower_char s"

definition HasPrefix :: "string \<Rightarrow> string \<Rightarrow> bool" where
  "HasPrefix s p \<longleftrightarrow> take (length p) s = p"

definition TrimPrefix :: "string \<Rightarrow> string \<Rightarrow> string" where
  "TrimPrefix s p = (if HasPrefix s p then drop (length p) s else s)"

fun Contains :: "string \<Rightarrow> string \<Rightarrow> bool" where
  "Contains [] p = (p = [])"
| "Contains (c # s) p = (HasPrefix (c # s) p \<or> Contains s p)"

definition is_space :: "char \<Rightarrow> bool" where
  "is_space c \<longleftrightarrow> c = CHR '' '' \<or> (9 \<le> (of_char c :: nat) \<and> (of_char c :: nat) \<le> 13)"

definition TrimSpace :: "string \<Rightarrow> string" where
  "TrimSpace s = rev (dropWhile is_space (rev (dropWhile is_space s)))"

text \<open>\<open>strings.Split\<close> on a one-character separator.\<close>

fun Split :: "string \<Rightarrow> char \<Rightarrow> string list" where
  "Split [] sep = [[]]"
| "Split (c # s) sep =
     (if c = sep then [] # Split s sep
      else (case Split s sep of [] \<Rightarrow> [[c]] | w # ws \<Rightarrow> (c # w) # ws))"

text \<open>\<open>strings.SplitN(s, sep, 2)\<close>.\<close>

definition SplitN2 :: "string \<Rightarrow> char \<Rightarrow> string list" where
  "SplitN2 s sep =
     (if sep \<in> set s then [takeWhile (\<lambda>c. c \<noteq> sep) s, tl (dropWhile (\<lambda>c. c \<noteq> sep) s)] else [s])"

section \<open>Decimal numbers\<close>

definition digit_char :: "nat \<Rightarrow> char" where
  "digit_char d = char_of (48 + d)"

fun dec_nat :: "nat \<Rightarrow> string" where
  "dec_nat n = (if n < 10 then [digit_char n] else dec_nat (n div 10) @ [digit_char (n mod 10)])"

declare dec_nat.simps [simp del]

definition dec_int :: "int \<Rightarrow> string" where
  "dec_int i = (if i < 0 then CHR ''-'' # dec_nat (nat (- i)) else dec_nat (nat i))"

definition digits_value :: "string \<Rightarrow> nat" where
  "digits_value s = foldl (\<lambda>a c. a * 10 + (of_char c - 48)) 0 s"

text \<open>\<open>strconv.Atoi\<close>: an optional sign, decimal digits, and the range of a 64-bit \<open>int\<close>.\<close>

definition Atoi :: "string \<Rightarrow> int option" where
  "Atoi s =
     (let neg = HasPrefix s ''-''; body = (if neg \<or> HasPrefix s ''+'' then tl s else s) in
      if body = [] \<or> \<not> list_all is_digit body then None
      else let n = int (digits_value body); v = (if neg then - n else n) in
        if - (2 ^ 63) \<le> v \<and> v < 2 ^ 63 then Some v else None)"

section \<open>Hexadecimal\<close>

definition hex_char :: "nat \<Rightarrow> char" where
  "hex_char d = (if d < 10 then char_of (48 + d) else char_of (87 + d))"

definition hex_encode_byte :: "byte \<Rightarrow> string" where
  "hex_encode_byte b = [hex_char (unat b div 16), hex_char (unat b mod 16)]"

text \<open>\<open>hex.EncodeToString\<close>.\<close>

definition hex_EncodeToString :: "bytes \<Rightarrow> string" where
  "hex_EncodeToString bs = concat (map hex_encode_byte bs)"

definition hex_value :: "char \<Rightarrow> nat" where
  "hex_value c = (if is_digit c then of_char c - 48
                  else if char_in CHR ''a'' CHR ''f'' c then of_char c - 87 else of_char c - 55)"

text \<open>\<open>hex.DecodeString\<close>: pairs of digits of either case, an error otherwise.\<close>

fun hex_DecodeString :: "string \<Rightarrow> bytes option" where
  "hex_DecodeString [] = Some []"
| "hex_DecodeString [c] = None"
| "hex_DecodeString (c # d # s) =
     (if is_hex_digit c \<and> is_hex_digit d
      then map_option ((#) (of_nat (hex_value c * 16 + hex_value d))) (hex_DecodeString s)
      else None)"

section \<open>Base64\<close>

text \<open>\<open>base64.StdEncoding\<close>: alphabet, padding, and strict decoding of groups of four. The decoder
  skips carriage returns and line feeds.\<close>

definition b64_alphabet :: string where
  "b64_alphabet = ''ABCDEFGHIJKLMNOPQRSTUVWXYZabcdefghijklmnopqrstuvwxyz0123456789+/''"

definition b64_char :: "nat \<Rightarrow> char" where
  "b64_char n = b64_alphabet ! n"

fun b64_index_from :: "string \<Rightarrow> char \<Rightarrow> nat option" where
  "b64_index_from [] c = None"
| "b64_index_from (a # as) c = (if a = c then Some 0 else map_option Suc (b64_index_from as c))"

definition b64_value :: "char \<Rightarrow> nat option" where
  "b64_value c = b64_index_from b64_alphabet c"

text \<open>The 6, 12 and 24-bit groups of one, two and three bytes, padded with zero bits.\<close>

definition b64_group1 :: "byte \<Rightarrow> nat" where
  "b64_group1 a = unat a * 16"

definition b64_group2 :: "byte \<Rightarrow> byte \<Rightarrow> nat" where
  "b64_group2 a b = (unat a * 256 + unat b) * 4"

definition b64_group3 :: "byte \<Rightarrow> byte \<Rightarrow> byte \<Rightarrow> nat" where
  "b64_group3 a b c = (unat a * 256 + unat b) * 256 + unat c"

fun b64_encode :: "bytes \<Rightarrow> string" where
  "b64_encode [] = []"
| "b64_encode [a] =
     (let n = b64_group1 a in [b64_char (n div 64), b64_char (n mod 64), CHR ''='', CHR ''=''])"
| "b64_encode [a, b] =
     (let n = b64_group2 a b in
      [b64_char (n div 4096), b64_char (n div 64 mod 64), b64_char (n mod 64), CHR ''=''])"
| "b64_encode (a # b # c # bs) =
     (let n = b64_group3 a b c in
      [b64_char (n div 262144), b64_char (n div 4096 mod 64), b64_char (n div 64 mod 64),
       b64_char (n mod 64)] @ b64_encode bs)"

text \<open>Joining two, three and four sextets.\<close>

definition b64_join2 :: "nat \<Rightarrow> nat \<Rightarrow> nat" where
  "b64_join2 x y = x * 64 + y"

definition b64_join3 :: "nat \<Rightarrow> nat \<Rightarrow> nat \<Rightarrow> nat" where
  "b64_join3 x y z = (x * 64 + y) * 64 + z"

definition b64_join4 :: "nat \<Rightarrow> nat \<Rightarrow> nat \<Rightarrow> nat \<Rightarrow> nat" where
  "b64_join4 x y z w = ((x * 64 + y) * 64 + z) * 64 + w"

fun b64_decode :: "string \<Rightarrow> bytes option" where
  "b64_decode [] = Some []"
| "b64_decode (p # q # r # s # rest) =
     (if s = CHR ''='' then
        (if rest \<noteq> [] then None
         else if r = CHR ''='' then
           (case (b64_value p, b64_value q) of
              (Some x, Some y) \<Rightarrow> Some [of_nat (b64_join2 x y div 16)]
            | _ \<Rightarrow> None)
         else
           (case (b64_value p, b64_value q, b64_value r) of
              (Some x, Some y, Some z) \<Rightarrow>
                let n = b64_join3 x y z div 4 in
                Some [of_nat (n div 256), of_nat (n mod 256)]
            | _ \<Rightarrow> None))
      else
        (case (b64_value p, b64_value q, b64_value r, b64_value s) of
           (Some x, Some y, Some z, Some w) \<Rightarrow>
             let n = b64_join4 x y z w in
             map_option (\<lambda>bs. of_nat (n div 65536) # of_nat (n div 256 mod 256) # of_nat (n mod 256) # bs)
               (b64_decode rest)
         | _ \<Rightarrow> None))"
| "b64_decode _ = None"

definition base64_EncodeToString :: "bytes \<Rightarrow> string" where
  "base64_EncodeToString = b64_encode"

definition base64_DecodeString :: "string \<Rightarrow> bytes option" where
  "base64_DecodeString s = b64_decode (filter (\<lambda>c. c \<noteq> CHR 0x0A \<and> c \<noteq> CHR 0x0D) s)"

section \<open>JSON strings\<close>

text \<open>The length of the UTF-8 sequence at the head of a string, as \<open>utf8.DecodeRuneInString\<close>
  accepts it; \<open>None\<close> for an invalid byte.\<close>

definition byte_in :: "nat \<Rightarrow> nat \<Rightarrow> char \<Rightarrow> bool" where
  "byte_in lo hi c \<longleftrightarrow> lo \<le> (of_char c :: nat) \<and> (of_char c :: nat) \<le> hi"

definition cont_byte :: "char \<Rightarrow> bool" where
  "cont_byte = byte_in 0x80 0xBF"

definition utf8_len :: "string \<Rightarrow> nat option" where
  "utf8_len s = (case s of
      [] \<Rightarrow> None
    | a # t \<Rightarrow>
       if byte_in 0 0x7F a then Some 1
       else (case t of
          [] \<Rightarrow> None
        | b # u \<Rightarrow>
           if byte_in 0xC2 0xDF a then (if cont_byte b then Some 2 else None)
           else (case u of
              [] \<Rightarrow> None
            | c # v \<Rightarrow>
               if byte_in 0xE0 0xEF a then
                 (if byte_in (if byte_in 0xE0 0xE0 a then 0xA0 else 0x80)
                       (if byte_in 0xED 0xED a then 0x9F else 0xBF) b \<and> cont_byte c
                  then Some 3 else None)
               else (case v of
                  [] \<Rightarrow> None
                | d # w \<Rightarrow>
                   if byte_in 0xF0 0xF4 a \<and>
                      byte_in (if byte_in 0xF0 0xF0 a then 0x90 else 0x80)
                        (if byte_in 0xF4 0xF4 a then 0x8F else 0xBF) b \<and>
                      cont_byte c \<and> cont_byte d
                   then Some 4 else None))))"

text \<open>Escaping of one ASCII byte, with HTML escaping on (the default of \<open>json.Marshal\<close>).\<close>

definition json_ascii :: "char \<Rightarrow> string" where
  "json_ascii c =
     (if c = CHR 0x22 \<or> c = CHR 0x5C then [CHR 0x5C, c]
      else if c = CHR 0x08 then [CHR 0x5C, CHR ''b'']
      else if c = CHR 0x0C then [CHR 0x5C, CHR ''f'']
      else if c = CHR 0x0A then [CHR 0x5C, CHR ''n'']
      else if c = CHR 0x0D then [CHR 0x5C, CHR ''r'']
      else if c = CHR 0x09 then [CHR 0x5C, CHR ''t'']
      else if byte_in 0 0x1F c \<or> c = CHR ''<'' \<or> c = CHR ''>'' \<or> c = CHR ''&''
        then [CHR 0x5C] @ ''u00'' @ [hex_char (of_char c div 16), hex_char (of_char c mod 16)]
      else [c])"

fun json_chars :: "string \<Rightarrow> string" where
  "json_chars [] = []"
| "json_chars (c # s) =
     (if byte_in 0 0x7F c then json_ascii c @ json_chars s
      else (case utf8_len (c # s) of
          None \<Rightarrow> [CHR 0x5C] @ ''ufffd'' @ json_chars s
        | Some n \<Rightarrow>
            (if take n (c # s) = [CHR 0xE2, CHR 0x80, CHR 0xA8] then [CHR 0x5C] @ ''u2028''
             else if take n (c # s) = [CHR 0xE2, CHR 0x80, CHR 0xA9] then [CHR 0x5C] @ ''u2029''
             else take n (c # s)) @ json_chars (drop (n - 1) s)))"

definition json_string :: "string \<Rightarrow> string" where
  "json_string s = [CHR 0x22] @ json_chars s @ [CHR 0x22]"

definition json_bool :: "bool \<Rightarrow> string" where
  "json_bool b = (if b then ''true'' else ''false'')"

fun json_join :: "string list \<Rightarrow> string" where
  "json_join [] = []"
| "json_join [x] = x"
| "json_join (x # y # xs) = x @ '','' @ json_join (y # xs)"

definition json_array :: "string list \<Rightarrow> string" where
  "json_array xs = ''['' @ json_join xs @ '']''"

definition json_object :: "(string \<times> string) list \<Rightarrow> string" where
  "json_object kvs = ''{'' @ json_join (map (\<lambda>(k, v). json_string k @ '':'' @ v) kvs) @ ''}''"

definition string_bytes :: "string \<Rightarrow> bytes" where
  "string_bytes s = map (\<lambda>c. of_nat (of_char c)) s"

section \<open>IP addresses\<close>

text \<open>A \<open>net.IP\<close> is a slice of 4 or 16 bytes; \<open>To4\<close> unwraps IPv4-mapped IPv6 addresses.\<close>

type_synonym ip = bytes

definition To4 :: "ip \<Rightarrow> ip option" where
  "To4 a = (if length a = 4 then Some a
            else if length a = 16 \<and> take 10 a = replicate 10 0 \<and> a ! 10 = 0xFF \<and> a ! 11 = 0xFF
            then Some (drop 12 a) else None)"

definition IsUnspecified :: "ip \<Rightarrow> bool" where
  "IsUnspecified a \<longleftrightarrow> To4 a = Some [0, 0, 0, 0] \<or> a = replicate 16 0"

definition IsLoopback :: "ip \<Rightarrow> bool" where
  "IsLoopback a = (case To4 a of Some b \<Rightarrow> b ! 0 = 127 | None \<Rightarrow> a = replicate 15 0 @ [1])"

definition IsPrivate :: "ip \<Rightarrow> bool" where
  "IsPrivate a = (case To4 a of
      Some b \<Rightarrow> b ! 0 = 10 \<or> (b ! 0 = 172 \<and> b ! 1 AND 0xF0 = 16) \<or> (b ! 0 = 192 \<and> b ! 1 = 168)
    | None \<Rightarrow> length a = 16 \<and> a ! 0 AND 0xFE = 0xFC)"

definition IsMulticast :: "ip \<Rightarrow> bool" where
  "IsMulticast a = (case To4 a of
      Some b \<Rightarrow> b ! 0 AND 0xF0 = 0xE0
    | None \<Rightarrow> length a = 16 \<and> a ! 0 = 0xFF)"

definition IsLinkLocalMulticast :: "ip \<Rightarrow> bool" where
  "IsLinkLocalMulticast a = (case To4 a of
      Some b \<Rightarrow> b ! 0 = 224 \<and> b ! 1 = 0 \<and> b ! 2 = 0
    | None \<Rightarrow> length a = 16 \<and> a ! 0 = 0xFF \<and> a ! 1 AND 0x0F = 0x02)"

definition IsLinkLocalUnicast :: "ip \<Rightarrow> bool" where
  "IsLinkLocalUnicast a = (case To4 a of
      Some b \<Rightarrow> b ! 0 = 169 \<and> b ! 1 = 254
    | None \<Rightarrow> length a = 16 \<and> a ! 0 = 0xFE \<and> a ! 1 AND 0xC0 = 0x80)"

text \<open>\<open>net.IP.String\<close>: dotted decimal, or hextets with the first longest run of at least two zeros
  compressed.\<close>

fun join_str :: "string \<Rightarrow> string list \<Rightarrow> string" where
  "join_str sep [] = []"
| "join_str sep [x] = x"
| "join_str sep (x # y # xs) = x @ sep @ join_str sep (y # xs)"

fun hextets :: "ip \<Rightarrow> nat list" where
  "hextets (a # b # r) = (unat a * 256 + unat b) # hextets r"
| "hextets _ = []"

fun hex_nat :: "nat \<Rightarrow> string" where
  "hex_nat n = (if n < 16 then [hex_char n] else hex_nat (n div 16) @ [hex_char (n mod 16)])"

declare hex_nat.simps [simp del]

definition zero_run :: "nat list \<Rightarrow> nat \<Rightarrow> nat" where
  "zero_run hs i = length (takeWhile (\<lambda>h. h = 0) (drop i hs))"

definition longest_zero_run :: "nat list \<Rightarrow> nat \<times> nat" where
  "longest_zero_run hs =
     fold (\<lambda>i (st, en). if 2 \<le> zero_run hs i \<and> en - st < zero_run hs i then (i, i + zero_run hs i) else (st, en))
       [0..<8] (255, 255)"

definition ip_String :: "ip \<Rightarrow> string" where
  "ip_String a =
     (if a = [] then ''<nil>''
      else if length a \<noteq> 4 \<and> length a \<noteq> 16 then ''?'' @ hex_EncodeToString a
      else case To4 a of
        Some b \<Rightarrow> join_str ''.'' (map (dec_nat \<circ> unat) b)
      | None \<Rightarrow>
          (let hs = hextets a; (st, en) = longest_zero_run hs in
           if st = 255 then join_str '':'' (map hex_nat hs)
           else join_str '':'' (map hex_nat (take st hs)) @ ''::'' @ join_str '':'' (map hex_nat (drop en hs))))"

text \<open>\<open>net.JoinHostPort\<close> and \<open>net.SplitHostPort\<close>.\<close>

definition JoinHostPort :: "string \<Rightarrow> string \<Rightarrow> string" where
  "JoinHostPort host port =
     (if CHR '':'' \<in> set host then ''['' @ host @ '']:'' @ port else host @ '':'' @ port)"

definition SplitHostPort :: "string \<Rightarrow> string + (string \<times> string)" where
  "SplitHostPort s =
     (let bad = (\<lambda>why. Inl (''address '' @ s @ '': '' @ why)) in
      if CHR '':'' \<notin> set s then bad ''missing port in address''
      else let port = rev (takeWhile (\<lambda>c. c \<noteq> CHR '':'') (rev s));
               i = length s - length port - 1 in
        if HasPrefix s ''['' then
          (if CHR '']'' \<notin> set s then bad ''missing ']' in address''
           else let host = takeWhile (\<lambda>c. c \<noteq> CHR '']'') (tl s); after = length host + 2 in
             if after = length s then bad ''missing port in address''
             else if after \<noteq> i then
               bad (if s ! after = CHR '':'' then ''too many colons in address'' else ''missing port in address'')
             else if CHR ''['' \<in> set (tl s) then bad ''unexpected '[' in address''
             else if CHR '']'' \<in> set (drop after s) then bad ''unexpected ']' in address''
             else Inr (host, port))
        else if CHR '':'' \<in> set (take i s) then bad ''too many colons in address''
        else if CHR ''['' \<in> set s then bad ''unexpected '[' in address''
        else if CHR '']'' \<in> set s then bad ''unexpected ']' in address''
        else Inr (take i s, port))"

text \<open>\<open>%q\<close> on printable text.\<close>

definition go_quote :: "string \<Rightarrow> string" where
  "go_quote s = [CHR 0x22] @
     concat (map (\<lambda>c. if c = CHR 0x22 \<or> c = CHR 0x5C then [CHR 0x5C, c] else [c]) s) @ [CHR 0x22]"

section \<open>JSON text\<close>

text \<open>Characters that the JSON encoder copies.\<close>

definition json_plain :: "char \<Rightarrow> bool" where
  "json_plain c \<longleftrightarrow> byte_in 0 0x7F c \<and> json_ascii c = [c]"

lemma json_chars_plain: "list_all json_plain s \<Longrightarrow> json_chars s = s"
  by (induction s) (simp_all add: json_plain_def)

lemma string_bytes_inject [simp]: "string_bytes s = string_bytes s' \<longleftrightarrow> s = s'"
proof -
  have "inj (\<lambda>c. of_nat (of_char c) :: byte)"
  proof (rule injI)
    fix c d :: char
    assume "(of_nat (of_char c) :: byte) = of_nat (of_char d)"
    then have "unat (of_nat (of_char c) :: byte) = unat (of_nat (of_char d) :: byte)" by simp
    then have "(of_char c :: nat) mod 256 = of_char d mod 256" by (simp add: unat_of_nat take_bit_eq_mod)
    then show "c = d" by simp
  qed
  then show ?thesis by (simp add: string_bytes_def inj_map_eq_map)
qed

lemma json_string_plain: "list_all json_plain s \<Longrightarrow> json_string s = [CHR 0x22] @ s @ [CHR 0x22]"
  by (simp add: json_string_def json_chars_plain)

section \<open>Hexadecimal round trip\<close>

lemma unat_byte_div16 [simp]: "unat (b :: byte) div 16 < 16"
  by (rule less_mult_imp_div_less) simp

lemma hex_char_props: "d < 16 \<Longrightarrow> is_hex_digit (hex_char d) \<and> hex_value (hex_char d) = d"
  by (auto simp: hex_char_def is_hex_digit_def is_digit_def char_in_def hex_value_def)

lemma hex_byte_value: "of_nat (unat b div 16 * 16 + unat b mod 16) = (b :: byte)"
  by (simp only: div_mult_mod_eq) simp

lemma hex_roundtrip: "hex_DecodeString (hex_EncodeToString bs) = Some bs"
  by (induction bs)
    (simp_all add: hex_EncodeToString_def hex_encode_byte_def hex_char_props hex_byte_value)

lemma hex_EncodeToString_inject [simp]:
  "hex_EncodeToString xs = hex_EncodeToString ys \<longleftrightarrow> xs = ys"
  by (metis hex_roundtrip option.inject)

section \<open>Base64 round trip\<close>

lemma b64_char_all:
  "list_all (\<lambda>n. b64_value (b64_char n) = Some n \<and> b64_char n \<noteq> CHR ''='' \<and>
     b64_char n \<noteq> CHR 0x0A \<and> b64_char n \<noteq> CHR 0x0D) [0..<64]"
  by code_simp

lemma b64_char_props [simp]:
  assumes "n < 64"
  shows "b64_value (b64_char n) = Some n" and "b64_char n \<noteq> CHR ''=''"
    and "b64_char n \<noteq> CHR 0x0A" and "b64_char n \<noteq> CHR 0x0D"
  using b64_char_all assms by (auto simp only: list_all_iff set_upt atLeastLessThan_iff)

lemma div_4096: "n div 4096 = n div 64 div (64 :: nat)"
  and div_262144: "n div 262144 = n div 64 div 64 div (64 :: nat)"
  and div_65536: "n div 65536 = n div 256 div (256 :: nat)"
  by (simp_all add: div_mult2_eq [symmetric])

lemma sextets:
  "b64_join4 (n div 262144) (n div 4096 mod 64) (n div 64 mod 64) (n mod 64) = n"
  "b64_join3 (n div 4096) (n div 64 mod 64) (n mod 64) = n"
  "b64_join2 (n div 64) (n mod 64) = n"
  by (simp_all only: b64_join2_def b64_join3_def b64_join4_def div_4096 div_262144 div_mult_mod_eq)

lemma octet_split: "z < 256 \<Longrightarrow> (q * 256 + z) div 256 = q" "z < 256 \<Longrightarrow> (q * 256 + z) mod 256 = (z :: nat)"
  by simp_all

lemma octets_nat:
  fixes x y z :: nat
  assumes "x < 256" and "y < 256" and "z < 256"
  shows "((x * 256 + y) * 256 + z) div 262144 < 64" and "(x * 256 + y) * 4 div 4096 < 64"
    and "x * 16 div 64 < 64"
  using assms by (auto intro!: less_mult_imp_div_less)

lemma unsigned_of_nat_id: "of_nat (unat b) = (b :: byte)"
  by simp

lemma b64_group1_props:
  "b64_group1 a div 64 < 64" "of_nat (b64_group1 a div 16) = a"
  using octets_nat(3) [of "unat a" 0 0] by (simp_all add: b64_group1_def)

lemma b64_group2_props:
  "b64_group2 a b div 4096 < 64" "of_nat (b64_group2 a b div 4 div 256) = a"
  "of_nat (b64_group2 a b div 4 mod 256) = b"
  using octets_nat(2) [of "unat a" "unat b" 0] octet_split [of "unat b" "unat a"]
  by (simp_all add: b64_group2_def)

lemma b64_group3_props:
  "b64_group3 a b c div 262144 < 64" "of_nat (b64_group3 a b c div 65536) = a"
  "of_nat (b64_group3 a b c div 256 mod 256) = b" "of_nat (b64_group3 a b c mod 256) = c"
  using octets_nat(1) [of "unat a" "unat b" "unat c"]
  by (simp_all only: b64_group3_def div_65536 octet_split unat_byte_less unsigned_of_nat_id)

lemmas b64_props = sextets b64_group1_props b64_group2_props b64_group3_props

lemma b64_roundtrip: "b64_decode (b64_encode bs) = Some bs"
  by (induction bs rule: b64_encode.induct) (simp_all add: Let_def b64_props)

lemma b64_encode_no_newline: "filter (\<lambda>c. c \<noteq> CHR 0x0A \<and> c \<noteq> CHR 0x0D) (b64_encode bs) = b64_encode bs"
  by (induction bs rule: b64_encode.induct) (simp_all add: Let_def b64_props)

lemma base64_roundtrip: "base64_DecodeString (base64_EncodeToString bs) = Some bs"
  by (simp only: base64_DecodeString_def base64_EncodeToString_def b64_encode_no_newline b64_roundtrip)

section \<open>Address classes\<close>

text \<open>An IPv4-mapped IPv6 address is classified exactly as the IPv4 address it wraps.\<close>

lemma To4_mapped [simp]:
  "length a = 4 \<Longrightarrow> To4 (replicate 10 0 @ [0xFF, 0xFF] @ a) = Some a \<and> To4 a = Some a"
  by (simp add: To4_def nth_append)

lemma alphanumeric_plain:
  assumes "(48 \<le> n \<and> n \<le> 57) \<or> (97 \<le> n \<and> n \<le> 102)"
  shows "json_plain (char_of (n :: nat))"
proof -
  have "take_bit 8 n = n"
    using assms by (simp add: take_bit_nat_eq_self_iff) linarith
  with assms show ?thesis
    by (auto simp: json_plain_def json_ascii_def byte_in_def char_of_eq_iff)
qed

lemma hex_char_plain: "d < 16 \<Longrightarrow> json_plain (hex_char d)"
  by (auto simp: hex_char_def intro!: alphanumeric_plain)

lemma unat_byte_nibbles: "unat (b :: byte) div 16 < 16" "unat b mod 16 < 16"
  using unat_byte_less [of b] by linarith simp

lemma hex_encode_byte_plain: "list_all json_plain (hex_encode_byte b)"
  by (simp only: hex_encode_byte_def list.pred_inject hex_char_plain unat_byte_nibbles simp_thms)

lemma hex_EncodeToString_plain: "list_all json_plain (hex_EncodeToString bs)"
proof (induction bs)
  case Nil
  show ?case by (simp add: hex_EncodeToString_def)
next
  case (Cons b bs)
  have "hex_EncodeToString (b # bs) = hex_encode_byte b @ hex_EncodeToString bs"
    by (simp add: hex_EncodeToString_def)
  then show ?case
    by (simp only: list_all_append hex_encode_byte_plain Cons.IH simp_thms)
qed

lemma length_hex_EncodeToString [simp]: "length (hex_EncodeToString bs) = 2 * length bs"
  by (induction bs) (simp_all add: hex_EncodeToString_def hex_encode_byte_def)

end
