(* ===== verification/Config.thy ===== *)
theory Config
  imports GoLib
begin

text \<open>
  \<open>go/internal/config/config.go\<close>: the identifiers and resource limits of the engine, and the
  package initialiser that lets environment variables override the defaults. Durations are in
  milliseconds. The environment is a function from names to values, empty when unset
  (\<open>os.Getenv\<close>).
\<close>

section \<open>Constants\<close>

definition Version :: string where "Version = ''0.1.0''"

definition OPTypeGreeting :: string where "OPTypeGreeting = ''GREETING''"
definition OPCommandSayHello :: string where "OPCommandSayHello = ''SAY_HELLO''"
definition OPCommandSayGoodbye :: string where "OPCommandSayGoodbye = ''SAY_GOODBYE''"
definition OPTypeWorkProof :: string where "OPTypeWorkProof = ''WORKPROOF''"
definition OPCommandVerify :: string where "OPCommandVerify = ''VERIFY''"

definition WorkProofEngineVersion :: string where
  "WorkProofEngineVersion = ''workproof-verifier-v1''"

definition TimeoutShutdown :: int where "TimeoutShutdown = 5000"
definition ServerReadHeaderTimeout :: int where "ServerReadHeaderTimeout = 5000"
definition ServerReadTimeout :: int where "ServerReadTimeout = 30000"
definition ServerWriteTimeout :: int where "ServerWriteTimeout = 30000"
definition ServerIdleTimeout :: int where "ServerIdleTimeout = 60000"

definition MaxBundleBytes :: nat where "MaxBundleBytes = 64 * 1024"
definition MaxCiphertextBytes :: nat where "MaxCiphertextBytes = 128 * 1024"
definition MaxVectorCount :: int where "MaxVectorCount = 128"
definition MaxSelectionCount :: int where "MaxSelectionCount = 32"
definition RPCCallTimeout :: int where "RPCCallTimeout = 5000"
definition AttemptTotalTimeout :: int where "AttemptTotalTimeout = 30000"
definition CallGasCap :: int where "CallGasCap = 2000000"
definition MaxResponseBytes :: int where "MaxResponseBytes = 8 * 1024"
definition MaxActionBodyBytes :: nat where "MaxActionBodyBytes = 2 ^ 20"

section \<open>Configuration variables\<close>

record ConfigVars =
  ExtensionPort :: int
  SignPort :: int
  WorkProofRPCURL :: string
  WorkProofEscrowAddress :: string
  WorkProofRandomNumberV2Addr :: string
  WorkProofCiphertextHosts :: "string list"

definition config_defaults :: ConfigVars where
  "config_defaults = \<lparr>ExtensionPort = 8080, SignPort = 9090, WorkProofRPCURL = [],
     WorkProofEscrowAddress = [], WorkProofRandomNumberV2Addr = [],
     WorkProofCiphertextHosts = []\<rparr>"

definition config_init :: "(string \<Rightarrow> string) \<Rightarrow> ConfigVars" where
  "config_init getenv =
     (let ep = getenv ''EXTENSION_PORT''; sp = getenv ''SIGN_PORT'';
          c0 = config_defaults;
          c1 = (if ep \<noteq> [] then
                  (case Atoi ep of Some v \<Rightarrow> c0\<lparr>ExtensionPort := v\<rparr> | None \<Rightarrow> c0) else c0);
          c2 = (if sp \<noteq> [] then
                  (case Atoi sp of Some v \<Rightarrow> c1\<lparr>SignPort := v\<rparr> | None \<Rightarrow> c1) else c1);
          c3 = c2\<lparr>WorkProofRPCURL := getenv ''WORKPROOF_RPC_URL'',
                  WorkProofEscrowAddress := getenv ''WORKPROOF_ESCROW_ADDRESS'',
                  WorkProofRandomNumberV2Addr := getenv ''WORKPROOF_RANDOM_NUMBER_V2_ADDRESS''\<rparr>;
          hosts = getenv ''WORKPROOF_CIPHERTEXT_HOSTS''
      in if hosts \<noteq> [] then c3\<lparr>WorkProofCiphertextHosts := Split hosts CHR '',''\<rparr> else c3)"

section \<open>Splitting\<close>

lemma Split_nonempty [simp]: "Split s sep \<noteq> []"
  by (induction s) (auto split: list.splits)

lemma Split_no_sep: "sep \<notin> set s \<Longrightarrow> Split s sep = [s]"
  by (induction s) auto

lemma Split_append_sep: "sep \<notin> set w \<Longrightarrow> Split (w @ sep # s) sep = w # Split s sep"
  by (induction w) auto

text \<open>Joining words with the separator, the form in which an operator writes the variable.\<close>

fun join_with :: "char \<Rightarrow> string list \<Rightarrow> string" where
  "join_with sep [] = []"
| "join_with sep [w] = w"
| "join_with sep (w # v # ws) = w @ sep # join_with sep (v # ws)"

lemma Split_join_with:
  "ws \<noteq> [] \<Longrightarrow> (\<And>w. w \<in> set ws \<Longrightarrow> sep \<notin> set w) \<Longrightarrow> Split (join_with sep ws) sep = ws"
  by (induction sep ws rule: join_with.induct) (auto simp: Split_no_sep Split_append_sep)

lemma Split_elements_no_sep: "w \<in> set (Split s sep) \<Longrightarrow> sep \<notin> set w"
  by (induction s arbitrary: w) (auto split: if_splits list.splits)

section \<open>Properties\<close>

text \<open>The gateway list is read back exactly: if the variable holds comma-free host names joined by
  commas (not all of it empty), \<open>init\<close> stores exactly that list, in order; and a port variable that
  is not a decimal 64-bit integer leaves the default in place.\<close>

theorem config_init_roundtrip:
  assumes "ws \<noteq> []" and "\<And>w. w \<in> set ws \<Longrightarrow> CHR '','' \<notin> set w"
    and "getenv ''WORKPROOF_CIPHERTEXT_HOSTS'' = join_with CHR '','' ws" and "join_with CHR '','' ws \<noteq> []"
    and "Atoi (getenv ''EXTENSION_PORT'') = None" and "Atoi (getenv ''SIGN_PORT'') = Some p"
  shows "WorkProofCiphertextHosts (config_init getenv) = ws \<and>
         ExtensionPort (config_init getenv) = 8080 \<and> SignPort (config_init getenv) = p"
proof -
  have "getenv ''SIGN_PORT'' \<noteq> []"
    using assms(6) by (auto simp: Atoi_def HasPrefix_def)
  then show ?thesis
    using assms Split_join_with [of ws "CHR '',''"]
    by (simp add: config_init_def config_defaults_def Let_def)
qed

definition demo_getenv :: "string \<Rightarrow> string" where
  "demo_getenv name =
     (if name = ''WORKPROOF_CIPHERTEXT_HOSTS'' then ''gw.example.com,backup.example.com''
      else if name = ''EXTENSION_PORT'' then ''80x0'' else if name = ''SIGN_PORT'' then ''7701'' else [])"

theorem config_init_roundtrip_witness:
  "WorkProofCiphertextHosts (config_init demo_getenv) = [''gw.example.com'', ''backup.example.com''] \<and>
   ExtensionPort (config_init demo_getenv) = 8080 \<and> SignPort (config_init demo_getenv) = 7701"
proof (rule config_init_roundtrip)
  show "[''gw.example.com'', ''backup.example.com''] \<noteq> []" by simp
  show "\<And>w. w \<in> set [''gw.example.com'', ''backup.example.com''] \<Longrightarrow> CHR '','' \<notin> set w" by auto
  show "demo_getenv ''WORKPROOF_CIPHERTEXT_HOSTS'' =
      join_with CHR '','' [''gw.example.com'', ''backup.example.com'']"
    by (simp add: demo_getenv_def)
  show "join_with CHR '','' [''gw.example.com'', ''backup.example.com''] \<noteq> []" by simp
  show "Atoi (demo_getenv ''EXTENSION_PORT'') = None"
    by (simp add: demo_getenv_def Atoi_def HasPrefix_def is_digit_def char_in_def Let_def)
  show "Atoi (demo_getenv ''SIGN_PORT'') = Some 7701"
    by (simp add: demo_getenv_def Atoi_def HasPrefix_def is_digit_def char_in_def Let_def
        digits_value_def)
qed

end
