(* ===== verification/Bundle.thy ===== *)
theory Bundle
  imports Config
begin

text \<open>
  The private test bundle: \<open>go/internal/verifier/bundle.go\<close> (data) and \<open>validate.go\<close> (schema and
  resource-limit validation). The flat struct \<open>Vector\<close> carries the fields of all five vector
  types; \<open>vector_validate\<close> is the code's per-type check of required and forbidden fields. The
  JSON schema's discriminated union is the datatype \<open>SchemaVector\<close>, \<open>schema_bundle\<close> is the schema as its
  document states it, and the main result says what \<open>Validate\<close> decides: the schema, the engine's resource
  caps, and five further rules that the schema does not have.
\<close>

section \<open>Data\<close>

definition VectorEthCallEquals :: string where "VectorEthCallEquals = ''ETH_CALL_EQUALS''"
definition VectorEthCallReverts :: string where "VectorEthCallReverts = ''ETH_CALL_REVERTS''"
definition VectorErc165SupportsInterface :: string where
  "VectorErc165SupportsInterface = ''ERC165_SUPPORTS_INTERFACE''"
definition VectorCodeSizeRange :: string where "VectorCodeSizeRange = ''CODE_SIZE_RANGE''"
definition VectorStorageAtEquals :: string where "VectorStorageAtEquals = ''STORAGE_AT_EQUALS''"

record Vector =
  vec_ID :: string
  vec_Type :: string
  vec_Calldata :: string
  vec_Caller :: string
  vec_Value :: string
  vec_ExpectedReturn :: string
  vec_ExpectedRevertSelector :: string
  vec_ExpectedRevertPattern :: string
  vec_InterfaceID :: string
  vec_Expected :: "bool option"
  vec_MinBytes :: int
  vec_MaxBytes :: int
  vec_Slot :: string
  vec_ExpectedValue :: string

record WorkProofBundle =
  b_FormatVersion :: int
  b_TemplateID :: string
  b_TemplateVersion :: string
  b_TargetChainID :: int
  b_PublicSpecHash :: string
  b_VectorCount :: int
  b_SelectionCount :: int
  b_GasLimitPerCall :: int
  b_TimeoutMsPerCall :: int
  b_MaxResponseBytes :: int
  b_Vectors :: "Vector list"

section \<open>Patterns\<close>

text \<open>The anchored regular expressions of \<open>validate.go\<close>, as recognisers.\<close>

definition hex_prefixed :: "string \<Rightarrow> bool" where
  "hex_prefixed s \<longleftrightarrow> HasPrefix s ''0x'' \<and> list_all is_hex_digit (drop 2 s)"

definition bytes32Pattern :: "string \<Rightarrow> bool" where
  "bytes32Pattern s \<longleftrightarrow> hex_prefixed s \<and> length s = 66"

definition bytes4Pattern :: "string \<Rightarrow> bool" where
  "bytes4Pattern s \<longleftrightarrow> hex_prefixed s \<and> length s = 10"

definition addressPattern :: "string \<Rightarrow> bool" where
  "addressPattern s \<longleftrightarrow> hex_prefixed s \<and> length s = 42"

definition bytesPattern :: "string \<Rightarrow> bool" where
  "bytesPattern s \<longleftrightarrow> hex_prefixed s \<and> even (length s)"

definition uint256HexPattern :: "string \<Rightarrow> bool" where
  "uint256HexPattern s \<longleftrightarrow> hex_prefixed s \<and> 3 \<le> length s \<and> length s \<le> 66"

definition templateVersionPattern :: "string \<Rightarrow> bool" where
  "templateVersionPattern s \<longleftrightarrow>
     HasPrefix s ''v'' \<and>
     (let parts = Split (drop 1 s) CHR ''.'' in
      length parts = 3 \<and> list_all (\<lambda>p. p \<noteq> [] \<and> list_all is_digit p) parts)"

section \<open>Validation\<close>

datatype vec_error =
    IdLength
  | MalformedEthCallEquals | UnexpectedEthCallEquals
  | MalformedEthCallReverts | MalformedRevertSelector | RevertPatternTooLong
  | UnexpectedEthCallReverts
  | MalformedErc165 | UnexpectedErc165
  | MalformedCodeSizeRange | UnexpectedCodeSizeRange
  | MalformedStorageAt | UnexpectedStorageAt
  | UnknownVectorType string

datatype bundle_error =
    BadFormatVersion int
  | TemplateIdLength
  | TemplateVersionSyntax
  | WrongTargetChain int
  | PublicSpecHashMalformed
  | VectorCountBounds int
  | SelectionCountBounds int
  | SelectionExceedsVectors int int
  | GasLimitSchemaBounds int
  | GasLimitEngineCap int
  | TimeoutBounds int
  | ResponseBytesSchemaBounds int
  | ResponseBytesEngineCap int
  | VectorsLengthMismatch nat int
  | VectorsLengthBounds nat
  | InVector nat string vec_error
  | DuplicateVectorId string

text \<open>The messages of the errors.\<close>

fun vec_error_text :: "vec_error \<Rightarrow> string" where
  "vec_error_text IdLength = ''id length out of bounds''"
| "vec_error_text MalformedEthCallEquals = ''malformed ETH_CALL_EQUALS fields''"
| "vec_error_text UnexpectedEthCallEquals = ''unexpected fields for ETH_CALL_EQUALS''"
| "vec_error_text MalformedEthCallReverts = ''malformed ETH_CALL_REVERTS fields''"
| "vec_error_text MalformedRevertSelector = ''malformed expectedRevertSelector''"
| "vec_error_text RevertPatternTooLong = ''expectedRevertPattern too long''"
| "vec_error_text UnexpectedEthCallReverts = ''unexpected fields for ETH_CALL_REVERTS''"
| "vec_error_text MalformedErc165 = ''malformed ERC165_SUPPORTS_INTERFACE fields''"
| "vec_error_text UnexpectedErc165 = ''unexpected fields for ERC165_SUPPORTS_INTERFACE''"
| "vec_error_text MalformedCodeSizeRange = ''malformed CODE_SIZE_RANGE bounds''"
| "vec_error_text UnexpectedCodeSizeRange = ''unexpected fields for CODE_SIZE_RANGE''"
| "vec_error_text MalformedStorageAt = ''malformed STORAGE_AT_EQUALS fields''"
| "vec_error_text UnexpectedStorageAt = ''unexpected fields for STORAGE_AT_EQUALS''"
| "vec_error_text (UnknownVectorType ty) = ''unknown vector type '' @ go_quote ty"

fun bundle_error_text :: "bundle_error \<Rightarrow> string" where
  "bundle_error_text (BadFormatVersion n) = ''formatVersion must be 1, got '' @ dec_int n"
| "bundle_error_text TemplateIdLength = ''templateId length out of bounds''"
| "bundle_error_text TemplateVersionSyntax = ''templateVersion does not match vX.Y.Z''"
| "bundle_error_text (WrongTargetChain n) = ''targetChainId must be 114 (Coston2), got '' @ dec_int n"
| "bundle_error_text PublicSpecHashMalformed = ''publicSpecHash malformed''"
| "bundle_error_text (VectorCountBounds n) = ''vectorCount out of bounds: '' @ dec_int n"
| "bundle_error_text (SelectionCountBounds n) = ''selectionCount out of bounds: '' @ dec_int n"
| "bundle_error_text (SelectionExceedsVectors s n) =
     ''selectionCount '' @ dec_int s @ '' exceeds vectorCount '' @ dec_int n"
| "bundle_error_text (GasLimitSchemaBounds n) = ''gasLimitPerCall out of schema bounds: '' @ dec_int n"
| "bundle_error_text (GasLimitEngineCap n) =
     ''gasLimitPerCall '' @ dec_int n @ '' exceeds engine cap '' @ dec_int CallGasCap"
| "bundle_error_text (TimeoutBounds n) = ''timeoutMsPerCall out of bounds: '' @ dec_int n"
| "bundle_error_text (ResponseBytesSchemaBounds n) = ''maxResponseBytes out of schema bounds: '' @ dec_int n"
| "bundle_error_text (ResponseBytesEngineCap n) =
     ''maxResponseBytes '' @ dec_int n @ '' exceeds engine cap '' @ dec_int MaxResponseBytes"
| "bundle_error_text (VectorsLengthMismatch n c) =
     ''vectors length '' @ dec_nat n @ '' does not match declared vectorCount '' @ dec_int c"
| "bundle_error_text (VectorsLengthBounds n) = ''vectors length out of bounds: '' @ dec_nat n"
| "bundle_error_text (InVector i vid e) =
     ''vector['' @ dec_nat i @ ''] ('' @ vid @ ''): '' @ vec_error_text e"
| "bundle_error_text (DuplicateVectorId vid) = ''duplicate vector id '' @ go_quote vid"

definition vector_validate :: "Vector \<Rightarrow> vec_error option" where
  "vector_validate v =
     (if length (vec_ID v) < 1 \<or> length (vec_ID v) > 96 then Some IdLength
      else if vec_Type v = VectorEthCallEquals then
        first_err
          [(\<not> bytesPattern (vec_Calldata v) \<or> \<not> addressPattern (vec_Caller v) \<or>
              \<not> uint256HexPattern (vec_Value v) \<or> \<not> bytesPattern (vec_ExpectedReturn v),
            MalformedEthCallEquals),
           (vec_ExpectedRevertSelector v \<noteq> [] \<or> vec_ExpectedRevertPattern v \<noteq> [] \<or>
              vec_InterfaceID v \<noteq> [] \<or> vec_Expected v \<noteq> None \<or> vec_MinBytes v \<noteq> 0 \<or>
              vec_MaxBytes v \<noteq> 0 \<or> vec_Slot v \<noteq> [] \<or> vec_ExpectedValue v \<noteq> [],
            UnexpectedEthCallEquals)]
      else if vec_Type v = VectorEthCallReverts then
        first_err
          [(\<not> bytesPattern (vec_Calldata v) \<or> \<not> addressPattern (vec_Caller v) \<or>
              \<not> uint256HexPattern (vec_Value v),
            MalformedEthCallReverts),
           (vec_ExpectedRevertSelector v \<noteq> [] \<and> \<not> bytes4Pattern (vec_ExpectedRevertSelector v),
            MalformedRevertSelector),
           (length (vec_ExpectedRevertPattern v) > 128, RevertPatternTooLong),
           (vec_ExpectedReturn v \<noteq> [] \<or> vec_InterfaceID v \<noteq> [] \<or> vec_Expected v \<noteq> None \<or>
              vec_MinBytes v \<noteq> 0 \<or> vec_MaxBytes v \<noteq> 0 \<or> vec_Slot v \<noteq> [] \<or>
              vec_ExpectedValue v \<noteq> [],
            UnexpectedEthCallReverts)]
      else if vec_Type v = VectorErc165SupportsInterface then
        first_err
          [(\<not> bytes4Pattern (vec_InterfaceID v) \<or> vec_Expected v = None, MalformedErc165),
           (vec_Calldata v \<noteq> [] \<or> vec_Caller v \<noteq> [] \<or> vec_Value v \<noteq> [] \<or>
              vec_ExpectedReturn v \<noteq> [] \<or> vec_ExpectedRevertSelector v \<noteq> [] \<or>
              vec_ExpectedRevertPattern v \<noteq> [] \<or> vec_MinBytes v \<noteq> 0 \<or> vec_MaxBytes v \<noteq> 0 \<or>
              vec_Slot v \<noteq> [] \<or> vec_ExpectedValue v \<noteq> [],
            UnexpectedErc165)]
      else if vec_Type v = VectorCodeSizeRange then
        first_err
          [(vec_MinBytes v < 1 \<or> vec_MaxBytes v < 1 \<or> vec_MinBytes v > vec_MaxBytes v,
            MalformedCodeSizeRange),
           (vec_Calldata v \<noteq> [] \<or> vec_Caller v \<noteq> [] \<or> vec_Value v \<noteq> [] \<or>
              vec_ExpectedReturn v \<noteq> [] \<or> vec_ExpectedRevertSelector v \<noteq> [] \<or>
              vec_ExpectedRevertPattern v \<noteq> [] \<or> vec_InterfaceID v \<noteq> [] \<or>
              vec_Expected v \<noteq> None \<or> vec_Slot v \<noteq> [] \<or> vec_ExpectedValue v \<noteq> [],
            UnexpectedCodeSizeRange)]
      else if vec_Type v = VectorStorageAtEquals then
        first_err
          [(\<not> bytes32Pattern (vec_Slot v) \<or> \<not> bytes32Pattern (vec_ExpectedValue v),
            MalformedStorageAt),
           (vec_Calldata v \<noteq> [] \<or> vec_Caller v \<noteq> [] \<or> vec_Value v \<noteq> [] \<or>
              vec_ExpectedReturn v \<noteq> [] \<or> vec_ExpectedRevertSelector v \<noteq> [] \<or>
              vec_ExpectedRevertPattern v \<noteq> [] \<or> vec_InterfaceID v \<noteq> [] \<or>
              vec_Expected v \<noteq> None \<or> vec_MinBytes v \<noteq> 0 \<or> vec_MaxBytes v \<noteq> 0,
            UnexpectedStorageAt)]
      else Some (UnknownVectorType (vec_Type v)))"

text \<open>The loop over the vectors, with the set of identifiers seen so far.\<close>

fun validate_vectors :: "nat \<Rightarrow> string set \<Rightarrow> Vector list \<Rightarrow> bundle_error option" where
  "validate_vectors i seen [] = None"
| "validate_vectors i seen (v # vs) =
     (case vector_validate v of
        Some e \<Rightarrow> Some (InVector i (vec_ID v) e)
      | None \<Rightarrow>
          if vec_ID v \<in> seen then Some (DuplicateVectorId (vec_ID v))
          else validate_vectors (Suc i) (insert (vec_ID v) seen) vs)"

definition Validate :: "WorkProofBundle \<Rightarrow> bundle_error option" where
  "Validate b =
     (case first_err
        [(b_FormatVersion b \<noteq> 1, BadFormatVersion (b_FormatVersion b)),
         (length (b_TemplateID b) < 1 \<or> length (b_TemplateID b) > 64, TemplateIdLength),
         (\<not> templateVersionPattern (b_TemplateVersion b), TemplateVersionSyntax),
         (b_TargetChainID b \<noteq> 114, WrongTargetChain (b_TargetChainID b)),
         (\<not> bytes32Pattern (b_PublicSpecHash b), PublicSpecHashMalformed),
         (b_VectorCount b < 1 \<or> b_VectorCount b > MaxVectorCount, VectorCountBounds (b_VectorCount b)),
         (b_SelectionCount b < 1 \<or> b_SelectionCount b > MaxSelectionCount,
           SelectionCountBounds (b_SelectionCount b)),
         (b_SelectionCount b > b_VectorCount b,
           SelectionExceedsVectors (b_SelectionCount b) (b_VectorCount b)),
         (b_GasLimitPerCall b < 21000 \<or> b_GasLimitPerCall b > 5000000,
           GasLimitSchemaBounds (b_GasLimitPerCall b)),
         (b_GasLimitPerCall b > CallGasCap, GasLimitEngineCap (b_GasLimitPerCall b)),
         (b_TimeoutMsPerCall b < 100 \<or> b_TimeoutMsPerCall b > 30000,
           TimeoutBounds (b_TimeoutMsPerCall b)),
         (b_MaxResponseBytes b < 1 \<or> b_MaxResponseBytes b > 65536,
           ResponseBytesSchemaBounds (b_MaxResponseBytes b)),
         (b_MaxResponseBytes b > MaxResponseBytes, ResponseBytesEngineCap (b_MaxResponseBytes b)),
         (int (length (b_Vectors b)) \<noteq> b_VectorCount b,
           VectorsLengthMismatch (length (b_Vectors b)) (b_VectorCount b)),
         (length (b_Vectors b) < 1 \<or> int (length (b_Vectors b)) > MaxVectorCount,
           VectorsLengthBounds (length (b_Vectors b)))]
      of Some e \<Rightarrow> Some e
       | None \<Rightarrow> validate_vectors 0 {} (b_Vectors b))"

section \<open>The schema\<close>

text \<open>\<open>packages/schema/schemas/workproof-bundle-v1.schema.json\<close>: a vector is one of five variants, each with its
  own required and optional fields and no others. \<open>maxLength\<close> counts characters, where a Go string is a sequence
  of bytes: one for each UTF-8 sequence, and one for each byte that begins none.\<close>

lemma utf8_len_pos: "utf8_len s = Some n \<Longrightarrow> 1 \<le> n"
  by (auto simp: utf8_len_def split: list.splits if_splits)

function char_count :: "string \<Rightarrow> nat" where
  "char_count s = (if s = [] then 0 else Suc (char_count (drop (case utf8_len s of None \<Rightarrow> 1 | Some n \<Rightarrow> n) s)))"
  by pat_completeness auto

termination
  by (relation "measure length") (auto split: option.split dest: utf8_len_pos)

declare char_count.simps [simp del]

datatype SchemaVector =
    EthCallEquals string string string string
      \<comment> \<open>calldata, caller, value, expectedReturn\<close>
  | EthCallReverts string string string "string option" "string option"
      \<comment> \<open>calldata, caller, value, expectedRevertSelector, expectedRevertPattern\<close>
  | Erc165SupportsInterface string bool
  | CodeSizeRange int int
  | StorageAtEquals string string

fun schema_ok :: "SchemaVector \<Rightarrow> bool" where
  "schema_ok (EthCallEquals cd ca va er) \<longleftrightarrow>
     bytesPattern cd \<and> addressPattern ca \<and> uint256HexPattern va \<and> bytesPattern er"
| "schema_ok (EthCallReverts cd ca va sel pat) \<longleftrightarrow>
     bytesPattern cd \<and> addressPattern ca \<and> uint256HexPattern va \<and>
     (case sel of None \<Rightarrow> True | Some s \<Rightarrow> bytes4Pattern s) \<and>
     (case pat of None \<Rightarrow> True | Some p \<Rightarrow> char_count p \<le> 128)"
| "schema_ok (Erc165SupportsInterface i x) \<longleftrightarrow> bytes4Pattern i"
| "schema_ok (CodeSizeRange lo hi) \<longleftrightarrow> 1 \<le> lo \<and> 1 \<le> hi"
| "schema_ok (StorageAtEquals slot val) \<longleftrightarrow> bytes32Pattern slot \<and> bytes32Pattern val"

definition opt_string :: "string option \<Rightarrow> string" where
  "opt_string s = (case s of None \<Rightarrow> [] | Some t \<Rightarrow> t)"

definition blank_vector :: "string \<Rightarrow> string \<Rightarrow> Vector" where
  "blank_vector i t = \<lparr>vec_ID = i, vec_Type = t, vec_Calldata = [], vec_Caller = [], vec_Value = [],
     vec_ExpectedReturn = [], vec_ExpectedRevertSelector = [], vec_ExpectedRevertPattern = [],
     vec_InterfaceID = [], vec_Expected = None, vec_MinBytes = 0, vec_MaxBytes = 0,
     vec_Slot = [], vec_ExpectedValue = []\<rparr>"

text \<open>The Go struct a variant is stored in.\<close>

fun flat_vector :: "string \<Rightarrow> SchemaVector \<Rightarrow> Vector" where
  "flat_vector i (EthCallEquals cd ca va er) =
     (blank_vector i VectorEthCallEquals)\<lparr>vec_Calldata := cd, vec_Caller := ca, vec_Value := va,
       vec_ExpectedReturn := er\<rparr>"
| "flat_vector i (EthCallReverts cd ca va sel pat) =
     (blank_vector i VectorEthCallReverts)\<lparr>vec_Calldata := cd, vec_Caller := ca, vec_Value := va,
       vec_ExpectedRevertSelector := opt_string sel, vec_ExpectedRevertPattern := opt_string pat\<rparr>"
| "flat_vector i (Erc165SupportsInterface ifc x) =
     (blank_vector i VectorErc165SupportsInterface)\<lparr>vec_InterfaceID := ifc, vec_Expected := Some x\<rparr>"
| "flat_vector i (CodeSizeRange lo hi) =
     (blank_vector i VectorCodeSizeRange)\<lparr>vec_MinBytes := lo, vec_MaxBytes := hi\<rparr>"
| "flat_vector i (StorageAtEquals slot val) =
     (blank_vector i VectorStorageAtEquals)\<lparr>vec_Slot := slot, vec_ExpectedValue := val\<rparr>"

definition schema_id :: "string \<Rightarrow> bool" where
  "schema_id i \<longleftrightarrow> 1 \<le> char_count i \<and> char_count i \<le> 96"

text \<open>The schema's constraints on a decoded bundle.\<close>

definition schema_bundle :: "WorkProofBundle \<Rightarrow> bool" where
  "schema_bundle b \<longleftrightarrow>
     b_FormatVersion b = 1 \<and> char_count (b_TemplateID b) \<in> {1..64} \<and>
     templateVersionPattern (b_TemplateVersion b) \<and> b_TargetChainID b = 114 \<and>
     bytes32Pattern (b_PublicSpecHash b) \<and> b_VectorCount b \<in> {1..128} \<and> b_SelectionCount b \<in> {1..128} \<and>
     b_GasLimitPerCall b \<in> {21000..5000000} \<and> b_TimeoutMsPerCall b \<in> {100..30000} \<and>
     b_MaxResponseBytes b \<in> {1..65536} \<and> length (b_Vectors b) \<in> {1..128} \<and>
     (\<forall>v \<in> set (b_Vectors b). \<exists>i s. v = flat_vector i s \<and> schema_id i \<and> schema_ok s)"

text \<open>The engine's resource caps.\<close>

definition within_caps :: "WorkProofBundle \<Rightarrow> bool" where
  "within_caps b \<longleftrightarrow> b_VectorCount b \<le> MaxVectorCount \<and> b_SelectionCount b \<le> MaxSelectionCount \<and>
     b_GasLimitPerCall b \<le> CallGasCap \<and> b_MaxResponseBytes b \<le> MaxResponseBytes"

text \<open>What the code demands beyond both. The counts fit together, a code size range is not empty, the ids are
  distinct, and the lengths of the texts are bounded in bytes.\<close>

fun vector_rules :: "string \<Rightarrow> SchemaVector \<Rightarrow> bool" where
  "vector_rules i (CodeSizeRange lo hi) \<longleftrightarrow> length i \<le> 96 \<and> lo \<le> hi"
| "vector_rules i (EthCallReverts cd ca va sel pat) \<longleftrightarrow>
     length i \<le> 96 \<and> (case pat of None \<Rightarrow> True | Some p \<Rightarrow> length p \<le> 128)"
| "vector_rules i _ \<longleftrightarrow> length i \<le> 96"

definition beyond_schema :: "WorkProofBundle \<Rightarrow> bool" where
  "beyond_schema b \<longleftrightarrow>
     b_VectorCount b = int (length (b_Vectors b)) \<and> b_SelectionCount b \<le> b_VectorCount b \<and>
     length (b_TemplateID b) \<le> 64 \<and> distinct (map vec_ID (b_Vectors b)) \<and>
     (\<forall>i s. flat_vector i s \<in> set (b_Vectors b) \<longrightarrow> schema_ok s \<longrightarrow> vector_rules i s)"

section \<open>Validation decides the schema\<close>

lemmas vector_type_defs = VectorEthCallEquals_def VectorEthCallReverts_def
  VectorErc165SupportsInterface_def VectorCodeSizeRange_def VectorStorageAtEquals_def

lemma vec_ID_flat [simp]: "vec_ID (flat_vector i s) = i"
  by (cases s) (simp_all add: blank_vector_def)

lemma vector_types_distinct [simp]:
  "VectorEthCallReverts \<noteq> VectorEthCallEquals"
  "VectorErc165SupportsInterface \<noteq> VectorEthCallEquals"
  "VectorErc165SupportsInterface \<noteq> VectorEthCallReverts"
  "VectorCodeSizeRange \<noteq> VectorEthCallEquals" "VectorCodeSizeRange \<noteq> VectorEthCallReverts"
  "VectorCodeSizeRange \<noteq> VectorErc165SupportsInterface"
  "VectorStorageAtEquals \<noteq> VectorEthCallEquals" "VectorStorageAtEquals \<noteq> VectorEthCallReverts"
  "VectorStorageAtEquals \<noteq> VectorErc165SupportsInterface"
  "VectorStorageAtEquals \<noteq> VectorCodeSizeRange"
  by (simp_all add: vector_type_defs)

lemmas vector_types_distinct_sym [simp] = vector_types_distinct [symmetric]

lemma bytes4Pattern_nonempty [simp]: "\<not> bytes4Pattern []"
  by (simp add: bytes4Pattern_def)

lemma opt_string_simps [simp]: "opt_string None = []" "opt_string (Some s) = s"
  by (simp_all add: opt_string_def)

lemma char_count_le: "char_count s \<le> length s"
proof (induction s rule: char_count.induct)
  case (1 s)
  let ?n = "case utf8_len s of None \<Rightarrow> 1 | Some n \<Rightarrow> n"
  have n: "1 \<le> ?n" by (auto split: option.split dest: utf8_len_pos)
  show ?case
  proof (cases "s = []")
    case True
    then show ?thesis by (simp add: char_count.simps [of "[]"])
  next
    case False
    with 1 have "char_count (drop ?n s) \<le> length s - ?n" by simp
    moreover have "length s - ?n < length s" using n False by (intro diff_less) simp_all
    ultimately show ?thesis using False by (simp add: char_count.simps [of s])
  qed
qed

lemma char_count_0: "char_count s = 0 \<longleftrightarrow> s = []"
  by (subst char_count.simps) simp

lemma vector_validate_flat:
  "schema_ok s \<Longrightarrow> vector_validate (flat_vector i s) = None \<longleftrightarrow> schema_id i \<and> vector_rules i s"
  using char_count_le [of i] char_count_0 [of i]
  by (cases s) (auto simp: vector_validate_def blank_vector_def schema_id_def Suc_le_eq split: option.splits)

definition nonempty_opt :: "string \<Rightarrow> string option" where
  "nonempty_opt s = (if s = [] then None else Some s)"

lemma opt_string_nonempty_opt [simp]: "opt_string (nonempty_opt s) = s"
  by (simp add: nonempty_opt_def)

text \<open>The union value a validated struct stands for.\<close>

definition variant_of :: "Vector \<Rightarrow> SchemaVector" where
  "variant_of v =
     (if vec_Type v = VectorEthCallEquals
      then EthCallEquals (vec_Calldata v) (vec_Caller v) (vec_Value v) (vec_ExpectedReturn v)
      else if vec_Type v = VectorEthCallReverts
      then EthCallReverts (vec_Calldata v) (vec_Caller v) (vec_Value v)
             (nonempty_opt (vec_ExpectedRevertSelector v)) (nonempty_opt (vec_ExpectedRevertPattern v))
      else if vec_Type v = VectorErc165SupportsInterface
      then Erc165SupportsInterface (vec_InterfaceID v) (vec_Expected v = Some True)
      else if vec_Type v = VectorCodeSizeRange then CodeSizeRange (vec_MinBytes v) (vec_MaxBytes v)
      else StorageAtEquals (vec_Slot v) (vec_ExpectedValue v))"

lemma vector_validate_variant:
  assumes "vector_validate v = None"
  shows "v = flat_vector (vec_ID v) (variant_of v) \<and> schema_ok (variant_of v)"
proof
  show "v = flat_vector (vec_ID v) (variant_of v)"
    using assms
    by (cases v) (auto simp: vector_validate_def variant_of_def blank_vector_def nonempty_opt_def split: if_splits)
  show "schema_ok (variant_of v)"
    using assms char_count_le [of "vec_ExpectedRevertPattern v"]
    by (auto simp: vector_validate_def variant_of_def nonempty_opt_def split: if_splits)
qed

lemma vector_validate_iff:
  "vector_validate v = None \<longleftrightarrow> (\<exists>i s. v = flat_vector i s \<and> schema_id i \<and> schema_ok s \<and> vector_rules i s)"
  using vector_validate_variant [of v] vector_validate_flat by metis

text \<open>Seen from the schema: all vectors are valid exactly when each is a variant of the schema and none breaks
  the further rules.\<close>

lemma vectors_valid_iff:
  "(\<forall>v \<in> V. vector_validate v = None) \<longleftrightarrow>
     (\<forall>v \<in> V. \<exists>i s. v = flat_vector i s \<and> schema_id i \<and> schema_ok s) \<and>
     (\<forall>i s. flat_vector i s \<in> V \<longrightarrow> schema_ok s \<longrightarrow> vector_rules i s)" (is "?L = (?S \<and> ?R)")
proof (intro iffI conjI)
  show ?S if ?L using that unfolding vector_validate_iff by blast
  show ?R if ?L using that vector_validate_flat by blast
  show ?L if "?S \<and> ?R"
  proof
    fix v assume v: "v \<in> V"
    with that obtain i s where "v = flat_vector i s" "schema_id i" "schema_ok s" by blast
    with that v show "vector_validate v = None" by (simp add: vector_validate_flat)
  qed
qed

lemma validate_vectors_None:
  "validate_vectors i seen vs = None \<longleftrightarrow>
     (\<forall>v \<in> set vs. vector_validate v = None) \<and> distinct (map vec_ID vs) \<and>
     vec_ID ` set vs \<inter> seen = {}"
  by (induction i seen vs rule: validate_vectors.induct) (auto split: option.splits)

lemma Validate_iff: "Validate b = None \<longleftrightarrow> schema_bundle b \<and> within_caps b \<and> beyond_schema b"
proof -
  let ?numbers = "b_FormatVersion b = 1 \<and> templateVersionPattern (b_TemplateVersion b) \<and> b_TargetChainID b = 114 \<and>
       bytes32Pattern (b_PublicSpecHash b) \<and> b_VectorCount b = int (length (b_Vectors b)) \<and>
       b_VectorCount b \<in> {1..MaxVectorCount} \<and> b_SelectionCount b \<in> {1..min MaxSelectionCount (b_VectorCount b)} \<and>
       b_GasLimitPerCall b \<in> {21000..CallGasCap} \<and> b_TimeoutMsPerCall b \<in> {100..30000} \<and>
       b_MaxResponseBytes b \<in> {1..MaxResponseBytes}"
  have "Validate b = None \<longleftrightarrow> ?numbers \<and> length (b_TemplateID b) \<in> {1..64} \<and> validate_vectors 0 {} (b_Vectors b) = None"
    by (auto simp: Validate_def MaxVectorCount_def MaxSelectionCount_def CallGasCap_def
        MaxResponseBytes_def Suc_le_eq split: if_splits)
  also have "length (b_TemplateID b) \<in> {1..64} \<longleftrightarrow> char_count (b_TemplateID b) \<in> {1..64} \<and> length (b_TemplateID b) \<le> 64"
    using char_count_le [of "b_TemplateID b"] char_count_0 [of "b_TemplateID b"] by (auto simp: Suc_le_eq)
  also have "?numbers \<longleftrightarrow> ?numbers \<and> b_VectorCount b \<le> 128 \<and> b_SelectionCount b \<in> {1..128} \<and>
       b_GasLimitPerCall b \<le> 5000000 \<and> b_MaxResponseBytes b \<le> 65536 \<and> length (b_Vectors b) \<in> {1..128}"
    by (auto simp: MaxVectorCount_def MaxSelectionCount_def CallGasCap_def MaxResponseBytes_def)
  finally show ?thesis
    by (auto simp: schema_bundle_def within_caps_def beyond_schema_def validate_vectors_None vectors_valid_iff)
qed

section \<open>Facts the executor and the verifier rely on\<close>

lemma Validate_selection:
  assumes "Validate b = None"
  shows "1 \<le> b_SelectionCount b" and "b_SelectionCount b \<le> int (length (b_Vectors b))"
    and "b_SelectionCount b \<le> 32" and "length (b_Vectors b) \<le> 128"
  using assms by (auto simp: Validate_iff within_caps_def schema_bundle_def beyond_schema_def MaxVectorCount_def MaxSelectionCount_def)

lemma Validate_limits:
  assumes "Validate b = None"
  shows "21000 \<le> b_GasLimitPerCall b" and "b_GasLimitPerCall b \<le> CallGasCap"
    and "100 \<le> b_TimeoutMsPerCall b" and "b_TimeoutMsPerCall b \<le> 30000"
    and "1 \<le> b_MaxResponseBytes b" and "b_MaxResponseBytes b \<le> MaxResponseBytes"
  using assms by (auto simp: Validate_iff within_caps_def schema_bundle_def)

section \<open>Properties\<close>

text \<open>The flat Go struct is a faithful carrier of the schema's discriminated union: a vector passes
  \<open>validate\<close> exactly when it is the stored form of one variant of the schema, under an id of the schema, that
  obeys the code's further rules, so every field that does not belong to the variant is at its zero value; and no
  two variants are stored in the same struct, but for an empty revert pattern, which is stored as an absent one.\<close>

theorem vector_validate_is_schema_union:
  "(vector_validate v = None \<longleftrightarrow> (\<exists>i s. v = flat_vector i s \<and> schema_id i \<and> schema_ok s \<and> vector_rules i s)) \<and>
   inj_on (\<lambda>(i, s). flat_vector i s) {(i, s). schema_ok s \<and> (\<forall>cd ca va sel. s \<noteq> EthCallReverts cd ca va sel (Some []))}"
proof
  show "vector_validate v = None \<longleftrightarrow> (\<exists>i s. v = flat_vector i s \<and> schema_id i \<and> schema_ok s \<and> vector_rules i s)"
    by (rule vector_validate_iff)
  have same: "s = t" if "schema_ok s" "schema_ok t" "flat_vector i s = flat_vector j t"
    "\<forall>cd ca va sel. s \<noteq> EthCallReverts cd ca va sel (Some [])" "\<forall>cd ca va sel. t \<noteq> EthCallReverts cd ca va sel (Some [])" for i j s t
    using that by (cases s; cases t) (auto simp: blank_vector_def opt_string_def split: option.splits)
  show "inj_on (\<lambda>(i, s). flat_vector i s) {(i, s). schema_ok s \<and> (\<forall>cd ca va sel. s \<noteq> EthCallReverts cd ca va sel (Some []))}"
    by (rule inj_onI) (auto intro: same dest: arg_cong [of _ _ vec_ID])
qed

text \<open>A bundle of the schema within all caps that the code refuses: its one code size range is empty.\<close>

definition reversed_range :: WorkProofBundle where
  "reversed_range =
     \<lparr>b_FormatVersion = 1, b_TemplateID = ''t'', b_TemplateVersion = ''v1.0.0'', b_TargetChainID = 114,
      b_PublicSpecHash = ''0x'' @ replicate 64 CHR ''0'', b_VectorCount = 1, b_SelectionCount = 1, b_GasLimitPerCall = 100000,
      b_TimeoutMsPerCall = 1000, b_MaxResponseBytes = 1024, b_Vectors = [flat_vector ''i'' (CodeSizeRange 2 1)]\<rparr>"

text \<open>The code does not enforce the schema exactly: it is stricter.\<close>

theorem Validate_stricter_than_schema:
  "schema_bundle reversed_range \<and> within_caps reversed_range \<and> Validate reversed_range \<noteq> None"
proof -
  have n: "char_count ''t'' = 1" "templateVersionPattern ''v1.0.0''" "char_count ''i'' = 1" by code_simp+
  have z: "bytes32Pattern (''0x'' @ replicate 64 CHR ''0'')"
    by (simp add: bytes32Pattern_def hex_prefixed_def HasPrefix_def list_all_iff is_hex_digit_def is_digit_def char_in_def)
  have "schema_id ''i'' \<and> schema_ok (CodeSizeRange 2 1)" using n by (simp add: schema_id_def)
  then have "\<exists>i s. flat_vector ''i'' (CodeSizeRange 2 1) = flat_vector i s \<and> schema_id i \<and> schema_ok s" by blast
  with n z have "schema_bundle reversed_range"
    by (simp add: schema_bundle_def reversed_range_def del: flat_vector.simps)
  moreover have "within_caps reversed_range"
    by (simp add: within_caps_def reversed_range_def MaxVectorCount_def MaxSelectionCount_def CallGasCap_def MaxResponseBytes_def)
  moreover have "\<not> beyond_schema reversed_range"
    unfolding beyond_schema_def reversed_range_def by (fastforce dest: spec [of _ "''i''"] spec [of _ "CodeSizeRange 2 1"])
  ultimately show ?thesis by (simp add: Validate_iff)
qed

text \<open>C6: What \<open>Validate\<close> decides. It accepts exactly the bundles of the JSON schema that are within the engine's
  caps and obey the code's further rules: the declared vector count is the real one, the selection is not larger,
  the ids are distinct, no code size range is empty, and the template id, the ids and the revert patterns, which the
  schema bounds in characters, keep these bounds in bytes.\<close>

theorem Validate_decides_schema: "Validate b = None \<longleftrightarrow> schema_bundle b \<and> within_caps b \<and> beyond_schema b"
  by (rule Validate_iff)

end
