(* ===== verification/Select.thy ===== *)
theory Select
  imports GoLib
begin

text \<open>
  Deterministic vector selection, \<open>SelectVectors\<close> and \<open>encodeCounter\<close> of
  \<open>go/internal/verifier/vectors.go\<close>: a Fisher-Yates shuffle whose draws are successive
  \<open>keccak256(seed, counter)\<close> values. The hash function is a parameter. What the verifier needs of
  a selector is the locale \<open>index_selector\<close>; beyond it, the selection is shown to be a prefix of a
  permutation, stable under growing the selection, and able to produce every ordered selection.
\<close>

section \<open>The code\<close>

text \<open>\<open>b[7-k] = byte(i >> (8*k))\<close> for \<open>k\<close> from 0 to 7.\<close>

definition encodeCounter :: "u64 \<Rightarrow> bytes" where
  "encodeCounter i = fold (\<lambda>k b. b[7 - k := ucast (drop_bit (8 * k) i)]) [0..<8] (replicate 8 0)"

text \<open>The \<open>i\<close>-th draw, as the unbounded number \<open>SetBytes\<close> makes of the digest.\<close>

definition sel_draw :: "(bytes \<Rightarrow> bytes32) \<Rightarrow> bytes32 \<Rightarrow> nat \<Rightarrow> nat" where
  "sel_draw keccak seed i = be_nat (bytes_of_bytes32 (keccak (bytes_of_bytes32 seed @ encodeCounter (of_nat i))))"

text \<open>One iteration of the loop: \<open>j\<close> is drawn from the \<open>remaining = vectorCount - i\<close> last indices.\<close>

definition sel_step :: "(nat \<Rightarrow> nat) \<Rightarrow> nat \<Rightarrow> nat \<Rightarrow> nat list \<Rightarrow> nat list" where
  "sel_step draw n i indices = swap i (i + draw i mod (n - i)) indices"

definition sel_loop :: "(nat \<Rightarrow> nat) \<Rightarrow> nat \<Rightarrow> nat \<Rightarrow> nat list" where
  "sel_loop draw n limit = fold (sel_step draw n) [0..<limit] [0..<n]"

definition SelectVectors :: "(bytes \<Rightarrow> bytes32) \<Rightarrow> bytes32 \<Rightarrow> int \<Rightarrow> int \<Rightarrow> (unit, nat list) res" where
  "SelectVectors keccak seed vectorCount selectionCount =
     (if vectorCount < 0 then Panic
      else let limit = (if selectionCount < vectorCount then selectionCount else vectorCount) in
        if limit < 0 then Panic
        else Ok (take (nat limit) (sel_loop (sel_draw keccak seed) (nat vectorCount) (nat limit))))"

section \<open>What a selector owes its client\<close>

locale index_selector =
  fixes select :: "bytes32 \<Rightarrow> nat \<Rightarrow> nat \<Rightarrow> nat list"
  assumes select_length: "k \<le> n \<Longrightarrow> length (select seed n k) = k"
    and select_distinct: "k \<le> n \<Longrightarrow> distinct (select seed n k)"
    and select_bound: "k \<le> n \<Longrightarrow> i \<in> set (select seed n k) \<Longrightarrow> i < n"
begin

lemma select_nth_bound: "k \<le> n \<Longrightarrow> m < k \<Longrightarrow> select seed n k ! m < n"
  by (metis nth_mem select_bound select_length)

text \<open>Picking list elements by the selected indices: no element position is used twice, so
  distinct keys stay distinct.\<close>

lemma pick_subset: "k \<le> length xs \<Longrightarrow> set (map ((!) xs) (select seed (length xs) k)) \<subseteq> set xs"
  by (auto dest: select_bound)

lemma pick_distinct:
  assumes "k \<le> length xs" and "distinct (map f xs)"
  shows "distinct (map (f \<circ> (!) xs) (select seed (length xs) k))"
proof -
  have "inj_on (f \<circ> (!) xs) (set (select seed (length xs) k))"
  proof (rule inj_onI)
    fix x y
    assume xy: "x \<in> set (select seed (length xs) k)" "y \<in> set (select seed (length xs) k)"
      and eq: "(f \<circ> (!) xs) x = (f \<circ> (!) xs) y"
    have "x < length xs" and "y < length xs"
      using xy select_bound [OF assms(1)] by blast+
    with assms(2) eq show "x = y"
      by (simp add: distinct_conv_nth) metis
  qed
  then show ?thesis
    using assms(1) by (simp add: distinct_map select_distinct)
qed

lemma select_all: "set (select seed n n) = {0..<n}"
proof -
  have "set (select seed n n) \<subseteq> {0..<n}"
    by (auto dest: select_bound [OF order_refl])
  moreover have "card (set (select seed n n)) = card {0..<n}"
    by (simp add: distinct_card select_distinct select_length)
  ultimately show ?thesis by (simp add: card_subset_eq)
qed

end

section \<open>The shuffle\<close>

lemma sel_loop_0 [simp]: "sel_loop draw n 0 = [0..<n]"
  by (simp add: sel_loop_def)

lemma sel_loop_Suc [simp]: "sel_loop draw n (Suc k) = sel_step draw n k (sel_loop draw n k)"
  by (simp add: sel_loop_def)

lemma length_sel_step [simp]: "length (sel_step draw n i xs) = length xs"
  by (simp add: sel_step_def)

lemma length_sel_loop [simp]: "length (sel_loop draw n k) = n"
  by (induction k) auto

lemma sel_index_bound: "i < n \<Longrightarrow> i + d mod (n - i) < (n :: nat)"
  using mod_less_divisor [of "n - i" d] by linarith

lemma mset_sel_loop: "k \<le> n \<Longrightarrow> mset (sel_loop draw n k) = mset [0..<n]"
  by (induction k) (auto simp: sel_step_def mset_swap_list sel_index_bound)

lemma distinct_sel_loop: "k \<le> n \<Longrightarrow> distinct (sel_loop draw n k)"
  by (metis distinct_upt mset_eq_imp_distinct_iff mset_sel_loop)

lemma set_sel_loop: "k \<le> n \<Longrightarrow> set (sel_loop draw n k) = {0..<n}"
  by (metis atLeastLessThan_upt mset_eq_setD mset_sel_loop)

lemma take_sel_step: "k \<le> i \<Longrightarrow> i < length xs \<Longrightarrow> n = length xs \<Longrightarrow> take k (sel_step draw n i xs) = take k xs"
  using sel_index_bound [of i n "draw i"]
  by (auto simp: sel_step_def swap_def take_update_swap list_eq_iff_nth_eq nth_list_update)

lemma nth_sel_step:
  "i < length xs \<Longrightarrow> n = length xs \<Longrightarrow> sel_step draw n i xs ! i = xs ! (i + draw i mod (n - i))"
  using sel_index_bound [of i n "draw i"] by (simp add: sel_step_def nth_swap)

lemma take_sel_loop: "j \<le> k \<Longrightarrow> k \<le> n \<Longrightarrow> take j (sel_loop draw n k) = take j (sel_loop draw n j)"
proof (induction k)
  case 0
  then show ?case by simp
next
  case (Suc k)
  show ?case
  proof (cases "j = Suc k")
    case False
    with Suc have "j \<le> k" by simp
    with Suc show ?thesis by (simp add: take_sel_step)
  qed simp
qed

lemma take_Suc_sel_loop:
  assumes "k < n"
  shows "take (Suc k) (sel_loop draw n (Suc k)) =
    take k (sel_loop draw n k) @ [sel_loop draw n k ! (k + draw k mod (n - k))]"
  using assms
  by (simp add: take_Suc_conv_app_nth take_sel_step nth_sel_step)

lemma sel_loop_cong: "(\<And>i. i < k \<Longrightarrow> draw i = draw' i) \<Longrightarrow> sel_loop draw n k = sel_loop draw' n k"
  by (induction k) (simp_all add: sel_step_def)

text \<open>Every ordered selection is the result of some draws.\<close>

lemma sel_loop_surj:
  assumes "distinct xs" and "set xs \<subseteq> {0..<n}"
  shows "\<exists>draw. take (length xs) (sel_loop draw n (length xs)) = xs \<and> (\<forall>i. draw i < max 1 n)"
  using assms
proof (induction xs rule: rev_induct)
  case Nil
  show ?case by (rule exI [of _ "\<lambda>_. 0"]) simp
next
  case (snoc y ys)
  let ?k = "length ys"
  from snoc obtain draw where d: "take ?k (sel_loop draw n ?k) = ys" and b: "\<forall>i. draw i < max 1 n"
    by auto
  have len: "Suc ?k \<le> n"
    using snoc.prems card_mono [of "{0..<n}" "set (ys @ [y])"] distinct_card [of "ys @ [y]"] by simp
  have "y \<in> set (sel_loop draw n ?k)" and "y \<notin> set (take ?k (sel_loop draw n ?k))"
    using snoc.prems len d by (simp_all add: set_sel_loop)
  then have "y \<in> set (drop ?k (sel_loop draw n ?k))"
    by (metis Un_iff append_take_drop_id set_append)
  then obtain m where m: "m < n - ?k" and y: "y = sel_loop draw n ?k ! (?k + m)"
    using len by (auto simp: in_set_conv_nth)
  let ?d = "draw(?k := m)"
  have same: "sel_loop ?d n ?k = sel_loop draw n ?k"
    by (rule sel_loop_cong) simp
  have "take (Suc ?k) (sel_loop ?d n (Suc ?k)) = ys @ [y]"
    using len m by (simp only: take_Suc_sel_loop Suc_le_eq same) (simp add: d y)
  moreover have "\<forall>i. ?d i < max 1 n"
    using b m by auto
  ultimately show ?case
    unfolding length_append_singleton by (intro exI [of _ ?d] conjI)
qed

section \<open>Counters\<close>

lemma encodeCounter_eq:
  "encodeCounter i = map (\<lambda>k. ucast (drop_bit (8 * (7 - k)) i)) [0..<8]"
  by (simp add: encodeCounter_def upt_rec numeral_eq_Suc)

lemma ucast_drop_bit_byte: "ucast (drop_bit (8 * k) (i :: u64)) = (of_nat (unat i div 256 ^ k mod 256) :: byte)"
proof -
  have "ucast (drop_bit (8 * k) i) = (of_nat (unat (drop_bit (8 * k) i)) :: byte)"
    by simp
  also have "unat (drop_bit (8 * k) i) = unat i div 256 ^ k"
    unfolding unsigned_drop_bit_eq
    using unsigned_less [of i, where ?'a = nat] by (simp add: drop_bit_eq_div power_mult take_bit_nat_eq_self)
  also have "(of_nat (unat i div 256 ^ k) :: byte) = of_nat (unat i div 256 ^ k mod 256)"
    by (simp add: word_unat_eq_iff unat_of_nat)
  finally show ?thesis .
qed

lemma be_bytes_eq_map: "be_bytes m n = map (\<lambda>k. of_nat (n div 256 ^ (m - Suc k) mod 256)) [0..<m]"
proof (induction m arbitrary: n)
  case 0
  then show ?case by simp
next
  case (Suc m)
  have "map (\<lambda>k. of_nat (n div 256 div 256 ^ (m - Suc k) mod 256) :: byte) [0..<m]
      = map (\<lambda>k. of_nat (n div 256 ^ (Suc m - Suc k) mod 256)) [0..<m]"
  proof (rule map_cong [OF refl])
    fix k assume "k \<in> set [0..<m]"
    then have "Suc m - Suc k = Suc (m - Suc k)" by simp
    then show "(of_nat (n div 256 div 256 ^ (m - Suc k) mod 256) :: byte)
        = of_nat (n div 256 ^ (Suc m - Suc k) mod 256)"
      by (simp only: power_Suc div_mult2_eq)
  qed
  then show ?case by (simp add: Suc.IH)
qed

lemma encodeCounter_be_bytes: "encodeCounter i = be_bytes 8 (unat i)"
  unfolding encodeCounter_eq ucast_drop_bit_byte be_bytes_eq_map
  by (rule map_cong [OF refl]) simp

lemma encodeCounter_inject: "encodeCounter i = encodeCounter j \<longleftrightarrow> i = j"
proof
  assume "encodeCounter i = encodeCounter j"
  then have "be_nat (be_bytes 8 (unat i)) = be_nat (be_bytes 8 (unat j))"
    by (simp only: encodeCounter_be_bytes)
  moreover have "unat i < 256 ^ 8" and "unat j < 256 ^ 8"
    using unsigned_less [of i] unsigned_less [of j] by simp_all
  ultimately show "i = j"
    by (simp only: be_nat_be_bytes mod_less word_unat_eq_iff)
qed simp

section \<open>The selection\<close>

lemma SelectVectors_Ok:
  "k \<le> n \<Longrightarrow> SelectVectors keccak seed (int n) (int k) = Ok (take k (sel_loop (sel_draw keccak seed) n k))"
  by (auto simp: SelectVectors_def)

lemma SelectVectors_min:
  "SelectVectors keccak seed (int n) (int k) = SelectVectors keccak seed (int n) (int (min n k))"
  by (auto simp: SelectVectors_def min_def)

interpretation fisher_yates: index_selector
  "\<lambda>seed n k. take k (sel_loop (sel_draw keccak seed) n k)" for keccak
proof unfold_locales
  fix k n seed i
  assume k: "k \<le> (n :: nat)"
  show "length (take k (sel_loop (sel_draw keccak seed) n k)) = k"
    using k by simp
  show "distinct (take k (sel_loop (sel_draw keccak seed) n k))"
    using k by (simp add: distinct_sel_loop)
  show "i < n" if "i \<in> set (take k (sel_loop (sel_draw keccak seed) n k))"
    using in_set_takeD [OF that] k by (simp add: set_sel_loop)
qed

text \<open>C25: For every hash function, seed and non-negative counts, \<open>SelectVectors\<close> returns (it
  neither panics nor errs) exactly \<open>min vectorCount selectionCount\<close> pairwise distinct indices, all
  of them below \<open>vectorCount\<close>: no hidden test is executed twice and no index is out of range.\<close>

theorem SelectVectors_sound:
  "\<exists>xs. SelectVectors keccak seed (int n) (int k) = Ok xs \<and> length xs = min n k \<and> distinct xs
     \<and> set xs \<subseteq> {0..<n}"
proof -
  let ?xs = "take (min n k) (sel_loop (sel_draw keccak seed) n (min n k))"
  have "SelectVectors keccak seed (int n) (int k) = Ok ?xs"
    by (subst SelectVectors_min) (simp add: SelectVectors_Ok)
  moreover have "length ?xs = min n k" and "distinct ?xs"
    by (rule fisher_yates.select_length fisher_yates.select_distinct, simp)+
  moreover have "set ?xs \<subseteq> {0..<n}"
    using fisher_yates.select_bound [of "min n k" n _ keccak seed, OF min.cobounded1]
    by (meson atLeastLessThan_iff subsetI zero_le)
  ultimately show ?thesis by (intro exI [of _ ?xs] conjI)
qed

text \<open>The selection is stable: for the same seed, selecting fewer vectors gives a prefix of the
  larger selection, in the same order, so the selection count cannot be used to steer which vectors
  come first.\<close>

theorem SelectVectors_prefix:
  assumes "j \<le> k" and "k \<le> n"
    and "SelectVectors keccak seed (int n) (int k) = Ok xs"
  shows "SelectVectors keccak seed (int n) (int j) = Ok (take j xs)"
  using assms take_sel_loop [of j k n "sel_draw keccak seed"]
  by (auto simp: SelectVectors_Ok min_def)

theorem SelectVectors_prefix_witness:
  "SelectVectors (\<lambda>_. 5) 0 3 2 = Ok [2, 0] \<and> SelectVectors (\<lambda>_. 5) 0 3 1 = Ok [2]"
proof -
  have "SelectVectors (\<lambda>_. 5) 0 (int 3) (int 2) = Ok [2, 0]"
    by code_simp
  with SelectVectors_prefix [of 1 2 3 "\<lambda>_. 5" 0 "[2, 0]"] show ?thesis by simp
qed

lemma sel_draw_onto:
  assumes n: "n \<le> 2 ^ 64" and d: "\<And>i. draw i < 2 ^ 256"
  shows "\<exists>keccak. \<forall>i < n. sel_draw keccak seed i = draw i"
proof -
  let ?key = "\<lambda>i. bytes_of_bytes32 seed @ encodeCounter (of_nat i)"
  have inj: "inj_on ?key {0..<n}"
  proof (rule inj_onI)
    fix i j assume ij: "i \<in> {0..<n}" "j \<in> {0..<n}" and "?key i = ?key j"
    then have "(of_nat i :: u64) = of_nat j" by (simp add: encodeCounter_inject)
    then have "unat (of_nat i :: u64) = unat (of_nat j :: u64)" by (rule arg_cong)
    moreover have "i < 2 ^ 64" and "j < 2 ^ 64" using ij n by auto
    ultimately show "i = j" by (simp add: unat_of_nat take_bit_nat_eq_self)
  qed
  let ?kec = "\<lambda>b. of_nat (draw (the_inv_into {0..<n} ?key b)) :: bytes32"
  have "sel_draw ?kec seed i = draw i" if "i < n" for i
  proof -
    have "unat (of_nat (draw i) :: bytes32) = draw i"
      using d [of i] by (simp add: unat_of_nat take_bit_nat_eq_self)
    moreover have "draw i mod 256 ^ 32 = draw i"
      using d [of i] by (intro mod_less) simp
    ultimately show ?thesis
      using that the_inv_into_f_f [OF inj, of i]
      by (simp add: sel_draw_def bytes_of_bytes32_def be_nat_be_bytes)
  qed
  then show ?thesis by blast
qed

text \<open>No ordered selection is ruled out by the algorithm itself: whatever list of distinct
  indices below \<open>vectorCount\<close> (up to the 64-bit counter range) is named, some hash function makes
  \<open>SelectVectors\<close> return exactly that list.\<close>

theorem SelectVectors_onto:
  assumes "distinct xs" and "set xs \<subseteq> {0..<n}" and "n \<le> 2 ^ 64"
  shows "\<exists>keccak. SelectVectors keccak seed (int n) (int (length xs)) = Ok xs"
proof -
  from sel_loop_surj [OF assms(1,2)] obtain draw
    where t: "take (length xs) (sel_loop draw n (length xs)) = xs" and b: "\<And>i. draw i < max 1 n"
    by blast
  have "draw i < 2 ^ 256" for i
  proof -
    have "max 1 n \<le> 2 ^ 64" using assms(3) by simp
    also have "\<dots> \<le> (2 :: nat) ^ 256" by (rule power_increasing) simp_all
    finally show ?thesis using b [of i] by (rule less_le_trans [rotated])
  qed
  with sel_draw_onto [OF assms(3)] obtain keccak where k: "\<And>i. i < n \<Longrightarrow> sel_draw keccak seed i = draw i"
    by metis
  have len: "length xs \<le> n"
    using card_mono [OF _ assms(2)] distinct_card [OF assms(1)] by simp
  then have "sel_loop (sel_draw keccak seed) n (length xs) = sel_loop draw n (length xs)"
    by (intro sel_loop_cong) (simp add: k)
  with t len have "SelectVectors keccak seed (int n) (int (length xs)) = Ok xs"
    by (simp add: SelectVectors_Ok)
  then show ?thesis by blast
qed

theorem SelectVectors_onto_witness:
  "\<exists>keccak. SelectVectors keccak 7 4 3 = Ok [3, 0, 2]"
  using SelectVectors_onto [of "[3, 0, 2]" 4 7] by simp

end
