(* ===== verification/WorkProofTypes.thy ===== *)
theory WorkProofTypes
  imports Prelude
begin

text \<open>
  The data the contract and the extension exchange: \<open>go/pkg/types/workproof.go\<close> (instruction,
  verdict and their ABI layouts) and the job record of \<open>contracts/WorkProofEscrow.sol\<close> that the
  generated binding \<open>GetJob\<close> returns. A \<open>*big.Int\<close> of the instruction may be nil and is an
  \<open>int option\<close>; the binding always fills the job's numbers, which are plain \<open>int\<close>.
\<close>

section \<open>Verdict and instruction\<close>

definition OutcomePass :: u8 where "OutcomePass = 0"
definition OutcomeFail :: u8 where "OutcomeFail = 1"
definition OutcomeInconclusive :: u8 where "OutcomeInconclusive = 2"

record WorkProofInstruction =
  wi_ChainId :: "int option"
  wi_EscrowAddress :: address
  wi_JobId :: "int option"
  wi_Attempt :: u64
  wi_SpecHash :: bytes32
  wi_PrivateBundleHash :: bytes32
  wi_CiphertextHash :: bytes32
  wi_ArtifactAddress :: address
  wi_ArtifactBlock :: "int option"
  wi_ArtifactCodeHash :: bytes32
  wi_RandomRound :: "int option"
  wi_RandomValueHash :: bytes32
  wi_EngineVersionHash :: bytes32
  wi_ExpiresAt :: u64

record VerdictIdentity =
  vi_SchemaVersion :: u8
  vi_EscrowAddress :: address
  vi_ChainId :: "int option"
  vi_JobId :: "int option"
  vi_Attempt :: u64
  vi_InstructionId :: bytes32
  vi_SpecHash :: bytes32
  vi_PrivateBundleHash :: bytes32
  vi_ArtifactAddress :: address
  vi_ArtifactBlock :: "int option"

record VerdictOutcome =
  vo_ArtifactCodeHash :: bytes32
  vo_RandomRound :: "int option"
  vo_RandomValueHash :: bytes32
  vo_EngineVersionHash :: bytes32
  vo_Outcome :: u8
  vo_PassedCount :: u32
  vo_ExecutedCount :: u32
  vo_ReportHash :: bytes32
  vo_IssuedAt :: u64
  vo_ExpiresAt :: u64

record VerdictV1 =
  v1_Id :: VerdictIdentity
  v1_Result :: VerdictOutcome

section \<open>The on-chain job\<close>

text \<open>\<open>enum State\<close> of the contract, as the \<open>uint8\<close> the ABI carries.\<close>

definition StateVerifying :: u8 where "StateVerifying = 4"

record JobTerms =
  jt_client :: address
  jt_contractor :: address
  jt_expectedTee :: address
  jt_principal :: int
  jt_fee :: int
  jt_createdAt :: u64
  jt_acceptBy :: u64
  jt_submitBy :: u64
  jt_graceEnds :: u64
  jt_verificationTimeout :: u64
  jt_specHash :: bytes32
  jt_privateBundleHash :: bytes32
  jt_engineVersionHash :: bytes32
  jt_ciphertextHash :: bytes32

record AttemptState =
  at_attempt :: u64
  at_artifactAddress :: address
  at_artifactBlock :: int
  at_artifactCodeHash :: bytes32
  at_targetRound :: int
  at_randomRound :: int
  at_randomValueHash :: bytes32
  at_randomLocked :: bool
  at_instructionId :: bytes32
  at_dispatchedAt :: u64
  at_timeoutAt :: u64

record EscrowJob =
  ej_terms :: JobTerms
  ej_current :: AttemptState
  ej_state :: u8
  ej_settled :: bool

section \<open>ABI layouts\<close>

datatype AbiType =
    AbiUint nat
  | AbiAddress
  | AbiBytes nat
  | AbiTuple "(string \<times> AbiType) list"

definition WorkProofInstructionArg :: AbiType where
  "WorkProofInstructionArg = AbiTuple
     [(''chainId'', AbiUint 256), (''escrowAddress'', AbiAddress), (''jobId'', AbiUint 256),
      (''attempt'', AbiUint 64), (''specHash'', AbiBytes 32), (''privateBundleHash'', AbiBytes 32),
      (''ciphertextHash'', AbiBytes 32), (''artifactAddress'', AbiAddress),
      (''artifactBlock'', AbiUint 256), (''artifactCodeHash'', AbiBytes 32),
      (''randomRound'', AbiUint 256), (''randomValueHash'', AbiBytes 32),
      (''engineVersionHash'', AbiBytes 32), (''expiresAt'', AbiUint 64)]"

definition identityComponents :: "(string \<times> AbiType) list" where
  "identityComponents =
     [(''schemaVersion'', AbiUint 8), (''escrowAddress'', AbiAddress), (''chainId'', AbiUint 256),
      (''jobId'', AbiUint 256), (''attempt'', AbiUint 64), (''instructionId'', AbiBytes 32),
      (''specHash'', AbiBytes 32), (''privateBundleHash'', AbiBytes 32),
      (''artifactAddress'', AbiAddress), (''artifactBlock'', AbiUint 256)]"

definition outcomeComponents :: "(string \<times> AbiType) list" where
  "outcomeComponents =
     [(''artifactCodeHash'', AbiBytes 32), (''randomRound'', AbiUint 256),
      (''randomValueHash'', AbiBytes 32), (''engineVersionHash'', AbiBytes 32),
      (''outcome'', AbiUint 8), (''passedCount'', AbiUint 32), (''executedCount'', AbiUint 32),
      (''reportHash'', AbiBytes 32), (''issuedAt'', AbiUint 64), (''expiresAt'', AbiUint 64)]"

definition VerdictV1Arg :: AbiType where
  "VerdictV1Arg = AbiTuple [(''id'', AbiTuple identityComponents), (''result'', AbiTuple outcomeComponents)]"

end
