(* ===== verification/Exec.thy ===== *)
theory Exec
  imports Bundle Select WorkProofTypes
begin

text \<open>
  Vector execution, \<open>go/internal/verifier/vectors.go\<close>: the five vector types run against the
  artifact through a read-only node client, the historical random number and the test seed.

  What is not in the repository is a parameter. \<open>ext_lib\<close> collects the pure third-party functions
  the code calls (go-ethereum's hash, hex and ABI packages, the JCS canonicaliser), \<open>eth_client\<close>
  the node. Every answer of the node may depend on the moment of the call (a tick), on the
  deadlines in force (the timeouts of the enclosing contexts, in milliseconds, innermost first)
  and on the request. A call may also panic, which the result type \<open>res\<close> records.
\<close>

section \<open>Third-party functions and the node\<close>

text \<open>Values that cross the ABI packer. A \<open>*big.Int\<close> may be nil.\<close>

datatype abi_value =
    VBig "int option" | VBool bool | VAddress address | VUint64 u64 | VBytes32 bytes32
  | VOther string

text \<open>The Go type that \<open>%T\<close> prints; \<open>VOther\<close> carries the name of any other type.\<close>

fun go_type_name :: "abi_value \<Rightarrow> string" where
  "go_type_name (VBig n) = ''*big.Int''"
| "go_type_name (VBool b) = ''bool''"
| "go_type_name (VAddress a) = ''common.Address''"
| "go_type_name (VUint64 n) = ''uint64''"
| "go_type_name (VBytes32 h) = ''[32]uint8''"
| "go_type_name (VOther n) = n"

datatype abi_ty = TUint256 | TBool | TAddress | TUint64 | TBytes32

record ext_lib =
  Keccak256 :: "bytes \<Rightarrow> bytes32"
  hexutil_Decode :: "string \<Rightarrow> bytes option"
  hexutil_DecodeBig :: "string \<Rightarrow> int option"
  HexToAddress :: "string \<Rightarrow> address"
  Address_String :: "address \<Rightarrow> string"
  BytesToHash :: "bytes \<Rightarrow> bytes32"
  RightPadBytes :: "bytes \<Rightarrow> nat \<Rightarrow> bytes"
  abi_Pack :: "abi_ty list \<Rightarrow> abi_value list \<Rightarrow> (string, bytes) res"
  abi_Unpack :: "abi_ty list \<Rightarrow> bytes \<Rightarrow> (string, abi_value list) res"
  jcs_Transform :: "bytes \<Rightarrow> string + bytes"

text \<open>An error of the client either carries a JSON-RPC error object (it implements \<open>rpc.Error\<close>)
  or it does not; both have a message.\<close>

datatype call_error = RpcError string | PlainError string

fun error_text :: "call_error \<Rightarrow> string" where
  "error_text (RpcError m) = m"
| "error_text (PlainError m) = m"

record CallMsg =
  cm_From :: address
  cm_To :: address
  cm_Data :: bytes
  cm_Gas :: u64
  cm_Value :: "int option"

type_synonym tick = nat
type_synonym ctx = "int list"

record eth_client =
  eth_CallContract :: "tick \<Rightarrow> ctx \<Rightarrow> CallMsg \<Rightarrow> int option \<Rightarrow> call_error + bytes"
  eth_CodeAt :: "tick \<Rightarrow> ctx \<Rightarrow> address \<Rightarrow> int option \<Rightarrow> call_error + bytes"
  eth_StorageAt :: "tick \<Rightarrow> ctx \<Rightarrow> address \<Rightarrow> bytes32 \<Rightarrow> int option \<Rightarrow> call_error + bytes"

text \<open>Documented behaviour of the ABI package: decoding yields one value per declared type, of
  the declared Go type, and neither direction panics on well-typed arguments.\<close>

fun abi_typed :: "abi_ty \<Rightarrow> abi_value \<Rightarrow> bool" where
  "abi_typed TUint256 (VBig (Some n)) = (0 \<le> n \<and> n < 2 ^ 256)"
| "abi_typed TBool (VBool b) = True"
| "abi_typed TAddress (VAddress a) = True"
| "abi_typed TUint64 (VUint64 n) = True"
| "abi_typed TBytes32 (VBytes32 h) = True"
| "abi_typed _ _ = False"

definition abi_documented :: "ext_lib \<Rightarrow> bool" where
  "abi_documented L \<longleftrightarrow>
     (\<forall>ts bs. abi_Unpack L ts bs \<noteq> Panic) \<and>
     (\<forall>ts bs vs. abi_Unpack L ts bs = Ok vs \<longrightarrow> list_all2 abi_typed ts vs) \<and>
     (\<forall>ts vs. list_all2 abi_typed ts vs \<longrightarrow> abi_Pack L ts vs \<noteq> Panic)"

section \<open>The code\<close>

definition keccak256 :: "ext_lib \<Rightarrow> bytes \<Rightarrow> bytes32" where
  "keccak256 L data = Keccak256 L data"

text \<open>\<open>crypto.Keccak256([]byte(sig))[:4]\<close>\<close>

definition func_selector :: "ext_lib \<Rightarrow> string \<Rightarrow> bytes" where
  "func_selector L sig = take 4 (bytes_of_bytes32 (Keccak256 L (string_bytes sig)))"

definition ethereumCallMsg :: "address \<Rightarrow> bytes \<Rightarrow> CallMsg" where
  "ethereumCallMsg to data = \<lparr>cm_From = 0, cm_To = to, cm_Data = data, cm_Gas = 0, cm_Value = None\<rparr>"

definition ethereumCallMsgFrom :: "address \<Rightarrow> address \<Rightarrow> bytes \<Rightarrow> int \<Rightarrow> int option \<Rightarrow> CallMsg" where
  "ethereumCallMsgFrom from to data gasCap value =
     (let msg = \<lparr>cm_From = from, cm_To = to, cm_Data = data, cm_Gas = 0, cm_Value = value\<rparr> in
      if gasCap > 0 then msg\<lparr>cm_Gas := of_int gasCap\<rparr> else msg)"

fun isEVMRevert :: "call_error \<Rightarrow> bool" where
  "isEVMRevert (RpcError m) = True"
| "isEVMRevert (PlainError m) = False"

definition FetchRandomNumber ::
  "ext_lib \<Rightarrow> eth_client \<Rightarrow> tick \<Rightarrow> ctx \<Rightarrow> address \<Rightarrow> int option \<Rightarrow> (string, int option \<times> bool) res" where
  "FetchRandomNumber L eth t ctx randomNumberV2 round =
     (case abi_Pack L [TUint256] [VBig round] of
        Panic \<Rightarrow> Panic
      | Err e \<Rightarrow> Err (''packing getRandomNumberHistorical args: '' @ e)
      | Ok packedArgs \<Rightarrow>
        (case eth_CallContract eth t ctx
                (ethereumCallMsg randomNumberV2
                   (func_selector L ''getRandomNumberHistorical(uint256)'' @ packedArgs)) None of
           Inl e \<Rightarrow> Err (''calling getRandomNumberHistorical: '' @ error_text e)
         | Inr result \<Rightarrow>
           (case abi_Unpack L [TUint256, TBool, TUint256] result of
              Panic \<Rightarrow> Panic
            | Err e \<Rightarrow> Err (''unpacking getRandomNumberHistorical result: '' @ e)
            | Ok values \<Rightarrow>
              (case values of
                 [] \<Rightarrow> Panic
               | v0 # rest \<Rightarrow>
                 (case v0 of
                    VBig randomNumber \<Rightarrow>
                      (case rest of
                         [] \<Rightarrow> Panic
                       | v1 # _ \<Rightarrow>
                         (case v1 of
                            VBool isSecure \<Rightarrow> Ok (randomNumber, isSecure)
                          | _ \<Rightarrow> Err ''unexpected type for isSecure''))
                  | _ \<Rightarrow> Err ''unexpected type for randomNumber'')))))"

definition TestSeed ::
  "ext_lib \<Rightarrow> int option \<Rightarrow> address \<Rightarrow> int option \<Rightarrow> u64 \<Rightarrow> bytes32 \<Rightarrow> bytes32 \<Rightarrow> (string, bytes32) res" where
  "TestSeed L randomNumber escrowAddress jobID attempt specHash artifactCodeHash =
     (case abi_Pack L [TUint256, TAddress, TUint256, TUint64, TBytes32, TBytes32]
             [VBig randomNumber, VAddress escrowAddress, VBig jobID, VUint64 attempt,
              VBytes32 specHash, VBytes32 artifactCodeHash] of
        Panic \<Rightarrow> Panic
      | Err e \<Rightarrow> Err (''packing test seed inputs: '' @ e)
      | Ok packed \<Rightarrow> Ok (keccak256 L packed))"

record VectorOutcome =
  o_ID :: string
  o_Passed :: bool
  o_Skipped :: bool
  o_Detail :: string

abbreviation skipped :: "Vector \<Rightarrow> string \<Rightarrow> VectorOutcome" where
  "skipped v d \<equiv> \<lparr>o_ID = vec_ID v, o_Passed = False, o_Skipped = True, o_Detail = d\<rparr>"

abbreviation decided :: "Vector \<Rightarrow> bool \<Rightarrow> VectorOutcome" where
  "decided v b \<equiv> \<lparr>o_ID = vec_ID v, o_Passed = b, o_Skipped = False, o_Detail = []\<rparr>"

abbreviation failed :: "Vector \<Rightarrow> string \<Rightarrow> VectorOutcome" where
  "failed v d \<equiv> \<lparr>o_ID = vec_ID v, o_Passed = False, o_Skipped = False, o_Detail = d\<rparr>"

definition parseCallValue :: "ext_lib \<Rightarrow> string \<Rightarrow> int option option" where
  "parseCallValue L hexValue =
     (if hexValue = [] then Some None else map_option Some (hexutil_DecodeBig L hexValue))"

definition executeEthCallEquals ::
  "ext_lib \<Rightarrow> eth_client \<Rightarrow> tick \<Rightarrow> ctx \<Rightarrow> address \<Rightarrow> int option \<Rightarrow> int \<Rightarrow> int \<Rightarrow> Vector \<Rightarrow> VectorOutcome" where
  "executeEthCallEquals L eth t ctx target block gasCap maxResponseBytes v =
     (case hexutil_Decode L (vec_Calldata v) of
        None \<Rightarrow> skipped v ''malformed calldata''
      | Some calldata \<Rightarrow>
        (case hexutil_Decode L (vec_ExpectedReturn v) of
           None \<Rightarrow> skipped v ''malformed expectedReturn''
         | Some expected \<Rightarrow>
           (case parseCallValue L (vec_Value v) of
              None \<Rightarrow> skipped v ''malformed value''
            | Some value \<Rightarrow>
              (case eth_CallContract eth t ctx
                      (ethereumCallMsgFrom (HexToAddress L (vec_Caller v)) target calldata gasCap value)
                      block of
                 Inl e \<Rightarrow> skipped v ''call error''
               | Inr result \<Rightarrow>
                 if int (length result) > maxResponseBytes then skipped v ''response exceeds cap''
                 else decided v (hex_EncodeToString result = hex_EncodeToString expected)))))"

text \<open>How a revert error is judged, once it is one.\<close>

definition judge_revert :: "Vector \<Rightarrow> string \<Rightarrow> VectorOutcome" where
  "judge_revert v msg =
     (if vec_ExpectedRevertSelector v = [] \<and> vec_ExpectedRevertPattern v = [] then decided v True
      else if vec_ExpectedRevertSelector v \<noteq> [] then
        (let sel = TrimPrefix (vec_ExpectedRevertSelector v) ''0x'' in
         if Contains (ToLower msg) (ToLower sel) then decided v True
         else failed v ''revert selector mismatch'')
      else if Contains msg (vec_ExpectedRevertPattern v) then decided v True
      else failed v ''revert pattern mismatch'')"

definition executeEthCallReverts ::
  "ext_lib \<Rightarrow> eth_client \<Rightarrow> tick \<Rightarrow> ctx \<Rightarrow> address \<Rightarrow> int option \<Rightarrow> int \<Rightarrow> Vector \<Rightarrow> VectorOutcome" where
  "executeEthCallReverts L eth t ctx target block gasCap v =
     (case hexutil_Decode L (vec_Calldata v) of
        None \<Rightarrow> skipped v ''malformed calldata''
      | Some calldata \<Rightarrow>
        (case parseCallValue L (vec_Value v) of
           None \<Rightarrow> skipped v ''malformed value''
         | Some value \<Rightarrow>
           (case eth_CallContract eth t ctx
                   (ethereumCallMsgFrom (HexToAddress L (vec_Caller v)) target calldata gasCap value)
                   block of
              Inr result \<Rightarrow> failed v ''call did not revert''
            | Inl err \<Rightarrow>
              if \<not> isEVMRevert err then skipped v ''call error (not a confirmed EVM revert)''
              else judge_revert v (error_text err))))"

definition decodeCanonicalBool :: "ext_lib \<Rightarrow> bytes \<Rightarrow> (string, bool) res" where
  "decodeCanonicalBool L result =
     (if length result \<noteq> 32
      then Err (''expected exactly 32 bytes, got '' @ dec_nat (length result))
      else case abi_Unpack L [TBool] result of
        Panic \<Rightarrow> Panic
      | Err e \<Rightarrow> Err e
      | Ok values \<Rightarrow>
        (case values of
           [] \<Rightarrow> Panic
         | v0 # _ \<Rightarrow> (case v0 of VBool supports \<Rightarrow> Ok supports
                       | _ \<Rightarrow> Err (''unexpected decoded type '' @ go_type_name v0))))"

definition executeErc165 ::
  "ext_lib \<Rightarrow> eth_client \<Rightarrow> tick \<Rightarrow> ctx \<Rightarrow> address \<Rightarrow> int option \<Rightarrow> int \<Rightarrow> Vector \<Rightarrow> (string, VectorOutcome) res" where
  "executeErc165 L eth t ctx target block gasCap v =
     (case hexutil_Decode L (vec_InterfaceID v) of
        None \<Rightarrow> Ok (skipped v ''malformed interfaceId'')
      | Some ifaceID \<Rightarrow>
        if length ifaceID \<noteq> 4 then Ok (skipped v ''malformed interfaceId'')
        else
          (case eth_CallContract eth t ctx
                  (ethereumCallMsgFrom 0 target
                     (func_selector L ''supportsInterface(bytes4)'' @ RightPadBytes L ifaceID 32)
                     gasCap None) block of
             Inl e \<Rightarrow> Ok (skipped v ''call error (contract may not implement ERC165)'')
           | Inr result \<Rightarrow>
             (case decodeCanonicalBool L result of
                Panic \<Rightarrow> Panic
              | Err e \<Rightarrow> Ok (skipped v (''non-canonical supportsInterface response: '' @ e))
              | Ok supports \<Rightarrow> Ok (decided v (supports = (vec_Expected v = Some True))))))"

definition executeCodeSizeRange ::
  "eth_client \<Rightarrow> tick \<Rightarrow> ctx \<Rightarrow> address \<Rightarrow> int option \<Rightarrow> Vector \<Rightarrow> VectorOutcome" where
  "executeCodeSizeRange eth t ctx target block v =
     (case eth_CodeAt eth t ctx target block of
        Inl e \<Rightarrow> skipped v ''eth_getCode error''
      | Inr code \<Rightarrow>
        decided v (int (length code) \<ge> vec_MinBytes v \<and> int (length code) \<le> vec_MaxBytes v))"

definition executeStorageAtEquals ::
  "ext_lib \<Rightarrow> eth_client \<Rightarrow> tick \<Rightarrow> ctx \<Rightarrow> address \<Rightarrow> int option \<Rightarrow> Vector \<Rightarrow> VectorOutcome" where
  "executeStorageAtEquals L eth t ctx target block v =
     (case hexutil_Decode L (vec_Slot v) of
        None \<Rightarrow> skipped v ''malformed slot''
      | Some slotBytes \<Rightarrow>
        if length slotBytes \<noteq> 32 then skipped v ''malformed slot''
        else
          (case hexutil_Decode L (vec_ExpectedValue v) of
             None \<Rightarrow> skipped v ''malformed expectedValue''
           | Some expected \<Rightarrow>
             (case eth_StorageAt eth t ctx target (BytesToHash L slotBytes) block of
                Inl e \<Rightarrow> skipped v ''eth_getStorageAt error''
              | Inr value \<Rightarrow> decided v (hex_EncodeToString value = hex_EncodeToString expected))))"

definition ExecuteVector ::
  "ext_lib \<Rightarrow> eth_client \<Rightarrow> tick \<Rightarrow> ctx \<Rightarrow> address \<Rightarrow> int option \<Rightarrow> int \<Rightarrow> int \<Rightarrow> Vector \<Rightarrow> (string, VectorOutcome) res" where
  "ExecuteVector L eth t ctx artifactAddress blockNumber gasCap maxResponseBytes v =
     (if vec_Type v = VectorEthCallEquals then
        Ok (executeEthCallEquals L eth t ctx artifactAddress blockNumber gasCap maxResponseBytes v)
      else if vec_Type v = VectorEthCallReverts then
        Ok (executeEthCallReverts L eth t ctx artifactAddress blockNumber gasCap v)
      else if vec_Type v = VectorErc165SupportsInterface then
        executeErc165 L eth t ctx artifactAddress blockNumber gasCap v
      else if vec_Type v = VectorCodeSizeRange then
        Ok (executeCodeSizeRange eth t ctx artifactAddress blockNumber v)
      else if vec_Type v = VectorStorageAtEquals then
        Ok (executeStorageAtEquals L eth t ctx artifactAddress blockNumber v)
      else Ok (skipped v ''unknown vector type''))"

section \<open>A reference instance of the third-party functions\<close>

text \<open>A concrete library (static ABI words, plain hexadecimal, a toy hash) on which the documented
  behaviour holds; the witnesses use it.\<close>

fun ref_word :: "abi_ty \<Rightarrow> nat \<Rightarrow> abi_value option" where
  "ref_word TUint256 n = Some (VBig (Some (int (n mod 2 ^ 256))))"
| "ref_word TBool n = (if n = 0 then Some (VBool False) else if n = 1 then Some (VBool True) else None)"
| "ref_word TAddress n = Some (VAddress (of_nat n))"
| "ref_word TUint64 n = Some (VUint64 (of_nat n))"
| "ref_word TBytes32 n = Some (VBytes32 (of_nat n))"

fun ref_unpack :: "abi_ty list \<Rightarrow> bytes \<Rightarrow> (string, abi_value list) res" where
  "ref_unpack [] bs = Ok []"
| "ref_unpack (ty # ts) bs =
     (if length bs < 32 then Err ''length insufficient''
      else case ref_word ty (be_nat (take 32 bs)) of
        None \<Rightarrow> Err ''improperly encoded boolean value''
      | Some v \<Rightarrow> res_bind (ref_unpack ts (drop 32 bs)) (\<lambda>vs. Ok (v # vs)))"

fun ref_number :: "abi_value \<Rightarrow> nat" where
  "ref_number (VBig (Some n)) = nat n"
| "ref_number (VBool b) = (if b then 1 else 0)"
| "ref_number (VAddress a) = unat a"
| "ref_number (VUint64 n) = unat n"
| "ref_number (VBytes32 h) = unat h"
| "ref_number _ = 0"

definition ref_pack :: "abi_ty list \<Rightarrow> abi_value list \<Rightarrow> (string, bytes) res" where
  "ref_pack ts vs =
     (if list_all2 abi_typed ts vs then Ok (concat (map (be_bytes 32 \<circ> ref_number) vs))
      else Err ''cannot use value as argument'')"

definition ref_hex :: "string \<Rightarrow> bytes option" where
  "ref_hex s = (if HasPrefix s ''0x'' then hex_DecodeString (drop 2 s) else None)"

definition ref_hex_number :: "string \<Rightarrow> nat" where
  "ref_hex_number s = foldl (\<lambda>a c. a * 16 + hex_value c) 0 s"

definition ref_big :: "string \<Rightarrow> int option" where
  "ref_big s =
     (let ds = drop 2 s in
      if HasPrefix s ''0x'' \<and> ds \<noteq> [] \<and> list_all is_hex_digit ds \<and> length ds \<le> 64
           \<and> (hd ds = CHR ''0'' \<longrightarrow> length ds = 1)
      then Some (int (ref_hex_number ds)) else None)"

definition ref_address_text :: "address \<Rightarrow> string" where
  "ref_address_text a = ''0x'' @ hex_EncodeToString (be_bytes 20 (unat a))"

definition ref_lib :: ext_lib where
  "ref_lib =
     \<lparr>Keccak256 = (\<lambda>bs. of_nat (foldl (\<lambda>a b. a * 257 + unat b + 1) 7 bs)),
      hexutil_Decode = ref_hex, hexutil_DecodeBig = ref_big,
      HexToAddress = (\<lambda>s. of_nat (ref_hex_number (drop 2 s))),
      Address_String = ref_address_text,
      BytesToHash = bytes32_of_bytes,
      RightPadBytes = (\<lambda>bs n. bs @ replicate (n - length bs) 0),
      abi_Pack = ref_pack, abi_Unpack = ref_unpack, jcs_Transform = Inr\<rparr>"

lemma ref_word_typed: "ref_word ty n = Some v \<Longrightarrow> abi_typed ty v"
  by (cases ty) (auto split: if_splits simp: zmod_int)

lemma ref_unpack_typed:
  "ref_unpack ts bs \<noteq> Panic \<and> (\<forall>vs. ref_unpack ts bs = Ok vs \<longrightarrow> list_all2 abi_typed ts vs)"
  by (induction ts bs rule: ref_unpack.induct)
    (auto simp: res_simps ref_word_typed split: option.splits)

lemma ref_lib_documented: "abi_documented ref_lib"
  using ref_unpack_typed by (simp add: abi_documented_def ref_lib_def ref_pack_def)

section \<open>Shape of the results\<close>

lemmas execute_defs = executeEthCallEquals_def executeEthCallReverts_def judge_revert_def
  executeErc165_def executeCodeSizeRange_def executeStorageAtEquals_def

lemma judge_revert_shape: "o_ID (judge_revert v m) = vec_ID v" "\<not> o_Skipped (judge_revert v m)"
  by (simp_all add: judge_revert_def Let_def)

lemma executeEthCallEquals_shape:
  assumes "oc = executeEthCallEquals L eth t ctx a b g m v"
  shows "o_ID oc = vec_ID v \<and> \<not> (o_Passed oc \<and> o_Skipped oc)"
  using assms by (auto simp: executeEthCallEquals_def split: option.splits sum.splits)

lemma executeEthCallReverts_shape:
  assumes "oc = executeEthCallReverts L eth t ctx a b g v"
  shows "o_ID oc = vec_ID v \<and> \<not> (o_Passed oc \<and> o_Skipped oc)"
  using assms judge_revert_shape
  by (auto simp: executeEthCallReverts_def split: option.splits sum.splits)

lemma executeCodeSizeRange_shape:
  assumes "oc = executeCodeSizeRange eth t ctx a b v"
  shows "o_ID oc = vec_ID v \<and> \<not> (o_Passed oc \<and> o_Skipped oc)"
  using assms by (auto simp: executeCodeSizeRange_def split: option.splits sum.splits)

lemma executeStorageAtEquals_shape:
  assumes "oc = executeStorageAtEquals L eth t ctx a b v"
  shows "o_ID oc = vec_ID v \<and> \<not> (o_Passed oc \<and> o_Skipped oc)"
  using assms by (auto simp: executeStorageAtEquals_def split: option.splits sum.splits)

lemma executeErc165_shape:
  assumes "executeErc165 L eth t ctx a b g v = Ok oc"
  shows "o_ID oc = vec_ID v \<and> \<not> (o_Passed oc \<and> o_Skipped oc)"
  using assms by (auto simp: executeErc165_def split: option.splits sum.splits res.splits if_splits)

lemma executeErc165_no_err: "executeErc165 L eth t ctx a b g v \<noteq> Err e"
  by (auto simp: executeErc165_def split: option.splits sum.splits res.splits)

lemmas execute_shapes = executeEthCallEquals_shape [OF refl] executeEthCallReverts_shape [OF refl]
  executeCodeSizeRange_shape [OF refl] executeStorageAtEquals_shape [OF refl]

text \<open>What the verification loop needs of an executor: it never returns an error value, it keeps
  the vector's identifier, and it never reports a vector both passed and skipped.\<close>

locale vector_executor =
  fixes exec :: "tick \<Rightarrow> Vector \<Rightarrow> (string, VectorOutcome) res"
  assumes exec_no_err: "exec t v \<noteq> Err e"
    and exec_id: "exec t v = Ok oc \<Longrightarrow> o_ID oc = vec_ID v"
    and exec_exclusive: "exec t v = Ok oc \<Longrightarrow> \<not> (o_Passed oc \<and> o_Skipped oc)"

interpretation code_executor: vector_executor "\<lambda>t v. ExecuteVector L eth t ctx a b g m v"
  for L eth ctx a b g m
proof unfold_locales
  show "ExecuteVector L eth t ctx a b g m v \<noteq> Err e" for t v e
    by (simp add: ExecuteVector_def executeErc165_no_err)
  show "o_ID oc = vec_ID v" if "ExecuteVector L eth t ctx a b g m v = Ok oc" for t v oc
    using that by (auto simp: ExecuteVector_def execute_shapes dest: executeErc165_shape split: if_splits)
  show "\<not> (o_Passed oc \<and> o_Skipped oc)" if "ExecuteVector L eth t ctx a b g m v = Ok oc" for t v oc
    using that execute_shapes
    by (auto simp: ExecuteVector_def dest: executeErc165_shape split: if_splits)
qed

section \<open>No panic\<close>

lemma abi_documentedD:
  assumes "abi_documented L"
  shows "abi_Unpack L ts bs \<noteq> Panic" "abi_Unpack L ts bs = Ok vs \<Longrightarrow> list_all2 abi_typed ts vs"
    "list_all2 abi_typed ts vs \<Longrightarrow> abi_Pack L ts vs \<noteq> Panic"
  using assms unfolding abi_documented_def by blast+

lemma decodeCanonicalBool_no_panic: "abi_documented L \<Longrightarrow> decodeCanonicalBool L r \<noteq> Panic"
  using abi_documentedD(1) [of L "[TBool]" r] abi_documentedD(2) [of L "[TBool]" r]
  by (auto simp: decodeCanonicalBool_def list_all2_Cons1 split: res.splits list.splits abi_value.splits)

lemma ExecuteVector_no_panic:
  "abi_documented L \<Longrightarrow> ExecuteVector L eth t ctx a b g m v \<noteq> Panic"
  by (auto simp: ExecuteVector_def executeErc165_def decodeCanonicalBool_no_panic
      split: option.splits sum.splits res.splits)

text \<open>C26: With an ABI decoder that behaves as documented, executing any vector (validated or not)
  against any node returns an outcome: no panic and no error. The outcome carries the vector's own
  identifier and is never both passed and skipped.\<close>

theorem ExecuteVector_total:
  assumes "abi_documented L"
  shows "\<exists>oc. ExecuteVector L eth t ctx a b g m v = Ok oc \<and> o_ID oc = vec_ID v
           \<and> \<not> (o_Passed oc \<and> o_Skipped oc)"
proof (cases "ExecuteVector L eth t ctx a b g m v")
  case (Ok oc)
  then show ?thesis using code_executor.exec_id [OF Ok] code_executor.exec_exclusive [OF Ok] by simp
next
  case (Err e)
  then show ?thesis using code_executor.exec_no_err by blast
next
  case Panic
  then show ?thesis using ExecuteVector_no_panic [OF assms] by blast
qed

theorem ExecuteVector_total_witness:
  "\<exists>oc. ExecuteVector ref_lib
          \<lparr>eth_CallContract = (\<lambda>t c m b. Inr (replicate 31 0 @ [2])), eth_CodeAt = (\<lambda>t c a b. Inr []),
           eth_StorageAt = (\<lambda>t c a s b. Inr [])\<rparr>
          0 [] 5 None 100000 64 (blank_vector ''v1'' VectorErc165SupportsInterface) = Ok oc
        \<and> o_ID oc = ''v1'' \<and> \<not> (o_Passed oc \<and> o_Skipped oc)"
  using ExecuteVector_total [OF ref_lib_documented, of _ 0 "[]" 5 None 100000 64
      "blank_vector ''v1'' VectorErc165SupportsInterface"]
  by (simp add: blank_vector_def)

section \<open>What a pass means\<close>

text \<open>The reference meaning of a vector: the request it stands for and when the node's answer
  satisfies it. \<open>vector_passes\<close> is stated on the decoded fields, without the executor's order of
  checks, its string comparisons or its diagnostics.\<close>

definition call_answer ::
  "ext_lib \<Rightarrow> eth_client \<Rightarrow> tick \<Rightarrow> ctx \<Rightarrow> address \<Rightarrow> int option \<Rightarrow> int \<Rightarrow> Vector \<Rightarrow> (call_error + bytes) option" where
  "call_answer L eth t ctx a b g v =
     (case (hexutil_Decode L (vec_Calldata v), parseCallValue L (vec_Value v)) of
        (Some cd, Some val) \<Rightarrow>
          Some (eth_CallContract eth t ctx
                  (ethereumCallMsgFrom (HexToAddress L (vec_Caller v)) a cd g val) b)
      | _ \<Rightarrow> None)"

definition revert_matches :: "Vector \<Rightarrow> string \<Rightarrow> bool" where
  "revert_matches v msg \<longleftrightarrow>
     (if vec_ExpectedRevertSelector v \<noteq> []
      then Contains (ToLower msg) (ToLower (TrimPrefix (vec_ExpectedRevertSelector v) ''0x''))
      else Contains msg (vec_ExpectedRevertPattern v))"

definition equals_passes ::
  "ext_lib \<Rightarrow> eth_client \<Rightarrow> tick \<Rightarrow> ctx \<Rightarrow> address \<Rightarrow> int option \<Rightarrow> int \<Rightarrow> int \<Rightarrow> Vector \<Rightarrow> bool" where
  "equals_passes L eth t ctx a b g m v \<longleftrightarrow>
     (\<exists>r. call_answer L eth t ctx a b g v = Some (Inr r) \<and> int (length r) \<le> m
        \<and> hexutil_Decode L (vec_ExpectedReturn v) = Some r)"

definition reverts_passes ::
  "ext_lib \<Rightarrow> eth_client \<Rightarrow> tick \<Rightarrow> ctx \<Rightarrow> address \<Rightarrow> int option \<Rightarrow> int \<Rightarrow> Vector \<Rightarrow> bool" where
  "reverts_passes L eth t ctx a b g v \<longleftrightarrow>
     (\<exists>msg. call_answer L eth t ctx a b g v = Some (Inl (RpcError msg)) \<and> revert_matches v msg)"

definition erc165_passes ::
  "ext_lib \<Rightarrow> eth_client \<Rightarrow> tick \<Rightarrow> ctx \<Rightarrow> address \<Rightarrow> int option \<Rightarrow> int \<Rightarrow> Vector \<Rightarrow> bool" where
  "erc165_passes L eth t ctx a b g v \<longleftrightarrow>
     (\<exists>iface r. hexutil_Decode L (vec_InterfaceID v) = Some iface \<and> length iface = 4
        \<and> eth_CallContract eth t ctx
            (ethereumCallMsgFrom 0 a
               (func_selector L ''supportsInterface(bytes4)'' @ RightPadBytes L iface 32) g None) b = Inr r
        \<and> decodeCanonicalBool L r = Ok (vec_Expected v = Some True))"

definition codesize_passes :: "eth_client \<Rightarrow> tick \<Rightarrow> ctx \<Rightarrow> address \<Rightarrow> int option \<Rightarrow> Vector \<Rightarrow> bool" where
  "codesize_passes eth t ctx a b v \<longleftrightarrow>
     (\<exists>code. eth_CodeAt eth t ctx a b = Inr code \<and> int (length code) \<in> {vec_MinBytes v..vec_MaxBytes v})"

definition storage_passes ::
  "ext_lib \<Rightarrow> eth_client \<Rightarrow> tick \<Rightarrow> ctx \<Rightarrow> address \<Rightarrow> int option \<Rightarrow> Vector \<Rightarrow> bool" where
  "storage_passes L eth t ctx a b v \<longleftrightarrow>
     (\<exists>slot value. hexutil_Decode L (vec_Slot v) = Some slot \<and> length slot = 32
        \<and> eth_StorageAt eth t ctx a (BytesToHash L slot) b = Inr value
        \<and> hexutil_Decode L (vec_ExpectedValue v) = Some value)"

definition vector_passes ::
  "ext_lib \<Rightarrow> eth_client \<Rightarrow> tick \<Rightarrow> ctx \<Rightarrow> address \<Rightarrow> int option \<Rightarrow> int \<Rightarrow> int \<Rightarrow> Vector \<Rightarrow> bool" where
  "vector_passes L eth t ctx a b g m v \<longleftrightarrow>
     vec_Type v = VectorEthCallEquals \<and> equals_passes L eth t ctx a b g m v
   \<or> vec_Type v = VectorEthCallReverts \<and> reverts_passes L eth t ctx a b g v
   \<or> vec_Type v = VectorErc165SupportsInterface \<and> erc165_passes L eth t ctx a b g v
   \<or> vec_Type v = VectorCodeSizeRange \<and> codesize_passes eth t ctx a b v
   \<or> vec_Type v = VectorStorageAtEquals \<and> storage_passes L eth t ctx a b v"

lemma Contains_Nil [simp]: "Contains s []"
  by (cases s) (simp_all add: HasPrefix_def)

lemma judge_revert_passed: "o_Passed (judge_revert v msg) \<longleftrightarrow> revert_matches v msg"
  by (auto simp: judge_revert_def revert_matches_def Let_def)

lemma equals_refines:
  "o_Passed (executeEthCallEquals L eth t ctx a b g m v) \<longleftrightarrow> equals_passes L eth t ctx a b g m v"
  by (auto simp: executeEthCallEquals_def equals_passes_def call_answer_def split: option.splits sum.splits)

lemma reverts_refines:
  "o_Passed (executeEthCallReverts L eth t ctx a b g v) \<longleftrightarrow> reverts_passes L eth t ctx a b g v"
proof -
  have "isEVMRevert e \<longleftrightarrow> (\<exists>msg. e = RpcError msg)" for e by (cases e) auto
  then show ?thesis
    by (auto simp: executeEthCallReverts_def reverts_passes_def call_answer_def judge_revert_passed
        split: option.splits sum.splits)
qed

lemma erc165_refines:
  "executeErc165 L eth t ctx a b g v = Ok oc \<Longrightarrow> o_Passed oc \<longleftrightarrow> erc165_passes L eth t ctx a b g v"
  by (auto simp: executeErc165_def erc165_passes_def split: option.splits sum.splits res.splits if_splits)

lemma codesize_refines:
  "o_Passed (executeCodeSizeRange eth t ctx a b v) \<longleftrightarrow> codesize_passes eth t ctx a b v"
  by (auto simp: executeCodeSizeRange_def codesize_passes_def split: sum.splits)

lemma storage_refines:
  "o_Passed (executeStorageAtEquals L eth t ctx a b v) \<longleftrightarrow> storage_passes L eth t ctx a b v"
  by (auto simp: executeStorageAtEquals_def storage_passes_def split: option.splits sum.splits)

lemmas refines = equals_refines reverts_refines codesize_refines storage_refines

lemma ExecuteVector_passes:
  assumes "ExecuteVector L eth t ctx a b g m v = Ok oc"
  shows "o_Passed oc \<longleftrightarrow> vector_passes L eth t ctx a b g m v"
  using assms vector_types_distinct [symmetric]
  by (auto simp: ExecuteVector_def vector_passes_def refines erc165_refines split: if_splits)

text \<open>C24: The executor refines the reference meaning of vectors: an outcome is passed exactly when
  the node's answer to the vector's own request (its calldata, caller, value, slot or interface, at
  the artifact's address and block) is the expected one, for each of the five types. An unknown
  type never passes.\<close>

theorem ExecuteVector_refines:
  assumes "ExecuteVector L eth t ctx a b g m v = Ok oc"
  shows "o_Passed oc \<longleftrightarrow> vector_passes L eth t ctx a b g m v"
  by (rule ExecuteVector_passes [OF assms])

text \<open>A node that answers every call with one byte, has a three-byte artifact and empty storage.\<close>

definition demo_node :: eth_client where
  "demo_node =
     \<lparr>eth_CallContract = (\<lambda>t c msg b. Inr [42]), eth_CodeAt = (\<lambda>t c a b. Inr [1, 2, 3]),
      eth_StorageAt = (\<lambda>t c a s b. Inr (replicate 32 0))\<rparr>"

definition demo_equals :: Vector where
  "demo_equals = (blank_vector ''answer'' VectorEthCallEquals)
     \<lparr>vec_Calldata := ''0xa1b2'', vec_Caller := ''0x'' @ replicate 40 CHR ''1'', vec_Value := ''0x0'',
      vec_ExpectedReturn := ''0x2A''\<rparr>"

definition demo_reverts :: Vector where
  "demo_reverts = (blank_vector ''guard'' VectorEthCallReverts)
     \<lparr>vec_Calldata := ''0xa1b2'', vec_Caller := ''0x'' @ replicate 40 CHR ''1'', vec_Value := ''0x0''\<rparr>"

lemma demo_equals_run: "ExecuteVector ref_lib demo_node 0 [] 5 (Some 9) 21000 32 demo_equals = Ok (decided demo_equals True)"
proof -
  have "hexutil_Decode ref_lib (vec_Calldata demo_equals) = Some [0xa1, 0xb2]"
    "hexutil_Decode ref_lib (vec_ExpectedReturn demo_equals) = Some [42]"
    "parseCallValue ref_lib (vec_Value demo_equals) = Some (Some 0)"
    by code_simp+
  then show ?thesis
    by (simp add: ExecuteVector_def executeEthCallEquals_def demo_node_def)
      (simp add: demo_equals_def blank_vector_def)
qed

theorem ExecuteVector_refines_witness: "vector_passes ref_lib demo_node 0 [] 5 (Some 9) 21000 32 demo_equals"
  using ExecuteVector_refines [OF demo_equals_run] by simp

section \<open>Outages\<close>

text \<open>A node that is unreachable: every request ends in an error that is no JSON-RPC response.\<close>

definition outage :: "eth_client \<Rightarrow> bool" where
  "outage eth \<longleftrightarrow>
     (\<forall>t c msg b. \<exists>e. eth_CallContract eth t c msg b = Inl (PlainError e)) \<and>
     (\<forall>t c a b. \<exists>e. eth_CodeAt eth t c a b = Inl (PlainError e)) \<and>
     (\<forall>t c a s b. \<exists>e. eth_StorageAt eth t c a s b = Inl (PlainError e))"

lemma outage_answers:
  assumes "outage eth"
  shows "eth_CallContract eth t c msg b \<noteq> Inr r" "eth_CallContract eth t c msg b \<noteq> Inl (RpcError e)"
    "eth_CodeAt eth t c a b \<noteq> Inr r" "eth_StorageAt eth t c a s b \<noteq> Inr r"
proof -
  from assms obtain e1 e2 e3 where "eth_CallContract eth t c msg b = Inl (PlainError e1)"
    "eth_CodeAt eth t c a b = Inl (PlainError e2)" "eth_StorageAt eth t c a s b = Inl (PlainError e3)"
    unfolding outage_def by blast
  then show "eth_CallContract eth t c msg b \<noteq> Inr r" "eth_CallContract eth t c msg b \<noteq> Inl (RpcError e)"
    "eth_CodeAt eth t c a b \<noteq> Inr r" "eth_StorageAt eth t c a s b \<noteq> Inr r"
    by simp_all
qed

text \<open>C27: An outage proves nothing: when no request reaches the node, every vector, of any type and
  validated or not, comes out skipped and not passed, so unreachable infrastructure can neither
  forge a pass nor produce a definite failure.\<close>

theorem ExecuteVector_outage:
  assumes "outage eth"
  shows "\<exists>d. ExecuteVector L eth t ctx a b g m v = Ok (skipped v d)"
proof -
  have not_revert: "\<not> isEVMRevert e" if "eth_CallContract eth t ctx msg b = Inl e" for msg e
    using outage_answers(2) [OF assms] that by (cases e) auto
  note no = outage_answers [OF assms]
  have "\<exists>d. executeEthCallEquals L eth t ctx a b g m v = skipped v d"
    unfolding executeEthCallEquals_def by (simp add: no split: option.split sum.split)
  moreover have "\<exists>d. executeEthCallReverts L eth t ctx a b g v = skipped v d"
    unfolding executeEthCallReverts_def by (simp add: no not_revert split: option.split sum.split)
  moreover have "\<exists>d. executeErc165 L eth t ctx a b g v = Ok (skipped v d)"
    unfolding executeErc165_def by (simp add: no split: option.split sum.split)
  moreover have "\<exists>d. executeCodeSizeRange eth t ctx a b v = skipped v d"
    unfolding executeCodeSizeRange_def by (simp add: no split: sum.split)
  moreover have "\<exists>d. executeStorageAtEquals L eth t ctx a b v = skipped v d"
    unfolding executeStorageAtEquals_def by (simp add: no split: option.split sum.split)
  ultimately show ?thesis
    unfolding ExecuteVector_def by simp
qed

theorem ExecuteVector_outage_witness:
  "\<exists>d. ExecuteVector ref_lib
         \<lparr>eth_CallContract = (\<lambda>t c m b. Inl (PlainError ''timeout'')),
          eth_CodeAt = (\<lambda>t c a b. Inl (PlainError ''timeout'')),
          eth_StorageAt = (\<lambda>t c a s b. Inl (PlainError ''timeout''))\<rparr> 0 [] 5 None 21000 32 demo_reverts
       = Ok (skipped demo_reverts d)"
  by (rule ExecuteVector_outage) (simp add: outage_def)

text \<open>A request to the node, and whether two nodes answer it alike.\<close>

datatype request =
    AskCall tick ctx CallMsg "int option"
  | AskCode tick ctx address "int option"
  | AskStorage tick ctx address bytes32 "int option"

fun same_answer :: "eth_client \<Rightarrow> eth_client \<Rightarrow> request \<Rightarrow> bool" where
  "same_answer eth eth' (AskCall t ctx msg b) \<longleftrightarrow> eth_CallContract eth' t ctx msg b = eth_CallContract eth t ctx msg b"
| "same_answer eth eth' (AskCode t ctx a b) \<longleftrightarrow> eth_CodeAt eth' t ctx a b = eth_CodeAt eth t ctx a b"
| "same_answer eth eth' (AskStorage t ctx a s b) \<longleftrightarrow> eth_StorageAt eth' t ctx a s b = eth_StorageAt eth t ctx a s b"

text \<open>A request about one contract at one block, with a gas limit of its own if it is a call. (A call without
  one, whose field is zero, the node runs under its own much larger limit.)\<close>

fun artifact_request :: "tick \<Rightarrow> ctx \<Rightarrow> address \<Rightarrow> int option \<Rightarrow> int \<Rightarrow> request \<Rightarrow> bool" where
  "artifact_request t ctx a b g (AskCall t' ctx' msg b') \<longleftrightarrow>
     t' = t \<and> ctx' = ctx \<and> cm_To msg = a \<and> b' = b \<and> uint (cm_Gas msg) = g"
| "artifact_request t ctx a b g (AskCode t' ctx' a' b') \<longleftrightarrow> t' = t \<and> ctx' = ctx \<and> a' = a \<and> b' = b"
| "artifact_request t ctx a b g (AskStorage t' ctx' a' s b') \<longleftrightarrow> t' = t \<and> ctx' = ctx \<and> a' = a \<and> b' = b"

text \<open>The executor sends at most one request: there is one, about the artifact at the given block and with
  exactly the given gas, whose answer alone determines the outcome.\<close>

lemma ExecuteVector_one_request:
  assumes "0 < g" and "g < 2 ^ 64"
  shows "\<exists>q. artifact_request t ctx a b g q \<and>
     (\<forall>eth eth'. same_answer eth eth' q \<longrightarrow> ExecuteVector L eth' t ctx a b g m v = ExecuteVector L eth t ctx a b g m v)"
proof -
  have gas: "uint (of_int g :: u64) = g"
    using assms by (simp add: uint_word_of_int_eq take_bit_int_eq_self)
  have call: "artifact_request t ctx a b g (AskCall t ctx (ethereumCallMsgFrom from a data g val) b)" for "from" data val
    using assms(1) gas by (simp add: ethereumCallMsgFrom_def)
  let ?ask = "\<lambda>from data val. AskCall t ctx (ethereumCallMsgFrom from a data g val) b"
  consider (equals) "vec_Type v = VectorEthCallEquals" | (reverts) "vec_Type v = VectorEthCallReverts"
    | (erc165) "vec_Type v = VectorErc165SupportsInterface" | (other) "vec_Type v = VectorCodeSizeRange"
    | (storage) "vec_Type v = VectorStorageAtEquals"
    | (unknown) "vec_Type v \<notin> {VectorEthCallEquals, VectorEthCallReverts, VectorErc165SupportsInterface,
        VectorCodeSizeRange, VectorStorageAtEquals}" by blast
  then show ?thesis
  proof cases
    case equals
    let ?q = "?ask (HexToAddress L (vec_Caller v)) (the (hexutil_Decode L (vec_Calldata v))) (the (parseCallValue L (vec_Value v)))"
    show ?thesis
      by (intro exI [of _ ?q] conjI call allI impI)
        (auto simp: equals ExecuteVector_def executeEthCallEquals_def split: option.split)
  next
    case reverts
    let ?q = "?ask (HexToAddress L (vec_Caller v)) (the (hexutil_Decode L (vec_Calldata v))) (the (parseCallValue L (vec_Value v)))"
    show ?thesis
      by (intro exI [of _ ?q] conjI call allI impI)
        (auto simp: reverts ExecuteVector_def executeEthCallReverts_def split: option.split)
  next
    case erc165
    let ?q = "?ask 0 (func_selector L ''supportsInterface(bytes4)'' @ RightPadBytes L (the (hexutil_Decode L (vec_InterfaceID v))) 32) None"
    show ?thesis
      by (intro exI [of _ ?q] conjI call allI impI)
        (auto simp: erc165 ExecuteVector_def executeErc165_def split: option.split)
  next
    case other
    show ?thesis
      by (intro exI [of _ "AskCode t ctx a b"] conjI allI impI)
        (simp_all add: other ExecuteVector_def executeCodeSizeRange_def)
  next
    case storage
    let ?q = "AskStorage t ctx a (BytesToHash L (the (hexutil_Decode L (vec_Slot v)))) b"
    show ?thesis
      by (intro exI [of _ ?q] conjI allI impI)
        (auto simp: storage ExecuteVector_def executeStorageAtEquals_def split: option.split)
  next
    case unknown
    then show ?thesis
      by (intro exI [of _ "AskCode t ctx a b"] conjI allI impI) (simp_all add: ExecuteVector_def)
  qed
qed

section \<open>Two sharp edges\<close>

text \<open>Any JSON-RPC error object counts as a revert. For a revert vector that names neither a
  selector nor a pattern, an answer such as ``rate limit exceeded'' makes the vector pass, although
  the artifact was never executed.\<close>

theorem any_rpc_error_passes_revert_vector:
  assumes "vec_Type v = VectorEthCallReverts"
    and "vec_ExpectedRevertSelector v = []" and "vec_ExpectedRevertPattern v = []"
    and "hexutil_Decode L (vec_Calldata v) = Some cd" and "parseCallValue L (vec_Value v) = Some val"
    and "\<And>msg. eth_CallContract eth t ctx msg b = Inl (RpcError txt)"
  shows "ExecuteVector L eth t ctx a b g m v = Ok (decided v True)"
  using assms by (simp add: ExecuteVector_def executeEthCallReverts_def judge_revert_def)

theorem any_rpc_error_passes_revert_vector_witness:
  "ExecuteVector ref_lib (demo_node\<lparr>eth_CallContract := (\<lambda>t c msg b. Inl (RpcError ''429 rate limit exceeded''))\<rparr>)
     0 [] 5 None 21000 32 demo_reverts = Ok (decided demo_reverts True)"
proof (rule any_rpc_error_passes_revert_vector [of _ _ "[0xa1, 0xb2]" "Some 0"])
  show "hexutil_Decode ref_lib (vec_Calldata demo_reverts) = Some [0xa1, 0xb2]" by code_simp
  show "parseCallValue ref_lib (vec_Value demo_reverts) = Some (Some 0)" by code_simp
qed (simp_all add: demo_reverts_def blank_vector_def demo_node_def)

text \<open>Some vector passes validation and yet can never be decided: validation admits values with
  leading zeros, which a quantity decoder that rejects leading zeros refuses, so the vector is
  skipped on every run, whatever the node answers and whenever it is asked.\<close>

theorem leading_zero_value_never_decided:
  assumes "\<And>ds. ds \<noteq> [] \<Longrightarrow> hexutil_DecodeBig L (''0x0'' @ ds) = None"
  shows "\<exists>v. vector_validate v = None \<and>
           (\<forall>eth t ctx a b g m. \<exists>d. ExecuteVector L eth t ctx a b g m v = Ok (skipped v d))"
proof (intro exI conjI allI)
  let ?v = "demo_reverts\<lparr>vec_Value := ''0x00''\<rparr>"
  show "vector_validate ?v = None" by code_simp
  have "parseCallValue L (vec_Value ?v) = None"
    using assms [of "''0''"] by (simp add: parseCallValue_def)
  then show "ExecuteVector L eth t ctx a b g m ?v =
      Ok (skipped ?v (if hexutil_Decode L (vec_Calldata ?v) = None then ''malformed calldata''
                      else ''malformed value''))" for eth t ctx a b g m
    by (auto simp: ExecuteVector_def executeEthCallReverts_def demo_reverts_def blank_vector_def
        split: option.splits)
qed

theorem leading_zero_value_never_decided_witness:
  "\<exists>v. vector_validate v = None \<and>
     (\<forall>eth t ctx a b g m. \<exists>d. ExecuteVector ref_lib eth t ctx a b g m v = Ok (skipped v d))"
  by (rule leading_zero_value_never_decided)
    (simp add: ref_lib_def ref_big_def HasPrefix_def)

end
