(* ===== verification/Fetcher.thy ===== *)
theory Fetcher
  imports Config
begin

text \<open>
  The SSRF-hardened ciphertext fetcher, \<open>go/internal/verifier/ciphertext.go\<close>. The state of a
  \<open>CiphertextFetcher\<close> is its allowlist and the table of pinned addresses, together with what
  \<open>http.Transport\<close> keeps (idle connections) and a ghost list of every connection a request was
  sent over. Name resolution, dialling, the peers and URL parsing are the environment: arbitrary
  functions whose answers may change from call to call (a tick), so that rebinding resolvers and
  hostile gateways are among them. The redirect loop is that of \<open>http.Client.Do\<close> with this code's
  \<open>CheckRedirect\<close>.
\<close>

section \<open>Environment\<close>

record url =
  u_Scheme :: string
  u_Hostname :: string
  u_Text :: string

record response =
  r_StatusCode :: int
  r_Location :: string
  r_Body :: bytes
  r_BodyErr :: "string option"

record net_env =
  n_Parse :: "string \<Rightarrow> string + url"
  n_ParseRef :: "url \<Rightarrow> string \<Rightarrow> string + url"
  n_CanonicalAddr :: "url \<Rightarrow> string"
  n_LookupIP :: "nat \<Rightarrow> string \<Rightarrow> string + ip list"
  n_ReuseIdle :: "nat \<Rightarrow> string \<Rightarrow> bool"
  n_Dial :: "nat \<Rightarrow> string \<Rightarrow> string option"
  n_RoundTrip :: "nat \<Rightarrow> string \<Rightarrow> url \<Rightarrow> string + response"

section \<open>State\<close>

record CiphertextFetcher =
  f_allowedHosts :: "string set"
  f_pinnedIPs :: "string \<rightharpoonup> string"
  f_idle :: "string \<rightharpoonup> string"
  f_used :: "string list"

definition NewCiphertextFetcher :: "string list \<Rightarrow> CiphertextFetcher" where
  "NewCiphertextFetcher allowedHosts =
     \<lparr>f_allowedHosts = set (map ToLower allowedHosts), f_pinnedIPs = Map.empty, f_idle = Map.empty,
      f_used = []\<rparr>"

section \<open>Operations\<close>

definition isPrivateOrReserved :: "ip \<Rightarrow> bool" where
  "isPrivateOrReserved a \<longleftrightarrow> IsPrivate a \<or> IsLoopback a \<or> IsLinkLocalUnicast a \<or>
     IsLinkLocalMulticast a \<or> IsUnspecified a \<or> IsMulticast a"

text \<open>The loop over the resolved addresses: the first offending address is an error, the first
  address (a nil slice is no address) is the one to pin.\<close>

fun pin_loop :: "ip option \<Rightarrow> ip list \<Rightarrow> ip + ip option" where
  "pin_loop pinned [] = Inr pinned"
| "pin_loop pinned (a # ips) =
     (if isPrivateOrReserved a then Inl a
      else pin_loop (if pinned = None \<and> a \<noteq> [] then Some a else pinned) ips)"

definition validateURL ::
  "net_env \<Rightarrow> nat \<Rightarrow> url \<Rightarrow> CiphertextFetcher \<Rightarrow> string option \<times> CiphertextFetcher" where
  "validateURL N t u f =
     (if u_Scheme u \<noteq> ''https'' then
        (Some (''ciphertext locator must use https, got '' @ go_quote (u_Scheme u)), f)
      else let host = ToLower (u_Hostname u) in
        if host \<notin> f_allowedHosts f then
          (Some (''host '' @ go_quote host @ '' is not in the ciphertext allowlist''), f)
        else case n_LookupIP N t host of
          Inl e \<Rightarrow> (Some (''resolving '' @ go_quote host @ '': '' @ e), f)
        | Inr ips \<Rightarrow>
          (case pin_loop None ips of
             Inl a \<Rightarrow> (Some (''host '' @ go_quote host @ '' resolves to a private/reserved address '' @ ip_String a), f)
           | Inr None \<Rightarrow> (Some (''host '' @ go_quote host @ '' did not resolve to any address''), f)
           | Inr (Some pinned) \<Rightarrow>
             (None, f\<lparr>f_pinnedIPs := (f_pinnedIPs f)(host \<mapsto> ip_String pinned)\<rparr>)))"

text \<open>The dial target, or the refusal to dial.\<close>

definition dialPinned :: "CiphertextFetcher \<Rightarrow> string \<Rightarrow> string + string" where
  "dialPinned f addr =
     (case SplitHostPort addr of
        Inl e \<Rightarrow> Inl (''parsing dial address '' @ go_quote addr @ '': '' @ e)
      | Inr (host, port) \<Rightarrow>
        (case f_pinnedIPs f (ToLower host) of
           None \<Rightarrow> Inl (''no validated IP pinned for host '' @ go_quote host @ '' -- refusing to dial without validation'')
         | Some pinned \<Rightarrow> Inr (JoinHostPort pinned port)))"

text \<open>\<open>http.Transport\<close>: a request goes over an idle connection to the same address if the transport
  chooses to reuse one, otherwise over a new connection made by \<open>dialPinned\<close>. (When an idle connection turns out to
  be closed before the first byte of an answer, the transport may send the request again over a new connection.
  That request is one that does not reuse a connection here; the closed one is not recorded as used.)\<close>

definition transport_send ::
  "net_env \<Rightarrow> nat \<Rightarrow> url \<Rightarrow> CiphertextFetcher \<Rightarrow> (string + response) \<times> CiphertextFetcher" where
  "transport_send N t u f =
     (let addr = n_CanonicalAddr N u in
      case (if n_ReuseIdle N t addr then f_idle f addr else None) of
        Some target \<Rightarrow> (n_RoundTrip N t target u, f\<lparr>f_used := target # f_used f\<rparr>)
      | None \<Rightarrow>
        (case dialPinned f addr of
           Inl e \<Rightarrow> (Inl e, f)
         | Inr target \<Rightarrow>
           (case n_Dial N t target of
              Some e \<Rightarrow> (Inl e, f\<lparr>f_used := target # f_used f\<rparr>)
            | None \<Rightarrow>
              (n_RoundTrip N t target u,
               f\<lparr>f_used := target # f_used f, f_idle := (f_idle f)(addr \<mapsto> target)\<rparr>))))"

definition isRedirect :: "response \<Rightarrow> bool" where
  "isRedirect r \<longleftrightarrow> r_StatusCode r \<in> {301, 302, 303, 307, 308} \<and> r_Location r \<noteq> []"

text \<open>\<open>CheckRedirect\<close>; \<open>via\<close> counts the requests made so far.\<close>

definition checkRedirect ::
  "net_env \<Rightarrow> nat \<Rightarrow> nat \<Rightarrow> url \<Rightarrow> CiphertextFetcher \<Rightarrow> string option \<times> CiphertextFetcher" where
  "checkRedirect N t via u f =
     (if via \<ge> 3 then (Some ''too many redirects'', f) else validateURL N t u f)"

text \<open>The \<open>*url.Error\<close> that \<open>http.Client.Do\<close> wraps a failure in.\<close>

definition uerr :: "url \<Rightarrow> string \<Rightarrow> string" where
  "uerr u e = ''Get '' @ go_quote (u_Text u) @ '': '' @ e"

text \<open>\<open>http.Client.Do\<close>, from the request to \<open>u\<close> on, which is number \<open>via\<close>.\<close>

function client_Do ::
  "net_env \<Rightarrow> nat \<Rightarrow> nat \<Rightarrow> url \<Rightarrow> CiphertextFetcher \<Rightarrow> (string + response) \<times> CiphertextFetcher" where
  "client_Do N t via u f =
     (case transport_send N t u f of
        (Inl e, f1) \<Rightarrow> (Inl (uerr u e), f1)
      | (Inr resp, f1) \<Rightarrow>
        if isRedirect resp then
          (case n_ParseRef N u (r_Location resp) of
             Inl e \<Rightarrow> 
               (Inl (uerr u (''failed to parse Location header '' @ go_quote (r_Location resp) @ '': '' @ e)), f1)
           | Inr u' \<Rightarrow>
             (case checkRedirect N (Suc t) via u' f1 of
                (Some e, f2) \<Rightarrow> (Inl (uerr u e), f2)
              | (None, f2) \<Rightarrow> client_Do N (Suc t) (Suc via) u' f2))
        else (Inr resp, f1))"
  by pat_completeness auto

termination client_Do
  by (relation "measure (\<lambda>(N, t, via, u, f). 3 - via)")
    (auto simp: checkRedirect_def split: if_splits)

declare client_Do.simps [simp del]

definition Fetch ::
  "net_env \<Rightarrow> nat \<Rightarrow> string \<Rightarrow> CiphertextFetcher \<Rightarrow> (string + bytes) \<times> CiphertextFetcher" where
  "Fetch N t locator f =
     (case n_Parse N locator of
        Inl e \<Rightarrow> (Inl (''parsing ciphertext locator: '' @ e), f)
      | Inr u \<Rightarrow>
        (case validateURL N t u f of
           (Some e, f1) \<Rightarrow> (Inl e, f1)
         | (None, f1) \<Rightarrow>
           (case n_Parse N (u_Text u) of
              Inl e \<Rightarrow> (Inl (''building ciphertext request: '' @ e), f1)
            | Inr u' \<Rightarrow>
              (case client_Do N t 1 u' f1 of
                 (Inl e, f2) \<Rightarrow> (Inl (''fetching ciphertext: '' @ e), f2)
               | (Inr resp, f2) \<Rightarrow>
                 if r_StatusCode resp \<noteq> 200 then
                   (Inl (''ciphertext gateway returned status '' @ dec_int (r_StatusCode resp)), f2)
                 else
                   (let limit = MaxCiphertextBytes + 1; data = take limit (r_Body resp) in
                    if length (r_Body resp) < limit \<and> r_BodyErr resp \<noteq> None then
                      (Inl (''reading ciphertext body: '' @ the (r_BodyErr resp)), f2)
                    else if length data > MaxCiphertextBytes then
                      (Inl (''ciphertext exceeds max size of '' @ dec_nat MaxCiphertextBytes @ '' bytes''), f2)
                    else (Inr data, f2))))))"

section \<open>What the fetcher may contact\<close>

text \<open>A connection target is authorised when it is a public address that the resolver returned, at
  some moment, for a host of the allowlist.\<close>

definition authorised_ip :: "net_env \<Rightarrow> string set \<Rightarrow> string \<Rightarrow> bool" where
  "authorised_ip N hosts s \<longleftrightarrow>
     (\<exists>t host ips a. host \<in> hosts \<and> n_LookupIP N t host = Inr ips \<and> a \<in> set ips
        \<and> (\<forall>x \<in> set ips. \<not> isPrivateOrReserved x) \<and> s = ip_String a)"

definition authorised_target :: "net_env \<Rightarrow> string set \<Rightarrow> string \<Rightarrow> bool" where
  "authorised_target N hosts target \<longleftrightarrow> (\<exists>s port. authorised_ip N hosts s \<and> target = JoinHostPort s port)"

definition fetcher_ok :: "net_env \<Rightarrow> string set \<Rightarrow> CiphertextFetcher \<Rightarrow> bool" where
  "fetcher_ok N hosts f \<longleftrightarrow>
     f_allowedHosts f = hosts \<and>
     (\<forall>s \<in> ran (f_pinnedIPs f). authorised_ip N hosts s) \<and>
     (\<forall>x \<in> ran (f_idle f). authorised_target N hosts x) \<and>
     (\<forall>x \<in> set (f_used f). authorised_target N hosts x)"

lemma pin_loop_Inr:
  "pin_loop p ips = Inr q \<Longrightarrow>
     (\<forall>x \<in> set ips. \<not> isPrivateOrReserved x) \<and> (\<forall>a. q = Some a \<longrightarrow> p = Some a \<or> a \<in> set ips)"
  by (induction p ips rule: pin_loop.induct) (auto split: if_splits)

lemma pin_loop_Inl: "pin_loop p ips = Inl a \<Longrightarrow> a \<in> set ips \<and> isPrivateOrReserved a"
  by (induction p ips rule: pin_loop.induct) (auto split: if_splits)

lemma ran_upd_subset: "ran (mp(k \<mapsto> v)) \<subseteq> insert v (ran mp)"
  by (auto simp: ran_def)

lemma validateURL_ok:
  assumes "fetcher_ok N hosts f" and "validateURL N t u f = (e, f')"
  shows "fetcher_ok N hosts f' \<and> f_used f' = f_used f"
proof (cases e)
  case (Some x)
  then have "f' = f"
    using assms(2) by (auto simp: validateURL_def Let_def split: if_splits sum.splits option.splits)
  with assms show ?thesis by simp
next
  case None
  then obtain ips a where h: "ToLower (u_Hostname u) \<in> f_allowedHosts f"
    and l: "n_LookupIP N t (ToLower (u_Hostname u)) = Inr ips" and p: "pin_loop None ips = Inr (Some a)"
    and f': "f' = f\<lparr>f_pinnedIPs := (f_pinnedIPs f)(ToLower (u_Hostname u) \<mapsto> ip_String a)\<rparr>"
    using assms(2) by (auto simp: validateURL_def Let_def split: if_splits sum.splits option.splits)
  have "authorised_ip N hosts (ip_String a)"
    using h l pin_loop_Inr [OF p] assms(1) unfolding authorised_ip_def fetcher_ok_def by blast
  then show ?thesis
    using assms(1) f' ran_upd_subset [of "f_pinnedIPs f"] unfolding fetcher_ok_def by auto
qed

lemma dialPinned_authorised:
  assumes "fetcher_ok N hosts f" and "dialPinned f addr = Inr target"
  shows "authorised_target N hosts target"
  using assms unfolding dialPinned_def fetcher_ok_def authorised_target_def
  by (auto split: sum.splits option.splits prod.splits intro: ranI)

lemma transport_send_ok:
  assumes ok: "fetcher_ok N hosts f" and send: "transport_send N t u f = (r, f')"
  shows "fetcher_ok N hosts f' \<and> length (f_used f') \<le> Suc (length (f_used f))"
proof (cases "if n_ReuseIdle N t (n_CanonicalAddr N u) then f_idle f (n_CanonicalAddr N u) else None")
  case (Some target)
  then have "authorised_target N hosts target"
    using ok unfolding fetcher_ok_def by (auto split: if_splits intro: ranI)
  with Some ok send show ?thesis by (auto simp: transport_send_def Let_def fetcher_ok_def)
next
  case None
  show ?thesis
  proof (cases "dialPinned f (n_CanonicalAddr N u)")
    case (Inl e)
    with None ok send show ?thesis by (simp add: transport_send_def Let_def)
  next
    case (Inr target)
    note auth = dialPinned_authorised [OF ok this]
    have "\<forall>x \<in> ran ((f_idle f)(n_CanonicalAddr N u \<mapsto> target)). authorised_target N hosts x"
      using ok auth ran_upd_subset [of "f_idle f"] unfolding fetcher_ok_def by blast
    with None Inr ok send auth show ?thesis
      by (auto simp: transport_send_def Let_def fetcher_ok_def split: option.splits)
  qed
qed

lemma checkRedirect_ok:
  assumes "fetcher_ok N hosts f" and "checkRedirect N t via u f = (e, f')"
  shows "fetcher_ok N hosts f' \<and> f_used f' = f_used f \<and> (e = None \<longrightarrow> via < 3)"
  using assms validateURL_ok [OF assms(1)] by (auto simp: checkRedirect_def split: if_splits)

lemma client_Do_ok:
  "fetcher_ok N hosts f \<Longrightarrow> client_Do N t via u f = (r, f') \<Longrightarrow>
     fetcher_ok N hosts f' \<and> length (f_used f') \<le> length (f_used f) + Suc (3 - via)"
proof (induction N t via u f arbitrary: r f' rule: client_Do.induct)
  case (1 N t via u f)
  obtain r1 f1 where s: "transport_send N t u f = (r1, f1)" by fastforce
  note ok1 = transport_send_ok [OF "1.prems"(1) s]
  show ?case
  proof (cases "\<exists>resp u'. r1 = Inr resp \<and> isRedirect resp \<and> n_ParseRef N u (r_Location resp) = Inr u'")
    case False
    then show ?thesis
      using "1.prems"(2) s ok1 by (subst (asm) client_Do.simps) (auto split: sum.splits if_splits)
  next
    case True
    then obtain resp u' where r1: "r1 = Inr resp" "isRedirect resp" "n_ParseRef N u (r_Location resp) = Inr u'"
      by blast
    obtain e f2 where c: "checkRedirect N (Suc t) via u' f1 = (e, f2)" by fastforce
    note ok2 = checkRedirect_ok [OF conjunct1 [OF ok1] c]
    show ?thesis
    proof (cases e)
      case (Some x)
      then show ?thesis
        using "1.prems"(2) s r1 c ok1 ok2 by (subst (asm) client_Do.simps) auto
    next
      case None
      then have "client_Do N (Suc t) (Suc via) u' f2 = (r, f')"
        using "1.prems"(2) s r1 c by (subst (asm) client_Do.simps) auto
      from "1.IH" [OF s [symmetric] r1 c [symmetric] None _ this] ok1 ok2 None
      show ?thesis by auto
    qed
  qed
qed

lemma Fetch_ok:
  assumes "fetcher_ok N hosts f" and "Fetch N t locator f = (r, f')"
  shows "fetcher_ok N hosts f' \<and> length (f_used f') \<le> length (f_used f) + 3"
proof (cases "n_Parse N locator")
  case (Inl e)
  with assms show ?thesis by (simp add: Fetch_def)
next
  case (Inr u)
  obtain e f1 where v: "validateURL N t u f = (e, f1)" by fastforce
  note ok1 = validateURL_ok [OF assms(1) v]
  show ?thesis
  proof (cases "e = None \<and> (\<exists>u'. n_Parse N (u_Text u) = Inr u')")
    case False
    with assms(2) Inr v ok1 show ?thesis by (auto simp: Fetch_def split: option.splits sum.splits)
  next
    case True
    then obtain u' where u': "n_Parse N (u_Text u) = Inr u'" by blast
    obtain r2 f2 where d: "client_Do N t 1 u' f1 = (r2, f2)" by fastforce
    from True assms(2) Inr v u' d have "f' = f2"
      by (auto simp: Fetch_def Let_def split: sum.splits if_splits)
    with client_Do_ok [OF conjunct1 [OF ok1] d] ok1 show ?thesis by simp
  qed
qed

lemma NewCiphertextFetcher_ok: "fetcher_ok N (set (map ToLower hosts)) (NewCiphertextFetcher hosts)"
  by (simp add: fetcher_ok_def NewCiphertextFetcher_def)

text \<open>Any history of fetches, each at its own moment and for any locator.\<close>

definition fetch_step :: "net_env \<Rightarrow> nat \<times> string \<Rightarrow> CiphertextFetcher \<Rightarrow> CiphertextFetcher" where
  "fetch_step N = (\<lambda>(t, locator) f. snd (Fetch N t locator f))"

interpretation fetcher: invariant_machine "fetch_step N" "fetcher_ok N hosts" for N hosts
proof unfold_locales
  fix s op
  assume "fetcher_ok N hosts s"
  then have "fetcher_ok N hosts (snd (Fetch N t locator s))" for t locator
    using Fetch_ok [OF _ prod.collapse [symmetric]] by blast
  then show "fetcher_ok N hosts (fetch_step N op s)"
    by (simp add: fetch_step_def split: prod.split)
qed

text \<open>C4: Server-side request forgery is excluded for every history of fetches, whatever locators are
  requested, however the resolver's answers change over time (DNS rebinding) and wherever gateways
  redirect to: every connection ever used goes to an address that passed the private/reserved check
  and that the resolver had returned for a host of the configured allowlist.\<close>

theorem Fetch_no_ssrf:
  assumes "target \<in> set (f_used (fold (fetch_step N) ops (NewCiphertextFetcher hosts)))"
  shows "\<exists>t host ips a port. host \<in> set (map ToLower hosts) \<and> n_LookupIP N t host = Inr ips
           \<and> a \<in> set ips \<and> \<not> isPrivateOrReserved a \<and> target = JoinHostPort (ip_String a) port"
proof -
  have "fetcher_ok N (set (map ToLower hosts)) (fold (fetch_step N) ops (NewCiphertextFetcher hosts))"
    by (rule fetcher.inv_run [OF NewCiphertextFetcher_ok])
  with assms have "authorised_target N (set (map ToLower hosts)) target"
    by (simp add: fetcher_ok_def)
  then show ?thesis unfolding authorised_target_def authorised_ip_def by blast
qed

text \<open>An environment whose resolver first answers with a public address and later with loopback.\<close>

definition demo_net :: net_env where
  "demo_net =
     \<lparr>n_Parse = (\<lambda>s. Inr \<lparr>u_Scheme = ''https'', u_Hostname = ''gw.example'', u_Text = s\<rparr>),
      n_ParseRef = (\<lambda>u s. Inr \<lparr>u_Scheme = ''http'', u_Hostname = ''169.254.169.254'', u_Text = s\<rparr>),
      n_CanonicalAddr = (\<lambda>u. u_Hostname u @ '':443''),
      n_LookupIP = (\<lambda>t h. Inr [if t < 5 then [93, 184, 216, 34] else [127, 0, 0, 1]]),
      n_ReuseIdle = (\<lambda>t a. False), n_Dial = (\<lambda>t a. None),
      n_RoundTrip = (\<lambda>t a u. Inr \<lparr>r_StatusCode = (if t = 0 then 200 else 302), r_Location = ''http://169.254.169.254/'',
                                 r_Body = [1, 2, 3], r_BodyErr = None\<rparr>)\<rparr>"

definition demo_locator :: string where "demo_locator = ''https://gw.example/c0ffee''"

lemma demo_fetch:
  "Fetch demo_net 0 demo_locator (NewCiphertextFetcher [''GW.example'']) =
     (Inr [1, 2, 3],
      \<lparr>f_allowedHosts = {''gw.example''}, f_pinnedIPs = [''gw.example'' \<mapsto> ''93.184.216.34''],
       f_idle = [''gw.example:443'' \<mapsto> ''93.184.216.34:443''], f_used = [''93.184.216.34:443'']\<rparr>)"
proof -
  have eval: "ip_String [93, 184, 216, 34] = ''93.184.216.34''"
    "ToLower ''gw.example'' = ''gw.example''" "ToLower ''GW.example'' = ''gw.example''"
    "isPrivateOrReserved [93, 184, 216, 34] = False"
    "SplitHostPort ''gw.example:443'' = Inr (''gw.example'', ''443'')"
    "JoinHostPort ''93.184.216.34'' ''443'' = ''93.184.216.34:443''"
    by code_simp+
  let ?u = "\<lparr>u_Scheme = ''https'', u_Hostname = ''gw.example'', u_Text = demo_locator\<rparr>"
  let ?f1 = "\<lparr>f_allowedHosts = {''gw.example''}, f_pinnedIPs = [''gw.example'' \<mapsto> ''93.184.216.34''],
      f_idle = Map.empty, f_used = []\<rparr>"
  let ?f2 = "?f1\<lparr>f_idle := [''gw.example:443'' \<mapsto> ''93.184.216.34:443''], f_used := [''93.184.216.34:443'']\<rparr>"
  let ?r = "\<lparr>r_StatusCode = 200, r_Location = ''http://169.254.169.254/'', r_Body = [1, 2, 3], r_BodyErr = None\<rparr>"
  have v: "validateURL demo_net 0 ?u (NewCiphertextFetcher [''GW.example'']) = (None, ?f1)"
    by (simp add: validateURL_def demo_net_def NewCiphertextFetcher_def eval Let_def)
  have "transport_send demo_net 0 ?u ?f1 = (Inr ?r, ?f2)"
    by (simp add: transport_send_def dialPinned_def demo_net_def eval)
  then have "client_Do demo_net 0 1 ?u ?f1 = (Inr ?r, ?f2)"
    by (subst client_Do.simps) (simp add: isRedirect_def)
  moreover have "n_Parse demo_net demo_locator = Inr ?u" by (simp add: demo_net_def)
  ultimately show ?thesis
    using v by (simp add: Fetch_def MaxCiphertextBytes_def Let_def)
qed

theorem Fetch_no_ssrf_witness:
  "\<exists>t host ips a port. host \<in> {''gw.example''} \<and> n_LookupIP demo_net t host = Inr ips
     \<and> a \<in> set ips \<and> \<not> isPrivateOrReserved a \<and> ''93.184.216.34:443'' = JoinHostPort (ip_String a) port"
proof -
  have "''93.184.216.34:443'' \<in> set (f_used (fold (fetch_step demo_net) [(0, demo_locator)] (NewCiphertextFetcher [''GW.example''])))"
    by (simp add: fetch_step_def demo_fetch)
  moreover have "ToLower ''GW.example'' = ''gw.example''" by code_simp
  ultimately show ?thesis
    using Fetch_no_ssrf [of _ demo_net "[(0, demo_locator)]" "[''GW.example'']"] by simp
qed

section \<open>Bounded work, complete answers\<close>

lemma transport_send_response:
  "transport_send N t u f = (Inr resp, f') \<Longrightarrow>
     \<exists>target. n_RoundTrip N t target u = Inr resp \<and> target \<in> set (f_used f')"
  by (auto simp: transport_send_def Let_def split: option.splits sum.splits if_splits)

lemma client_Do_response:
  "client_Do N t via u f = (Inr resp, f') \<Longrightarrow>
     \<exists>t' target u'. n_RoundTrip N t' target u' = Inr resp \<and> target \<in> set (f_used f')"
proof (induction N t via u f arbitrary: resp f' rule: client_Do.induct)
  case (1 N t via u f)
  obtain r1 f1 where s: "transport_send N t u f = (r1, f1)" by fastforce
  show ?case
  proof (cases "\<exists>resp u'. r1 = Inr resp \<and> isRedirect resp \<and> n_ParseRef N u (r_Location resp) = Inr u'")
    case True
    then obtain resp1 u' where r1: "r1 = Inr resp1" "isRedirect resp1" "n_ParseRef N u (r_Location resp1) = Inr u'"
      by blast
    obtain e f2 where c: "checkRedirect N (Suc t) via u' f1 = (e, f2)" by fastforce
    from "1.prems" s r1 c have "e = None" "client_Do N (Suc t) (Suc via) u' f2 = (Inr resp, f')"
      by (subst (asm) client_Do.simps, auto split: option.splits)+
    with "1.IH" [OF s [symmetric] r1 c [symmetric]] show ?thesis by blast
  next
    case False
    with "1.prems" s have "r1 = Inr resp" "f1 = f'"
      by (subst (asm) client_Do.simps, auto split: sum.splits if_splits)+
    with s transport_send_response show ?thesis by blast
  qed
qed

text \<open>C28: One call of \<open>Fetch\<close> always returns and opens or reuses at most three connections (an idle one that was
  closed and gave no answer is not counted); when it
  returns data, that is the complete body (not a truncated prefix) of a response with status 200
  received over an authorised connection, and at most \<open>MaxCiphertextBytes\<close> long.\<close>

theorem Fetch_bounded:
  assumes "fetcher_ok N hosts f" and "Fetch N t locator f = (r, f')"
  shows "length (f_used f') \<le> length (f_used f) + 3 \<and>
     (\<forall>data. r = Inr data \<longrightarrow> length data \<le> MaxCiphertextBytes \<and>
        (\<exists>t' target u resp. authorised_target N hosts target \<and> n_RoundTrip N t' target u = Inr resp \<and>
           r_StatusCode resp = 200 \<and> r_Body resp = data \<and> r_BodyErr resp = None))"
proof (intro conjI allI impI)
  show "length (f_used f') \<le> length (f_used f) + 3" using Fetch_ok [OF assms] by simp
next
  fix data assume r: "r = Inr data"
  then obtain u' f1 resp where d: "client_Do N t 1 u' f1 = (Inr resp, f')" and st: "r_StatusCode resp = 200"
    and data: "data = take (MaxCiphertextBytes + 1) (r_Body resp)" and len: "length data \<le> MaxCiphertextBytes"
    and err: "\<not> (length (r_Body resp) < MaxCiphertextBytes + 1 \<and> r_BodyErr resp \<noteq> None)"
    using assms(2)
    by (auto simp: Fetch_def Let_def not_less split: sum.splits option.splits prod.splits if_splits)
  show "length data \<le> MaxCiphertextBytes" by (rule len)
  from data len have short: "length (r_Body resp) < MaxCiphertextBytes + 1" by simp
  with data err have "r_Body resp = data" "r_BodyErr resp = None" by simp_all
  moreover from client_Do_response [OF d] obtain t' target u''
    where "n_RoundTrip N t' target u'' = Inr resp" "target \<in> set (f_used f')" by blast
  moreover have "\<forall>x \<in> set (f_used f'). authorised_target N hosts x"
    using Fetch_ok [OF assms] by (simp add: fetcher_ok_def)
  ultimately show "\<exists>t' target u resp. authorised_target N hosts target \<and> n_RoundTrip N t' target u = Inr resp \<and>
      r_StatusCode resp = 200 \<and> r_Body resp = data \<and> r_BodyErr resp = None"
    using st by blast
qed

theorem Fetch_bounded_witness:
  "\<exists>t' target u resp. authorised_target demo_net {''gw.example''} target \<and> n_RoundTrip demo_net t' target u = Inr resp \<and>
     r_StatusCode resp = 200 \<and> r_Body resp = [1, 2, 3] \<and> r_BodyErr resp = None"
proof -
  have "ToLower ''GW.example'' = ''gw.example''" by code_simp
  then have "fetcher_ok demo_net {''gw.example''} (NewCiphertextFetcher [''GW.example''])"
    using NewCiphertextFetcher_ok [of demo_net "[''GW.example'']"] by simp
  from Fetch_bounded [OF this demo_fetch] show ?thesis by blast
qed

text \<open>The fetcher is not vacuously safe. When the locator is an https URL of an allowlisted host
  that resolves to public addresses, the gateway accepts the connection and answers 200 with a body
  within the cap, \<open>Fetch\<close> returns exactly that body, over a connection to the first resolved
  address: the address that was checked is the one that is dialled, whatever the resolver answers at
  any other moment.\<close>

theorem Fetch_available:
  assumes "n_Parse N locator = Inr u" and "n_Parse N (u_Text u) = Inr u"
    and "u_Scheme u = ''https''" and "ToLower (u_Hostname u) \<in> f_allowedHosts f"
    and "n_LookupIP N t (ToLower (u_Hostname u)) = Inr (a # ips)" and "a \<noteq> []"
    and "\<forall>x \<in> set (a # ips). \<not> isPrivateOrReserved x"
    and "SplitHostPort (n_CanonicalAddr N u) = Inr (u_Hostname u, port)"
    and "\<not> n_ReuseIdle N t (n_CanonicalAddr N u)"
    and "n_Dial N t (JoinHostPort (ip_String a) port) = None"
    and "n_RoundTrip N t (JoinHostPort (ip_String a) port) u = Inr resp"
    and "r_StatusCode resp = 200" and "length (r_Body resp) \<le> MaxCiphertextBytes" and "r_BodyErr resp = None"
  shows "fst (Fetch N t locator f) = Inr (r_Body resp) \<and>
         f_used (snd (Fetch N t locator f)) = JoinHostPort (ip_String a) port # f_used f"
proof -
  have keep: "pin_loop (Some a) xs = Inr (Some a)" if "\<forall>x \<in> set xs. \<not> isPrivateOrReserved x" for xs
    using that by (induction xs) auto
  let ?f1 = "f\<lparr>f_pinnedIPs := (f_pinnedIPs f)(ToLower (u_Hostname u) \<mapsto> ip_String a)\<rparr>"
  let ?tg = "JoinHostPort (ip_String a) port"
  let ?f2 = "?f1\<lparr>f_used := ?tg # f_used f, f_idle := (f_idle f)(n_CanonicalAddr N u \<mapsto> ?tg)\<rparr>"
  have v: "validateURL N t u f = (None, ?f1)"
    using assms(3-7) by (simp add: validateURL_def Let_def keep)
  have "transport_send N t u ?f1 = (Inr resp, ?f2)"
    using assms(8-11) by (simp add: transport_send_def dialPinned_def Let_def)
  then have "client_Do N t 1 u ?f1 = (Inr resp, ?f2)"
    using assms(12) by (subst client_Do.simps) (simp add: isRedirect_def)
  then show ?thesis
    using assms(1,2,12-14) v by (simp add: Fetch_def Let_def)
qed

theorem Fetch_available_witness:
  "fst (Fetch demo_net 0 demo_locator (NewCiphertextFetcher [''GW.example''])) = Inr [1, 2, 3]"
proof -
  let ?u = "\<lparr>u_Scheme = ''https'', u_Hostname = ''gw.example'', u_Text = demo_locator\<rparr>"
  have eval: "ToLower ''gw.example'' = ''gw.example''" "ToLower ''GW.example'' = ''gw.example''"
    "isPrivateOrReserved [93, 184, 216, 34] = False"
    "SplitHostPort ''gw.example:443'' = Inr (''gw.example'', ''443'')"
    by code_simp+
  have "fst (Fetch demo_net 0 demo_locator (NewCiphertextFetcher [''GW.example''])) =
      Inr (r_Body \<lparr>r_StatusCode = 200, r_Location = ''http://169.254.169.254/'', r_Body = [1, 2, 3], r_BodyErr = None\<rparr>)"
    by (rule Fetch_available [of _ _ ?u _ _ "[93, 184, 216, 34]" "[]" "''443''", THEN conjunct1])
      (simp_all add: demo_net_def NewCiphertextFetcher_def MaxCiphertextBytes_def eval)
  then show ?thesis by simp
qed

section \<open>The address classes\<close>

lemma mask_classes:
  "\<forall>n \<in> set [0..<256]. (((of_nat n :: byte) AND 0xF0 = 16) = (16 \<le> n \<and> n < 32))
      \<and> (((of_nat n :: byte) AND 0xF0 = 0xE0) = (224 \<le> n \<and> n < 240))"
  by code_simp

lemma byte_mask_16: "(b :: byte) AND 0xF0 = 16 \<longleftrightarrow> 16 \<le> unat b \<and> unat b < 32"
  and byte_mask_E0: "(b :: byte) AND 0xF0 = 0xE0 \<longleftrightarrow> 224 \<le> unat b \<and> unat b < 240"
proof -
  have "unat b \<in> set [0..<256]" by simp
  from bspec [OF mask_classes this]
  show "b AND 0xF0 = 16 \<longleftrightarrow> 16 \<le> unat b \<and> unat b < 32"
    and "b AND 0xF0 = 0xE0 \<longleftrightarrow> 224 \<le> unat b \<and> unat b < 240"
    by (simp_all only: unsigned_of_nat_id)
qed

lemma To4_v4: "To4 [a, b, c, d] = Some [a, b, c, d]"
  by (simp add: To4_def)

text \<open>What Go's six predicates cover of IPv4: 10/8, 172.16/12, 192.168/16, 127/8, 169.254/16, 224/4 and 0.0.0.0.\<close>

definition blocked_v4 :: "byte \<Rightarrow> byte \<Rightarrow> byte \<Rightarrow> byte \<Rightarrow> bool" where
  "blocked_v4 a b c d \<longleftrightarrow>
     a = 10 \<or> (a = 172 \<and> 16 \<le> unat b \<and> unat b < 32) \<or> (a = 192 \<and> b = 168) \<or> a = 127
   \<or> (a = 169 \<and> b = 254) \<or> (224 \<le> unat a \<and> unat a < 240) \<or> (a = 0 \<and> b = 0 \<and> c = 0 \<and> d = 0)"

text \<open>The address check blocks exactly these IPv4 networks, and an IPv4 address hidden in its IPv4-mapped IPv6 form is
  classified exactly as the plain address, so the 16-byte form is no way around it.\<close>

theorem isPrivateOrReserved_v4:
  "isPrivateOrReserved [a, b, c, d] = blocked_v4 a b c d \<and>
   isPrivateOrReserved (replicate 10 0 @ [0xFF, 0xFF, a, b, c, d]) = blocked_v4 a b c d"
proof -
  have "(replicate 10 0 @ [0xFF, 0xFF, a, b, c, d]) ! 10 \<noteq> (replicate 16 0 :: byte list) ! 10"
    by (simp add: nth_append)
  then have ne: "[a, b, c, d] \<noteq> replicate 16 0" "replicate 10 0 @ [0xFF, 0xFF, a, b, c, d] \<noteq> (replicate 16 0 :: byte list)"
    by (auto simp: numeral_eq_Suc)
  have m: "To4 (replicate 10 0 @ [0xFF, 0xFF, a, b, c, d]) = Some [a, b, c, d]"
    by (simp add: To4_def numeral_eq_Suc)
  have "a = 224 \<Longrightarrow> 224 \<le> unat a \<and> unat a < 240" by simp
  then show ?thesis
    unfolding isPrivateOrReserved_def IsPrivate_def IsLoopback_def IsLinkLocalUnicast_def
      IsLinkLocalMulticast_def IsUnspecified_def IsMulticast_def m To4_v4 blocked_v4_def
    using ne by (auto simp: byte_mask_16 byte_mask_E0)
qed

text \<open>So networks that are reserved, but that no predicate covers, are not blocked: 240/4 with the broadcast address,
  100.64/10 of carriers, 198.18/15 of benchmarks, 192.0.2/24 of examples, and 0/8 but for its first address.\<close>

theorem reserved_networks_pass:
  assumes "240 \<le> unat a \<or> (a = 100 \<and> 64 \<le> unat b \<and> unat b < 128) \<or> (a = 198 \<and> (b = 18 \<or> b = 19)) \<or>
    (a = 192 \<and> b = 0 \<and> c = 2) \<or> (a = 0 \<and> b \<noteq> 0)"
  shows "\<not> isPrivateOrReserved [a, b, c, d]"
proof -
  have "240 \<le> unat a \<Longrightarrow> a \<noteq> 10 \<and> a \<noteq> 172 \<and> a \<noteq> 192 \<and> a \<noteq> 127 \<and> a \<noteq> 169 \<and> a \<noteq> 0" by auto
  with assms show ?thesis unfolding isPrivateOrReserved_v4 [THEN conjunct1] blocked_v4_def by auto
qed

end
