(* ===== verification/Decrypt.thy ===== *)
theory Decrypt
  imports Fetcher
begin

text \<open>
  The local decryption client, \<open>go/internal/verifier/decrypt.go\<close>: ciphertext and plaintext travel
  as base64 inside JSON to the node's \<open>/decrypt\<close> endpoint. The node is the environment
  (\<open>dn_Post\<close>), as is \<open>json.Unmarshal\<close> into the one-field response struct. The input offset that the
  base64 package adds to its error message is left out.
\<close>

record decrypt_env =
  dn_Post :: "nat \<Rightarrow> string \<Rightarrow> bytes \<Rightarrow> string + response"
  dn_Unmarshal :: "bytes \<Rightarrow> string + string"

record NodeDecrypter =
  nd_baseURL :: string

definition NewNodeDecrypter :: "int \<Rightarrow> NodeDecrypter" where
  "NewNodeDecrypter signPort = \<lparr>nd_baseURL = ''http://localhost:'' @ dec_int signPort\<rparr>"

text \<open>\<open>json.Marshal(decryptRequest{...})\<close>\<close>

definition decryptRequest_json :: "string \<Rightarrow> string" where
  "decryptRequest_json encryptedMessage =
     json_object [(''encryptedMessage'', json_string encryptedMessage)]"

definition Decrypt :: "decrypt_env \<Rightarrow> nat \<Rightarrow> NodeDecrypter \<Rightarrow> bytes \<Rightarrow> string + bytes" where
  "Decrypt E t d ciphertext =
     (let reqBody = string_bytes (decryptRequest_json (base64_EncodeToString ciphertext)) in
      case dn_Post E t (nd_baseURL d @ ''/decrypt'') reqBody of
        Inl e \<Rightarrow> Inl (''calling local node /decrypt: '' @ e)
      | Inr resp \<Rightarrow>
        (let body = take (2 ^ 20) (r_Body resp) in
         if length (r_Body resp) < 2 ^ 20 \<and> r_BodyErr resp \<noteq> None then
           Inl (''reading decrypt response: '' @ the (r_BodyErr resp))
         else if r_StatusCode resp \<noteq> 200 then
           Inl (''local node /decrypt returned status '' @ dec_int (r_StatusCode resp))
         else case dn_Unmarshal E body of
           Inl e \<Rightarrow> Inl (''decoding decrypt response: '' @ e)
         | Inr decryptedMessage \<Rightarrow>
           (case base64_DecodeString decryptedMessage of
              None \<Rightarrow> Inl ''base64-decoding decrypted message''
            | Some plaintext \<Rightarrow> Inr plaintext)))"

section \<open>The request determines the ciphertext\<close>

lemma b64_char_plain: "n < 64 \<Longrightarrow> json_plain (b64_char n)"
proof -
  assume n: "n < 64"
  have "list_all (\<lambda>n. json_plain (b64_char n)) [0..<64]" by code_simp
  with n show ?thesis by (simp only: list_all_iff set_upt atLeastLessThan_iff) simp
qed

lemma b64_encode_plain: "list_all json_plain (b64_encode bs)"
proof -
  have "json_plain (CHR ''='')" by code_simp
  then show ?thesis
    by (induction bs rule: b64_encode.induct) (simp_all add: Let_def b64_props b64_char_plain)
qed

text \<open>C38: The wire format loses nothing. Requests for different ciphertexts have different bodies, and
  when the node answers 200 with a message that is the base64 form of some plaintext, within the read
  limit, \<open>Decrypt\<close> returns exactly that plaintext.\<close>

theorem Decrypt_wire_exact:
  "(string_bytes (decryptRequest_json (base64_EncodeToString c)) =
      string_bytes (decryptRequest_json (base64_EncodeToString c')) \<longleftrightarrow> c = c') \<and>
   (dn_Post E t (nd_baseURL d @ ''/decrypt'') (string_bytes (decryptRequest_json (base64_EncodeToString c))) = Inr resp \<and>
    r_StatusCode resp = 200 \<and> length (r_Body resp) < 2 ^ 20 \<and> r_BodyErr resp = None \<and>
    dn_Unmarshal E (r_Body resp) = Inr (base64_EncodeToString plaintext) \<longrightarrow>
      Decrypt E t d c = Inr plaintext)"
proof -
  have "json_string (base64_EncodeToString x) = [CHR 0x22] @ base64_EncodeToString x @ [CHR 0x22]" for x
    by (simp add: json_string_def base64_EncodeToString_def json_chars_plain b64_encode_plain)
  moreover have "base64_EncodeToString c = base64_EncodeToString c' \<longleftrightarrow> c = c'"
    by (metis base64_roundtrip option.inject)
  ultimately show ?thesis
    by (auto simp: decryptRequest_json_def json_object_def Decrypt_def Let_def base64_roundtrip)
qed

definition demo_decrypt :: decrypt_env where
  "demo_decrypt =
     \<lparr>dn_Post = (\<lambda>t u b. Inr \<lparr>r_StatusCode = 200, r_Location = [], r_Body = [], r_BodyErr = None\<rparr>),
      dn_Unmarshal = (\<lambda>b. Inr ''AAE='')\<rparr>"

theorem Decrypt_wire_exact_witness:
  "Decrypt demo_decrypt 0 (NewNodeDecrypter 9000) [0, 0, 1] = Inr [0, 1]"
proof -
  have "base64_EncodeToString [0, 1] = ''AAE=''" by code_simp
  then show ?thesis
    using Decrypt_wire_exact [of "[0, 0, 1]" "[]" demo_decrypt 0 "NewNodeDecrypter 9000" _ "[0, 1]"]
    by (simp add: demo_decrypt_def)
qed

end
