(* ===== verification/Verifier.thy ===== *)
theory Verifier
  imports Exec Fetcher Decrypt
begin

text \<open>
  The verification flow, \<open>go/internal/verifier/verifier.go\<close>: establish the identity of the
  dispatched attempt against the chain, obtain and check the committed test bundle, run the selected
  vectors, and issue a verdict. \<open>Verify\<close> is split where the code's own comment splits it: a first
  phase whose problems are handler failures (no verdict at all), and a second phase whose problems
  become an inconclusive verdict.

  The environment \<open>verify_env\<close> holds the node, the clock, the contract reader, the network, the
  decrypting node and \<open>json.Unmarshal\<close> of a bundle. Every call happens at its own tick.
\<close>

section \<open>Configuration and environment\<close>

record VerifierConfig =
  vc_ChainID :: u64
  vc_RPCURL :: string
  vc_EscrowAddress :: address
  vc_RandomNumberV2Addr :: address
  vc_SignPort :: int
  vc_CiphertextHosts :: "string list"

record verify_env =
  ve_lib :: ext_lib
  ve_eth :: eth_client
  ve_GetJob :: "tick \<Rightarrow> int \<Rightarrow> string + EscrowJob"
  ve_now :: "tick \<Rightarrow> int"
  ve_net :: net_env
  ve_decrypt :: decrypt_env
  ve_Unmarshal :: "bytes \<Rightarrow> WorkProofBundle option"

text \<open>\<open>New\<close>: dial the node, bind the contract, start with a fresh fetcher. The two third-party calls
  may fail.\<close>

definition verifier_New ::
  "(string \<Rightarrow> string option) \<Rightarrow> (address \<Rightarrow> string option) \<Rightarrow> VerifierConfig \<Rightarrow>
   string + (VerifierConfig \<times> CiphertextFetcher)" where
  "verifier_New dial bind_escrow cfg =
     (case dial (vc_RPCURL cfg) of
        Some e \<Rightarrow> Inl (''dialing chain RPC: '' @ e)
      | None \<Rightarrow>
        (case bind_escrow (vc_EscrowAddress cfg) of
           Some e \<Rightarrow> Inl (''binding escrow contract: '' @ e)
         | None \<Rightarrow> Inr (cfg, NewCiphertextFetcher (vc_CiphertextHosts cfg))))"

section \<open>Helpers\<close>

text \<open>\<open>%v\<close> of a \<open>*big.Int\<close> and \<open>%x\<close> of a \<open>[32]byte\<close>.\<close>

fun big_text :: "int option \<Rightarrow> string" where
  "big_text None = ''<nil>''"
| "big_text (Some n) = dec_int n"

definition hash_text :: "bytes32 \<Rightarrow> string" where
  "hash_text h = hex_EncodeToString (bytes_of_bytes32 h)"

definition realEngineVersionHash :: "ext_lib \<Rightarrow> bytes32" where
  "realEngineVersionHash L = keccak256 L (string_bytes WorkProofEngineVersion)"

fun chainIDMatches :: "int option \<Rightarrow> u64 \<Rightarrow> bool" where
  "chainIDMatches None expected = False"
| "chainIDMatches (Some actual) expected = (actual \<ge> 0 \<and> actual = uint expected)"

definition verdictIdentityFrom :: "WorkProofInstruction \<Rightarrow> bytes32 \<Rightarrow> VerdictIdentity" where
  "verdictIdentityFrom instr instructionId =
     \<lparr>vi_SchemaVersion = 1, vi_EscrowAddress = wi_EscrowAddress instr, vi_ChainId = wi_ChainId instr,
      vi_JobId = wi_JobId instr, vi_Attempt = wi_Attempt instr, vi_InstructionId = instructionId,
      vi_SpecHash = wi_SpecHash instr, vi_PrivateBundleHash = wi_PrivateBundleHash instr,
      vi_ArtifactAddress = wi_ArtifactAddress instr, vi_ArtifactBlock = wi_ArtifactBlock instr\<rparr>"

text \<open>\<open>x.Cmp(y) != 0\<close>: comparing with a nil \<open>*big.Int\<close> panics.\<close>

definition check_cmp :: "int \<Rightarrow> int option \<Rightarrow> string \<Rightarrow> (string, unit) res" where
  "check_cmp x y msg = (case y of None \<Rightarrow> Panic | Some n \<Rightarrow> if x \<noteq> n then Err msg else Ok ())"

definition check_eq :: "bytes32 \<Rightarrow> bytes32 \<Rightarrow> string \<Rightarrow> (string, unit) res" where
  "check_eq x y msg = (if x \<noteq> y then Err msg else Ok ())"

definition crossCheckInstruction :: "WorkProofInstruction \<Rightarrow> EscrowJob \<Rightarrow> (string, unit) res" where
  "crossCheckInstruction instr job =
     (case first_err
        [(ej_settled job, ''job already settled''),
         (ej_state job \<noteq> StateVerifying, ''job state '' @ dec_nat (unat (ej_state job)) @ '' is not Verifying''),
         (jt_specHash (ej_terms job) \<noteq> wi_SpecHash instr, ''specHash mismatch''),
         (jt_privateBundleHash (ej_terms job) \<noteq> wi_PrivateBundleHash instr, ''privateBundleHash mismatch''),
         (jt_ciphertextHash (ej_terms job) \<noteq> wi_CiphertextHash instr, ''ciphertextHash mismatch''),
         (jt_engineVersionHash (ej_terms job) \<noteq> wi_EngineVersionHash instr, ''engineVersionHash mismatch''),
         (jt_graceEnds (ej_terms job) \<noteq> wi_ExpiresAt instr, ''expiresAt mismatch''),
         (at_attempt (ej_current job) \<noteq> wi_Attempt instr,
          ''attempt mismatch: on-chain '' @ dec_nat (unat (at_attempt (ej_current job))) @
          '', instruction '' @ dec_nat (unat (wi_Attempt instr))),
         (at_artifactAddress (ej_current job) \<noteq> wi_ArtifactAddress instr, ''artifactAddress mismatch'')]
      of Some e \<Rightarrow> Err e
       | None \<Rightarrow>
         res_bind (check_cmp (at_artifactBlock (ej_current job)) (wi_ArtifactBlock instr) ''artifactBlock mismatch'') (\<lambda>_.
         res_bind (check_eq (at_artifactCodeHash (ej_current job)) (wi_ArtifactCodeHash instr) ''artifactCodeHash mismatch'') (\<lambda>_.
         res_bind (check_cmp (at_randomRound (ej_current job)) (wi_RandomRound instr) ''randomRound mismatch'') (\<lambda>_.
         check_eq (at_randomValueHash (ej_current job)) (wi_RandomValueHash instr) ''randomValueHash mismatch''))))"

definition recomputeArtifactCodeHash ::
  "ext_lib \<Rightarrow> eth_client \<Rightarrow> tick \<Rightarrow> ctx \<Rightarrow> address \<Rightarrow> int option \<Rightarrow> string + bytes32" where
  "recomputeArtifactCodeHash L eth t ctx artifact block =
     (case eth_CodeAt eth t ctx artifact block of
        Inl e \<Rightarrow> Inl (error_text e)
      | Inr code \<Rightarrow> Inr (keccak256 L code))"

definition checkBundleSize :: "bytes \<Rightarrow> string option" where
  "checkBundleSize plaintext =
     (if length plaintext > MaxBundleBytes
      then Some (''decrypted bundle exceeds max size of '' @ dec_nat MaxBundleBytes @ '' bytes'') else None)"

definition checkPublicSpecHash :: "ext_lib \<Rightarrow> string \<Rightarrow> bytes32 \<Rightarrow> string option" where
  "checkPublicSpecHash L bundlePublicSpecHash instrSpecHash =
     (case hexutil_Decode L bundlePublicSpecHash of
        None \<Rightarrow> Some ''bundle publicSpecHash malformed''
      | Some decoded \<Rightarrow>
        if length decoded \<noteq> 32 then Some ''bundle publicSpecHash malformed''
        else if bytes32_of_bytes decoded \<noteq> instrSpecHash
        then Some ''bundle publicSpecHash does not match the job's committed specHash'' else None)"

fun count_from :: "u32 \<Rightarrow> VectorOutcome list \<Rightarrow> u32" where
  "count_from n [] = n"
| "count_from n (oc # os) = count_from (if o_Passed oc then n + 1 else n) os"

definition countPassed :: "VectorOutcome list \<Rightarrow> u32" where
  "countPassed outcomes = count_from 0 outcomes"

text \<open>\<open>FillBytes\<close> panics on a nil number and when the absolute value needs more than 32 bytes.\<close>

definition keccak256AbiEncodedUint :: "ext_lib \<Rightarrow> int option \<Rightarrow> (string, bytes32) res" where
  "keccak256AbiEncodedUint L n =
     (case n of
        None \<Rightarrow> Panic
      | Some i \<Rightarrow> if \<bar>i\<bar> \<ge> 2 ^ 256 then Panic else Ok (keccak256 L (be_bytes 32 (nat \<bar>i\<bar>))))"

section \<open>Canonical JSON of bundles and reports\<close>

text \<open>A string field with \<open>omitempty\<close>.\<close>

definition opt_field :: "string \<Rightarrow> string \<Rightarrow> (string \<times> string) list" where
  "opt_field k v = (if v = [] then [] else [(k, json_string v)])"

definition opt_int_field :: "string \<Rightarrow> int \<Rightarrow> (string \<times> string) list" where
  "opt_int_field k n = (if n = 0 then [] else [(k, dec_int n)])"

definition vector_json :: "Vector \<Rightarrow> string" where
  "vector_json v = json_object
     ([(''id'', json_string (vec_ID v)), (''type'', json_string (vec_Type v))] @
      opt_field ''calldata'' (vec_Calldata v) @ opt_field ''caller'' (vec_Caller v) @
      opt_field ''value'' (vec_Value v) @ opt_field ''expectedReturn'' (vec_ExpectedReturn v) @
      opt_field ''expectedRevertSelector'' (vec_ExpectedRevertSelector v) @
      opt_field ''expectedRevertPattern'' (vec_ExpectedRevertPattern v) @
      opt_field ''interfaceId'' (vec_InterfaceID v) @
      (case vec_Expected v of None \<Rightarrow> [] | Some b \<Rightarrow> [(''expected'', json_bool b)]) @
      opt_int_field ''minBytes'' (vec_MinBytes v) @ opt_int_field ''maxBytes'' (vec_MaxBytes v) @
      opt_field ''slot'' (vec_Slot v) @ opt_field ''expectedValue'' (vec_ExpectedValue v))"

definition bundle_json :: "WorkProofBundle \<Rightarrow> string" where
  "bundle_json b = json_object
     [(''formatVersion'', dec_int (b_FormatVersion b)),
      (''templateId'', json_string (b_TemplateID b)),
      (''templateVersion'', json_string (b_TemplateVersion b)),
      (''targetChainId'', dec_int (b_TargetChainID b)),
      (''publicSpecHash'', json_string (b_PublicSpecHash b)),
      (''vectorCount'', dec_int (b_VectorCount b)),
      (''selectionCount'', dec_int (b_SelectionCount b)),
      (''gasLimitPerCall'', dec_int (b_GasLimitPerCall b)),
      (''timeoutMsPerCall'', dec_int (b_TimeoutMsPerCall b)),
      (''maxResponseBytes'', dec_int (b_MaxResponseBytes b)),
      (''vectors'', json_array (map vector_json (b_Vectors b)))]"

definition CanonicalizeAndHash :: "ext_lib \<Rightarrow> WorkProofBundle \<Rightarrow> string + (bytes \<times> bytes32)" where
  "CanonicalizeAndHash L b =
     (case jcs_Transform L (string_bytes (bundle_json b)) of
        Inl e \<Rightarrow> Inl (''JCS canonicalization: '' @ e)
      | Inr canonical \<Rightarrow> Inr (canonical, keccak256 L canonical))"

record PublicVectorResult =
  pv_ID :: string
  pv_Passed :: bool
  pv_Skipped :: bool

definition public_result :: "VectorOutcome \<Rightarrow> PublicVectorResult" where
  "public_result oc = \<lparr>pv_ID = o_ID oc, pv_Passed = o_Passed oc, pv_Skipped = o_Skipped oc\<rparr>"

definition PublicReport_json :: "PublicVectorResult list \<Rightarrow> string" where
  "PublicReport_json vs = json_object [(''vectors'', json_array (map (\<lambda>p. json_object
     [(''id'', json_string (pv_ID p)), (''passed'', json_bool (pv_Passed p)),
      (''skipped'', json_bool (pv_Skipped p))]) vs))]"

definition reportHashFor :: "ext_lib \<Rightarrow> VectorOutcome list \<Rightarrow> string + bytes32" where
  "reportHashFor L outcomes =
     (case jcs_Transform L (string_bytes (PublicReport_json (map public_result outcomes))) of
        Inl e \<Rightarrow> Inl e
      | Inr canonical \<Rightarrow> Inr (keccak256 L canonical))"

section \<open>The bundle\<close>

definition ciphertext_locator :: "string \<Rightarrow> bytes32 \<Rightarrow> string" where
  "ciphertext_locator host h = ''https://'' @ host @ ''/'' @ hex_EncodeToString (bytes_of_bytes32 h)"

text \<open>The checks after decryption, in their order.\<close>

definition check_plaintext :: "verify_env \<Rightarrow> WorkProofInstruction \<Rightarrow> bytes \<Rightarrow> string + WorkProofBundle" where
  "check_plaintext E instr plaintext =
     (case checkBundleSize plaintext of
        Some e \<Rightarrow> Inl e
      | None \<Rightarrow>
        (case ve_Unmarshal E plaintext of
           None \<Rightarrow> Inl ''bundle is not valid JSON''
         | Some bundle \<Rightarrow>
           (case Validate bundle of
              Some e \<Rightarrow> Inl (''bundle failed schema validation: '' @ bundle_error_text e)
            | None \<Rightarrow>
              (case checkPublicSpecHash (ve_lib E) (b_PublicSpecHash bundle) (wi_SpecHash instr) of
                 Some e \<Rightarrow> Inl e
               | None \<Rightarrow>
                 (case CanonicalizeAndHash (ve_lib E) bundle of
                    Inl e \<Rightarrow> Inl (''canonicalizing bundle: '' @ e)
                  | Inr (_, h) \<Rightarrow>
                    if h \<noteq> wi_PrivateBundleHash instr
                    then Inl ''canonicalized bundle does not match committed privateBundleHash''
                    else Inr bundle)))))"

definition fetchAndDecryptBundle ::
  "VerifierConfig \<Rightarrow> verify_env \<Rightarrow> tick \<Rightarrow> WorkProofInstruction \<Rightarrow> CiphertextFetcher \<Rightarrow>
   (string + WorkProofBundle) \<times> CiphertextFetcher" where
  "fetchAndDecryptBundle cfg E t instr f =
     (case vc_CiphertextHosts cfg of
        [] \<Rightarrow> (Inl ''no ciphertext gateway configured'', f)
      | host # _ \<Rightarrow>
        (case Fetch (ve_net E) t (ciphertext_locator host (wi_CiphertextHash instr)) f of
           (Inl e, f1) \<Rightarrow> (Inl (''fetching ciphertext: '' @ e), f1)
         | (Inr ciphertext, f1) \<Rightarrow>
           if keccak256 (ve_lib E) ciphertext \<noteq> wi_CiphertextHash instr
           then (Inl ''fetched ciphertext does not match committed ciphertextHash'', f1)
           else
             (case Decrypt (ve_decrypt E) t (NewNodeDecrypter (vc_SignPort cfg)) ciphertext of
                Inl e \<Rightarrow> (Inl (''decrypting bundle: '' @ e), f1)
              | Inr plaintext \<Rightarrow> (check_plaintext E instr plaintext, f1))))"

section \<open>Verify\<close>

definition inconclusiveVerdict ::
  "verify_env \<Rightarrow> tick \<Rightarrow> WorkProofInstruction \<Rightarrow> VerdictIdentity \<Rightarrow> string \<Rightarrow> (string, VerdictV1) res" where
  "inconclusiveVerdict E t instr identity detail =
     (case reportHashFor (ve_lib E)
             [\<lparr>o_ID = ''infrastructure'', o_Passed = False, o_Skipped = True, o_Detail = detail\<rparr>] of
        Inl e \<Rightarrow> Err (''building inconclusive report: '' @ e)
      | Inr reportHash \<Rightarrow>
        Ok \<lparr>v1_Id = identity,
            v1_Result =
              \<lparr>vo_ArtifactCodeHash = wi_ArtifactCodeHash instr, vo_RandomRound = wi_RandomRound instr,
               vo_RandomValueHash = wi_RandomValueHash instr,
               vo_EngineVersionHash = realEngineVersionHash (ve_lib E), vo_Outcome = OutcomeInconclusive,
               vo_PassedCount = 0, vo_ExecutedCount = 1, vo_ReportHash = reportHash,
               vo_IssuedAt = of_int (ve_now E t), vo_ExpiresAt = wi_ExpiresAt instr\<rparr>\<rparr>)"

text \<open>The loop over the selected vectors.\<close>

fun run_selected ::
  "(tick \<Rightarrow> Vector \<Rightarrow> (string, VectorOutcome) res) \<Rightarrow> tick \<Rightarrow> Vector list \<Rightarrow> nat list \<Rightarrow>
   (string, VectorOutcome list) res" where
  "run_selected exec t vs [] = Ok []"
| "run_selected exec t vs (idx # rest) =
     (if idx < length vs then
        res_bind (exec t (vs ! idx)) (\<lambda>oc. res_bind (run_selected exec (Suc t) vs rest) (\<lambda>os. Ok (oc # os)))
      else Panic)"

text \<open>\<open>allPassed\<close> and \<open>anySkipped\<close>, updated per outcome.\<close>

fun outcome_flags :: "bool \<times> bool \<Rightarrow> VectorOutcome list \<Rightarrow> bool \<times> bool" where
  "outcome_flags (allPassed, anySkipped) [] = (allPassed, anySkipped)"
| "outcome_flags (allPassed, anySkipped) (oc # os) =
     outcome_flags (if o_Skipped oc then (allPassed, True)
                    else if \<not> o_Passed oc then (False, anySkipped) else (allPassed, anySkipped)) os"

definition overall_outcome :: "VectorOutcome list \<Rightarrow> u8" where
  "overall_outcome outcomes =
     (let (allPassed, anySkipped) = outcome_flags (True, False) outcomes in
      if anySkipped then OutcomeInconclusive else if \<not> allPassed then OutcomeFail else OutcomePass)"

text \<open>First phase: everything up to the construction of the identity. The result is the random
  number and the time read.\<close>

definition verify_identity ::
  "VerifierConfig \<Rightarrow> verify_env \<Rightarrow> tick \<Rightarrow> ctx \<Rightarrow> bytes32 \<Rightarrow> WorkProofInstruction \<Rightarrow>
   (string, int option \<times> u64) res" where
  "verify_identity cfg E t ctx instructionId instr =
     (let L = ve_lib E in
      if \<not> chainIDMatches (wi_ChainId instr) (vc_ChainID cfg) then
        Err (''instruction chainId '' @ big_text (wi_ChainId instr) @ '' does not match configured chain '' @
             dec_nat (unat (vc_ChainID cfg)))
      else if wi_EscrowAddress instr \<noteq> vc_EscrowAddress cfg then
        Err (''instruction escrowAddress '' @ Address_String L (wi_EscrowAddress instr) @
             '' does not match configured escrow '' @ Address_String L (vc_EscrowAddress cfg))
      else case wi_JobId instr of
        None \<Rightarrow> Err ''instruction missing jobId''
      | Some jobId \<Rightarrow>
        if wi_EngineVersionHash instr \<noteq> realEngineVersionHash L then
          Err (''instruction engineVersionHash '' @ hash_text (wi_EngineVersionHash instr) @
               '' does not match this verifier's real running version '' @ hash_text (realEngineVersionHash L))
        else case ve_GetJob E t jobId of
          Inl e \<Rightarrow> Err (''reading on-chain job state: '' @ e)
        | Inr job \<Rightarrow>
          (case crossCheckInstruction instr job of
             Panic \<Rightarrow> Panic
           | Err e \<Rightarrow> Err (''instruction does not match on-chain job state: '' @ e)
           | Ok _ \<Rightarrow>
             (let now = of_int (ve_now E (t + 1)) :: u64 in
              if now > at_timeoutAt (ej_current job) \<or> now > jt_graceEnds (ej_terms job) then
                Err ''instruction deadline has already passed''
              else if instructionId \<noteq> at_instructionId (ej_current job) then
                Err (''actionResult id '' @ hash_text instructionId @
                     '' does not match on-chain dispatched instructionId '' @
                     hash_text (at_instructionId (ej_current job)))
              else case recomputeArtifactCodeHash L (ve_eth E) (t + 2) ctx (wi_ArtifactAddress instr)
                          (wi_ArtifactBlock instr) of
                Inl e \<Rightarrow> Err (''reading artifact code: '' @ e)
              | Inr recomputed \<Rightarrow>
                if recomputed \<noteq> wi_ArtifactCodeHash instr then
                  Err ''recomputed artifact code hash does not match instruction-committed value''
                else
                  (case FetchRandomNumber L (ve_eth E) (t + 3) ctx (vc_RandomNumberV2Addr cfg)
                          (wi_RandomRound instr) of
                     Panic \<Rightarrow> Panic
                   | Err e \<Rightarrow> Err (''reading historical random number: '' @ e)
                   | Ok (randomNumber, isSecure) \<Rightarrow>
                     if \<not> isSecure then
                       Err (''random round '' @ big_text (wi_RandomRound instr) @
                            '' is not secure -- lockRandomness should never have locked this round'')
                     else
                       (case keccak256AbiEncodedUint L randomNumber of
                          Panic \<Rightarrow> Panic
                        | Err e \<Rightarrow> Err e
                        | Ok h \<Rightarrow>
                          if h \<noteq> wi_RandomValueHash instr then
                            Err ''recomputed randomValueHash does not match instruction-committed value''
                          else Ok (randomNumber, now))))))"

text \<open>Second phase: selection, execution and the verdict for a checked bundle.\<close>

definition verify_run ::
  "verify_env \<Rightarrow> tick \<Rightarrow> ctx \<Rightarrow> WorkProofInstruction \<Rightarrow> VerdictIdentity \<Rightarrow> int option \<Rightarrow> u64 \<Rightarrow>
   WorkProofBundle \<Rightarrow> (string, VerdictV1) res" where
  "verify_run E t ctx instr identity randomNumber now bundle =
     (let L = ve_lib E in
      case TestSeed L randomNumber (wi_EscrowAddress instr) (wi_JobId instr) (wi_Attempt instr)
             (wi_SpecHash instr) (wi_ArtifactCodeHash instr) of
        Panic \<Rightarrow> Panic
      | Err e \<Rightarrow> inconclusiveVerdict E (t + 8) instr identity (''deriving test seed: '' @ e)
      | Ok seed \<Rightarrow>
        (case SelectVectors (keccak256 L) seed (int (length (b_Vectors bundle))) (b_SelectionCount bundle) of
           Panic \<Rightarrow> Panic
         | Err _ \<Rightarrow> Panic
         | Ok selected \<Rightarrow>
           (case run_selected
                   (\<lambda>tk v. ExecuteVector L (ve_eth E) tk (b_TimeoutMsPerCall bundle # ctx)
                             (wi_ArtifactAddress instr) (wi_ArtifactBlock instr)
                             (b_GasLimitPerCall bundle) (b_MaxResponseBytes bundle) v)
                   (t + 8) (b_Vectors bundle) selected of
              Panic \<Rightarrow> Panic
            | Err e \<Rightarrow> Err e
            | Ok outcomes \<Rightarrow>
              (case reportHashFor L outcomes of
                 Inl e \<Rightarrow> inconclusiveVerdict E (t + 8) instr identity (''building report: '' @ e)
               | Inr reportHash \<Rightarrow>
                 Ok \<lparr>v1_Id = identity,
                     v1_Result =
                       \<lparr>vo_ArtifactCodeHash = wi_ArtifactCodeHash instr,
                        vo_RandomRound = wi_RandomRound instr,
                        vo_RandomValueHash = wi_RandomValueHash instr,
                        vo_EngineVersionHash = realEngineVersionHash L,
                        vo_Outcome = overall_outcome outcomes,
                        vo_PassedCount = countPassed outcomes,
                        vo_ExecutedCount = of_nat (length outcomes), vo_ReportHash = reportHash,
                        vo_IssuedAt = now, vo_ExpiresAt = wi_ExpiresAt instr\<rparr>\<rparr>))))"

definition Verify ::
  "VerifierConfig \<Rightarrow> verify_env \<Rightarrow> tick \<Rightarrow> ctx \<Rightarrow> bytes32 \<Rightarrow> WorkProofInstruction \<Rightarrow> CiphertextFetcher \<Rightarrow>
   (string, VerdictV1) res \<times> CiphertextFetcher" where
  "Verify cfg E t ctx0 instructionId instr f =
     (let ctx = AttemptTotalTimeout # ctx0 in
      case verify_identity cfg E t ctx instructionId instr of
        Panic \<Rightarrow> (Panic, f)
      | Err e \<Rightarrow> (Err e, f)
      | Ok (randomNumber, now) \<Rightarrow>
        (let identity = verdictIdentityFrom instr instructionId in
         case fetchAndDecryptBundle cfg E (t + 4) instr f of
           (Inl e, f1) \<Rightarrow> (inconclusiveVerdict E (t + 8) instr identity (''bundle: '' @ e), f1)
         | (Inr bundle, f1) \<Rightarrow> (verify_run E t ctx instr identity randomNumber now bundle, f1)))"

section \<open>The loop and its summary\<close>

lemma outcome_flags_eq:
  "outcome_flags (a, s) os =
     (a \<and> (\<forall>oc \<in> set os. o_Skipped oc \<or> o_Passed oc), s \<or> (\<exists>oc \<in> set os. o_Skipped oc))"
  by (induction os arbitrary: a s) auto

lemma outcome_codes_distinct [simp]:
  "OutcomePass \<noteq> OutcomeFail" "OutcomePass \<noteq> OutcomeInconclusive" "OutcomeFail \<noteq> OutcomeInconclusive"
  "OutcomeFail \<noteq> OutcomePass" "OutcomeInconclusive \<noteq> OutcomePass" "OutcomeInconclusive \<noteq> OutcomeFail"
  by (simp_all add: OutcomePass_def OutcomeFail_def OutcomeInconclusive_def)

lemma overall_outcome_iff:
  "overall_outcome os = OutcomePass \<longleftrightarrow> (\<forall>oc \<in> set os. \<not> o_Skipped oc \<and> o_Passed oc)"
  "overall_outcome os = OutcomeFail \<longleftrightarrow>
     (\<forall>oc \<in> set os. \<not> o_Skipped oc) \<and> (\<exists>oc \<in> set os. \<not> o_Passed oc)"
  "overall_outcome os = OutcomeInconclusive \<longleftrightarrow> (\<exists>oc \<in> set os. o_Skipped oc)"
  by (auto simp: overall_outcome_def outcome_flags_eq)

lemma count_from_eq: "count_from n os = n + of_nat (length (filter o_Passed os))"
  by (induction os arbitrary: n) simp_all

lemma countPassed_eq: "countPassed os = of_nat (length (filter o_Passed os))"
  by (simp add: countPassed_def count_from_eq)

lemma run_selected_Ok_iff:
  "run_selected exec t vs sel = Ok os \<longleftrightarrow>
     length os = length sel \<and>
     (\<forall>k < length sel. sel ! k < length vs \<and> exec (t + k) (vs ! (sel ! k)) = Ok (os ! k))"
proof (induction sel arbitrary: t os)
  case Nil
  then show ?case by auto
next
  case (Cons i sel)
  show ?case
  proof (cases os)
    case Nil
    then show ?thesis by (auto simp: res_simps)
  next
    case (Cons oc os')
    have "(\<forall>k < length (i # sel). P k) \<longleftrightarrow> P 0 \<and> (\<forall>k < length sel. P (Suc k))" for P
      by (simp add: All_less_Suc2)
    with Cons Cons.IH [of "Suc t" os'] show ?thesis
      by (auto simp: res_simps simp del: length_Cons)
  qed
qed

context vector_executor
begin

lemma run_no_err: "run_selected exec t vs sel \<noteq> Err e"
  by (induction sel arbitrary: t) (auto simp: res_simps exec_no_err)

lemma run_ids:
  assumes "run_selected exec t vs sel = Ok os"
  shows "map o_ID os = map (\<lambda>i. vec_ID (vs ! i)) sel"
proof (rule nth_equalityI)
  from assms show "length (map o_ID os) = length (map (\<lambda>i. vec_ID (vs ! i)) sel)"
    by (simp add: run_selected_Ok_iff)
  fix k assume "k < length (map o_ID os)"
  with assms have "k < length sel" "k < length os" "exec (t + k) (vs ! (sel ! k)) = Ok (os ! k)"
    by (simp_all add: run_selected_Ok_iff)
  then show "map o_ID os ! k = map (\<lambda>i. vec_ID (vs ! i)) sel ! k"
    using exec_id by simp
qed

lemma run_pass:
  assumes "run_selected exec t vs sel = Ok os"
  shows "overall_outcome os = OutcomePass \<longleftrightarrow> (\<forall>oc \<in> set os. o_Passed oc)"
proof -
  have "\<not> o_Skipped oc" if "oc \<in> set os" "o_Passed oc" for oc
    using that assms exec_exclusive by (auto simp: run_selected_Ok_iff in_set_conv_nth)
  then show ?thesis by (auto simp: overall_outcome_iff)
qed

lemma run_total:
  assumes "\<And>t v. exec t v \<noteq> Panic" and "\<forall>i \<in> set sel. i < length vs"
  shows "\<exists>os. run_selected exec t vs sel = Ok os"
  using assms(2)
proof (induction sel arbitrary: t)
  case Nil
  then show ?case by simp
next
  case (Cons i sel)
  then obtain os where "run_selected exec (Suc t) vs sel = Ok os" by fastforce
  moreover obtain oc where "exec t (vs ! i) = Ok oc"
    using assms(1) exec_no_err by (metis res.exhaust)
  ultimately show ?case using Cons.prems by simp
qed

end

section \<open>What each phase establishes\<close>

lemma crossCheckInstruction_Ok:
  "crossCheckInstruction instr job = Ok () \<longleftrightarrow>
     \<not> ej_settled job \<and> ej_state job = StateVerifying \<and>
     jt_specHash (ej_terms job) = wi_SpecHash instr \<and>
     jt_privateBundleHash (ej_terms job) = wi_PrivateBundleHash instr \<and>
     jt_ciphertextHash (ej_terms job) = wi_CiphertextHash instr \<and>
     jt_engineVersionHash (ej_terms job) = wi_EngineVersionHash instr \<and>
     jt_graceEnds (ej_terms job) = wi_ExpiresAt instr \<and>
     at_attempt (ej_current job) = wi_Attempt instr \<and>
     at_artifactAddress (ej_current job) = wi_ArtifactAddress instr \<and>
     wi_ArtifactBlock instr = Some (at_artifactBlock (ej_current job)) \<and>
     at_artifactCodeHash (ej_current job) = wi_ArtifactCodeHash instr \<and>
     wi_RandomRound instr = Some (at_randomRound (ej_current job)) \<and>
     at_randomValueHash (ej_current job) = wi_RandomValueHash instr"
  by (auto simp: crossCheckInstruction_def check_cmp_def check_eq_def res_simps
      split: option.splits if_splits)

text \<open>The conditions under which an attempt's identity counts as established.\<close>

definition identity_established ::
  "VerifierConfig \<Rightarrow> verify_env \<Rightarrow> tick \<Rightarrow> ctx \<Rightarrow> bytes32 \<Rightarrow> WorkProofInstruction \<Rightarrow> EscrowJob \<Rightarrow>
   int option \<Rightarrow> u64 \<Rightarrow> bool" where
  "identity_established cfg E t ctx iid instr job rn now \<longleftrightarrow>
     chainIDMatches (wi_ChainId instr) (vc_ChainID cfg) \<and> wi_EscrowAddress instr = vc_EscrowAddress cfg \<and>
     (\<exists>jobId. wi_JobId instr = Some jobId \<and> ve_GetJob E t jobId = Inr job) \<and>
     wi_EngineVersionHash instr = realEngineVersionHash (ve_lib E) \<and>
     crossCheckInstruction instr job = Ok () \<and> now = of_int (ve_now E (t + 1)) \<and>
     now \<le> at_timeoutAt (ej_current job) \<and> now \<le> jt_graceEnds (ej_terms job) \<and>
     iid = at_instructionId (ej_current job) \<and>
     recomputeArtifactCodeHash (ve_lib E) (ve_eth E) (t + 2) ctx (wi_ArtifactAddress instr)
       (wi_ArtifactBlock instr) = Inr (wi_ArtifactCodeHash instr) \<and>
     FetchRandomNumber (ve_lib E) (ve_eth E) (t + 3) ctx (vc_RandomNumberV2Addr cfg) (wi_RandomRound instr)
       = Ok (rn, True) \<and>
     keccak256AbiEncodedUint (ve_lib E) rn = Ok (wi_RandomValueHash instr)"

lemma verify_identity_Ok:
  "verify_identity cfg E t ctx iid instr = Ok (rn, now) \<longleftrightarrow>
     (\<exists>job. identity_established cfg E t ctx iid instr job rn now)"
  unfolding verify_identity_def identity_established_def
  by (auto simp: Let_def not_less split: option.split sum.split res.split)

text \<open>The bundle the run works on is the committed one: fetched from the configured gateway, hashed,
  decrypted, within the size cap, valid, for the right public specification and with the committed
  canonical hash.\<close>

definition bundle_committed ::
  "VerifierConfig \<Rightarrow> verify_env \<Rightarrow> tick \<Rightarrow> WorkProofInstruction \<Rightarrow> CiphertextFetcher \<Rightarrow> WorkProofBundle \<Rightarrow> bool" where
  "bundle_committed cfg E t instr f b \<longleftrightarrow>
     (\<exists>host rest ciphertext plaintext spec canonical f1.
        vc_CiphertextHosts cfg = host # rest \<and>
        Fetch (ve_net E) t (ciphertext_locator host (wi_CiphertextHash instr)) f = (Inr ciphertext, f1) \<and>
        keccak256 (ve_lib E) ciphertext = wi_CiphertextHash instr \<and>
        Decrypt (ve_decrypt E) t (NewNodeDecrypter (vc_SignPort cfg)) ciphertext = Inr plaintext \<and>
        length plaintext \<le> MaxBundleBytes \<and> ve_Unmarshal E plaintext = Some b \<and> Validate b = None \<and>
        hexutil_Decode (ve_lib E) (b_PublicSpecHash b) = Some spec \<and> length spec = 32 \<and>
        bytes32_of_bytes spec = wi_SpecHash instr \<and>
        jcs_Transform (ve_lib E) (string_bytes (bundle_json b)) = Inr canonical \<and>
        keccak256 (ve_lib E) canonical = wi_PrivateBundleHash instr)"

lemma check_plaintext_Inr:
  "check_plaintext E instr p = Inr b \<longleftrightarrow>
     length p \<le> MaxBundleBytes \<and> ve_Unmarshal E p = Some b \<and> Validate b = None \<and>
     (\<exists>spec. hexutil_Decode (ve_lib E) (b_PublicSpecHash b) = Some spec \<and> length spec = 32 \<and>
        bytes32_of_bytes spec = wi_SpecHash instr) \<and>
     (\<exists>c. jcs_Transform (ve_lib E) (string_bytes (bundle_json b)) = Inr c \<and>
        keccak256 (ve_lib E) c = wi_PrivateBundleHash instr)"
  by (auto simp: check_plaintext_def checkBundleSize_def checkPublicSpecHash_def CanonicalizeAndHash_def
      split: option.splits sum.splits if_splits)

lemma fetchAndDecryptBundle_Inr:
  "fst (fetchAndDecryptBundle cfg E t instr f) = Inr b \<longleftrightarrow> bundle_committed cfg E t instr f b"
  unfolding fetchAndDecryptBundle_def bundle_committed_def
  by (auto simp: check_plaintext_Inr split: list.split sum.split prod.split)

text \<open>A run of the second phase that ends in a verdict of its own (not an inconclusive one for lack of
  a seed or report).\<close>

definition executed_run ::
  "verify_env \<Rightarrow> tick \<Rightarrow> ctx \<Rightarrow> WorkProofInstruction \<Rightarrow> int option \<Rightarrow> WorkProofBundle \<Rightarrow> nat list \<Rightarrow>
   VectorOutcome list \<Rightarrow> bytes32 \<Rightarrow> bool" where
  "executed_run E t ctx instr rn b sel os h \<longleftrightarrow>
     (\<exists>seed. TestSeed (ve_lib E) rn (wi_EscrowAddress instr) (wi_JobId instr) (wi_Attempt instr)
               (wi_SpecHash instr) (wi_ArtifactCodeHash instr) = Ok seed \<and>
        SelectVectors (keccak256 (ve_lib E)) seed (int (length (b_Vectors b))) (b_SelectionCount b) = Ok sel) \<and>
     run_selected
       (\<lambda>tk v. ExecuteVector (ve_lib E) (ve_eth E) tk (b_TimeoutMsPerCall b # ctx)
                 (wi_ArtifactAddress instr) (wi_ArtifactBlock instr)
                 (b_GasLimitPerCall b) (b_MaxResponseBytes b) v)
       (t + 8) (b_Vectors b) sel = Ok os \<and>
     reportHashFor (ve_lib E) os = Inr h"

definition run_verdict ::
  "verify_env \<Rightarrow> WorkProofInstruction \<Rightarrow> VerdictIdentity \<Rightarrow> u64 \<Rightarrow> VectorOutcome list \<Rightarrow> bytes32 \<Rightarrow> VerdictV1" where
  "run_verdict E instr identity now os h =
     \<lparr>v1_Id = identity,
      v1_Result =
        \<lparr>vo_ArtifactCodeHash = wi_ArtifactCodeHash instr, vo_RandomRound = wi_RandomRound instr,
         vo_RandomValueHash = wi_RandomValueHash instr,
         vo_EngineVersionHash = realEngineVersionHash (ve_lib E), vo_Outcome = overall_outcome os,
         vo_PassedCount = countPassed os, vo_ExecutedCount = of_nat (length os), vo_ReportHash = h,
         vo_IssuedAt = now, vo_ExpiresAt = wi_ExpiresAt instr\<rparr>\<rparr>"

lemma verify_run_cases:
  assumes "verify_run E t ctx instr identity rn now b = Ok v"
  obtains (run) sel os h where "executed_run E t ctx instr rn b sel os h"
      "v = run_verdict E instr identity now os h"
    | (inconclusive) d where "inconclusiveVerdict E (t + 8) instr identity d = Ok v"
proof -
  let ?L = "ve_lib E"
  let ?exec = "\<lambda>tk v. ExecuteVector ?L (ve_eth E) tk (b_TimeoutMsPerCall b # ctx) (wi_ArtifactAddress instr)
    (wi_ArtifactBlock instr) (b_GasLimitPerCall b) (b_MaxResponseBytes b) v"
  have step: "verify_run E t ctx instr identity rn now b = Ok v" by (rule assms)
  show thesis
  proof (cases "TestSeed ?L rn (wi_EscrowAddress instr) (wi_JobId instr) (wi_Attempt instr)
      (wi_SpecHash instr) (wi_ArtifactCodeHash instr)")
    case (Err e)
    with step inconclusive show ?thesis by (simp add: verify_run_def Let_def del: append.simps)
  next
    case Panic
    with step show ?thesis by (simp add: verify_run_def Let_def)
  next
    case seed: (Ok seed)
    then obtain sel where sel: "SelectVectors (keccak256 ?L) seed (int (length (b_Vectors b))) (b_SelectionCount b) = Ok sel"
      using step by (simp add: verify_run_def Let_def split: res.splits)
    then obtain os where os: "run_selected ?exec (t + 8) (b_Vectors b) sel = Ok os"
      using step seed by (simp add: verify_run_def Let_def split: res.splits)
    show ?thesis
    proof (cases "reportHashFor ?L os")
      case (Inl e)
      with step seed sel os inconclusive show ?thesis by (simp add: verify_run_def Let_def del: append.simps)
    next
      case (Inr h)
      with seed sel os have "executed_run E t ctx instr rn b sel os h" by (simp add: executed_run_def)
      moreover from Inr step seed sel os have "v = run_verdict E instr identity now os h"
        by (simp add: verify_run_def run_verdict_def Let_def)
      ultimately show ?thesis by (rule run)
    qed
  qed
qed

lemma verify_run_executed:
  assumes "executed_run E t ctx instr rn b sel os h"
  shows "verify_run E t ctx instr identity rn now b = Ok (run_verdict E instr identity now os h)"
  using assms unfolding verify_run_def executed_run_def run_verdict_def by (auto simp: Let_def)

lemma Verify_cases:
  assumes "Verify cfg E t ctx0 iid instr f = (Ok v, f')"
  obtains (run) job rn now b sel os h
    where "identity_established cfg E t (AttemptTotalTimeout # ctx0) iid instr job rn now"
      "bundle_committed cfg E (t + 4) instr f b"
      "executed_run E t (AttemptTotalTimeout # ctx0) instr rn b sel os h"
      "v = run_verdict E instr (verdictIdentityFrom instr iid) now os h"
    | (inconclusive) job rn now d
    where "identity_established cfg E t (AttemptTotalTimeout # ctx0) iid instr job rn now"
      "inconclusiveVerdict E (t + 8) instr (verdictIdentityFrom instr iid) d = Ok v"
proof -
  obtain rn now where i: "verify_identity cfg E t (AttemptTotalTimeout # ctx0) iid instr = Ok (rn, now)"
    using assms by (auto simp: Verify_def Let_def split: res.splits)
  then obtain job where job: "identity_established cfg E t (AttemptTotalTimeout # ctx0) iid instr job rn now"
    using verify_identity_Ok by blast
  obtain r f1 where fd: "fetchAndDecryptBundle cfg E (t + 4) instr f = (r, f1)" by fastforce
  show thesis
  proof (cases r)
    case (Inl e)
    with assms i fd have "inconclusiveVerdict E (t + 8) instr (verdictIdentityFrom instr iid) (''bundle: '' @ e) = Ok v"
      by (simp add: Verify_def Let_def)
    then show ?thesis by (rule inconclusive [OF job])
  next
    case (Inr b)
    with assms i fd have vr: "verify_run E t (AttemptTotalTimeout # ctx0) instr (verdictIdentityFrom instr iid) rn now b = Ok v"
      by (simp add: Verify_def Let_def)
    have bc: "bundle_committed cfg E (t + 4) instr f b"
      using fd Inr by (simp flip: fetchAndDecryptBundle_Inr)
    from vr show ?thesis
    proof (cases rule: verify_run_cases)
      case (run sel os h)
      with that(1) [OF job bc] show ?thesis .
    qed (rule inconclusive [OF job])
  qed
qed

lemma inconclusiveVerdict_Ok:
  "inconclusiveVerdict E t instr identity d = Ok v \<Longrightarrow>
     v1_Id v = identity \<and> vo_Outcome (v1_Result v) = OutcomeInconclusive \<and>
     vo_PassedCount (v1_Result v) = 0 \<and> vo_ExecutedCount (v1_Result v) = 1 \<and>
     vo_ArtifactCodeHash (v1_Result v) = wi_ArtifactCodeHash instr \<and>
     vo_RandomRound (v1_Result v) = wi_RandomRound instr \<and>
     vo_RandomValueHash (v1_Result v) = wi_RandomValueHash instr \<and>
     vo_EngineVersionHash (v1_Result v) = realEngineVersionHash (ve_lib E) \<and>
     vo_IssuedAt (v1_Result v) = of_int (ve_now E t) \<and> vo_ExpiresAt (v1_Result v) = wi_ExpiresAt instr"
  by (auto simp: inconclusiveVerdict_def split: sum.splits)

section \<open>Totality\<close>

text \<open>An instruction as the ABI decoder produces it: every \<open>uint256\<close> present and in range.\<close>

definition decoded_instruction :: "WorkProofInstruction \<Rightarrow> bool" where
  "decoded_instruction instr \<longleftrightarrow>
     abi_typed TUint256 (VBig (wi_ChainId instr)) \<and> abi_typed TUint256 (VBig (wi_JobId instr)) \<and>
     abi_typed TUint256 (VBig (wi_ArtifactBlock instr)) \<and> abi_typed TUint256 (VBig (wi_RandomRound instr))"

text \<open>Documented behaviour of the canonicaliser: it accepts JSON, which is all it is given.\<close>

definition jcs_documented :: "ext_lib \<Rightarrow> bool" where
  "jcs_documented L \<longleftrightarrow> (\<forall>vs. \<exists>c. jcs_Transform L (string_bytes (PublicReport_json vs)) = Inr c)"

lemma abi_typed_big: "abi_typed TUint256 (VBig x) \<longleftrightarrow> (\<exists>n. x = Some n \<and> 0 \<le> n \<and> n < 2 ^ 256)"
  by (cases x) auto

lemma FetchRandomNumber_typed:
  assumes "abi_documented L" and "abi_typed TUint256 (VBig round)"
  shows "FetchRandomNumber L eth t ctx a round \<noteq> Panic"
    and "FetchRandomNumber L eth t ctx a round = Ok (rn, s) \<Longrightarrow> abi_typed TUint256 (VBig rn)"
proof -
  have "abi_Pack L [TUint256] [VBig round] \<noteq> Panic"
    using abi_documentedD(3) [OF assms(1)] assms(2) by simp
  then show "FetchRandomNumber L eth t ctx a round \<noteq> Panic"
    using abi_documentedD(1,2) [OF assms(1), of "[TUint256, TBool, TUint256]"]
    by (auto simp: FetchRandomNumber_def list_all2_Cons1
        split: res.split sum.split list.split abi_value.split)
  show "abi_typed TUint256 (VBig rn)" if "FetchRandomNumber L eth t ctx a round = Ok (rn, s)"
    using that abi_documentedD(2) [OF assms(1), of "[TUint256, TBool, TUint256]"]
    by (auto simp: FetchRandomNumber_def list_all2_Cons1
        split: res.splits sum.splits list.splits abi_value.splits)
qed

lemma keccak256AbiEncodedUint_typed:
  "abi_typed TUint256 (VBig rn) \<Longrightarrow> \<exists>h. keccak256AbiEncodedUint L rn = Ok h"
  by (auto simp: abi_typed_big keccak256AbiEncodedUint_def)

lemma crossCheckInstruction_no_panic:
  "decoded_instruction instr \<Longrightarrow> crossCheckInstruction instr job \<noteq> Panic"
  by (auto simp: crossCheckInstruction_def decoded_instruction_def abi_typed_big check_cmp_def check_eq_def
      res_simps split: option.split)

lemma verify_identity_no_panic:
  assumes "abi_documented (ve_lib E)" and "decoded_instruction instr"
  shows "verify_identity cfg E t ctx iid instr \<noteq> Panic"
proof -
  have round: "abi_typed TUint256 (VBig (wi_RandomRound instr))"
    using assms(2) by (simp add: decoded_instruction_def)
  note f = FetchRandomNumber_typed [OF assms(1) round]
  have "keccak256AbiEncodedUint (ve_lib E) rn \<noteq> Panic"
    if "FetchRandomNumber (ve_lib E) eth tk c a (wi_RandomRound instr) = Ok (rn, s)" for eth tk c a rn s
    using keccak256AbiEncodedUint_typed [OF f(2) [OF that]] by (metis res.distinct(3))
  then show ?thesis
    unfolding verify_identity_def
    by (auto simp: Let_def f(1) crossCheckInstruction_no_panic [OF assms(2)]
        split: option.split sum.split res.split prod.split)
qed

lemma inconclusiveVerdict_total:
  "jcs_documented (ve_lib E) \<Longrightarrow> \<exists>v. inconclusiveVerdict E t instr identity d = Ok v"
  by (auto simp: inconclusiveVerdict_def reportHashFor_def jcs_documented_def split: sum.split)
    (metis sum.distinct(1))

lemma Validate_selects:
  assumes "Validate b = None"
  obtains sel where
    "SelectVectors (keccak256 L) seed (int (length (b_Vectors b))) (b_SelectionCount b) = Ok sel"
    "length sel = nat (b_SelectionCount b)" "distinct sel" "\<forall>i \<in> set sel. i < length (b_Vectors b)"
proof -
  have s: "1 \<le> b_SelectionCount b" "b_SelectionCount b \<le> int (length (b_Vectors b))"
    using Validate_selection [OF assms] by auto
  then have k: "b_SelectionCount b = int (nat (b_SelectionCount b))"
    and le: "nat (b_SelectionCount b) \<le> length (b_Vectors b)"
    by auto
  let ?sel = "take (nat (b_SelectionCount b))
    (sel_loop (sel_draw (keccak256 L) seed) (length (b_Vectors b)) (nat (b_SelectionCount b)))"
  show thesis
  proof (rule that)
    show "SelectVectors (keccak256 L) seed (int (length (b_Vectors b))) (b_SelectionCount b) = Ok ?sel"
      by (subst k) (rule SelectVectors_Ok [OF le])
    show "length ?sel = nat (b_SelectionCount b)" by (rule fisher_yates.select_length [OF le])
    show "distinct ?sel" by (rule fisher_yates.select_distinct [OF le])
    show "\<forall>i \<in> set ?sel. i < length (b_Vectors b)" using fisher_yates.select_bound [OF le] by blast
  qed
qed

lemma verify_run_total:
  assumes "abi_documented (ve_lib E)" and "jcs_documented (ve_lib E)" and "decoded_instruction instr"
    and "Validate b = None" and "abi_typed TUint256 (VBig rn)"
  shows "\<exists>v. verify_run E t ctx instr identity rn now b = Ok v"
proof -
  let ?ts = "TestSeed (ve_lib E) rn (wi_EscrowAddress instr) (wi_JobId instr) (wi_Attempt instr)
      (wi_SpecHash instr) (wi_ArtifactCodeHash instr)"
  have "?ts \<noteq> Panic"
    using abi_documentedD(3) [OF assms(1)] assms(3,5)
    by (auto simp: TestSeed_def decoded_instruction_def split: res.split)
  then consider (err) e where "?ts = Err e" | (ok) seed where "?ts = Ok seed"
    by (cases ?ts) auto
  then show ?thesis
  proof cases
    case err
    then show ?thesis using inconclusiveVerdict_total [OF assms(2)] by (simp add: verify_run_def Let_def)
  next
    case ok
    obtain sel where sel: "SelectVectors (keccak256 (ve_lib E)) seed (int (length (b_Vectors b))) (b_SelectionCount b) = Ok sel"
      "\<forall>i \<in> set sel. i < length (b_Vectors b)"
      using Validate_selects [OF assms(4)] by blast
    obtain os where os: "run_selected
        (\<lambda>tk v. ExecuteVector (ve_lib E) (ve_eth E) tk (b_TimeoutMsPerCall b # ctx) (wi_ArtifactAddress instr)
           (wi_ArtifactBlock instr) (b_GasLimitPerCall b) (b_MaxResponseBytes b) v) (t + 8) (b_Vectors b) sel = Ok os"
      using code_executor.run_total [OF ExecuteVector_no_panic [OF assms(1)] sel(2)] by blast
    obtain c where "jcs_Transform (ve_lib E) (string_bytes (PublicReport_json (map public_result os))) = Inr c"
      using assms(2) unfolding jcs_documented_def by blast
    then obtain h where "reportHashFor (ve_lib E) os = Inr h" by (simp add: reportHashFor_def)
    with ok sel os have "executed_run E t ctx instr rn b sel os h" by (simp add: executed_run_def)
    then show ?thesis using verify_run_executed by blast
  qed
qed

section \<open>A concrete run\<close>

text \<open>A complete scenario for the witnesses: one job, one gateway, one call vector, and a node that
  answers it. The hash function is the constant one: nothing below relies on collision freedom.\<close>

definition demo_lib :: ext_lib where
  "demo_lib = ref_lib\<lparr>Keccak256 := (\<lambda>_. 7)\<rparr>"

definition demo_cfg :: VerifierConfig where
  "demo_cfg = \<lparr>vc_ChainID = 114, vc_RPCURL = ''http://node'', vc_EscrowAddress = 11, vc_RandomNumberV2Addr = 12, vc_SignPort = 9000,
     vc_CiphertextHosts = [''gw.example'']\<rparr>"

definition demo_chain :: "byte \<Rightarrow> eth_client" where
  "demo_chain x = demo_node\<lparr>eth_CallContract := (\<lambda>t c msg b.
     if cm_To msg = 12 then Inr (be_bytes 32 9 @ be_bytes 32 1 @ be_bytes 32 0) else Inr [x])\<rparr>"

definition demo_instr :: WorkProofInstruction where
  "demo_instr =
     \<lparr>wi_ChainId = Some 114, wi_EscrowAddress = 11, wi_JobId = Some 1, wi_Attempt = 1, wi_SpecHash = 0,
      wi_PrivateBundleHash = 7, wi_CiphertextHash = 7, wi_ArtifactAddress = 5, wi_ArtifactBlock = Some 99,
      wi_ArtifactCodeHash = 7, wi_RandomRound = Some 3, wi_RandomValueHash = 7, wi_EngineVersionHash = 7,
      wi_ExpiresAt = 3000\<rparr>"

definition demo_job :: EscrowJob where
  "demo_job =
     \<lparr>ej_terms = \<lparr>jt_client = 1, jt_contractor = 2, jt_expectedTee = 3, jt_principal = 100, jt_fee = 1,
        jt_createdAt = 10, jt_acceptBy = 20, jt_submitBy = 1500, jt_graceEnds = 3000, jt_verificationTimeout = 1100,
        jt_specHash = 0, jt_privateBundleHash = 7, jt_engineVersionHash = 7, jt_ciphertextHash = 7\<rparr>,
      ej_current = \<lparr>at_attempt = 1, at_artifactAddress = 5, at_artifactBlock = 99, at_artifactCodeHash = 7,
        at_targetRound = 3, at_randomRound = 3, at_randomValueHash = 7, at_randomLocked = True,
        at_instructionId = 77, at_dispatchedAt = 900, at_timeoutAt = 2000\<rparr>,
      ej_state = StateVerifying, ej_settled = False\<rparr>"

definition demo_bundle :: WorkProofBundle where
  "demo_bundle =
     \<lparr>b_FormatVersion = 1, b_TemplateID = ''t'', b_TemplateVersion = ''v1.0.0'', b_TargetChainID = 114,
      b_PublicSpecHash = ''0x'' @ replicate 64 CHR ''0'', b_VectorCount = 1, b_SelectionCount = 1,
      b_GasLimitPerCall = 21000, b_TimeoutMsPerCall = 100, b_MaxResponseBytes = 32,
      b_Vectors = [demo_equals]\<rparr>"

definition demo_env :: "byte \<Rightarrow> verify_env" where
  "demo_env x =
     \<lparr>ve_lib = demo_lib, ve_eth = (demo_chain x), ve_GetJob = (\<lambda>t j. Inr demo_job), ve_now = (\<lambda>t. 1000),
      ve_net = demo_net\<lparr>n_RoundTrip := (\<lambda>t a u. Inr \<lparr>r_StatusCode = 200, r_Location = [], r_Body = [0],
                                                    r_BodyErr = None\<rparr>)\<rparr>,
      ve_decrypt = demo_decrypt, ve_Unmarshal = (\<lambda>p. Some demo_bundle)\<rparr>"

definition demo_fetcher :: CiphertextFetcher where
  "demo_fetcher = NewCiphertextFetcher [''gw.example'']"

lemma demo_lib_documented: "abi_documented demo_lib" "jcs_documented demo_lib"
  using ref_lib_documented
  by (simp_all add: abi_documented_def jcs_documented_def demo_lib_def ref_lib_def)

lemma demo_instr_decoded: "decoded_instruction demo_instr"
  by (simp add: decoded_instruction_def demo_instr_def)

lemma demo_engine: "realEngineVersionHash demo_lib = 7" "keccak256 demo_lib bs = 7"
  by (simp_all add: realEngineVersionHash_def keccak256_def demo_lib_def)

lemma demo_random:
  "FetchRandomNumber demo_lib (demo_chain x) t ctx 12 (Some 3) = Ok (Some 9, True)"
proof -
  have u: "ref_unpack [TUint256, TBool, TUint256] (be_bytes 32 9 @ be_bytes 32 (Suc 0) @ be_bytes 32 0) =
      Ok [VBig (Some 9), VBool True, VBig (Some 0)]"
    by (simp add: be_nat_be_bytes)
  show ?thesis
    by (simp add: FetchRandomNumber_def demo_lib_def ref_lib_def ref_pack_def demo_chain_def ethereumCallMsg_def u
        del: ref_unpack.simps)
qed

lemma demo_identity:
  "identity_established demo_cfg (demo_env x) t ctx 77 demo_instr demo_job (Some 9) 1000"
  unfolding identity_established_def
  by (simp add: crossCheckInstruction_Ok demo_engine demo_random demo_cfg_def demo_env_def demo_instr_def demo_job_def
      recomputeArtifactCodeHash_def keccak256AbiEncodedUint_def)
    (simp add: demo_chain_def demo_node_def demo_engine)

lemma demo_bundle_valid: "Validate demo_bundle = None"
  by code_simp

lemma demo_fetch_ok:
  "Fetch (ve_net (demo_env x)) 4 (ciphertext_locator ''gw.example'' 7) demo_fetcher =
     (Inr [0], snd (Fetch (ve_net (demo_env x)) 4 (ciphertext_locator ''gw.example'' 7) demo_fetcher))"
proof -
  let ?N = "ve_net (demo_env x)" and ?loc = "ciphertext_locator ''gw.example'' 7"
  let ?u = "\<lparr>u_Scheme = ''https'', u_Hostname = ''gw.example'', u_Text = ?loc\<rparr>"
  have eval: "ToLower ''gw.example'' = ''gw.example''" "isPrivateOrReserved [93, 184, 216, 34] = False"
    "SplitHostPort ''gw.example:443'' = Inr (''gw.example'', ''443'')"
    by code_simp+
  have "validateURL ?N 4 ?u demo_fetcher = (None, demo_fetcher\<lparr>f_pinnedIPs := [''gw.example'' \<mapsto> ip_String [93, 184, 216, 34]]\<rparr>)"
    by (simp add: validateURL_def demo_env_def demo_net_def demo_fetcher_def NewCiphertextFetcher_def eval Let_def)
  moreover have "fst (client_Do ?N 4 1 ?u (demo_fetcher\<lparr>f_pinnedIPs := [''gw.example'' \<mapsto> ip_String [93, 184, 216, 34]]\<rparr>)) =
      Inr \<lparr>r_StatusCode = 200, r_Location = [], r_Body = [0], r_BodyErr = None\<rparr>"
    by (subst client_Do.simps)
      (simp add: transport_send_def dialPinned_def isRedirect_def demo_env_def demo_net_def eval Let_def)
  moreover have "n_Parse ?N s = Inr \<lparr>u_Scheme = ''https'', u_Hostname = ''gw.example'', u_Text = s\<rparr>" for s
    by (simp add: demo_env_def demo_net_def)
  ultimately have "fst (Fetch ?N 4 ?loc demo_fetcher) = Inr [0]"
    by (auto simp: Fetch_def MaxCiphertextBytes_def Let_def split: prod.split)
  then show ?thesis by (metis prod.collapse)
qed

lemma demo_decrypt_ok: "Decrypt demo_decrypt t d c = Inr [0, 1]"
proof -
  have "base64_DecodeString ''AAE='' = Some [0, 1]" by code_simp
  then show ?thesis by (simp add: Decrypt_def demo_decrypt_def Let_def)
qed

lemma demo_committed: "bundle_committed demo_cfg (demo_env x) 4 demo_instr demo_fetcher demo_bundle"
proof -
  have lib: "ve_lib (demo_env x) = demo_lib" and un: "ve_Unmarshal (demo_env x) p = Some demo_bundle" for p
    by (simp_all add: demo_env_def)
  have h: "wi_CiphertextHash demo_instr = 7" "wi_SpecHash demo_instr = 0" "wi_PrivateBundleHash demo_instr = 7"
    by (simp_all add: demo_instr_def)
  have "hexutil_Decode demo_lib (b_PublicSpecHash demo_bundle) = Some (replicate 32 0)" by code_simp
  moreover have "bytes32_of_bytes (replicate 32 0) = 0" by code_simp
  moreover have "vc_CiphertextHosts demo_cfg = ''gw.example'' # []" by (simp add: demo_cfg_def)
  moreover have "Decrypt (ve_decrypt (demo_env x)) t d c = Inr [0, 1]" for t d c
    by (simp add: demo_env_def demo_decrypt_ok)
  moreover have "length [0 :: byte, 1] \<le> MaxBundleBytes" by (simp add: MaxBundleBytes_def)
  moreover have "jcs_Transform demo_lib x = Inr x" for x by (simp add: demo_lib_def ref_lib_def)
  moreover have "length (replicate 32 (0 :: byte)) = 32" by simp
  ultimately show ?thesis
    unfolding bundle_committed_def lib h using demo_fetch_ok un demo_bundle_valid demo_engine(2) by metis
qed

lemma demo_seed:
  "TestSeed demo_lib (Some 9) (wi_EscrowAddress demo_instr) (wi_JobId demo_instr) (wi_Attempt demo_instr)
     (wi_SpecHash demo_instr) (wi_ArtifactCodeHash demo_instr) = Ok 7"
  by (simp add: TestSeed_def demo_engine demo_instr_def) (simp add: demo_lib_def ref_lib_def ref_pack_def keccak256_def)

lemma demo_selection:
  "SelectVectors (keccak256 demo_lib) 7 (int (length (b_Vectors demo_bundle))) (b_SelectionCount demo_bundle) = Ok [0]"
  by (simp add: SelectVectors_def demo_bundle_def sel_step_def swap_def)

lemma demo_vector_run:
  "ExecuteVector demo_lib (demo_chain x) t ctx 5 b g 32 demo_equals = Ok (decided demo_equals (x = 42))"
proof -
  have "hexutil_Decode demo_lib (vec_Calldata demo_equals) = Some [0xa1, 0xb2]"
    "hexutil_Decode demo_lib (vec_ExpectedReturn demo_equals) = Some [42]"
    "parseCallValue demo_lib (vec_Value demo_equals) = Some (Some 0)"
    by code_simp+
  moreover have "vec_Type demo_equals = VectorEthCallEquals" by (simp add: demo_equals_def blank_vector_def)
  ultimately show ?thesis
    by (simp add: ExecuteVector_def executeEthCallEquals_def demo_chain_def ethereumCallMsgFrom_def Let_def)
qed

lemma demo_executed:
  "executed_run (demo_env x) 0 ctx demo_instr (Some 9) demo_bundle [0] [decided demo_equals (x = 42)]  7"
  unfolding executed_run_def
proof (intro conjI exI)
  show "TestSeed (ve_lib (demo_env x)) (Some 9) (wi_EscrowAddress demo_instr) (wi_JobId demo_instr) (wi_Attempt demo_instr)
     (wi_SpecHash demo_instr) (wi_ArtifactCodeHash demo_instr) = Ok 7"
    using demo_seed by (simp add: demo_env_def)
  show "SelectVectors (keccak256 (ve_lib (demo_env x))) 7 (int (length (b_Vectors demo_bundle))) (b_SelectionCount demo_bundle) = Ok [0]"
    using demo_selection by (simp add: demo_env_def)
  show "reportHashFor (ve_lib (demo_env x)) [decided demo_equals (x = 42)] = Inr 7"
    by (simp add: reportHashFor_def demo_env_def demo_engine) (simp add: demo_lib_def ref_lib_def keccak256_def)
qed (simp add: demo_env_def demo_instr_def demo_bundle_def demo_vector_run)

lemma demo_Verify:
  "\<exists>f'. Verify demo_cfg (demo_env x) 0 [] 77 demo_instr demo_fetcher =
     (Ok (run_verdict (demo_env x) demo_instr (verdictIdentityFrom demo_instr 77) 1000 [decided demo_equals (x = 42)] 7), f')"
proof -
  obtain f1 where fd: "fetchAndDecryptBundle demo_cfg (demo_env x) 4 demo_instr demo_fetcher = (Inr demo_bundle, f1)"
    using demo_committed by (metis fetchAndDecryptBundle_Inr prod.collapse)
  have "verify_identity demo_cfg (demo_env x) 0 [AttemptTotalTimeout] 77 demo_instr = Ok (Some 9, 1000)"
    using verify_identity_Ok demo_identity by blast
  then show ?thesis
    using fd verify_run_executed [OF demo_executed] by (simp add: Verify_def Let_def)
qed

lemma demo_outcome:
  "vo_Outcome (v1_Result (run_verdict E instr i n [decided v ok] h)) = (if ok then OutcomePass else OutcomeFail)"
  by (simp add: run_verdict_def overall_outcome_def)

section \<open>Properties\<close>

lemma bundle_committed_valid: "bundle_committed cfg E t instr f b \<Longrightarrow> Validate b = None"
  by (auto simp: bundle_committed_def)

lemma executed_run_selection:
  assumes "executed_run E t ctx instr rn b sel os h" and "Validate b = None"
  shows "length sel = nat (b_SelectionCount b)" and "distinct sel"
    and "\<forall>i \<in> set sel. i < length (b_Vectors b)" and "length os = length sel"
proof -
  obtain seed where seed: "SelectVectors (keccak256 (ve_lib E)) seed (int (length (b_Vectors b))) (b_SelectionCount b) = Ok sel"
    and run: "length os = length sel"
    using assms(1) by (auto simp: executed_run_def run_selected_Ok_iff)
  from Validate_selects [OF assms(2), of "ve_lib E" seed] obtain sel' where
    "SelectVectors (keccak256 (ve_lib E)) seed (int (length (b_Vectors b))) (b_SelectionCount b) = Ok sel'"
    "length sel' = nat (b_SelectionCount b)" "distinct sel'" "\<forall>i \<in> set sel'. i < length (b_Vectors b)" .
  with seed run show "length sel = nat (b_SelectionCount b)" "distinct sel"
    "\<forall>i \<in> set sel. i < length (b_Vectors b)" "length os = length sel" by auto
qed

text \<open>The request context of a selected vector and the reference meaning at its tick.\<close>

definition selected_passes ::
  "verify_env \<Rightarrow> tick \<Rightarrow> ctx \<Rightarrow> WorkProofInstruction \<Rightarrow> WorkProofBundle \<Rightarrow> nat list \<Rightarrow> nat \<Rightarrow> bool" where
  "selected_passes E t ctx instr b sel k \<longleftrightarrow>
     vector_passes (ve_lib E) (ve_eth E) (t + 8 + k) (b_TimeoutMsPerCall b # ctx) (wi_ArtifactAddress instr)
       (wi_ArtifactBlock instr) (b_GasLimitPerCall b) (b_MaxResponseBytes b) (b_Vectors b ! (sel ! k))"

lemma executed_run_passed:
  assumes "executed_run E t ctx instr rn b sel os h" and "k < length sel"
  shows "o_Passed (os ! k) \<longleftrightarrow> selected_passes E t ctx instr b sel k"
  using assms ExecuteVector_passes
  by (auto simp: executed_run_def run_selected_Ok_iff selected_passes_def)

lemma executed_run_pass:
  assumes "executed_run E t ctx instr rn b sel os h"
  shows "overall_outcome os = OutcomePass \<longleftrightarrow> (\<forall>k < length sel. selected_passes E t ctx instr b sel k)"
proof -
  have run: "run_selected (\<lambda>tk v. ExecuteVector (ve_lib E) (ve_eth E) tk (b_TimeoutMsPerCall b # ctx) (wi_ArtifactAddress instr)
           (wi_ArtifactBlock instr) (b_GasLimitPerCall b) (b_MaxResponseBytes b) v) (t + 8) (b_Vectors b) sel = Ok os"
    using assms by (simp add: executed_run_def)
  then have "length os = length sel" by (simp add: run_selected_Ok_iff)
  then show ?thesis
    using code_executor.run_pass [OF run] executed_run_passed [OF assms] by (auto simp: all_set_conv_all_nth)
qed

lemma countPassed_all: "\<forall>oc \<in> set os. o_Passed oc \<Longrightarrow> countPassed os = of_nat (length os)"
  by (simp add: countPassed_eq filter_id_conv [THEN iffD2])

lemma Verify_pass_earned:
  assumes "Verify cfg E t ctx0 iid instr f = (Ok v, f')"
    and "vo_Outcome (v1_Result v) = OutcomePass"
  shows "\<exists>job rn now b sel os h.
      identity_established cfg E t (AttemptTotalTimeout # ctx0) iid instr job rn now \<and>
      bundle_committed cfg E (t + 4) instr f b \<and>
      executed_run E t (AttemptTotalTimeout # ctx0) instr rn b sel os h \<and>
      length sel = nat (b_SelectionCount b) \<and> distinct sel \<and>
      (\<forall>k < length sel. sel ! k < length (b_Vectors b) \<and>
         selected_passes E t (AttemptTotalTimeout # ctx0) instr b sel k) \<and>
      unat (vo_PassedCount (v1_Result v)) = length sel \<and> unat (vo_ExecutedCount (v1_Result v)) = length sel"
  using assms(1)
proof (cases rule: Verify_cases)
  case (inconclusive job rn now d)
  from inconclusiveVerdict_Ok [OF inconclusive(2)] assms(2) show ?thesis by simp
next
  case (run job rn now b sel os h)
  note valid = bundle_committed_valid [OF run(2)]
  note sel = executed_run_selection [OF run(3) valid]
  from run(4) assms(2) have "overall_outcome os = OutcomePass" by (simp add: run_verdict_def)
  then have pass: "\<forall>k < length sel. selected_passes E t (AttemptTotalTimeout # ctx0) instr b sel k"
    and all: "\<forall>oc \<in> set os. o_Passed oc"
    using executed_run_pass [OF run(3)] by (simp_all add: overall_outcome_iff)
  have "length sel < 2 ^ 32" using sel(1) Validate_selection(3) [OF valid] by simp
  then have "unat (of_nat (length sel) :: u32) = length sel" by (simp add: unat_of_nat take_bit_nat_eq_self)
  with run(4) countPassed_all [OF all] sel(4)
  have "unat (vo_PassedCount (v1_Result v)) = length sel" "unat (vo_ExecutedCount (v1_Result v)) = length sel"
    by (simp_all add: run_verdict_def)
  moreover have "\<forall>k < length sel. sel ! k < length (b_Vectors b)" using sel(3) by simp
  ultimately show ?thesis using run(1-3) sel(1,2) pass by blast
qed

text \<open>C3: A PASS verdict is earned. If \<open>Verify\<close> returns a verdict with outcome PASS, then the
  attempt's identity was established against the chain, the bundle that was run is the committed one
  (ciphertext hash, size, validity, public specification and canonical hash all checked), exactly
  \<open>selectionCount\<close> distinct vectors were selected by the committed randomness, every one of them
  passes by the reference meaning of vectors against the node at the artifact's address and block, and
  the counts of the verdict say so.\<close>

theorem Verify_pass_sound:
  assumes "Verify cfg E t ctx0 iid instr f = (Ok v, f')"
    and "vo_Outcome (v1_Result v) = OutcomePass"
  shows "\<exists>job rn now b sel os h.
      identity_established cfg E t (AttemptTotalTimeout # ctx0) iid instr job rn now \<and>
      bundle_committed cfg E (t + 4) instr f b \<and>
      executed_run E t (AttemptTotalTimeout # ctx0) instr rn b sel os h \<and>
      length sel = nat (b_SelectionCount b) \<and> distinct sel \<and>
      (\<forall>k < length sel. sel ! k < length (b_Vectors b) \<and>
         selected_passes E t (AttemptTotalTimeout # ctx0) instr b sel k) \<and>
      unat (vo_PassedCount (v1_Result v)) = length sel \<and> unat (vo_ExecutedCount (v1_Result v)) = length sel"
  by (rule Verify_pass_earned [OF assms])

theorem Verify_pass_sound_witness:
  "\<exists>job rn now b sel os h.
      identity_established demo_cfg (demo_env 42) 0 [AttemptTotalTimeout] 77 demo_instr job rn now \<and>
      bundle_committed demo_cfg (demo_env 42) 4 demo_instr demo_fetcher b \<and>
      executed_run (demo_env 42) 0 [AttemptTotalTimeout] demo_instr rn b sel os h \<and>
      length sel = nat (b_SelectionCount b) \<and> distinct sel \<and>
      (\<forall>k < length sel. sel ! k < length (b_Vectors b) \<and>
         selected_passes (demo_env 42) 0 [AttemptTotalTimeout] demo_instr b sel k)"
proof -
  from demo_Verify [of 42] obtain f' where "Verify demo_cfg (demo_env 42) 0 [] 77 demo_instr demo_fetcher =
     (Ok (run_verdict (demo_env 42) demo_instr (verdictIdentityFrom demo_instr 77) 1000 [decided demo_equals ((42 :: byte) = 42)] 7), f')"
    by blast
  from Verify_pass_sound [OF this, unfolded demo_outcome add_0] show ?thesis by simp blast
qed

text \<open>C14: PASS is reachable whenever it is earned: with the identity established, the committed bundle
  obtained, the seed derived and every selected vector passing, \<open>Verify\<close> returns a verdict with
  outcome PASS.\<close>

theorem Verify_pass_complete:
  assumes "abi_documented (ve_lib E)" and "jcs_documented (ve_lib E)"
    and "identity_established cfg E t (AttemptTotalTimeout # ctx0) iid instr job rn now"
    and "bundle_committed cfg E (t + 4) instr f b"
    and "TestSeed (ve_lib E) rn (wi_EscrowAddress instr) (wi_JobId instr) (wi_Attempt instr)
           (wi_SpecHash instr) (wi_ArtifactCodeHash instr) = Ok seed"
    and "SelectVectors (keccak256 (ve_lib E)) seed (int (length (b_Vectors b))) (b_SelectionCount b) = Ok sel"
    and "\<forall>k < length sel. selected_passes E t (AttemptTotalTimeout # ctx0) instr b sel k"
  shows "\<exists>v f'. Verify cfg E t ctx0 iid instr f = (Ok v, f') \<and> vo_Outcome (v1_Result v) = OutcomePass"
proof -
  let ?ctx = "AttemptTotalTimeout # ctx0"
  have valid: "Validate b = None" by (rule bundle_committed_valid [OF assms(4)])
  have bound: "\<forall>i \<in> set sel. i < length (b_Vectors b)"
    using Validate_selects [OF valid, of "ve_lib E" seed] assms(6) by (metis res.inject(1))
  obtain os where os: "run_selected
      (\<lambda>tk v. ExecuteVector (ve_lib E) (ve_eth E) tk (b_TimeoutMsPerCall b # ?ctx) (wi_ArtifactAddress instr)
         (wi_ArtifactBlock instr) (b_GasLimitPerCall b) (b_MaxResponseBytes b) v) (t + 8) (b_Vectors b) sel = Ok os"
    using code_executor.run_total [OF ExecuteVector_no_panic [OF assms(1)] bound] by blast
  obtain c where "jcs_Transform (ve_lib E) (string_bytes (PublicReport_json (map public_result os))) = Inr c"
    using assms(2) unfolding jcs_documented_def by blast
  then obtain h where "reportHashFor (ve_lib E) os = Inr h" by (simp add: reportHashFor_def)
  with os assms(5,6) have ex: "executed_run E t ?ctx instr rn b sel os h" by (simp add: executed_run_def)
  obtain f1 where fd: "fetchAndDecryptBundle cfg E (t + 4) instr f = (Inr b, f1)"
    using fetchAndDecryptBundle_Inr [of cfg E "t + 4" instr f b] assms(4) by (metis prod.collapse)
  have "verify_identity cfg E t ?ctx iid instr = Ok (rn, now)"
    using verify_identity_Ok assms(3) by blast
  then have "Verify cfg E t ctx0 iid instr f = (Ok (run_verdict E instr (verdictIdentityFrom instr iid) now os h), f1)"
    using fd verify_run_executed [OF ex] by (simp add: Verify_def Let_def)
  moreover have "overall_outcome os = OutcomePass" using executed_run_pass [OF ex] assms(7) by simp
  ultimately show ?thesis by (auto simp: run_verdict_def)
qed

theorem Verify_pass_complete_witness:
  "\<exists>v f'. Verify demo_cfg (demo_env 42) 0 [] 77 demo_instr demo_fetcher = (Ok v, f') \<and>
     vo_Outcome (v1_Result v) = OutcomePass"
proof (rule Verify_pass_complete)
  have lib: "ve_lib (demo_env 42) = demo_lib" by (simp add: demo_env_def)
  show "abi_documented (ve_lib (demo_env 42))" "jcs_documented (ve_lib (demo_env 42))"
    by (simp_all add: lib demo_lib_documented)
  show "identity_established demo_cfg (demo_env 42) 0 [AttemptTotalTimeout] 77 demo_instr demo_job (Some 9) 1000"
    by (rule demo_identity)
  show "bundle_committed demo_cfg (demo_env 42) (0 + 4) demo_instr demo_fetcher demo_bundle"
    using demo_committed by simp
  show "TestSeed (ve_lib (demo_env 42)) (Some 9) (wi_EscrowAddress demo_instr) (wi_JobId demo_instr) (wi_Attempt demo_instr)
     (wi_SpecHash demo_instr) (wi_ArtifactCodeHash demo_instr) = Ok 7"
    by (simp add: lib demo_seed)
  show "SelectVectors (keccak256 (ve_lib (demo_env 42))) 7 (int (length (b_Vectors demo_bundle))) (b_SelectionCount demo_bundle) = Ok [0]"
    by (simp add: lib demo_selection)
  show "\<forall>k < length [0]. selected_passes (demo_env 42) 0 [AttemptTotalTimeout] demo_instr demo_bundle [0] k"
    using executed_run_passed [OF demo_executed [of 42 "[AttemptTotalTimeout]"], of 0] by simp
qed

text \<open>C7: A FAIL verdict is a definite one: it is issued only when the committed bundle was run, no
  selected vector was skipped, and at least one selected vector does not pass by the reference meaning.
  Missing bundles, outages and undecidable vectors never count against the contractor.\<close>

theorem Verify_fail_definite:
  assumes "Verify cfg E t ctx0 iid instr f = (Ok v, f')"
    and "vo_Outcome (v1_Result v) = OutcomeFail"
  shows "\<exists>job rn now b sel os h.
      identity_established cfg E t (AttemptTotalTimeout # ctx0) iid instr job rn now \<and>
      bundle_committed cfg E (t + 4) instr f b \<and>
      executed_run E t (AttemptTotalTimeout # ctx0) instr rn b sel os h \<and>
      (\<forall>oc \<in> set os. \<not> o_Skipped oc) \<and>
      (\<exists>k < length sel. \<not> selected_passes E t (AttemptTotalTimeout # ctx0) instr b sel k)"
  using assms(1)
proof (cases rule: Verify_cases)
  case (inconclusive job rn now d)
  from inconclusiveVerdict_Ok [OF inconclusive(2)] assms(2) show ?thesis by simp
next
  case (run job rn now b sel os h)
  from run(4) assms(2) have "overall_outcome os = OutcomeFail" by (simp add: run_verdict_def)
  then have "\<forall>oc \<in> set os. \<not> o_Skipped oc" "overall_outcome os \<noteq> OutcomePass"
    by (auto simp: overall_outcome_iff(1,2))
  with run(1-3) executed_run_pass [OF run(3)] show ?thesis by blast
qed

theorem Verify_fail_definite_witness:
  "\<exists>job rn now b sel os h.
      identity_established demo_cfg (demo_env 41) 0 [AttemptTotalTimeout] 77 demo_instr job rn now \<and>
      bundle_committed demo_cfg (demo_env 41) 4 demo_instr demo_fetcher b \<and>
      executed_run (demo_env 41) 0 [AttemptTotalTimeout] demo_instr rn b sel os h \<and>
      (\<forall>oc \<in> set os. \<not> o_Skipped oc) \<and>
      (\<exists>k < length sel. \<not> selected_passes (demo_env 41) 0 [AttemptTotalTimeout] demo_instr b sel k)"
proof -
  from demo_Verify [of 41] obtain f' where "Verify demo_cfg (demo_env 41) 0 [] 77 demo_instr demo_fetcher =
     (Ok (run_verdict (demo_env 41) demo_instr (verdictIdentityFrom demo_instr 77) 1000
            [decided demo_equals ((41 :: byte) = 42)] 7), f')"
    by blast
  from Verify_fail_definite [OF this, unfolded demo_outcome add_0] show ?thesis by simp
qed

text \<open>C8: For every instruction the ABI decoder can produce, \<open>Verify\<close> never panics, and it withholds a
  verdict exactly when the identity of the attempt cannot be established: whatever goes wrong after
  that (gateway, decryption, bundle, node) still yields a verdict.\<close>

theorem Verify_always_answers:
  assumes "abi_documented (ve_lib E)" and "jcs_documented (ve_lib E)" and "decoded_instruction instr"
  shows "(\<exists>e. fst (Verify cfg E t ctx0 iid instr f) = Err e) \<and>
           (\<nexists>job rn now. identity_established cfg E t (AttemptTotalTimeout # ctx0) iid instr job rn now)
       \<or> (\<exists>v. fst (Verify cfg E t ctx0 iid instr f) = Ok v) \<and>
           (\<exists>job rn now. identity_established cfg E t (AttemptTotalTimeout # ctx0) iid instr job rn now)"
proof (cases "verify_identity cfg E t (AttemptTotalTimeout # ctx0) iid instr")
  case Panic
  then show ?thesis using verify_identity_no_panic [OF assms(1,3)] by simp
next
  case (Err e)
  moreover have "\<nexists>job rn now. identity_established cfg E t (AttemptTotalTimeout # ctx0) iid instr job rn now"
    using Err verify_identity_Ok by (metis res.distinct(1))
  ultimately show ?thesis by (simp add: Verify_def Let_def)
next
  case (Ok r)
  obtain rn now where r: "r = (rn, now)" by fastforce
  then obtain job where i: "identity_established cfg E t (AttemptTotalTimeout # ctx0) iid instr job rn now"
    using Ok verify_identity_Ok by blast
  have "FetchRandomNumber (ve_lib E) (ve_eth E) (t + 3) (AttemptTotalTimeout # ctx0) (vc_RandomNumberV2Addr cfg)
      (wi_RandomRound instr) = Ok (rn, True)" and "abi_typed TUint256 (VBig (wi_RandomRound instr))"
    using i assms(3) by (simp_all add: identity_established_def decoded_instruction_def)
  then have rn: "abi_typed TUint256 (VBig rn)" using FetchRandomNumber_typed(2) [OF assms(1)] by blast
  obtain fr f1 where fd: "fetchAndDecryptBundle cfg E (t + 4) instr f = (fr, f1)" by fastforce
  have "\<exists>v. fst (Verify cfg E t ctx0 iid instr f) = res.Ok v"
  proof (cases fr)
    case (Inl e)
    then show ?thesis
      using Ok r fd inconclusiveVerdict_total [OF assms(2)] by (simp add: Verify_def Let_def)
  next
    case (Inr b)
    then have "Validate b = None"
      using fd fetchAndDecryptBundle_Inr bundle_committed_valid by (metis fst_conv)
    with Inr Ok r fd verify_run_total [OF assms _ rn] show ?thesis by (simp add: Verify_def Let_def)
  qed
  with i show ?thesis by blast
qed

theorem Verify_always_answers_witness:
  "(\<exists>e. fst (Verify demo_cfg (demo_env 42) 0 [] 78 demo_instr demo_fetcher) = Err e) \<and>
   (\<exists>v. fst (Verify demo_cfg (demo_env 42) 0 [] 77 demo_instr demo_fetcher) = Ok v)"
proof
  note t = Verify_always_answers [of "demo_env 42" demo_instr demo_cfg 0 "[]" _ demo_fetcher]
  have lib: "ve_lib (demo_env 42) = demo_lib" by (simp add: demo_env_def)
  have "identity_established demo_cfg (demo_env 42) 0 [AttemptTotalTimeout] 78 demo_instr job rn now = False" for job rn now
    by (auto simp: identity_established_def demo_env_def demo_job_def demo_instr_def)
  with t [of 78] show "\<exists>e. fst (Verify demo_cfg (demo_env 42) 0 [] 78 demo_instr demo_fetcher) = Err e"
    by (simp add: lib demo_lib_documented demo_instr_decoded)
  have "\<exists>job rn now. identity_established demo_cfg (demo_env 42) 0 [AttemptTotalTimeout] 77 demo_instr job rn now"
    using demo_identity by blast
  with t [of 77] show "\<exists>v. fst (Verify demo_cfg (demo_env 42) 0 [] 77 demo_instr demo_fetcher) = Ok v"
    by (simp add: lib demo_lib_documented demo_instr_decoded)
qed

lemma of_nat_u32_mono: "m \<le> n \<Longrightarrow> n < 2 ^ 32 \<Longrightarrow> (of_nat m :: u32) \<le> of_nat n"
  using le_less_trans [of m n "2 ^ 32"]
  by (simp add: word_le_nat_alt unat_of_nat take_bit_nat_eq_self)

text \<open>A verdict carries what the chain stores about an attempt, a defined outcome code and consistent
  counts.\<close>

definition verdict_bound :: "VerifierConfig \<Rightarrow> int \<Rightarrow> EscrowJob \<Rightarrow> VerdictV1 \<Rightarrow> bool" where
  "verdict_bound cfg jobId job v \<longleftrightarrow>
      vi_SchemaVersion (v1_Id v) = 1 \<and> vi_ChainId (v1_Id v) = Some (uint (vc_ChainID cfg)) \<and>
      vi_EscrowAddress (v1_Id v) = vc_EscrowAddress cfg \<and> vi_JobId (v1_Id v) = Some jobId \<and>
      vi_InstructionId (v1_Id v) = at_instructionId (ej_current job) \<and>
      vi_Attempt (v1_Id v) = at_attempt (ej_current job) \<and>
      vi_SpecHash (v1_Id v) = jt_specHash (ej_terms job) \<and>
      vi_PrivateBundleHash (v1_Id v) = jt_privateBundleHash (ej_terms job) \<and>
      vi_ArtifactAddress (v1_Id v) = at_artifactAddress (ej_current job) \<and>
      vi_ArtifactBlock (v1_Id v) = Some (at_artifactBlock (ej_current job)) \<and>
      vo_ArtifactCodeHash (v1_Result v) = at_artifactCodeHash (ej_current job) \<and>
      vo_RandomRound (v1_Result v) = Some (at_randomRound (ej_current job)) \<and>
      vo_RandomValueHash (v1_Result v) = at_randomValueHash (ej_current job) \<and>
      vo_EngineVersionHash (v1_Result v) = jt_engineVersionHash (ej_terms job) \<and>
      vo_ExpiresAt (v1_Result v) = jt_graceEnds (ej_terms job) \<and>
      vo_Outcome (v1_Result v) \<in> {OutcomePass, OutcomeFail, OutcomeInconclusive} \<and>
      0 < vo_ExecutedCount (v1_Result v) \<and>
      vo_PassedCount (v1_Result v) \<le> vo_ExecutedCount (v1_Result v) \<and>
      (vo_PassedCount (v1_Result v) = vo_ExecutedCount (v1_Result v) \<longleftrightarrow>
         vo_Outcome (v1_Result v) = OutcomePass)"

lemma run_counts:
  assumes "executed_run E t ctx instr rn b sel os h" and "Validate b = None"
  shows "0 < (of_nat (length os) :: u32)" and "countPassed os \<le> of_nat (length os)"
    and "countPassed os = of_nat (length os) \<longleftrightarrow> overall_outcome os = OutcomePass"
proof -
  have len: "length os < 2 ^ 32" "0 < length os"
    using executed_run_selection [OF assms] Validate_selection [OF assms(2)] by simp_all
  then show "0 < (of_nat (length os) :: u32)"
    by (simp add: word_less_nat_alt unat_of_nat take_bit_nat_eq_self)
  show "countPassed os \<le> of_nat (length os)"
    using len(1) by (simp add: countPassed_eq of_nat_u32_mono)
  have "length (filter o_Passed os) < 2 ^ 32" using length_filter_le len(1) by (rule le_less_trans)
  then have "countPassed os = of_nat (length os) \<longleftrightarrow> length (filter o_Passed os) = length os"
    using len(1) by (simp add: countPassed_eq word_unat_eq_iff unat_of_nat take_bit_nat_eq_self)
  also have "\<dots> \<longleftrightarrow> (\<forall>oc \<in> set os. o_Passed oc)"
    by (metis filter_id_conv length_filter_less less_irrefl)
  also have "\<dots> \<longleftrightarrow> overall_outcome os = OutcomePass"
    using executed_run_pass [OF assms(1)] executed_run_passed [OF assms(1)] executed_run_selection(4) [OF assms]
    by (auto simp: all_set_conv_all_nth)
  finally show "countPassed os = of_nat (length os) \<longleftrightarrow> overall_outcome os = OutcomePass" .
qed

lemma identity_bound:
  assumes "identity_established cfg E t ctx iid instr job rn now"
    and "v1_Id v = verdictIdentityFrom instr iid"
    and "vo_ArtifactCodeHash (v1_Result v) = wi_ArtifactCodeHash instr"
    and "vo_RandomRound (v1_Result v) = wi_RandomRound instr"
    and "vo_RandomValueHash (v1_Result v) = wi_RandomValueHash instr"
    and "vo_EngineVersionHash (v1_Result v) = realEngineVersionHash (ve_lib E)"
    and "vo_ExpiresAt (v1_Result v) = wi_ExpiresAt instr"
    and "vo_Outcome (v1_Result v) \<in> {OutcomePass, OutcomeFail, OutcomeInconclusive}"
    and "0 < vo_ExecutedCount (v1_Result v)"
    and "vo_PassedCount (v1_Result v) \<le> vo_ExecutedCount (v1_Result v)"
    and "vo_PassedCount (v1_Result v) = vo_ExecutedCount (v1_Result v) \<longleftrightarrow>
         vo_Outcome (v1_Result v) = OutcomePass"
  shows "\<exists>jobId. wi_JobId instr = Some jobId \<and> ve_GetJob E t jobId = Inr job \<and> \<not> ej_settled job \<and>
           ej_state job = StateVerifying \<and> verdict_bound cfg jobId job v"
proof -
  from assms(1) have "wi_ChainId instr = Some (uint (vc_ChainID cfg))"
    by (cases "wi_ChainId instr") (auto simp: identity_established_def)
  with assms show ?thesis
    by (auto simp: verdict_bound_def identity_established_def crossCheckInstruction_Ok verdictIdentityFrom_def)
qed

lemma Verify_verdict_bound:
  assumes "Verify cfg E t ctx0 iid instr f = (Ok v, f')"
  shows "\<exists>jobId job. wi_JobId instr = Some jobId \<and> ve_GetJob E t jobId = Inr job \<and> \<not> ej_settled job \<and>
           ej_state job = StateVerifying \<and> verdict_bound cfg jobId job v"
  using assms
proof (cases rule: Verify_cases)
  case (run job rn now b sel os h)
  note c = run_counts [OF run(3) bundle_committed_valid [OF run(2)]]
  have "overall_outcome os \<in> {OutcomePass, OutcomeFail, OutcomeInconclusive}"
    by (simp add: overall_outcome_def split: prod.split)
  with c identity_bound [OF run(1), of v] run(4) show ?thesis by (auto simp: run_verdict_def)
next
  case (inconclusive job rn now d)
  with inconclusiveVerdict_Ok [OF inconclusive(2)] identity_bound [OF inconclusive(1), of v]
  show ?thesis by auto
qed

lemma Verify_verdict_fields:
  assumes "Verify cfg E t ctx0 iid instr f = (Ok v, f')"
  shows "v1_Id v = verdictIdentityFrom instr iid \<and> vo_ArtifactCodeHash (v1_Result v) = wi_ArtifactCodeHash instr"
  using assms by (cases rule: Verify_cases) (auto simp: run_verdict_def dest!: inconclusiveVerdict_Ok)

text \<open>C9: Every verdict, of whatever outcome, is bound to the attempt that is live on chain: its
  identity and its result carry the job's own specification, bundle, artifact, randomness, engine
  version, instruction identifier and expiry as the contract stored them, the outcome is one of the
  three defined codes, and the passed count equals the executed count exactly for PASS.\<close>

theorem Verify_binds_chain_state:
  assumes "Verify cfg E t ctx0 iid instr f = (Ok v, f')"
  shows "\<exists>jobId job. wi_JobId instr = Some jobId \<and> ve_GetJob E t jobId = Inr job \<and> \<not> ej_settled job \<and>
           ej_state job = StateVerifying \<and> verdict_bound cfg jobId job v"
  by (rule Verify_verdict_bound [OF assms])

theorem Verify_binds_chain_state_witness:
  "\<exists>v f'. Verify demo_cfg (demo_env 42) 0 [] 77 demo_instr demo_fetcher = (Ok v, f') \<and>
     vi_InstructionId (v1_Id v) = 77 \<and> vo_ExpiresAt (v1_Result v) = 3000"
proof -
  from demo_Verify [of 42] obtain v f' where v: "Verify demo_cfg (demo_env 42) 0 [] 77 demo_instr demo_fetcher = (Ok v, f')"
    by blast
  have "ve_GetJob (demo_env 42) 0 j = Inr demo_job" for j by (simp add: demo_env_def)
  with Verify_binds_chain_state [OF v] have "vi_InstructionId (v1_Id v) = at_instructionId (ej_current demo_job) \<and>
      vo_ExpiresAt (v1_Result v) = jt_graceEnds (ej_terms demo_job)"
    by (auto simp: verdict_bound_def)
  with v show ?thesis by (auto simp: demo_job_def)
qed

text \<open>The published verdict reveals nothing but identifiers and pass/skip flags: the report hash of
  a run is unchanged when every diagnostic text is replaced, and the verdict issued for a bundle or
  infrastructure problem is the same whatever the problem was.\<close>

theorem Verify_redacts_details:
  "reportHashFor L (map (\<lambda>oc. oc\<lparr>o_Detail := g oc\<rparr>) os) = reportHashFor L os \<and>
   inconclusiveVerdict E t instr identity d = inconclusiveVerdict E t instr identity d'"
  by (simp add: reportHashFor_def inconclusiveVerdict_def public_result_def [abs_def] comp_def)

section \<open>Bounded requests\<close>

lemma run_selected_cong:
  assumes "\<And>k. k < length sel \<Longrightarrow> exec (t + k) (vs ! (sel ! k)) = exec' (t + k) (vs ! (sel ! k))"
  shows "run_selected exec t vs sel = run_selected exec' t vs sel"
  using assms
proof (induction sel arbitrary: t)
  case Nil
  then show ?case by simp
next
  case (Cons i sel)
  have "exec t (vs ! i) = exec' t (vs ! i)" using Cons.prems [of 0] by simp
  moreover have "run_selected exec (Suc t) vs sel = run_selected exec' (Suc t) vs sel"
    using Cons.prems [of "Suc _"] by (intro Cons.IH) simp
  ultimately show ?case by simp
qed

lemma swap_node:
  "ve_lib (E\<lparr>ve_eth := eth'\<rparr>) = ve_lib E" "ve_eth (E\<lparr>ve_eth := eth'\<rparr>) = eth'" "ve_now (E\<lparr>ve_eth := eth'\<rparr>) = ve_now E"
  "ve_GetJob (E\<lparr>ve_eth := eth'\<rparr>) = ve_GetJob E" "ve_net (E\<lparr>ve_eth := eth'\<rparr>) = ve_net E"
  "ve_decrypt (E\<lparr>ve_eth := eth'\<rparr>) = ve_decrypt E" "ve_Unmarshal (E\<lparr>ve_eth := eth'\<rparr>) = ve_Unmarshal E"
  by simp_all

text \<open>The requests of a run: one for each selected vector.\<close>

lemma verify_run_cong:
  assumes "\<And>seed sel. TestSeed (ve_lib E) rn (wi_EscrowAddress instr) (wi_JobId instr) (wi_Attempt instr) (wi_SpecHash instr)
      (wi_ArtifactCodeHash instr) = Ok seed \<Longrightarrow>
    SelectVectors (keccak256 (ve_lib E)) seed (int (length (b_Vectors b))) (b_SelectionCount b) = Ok sel \<Longrightarrow>
    run_selected (\<lambda>tk v. ExecuteVector (ve_lib E) eth' tk (b_TimeoutMsPerCall b # ctx) (wi_ArtifactAddress instr)
         (wi_ArtifactBlock instr) (b_GasLimitPerCall b) (b_MaxResponseBytes b) v) (t + 8) (b_Vectors b) sel =
    run_selected (\<lambda>tk v. ExecuteVector (ve_lib E) (ve_eth E) tk (b_TimeoutMsPerCall b # ctx) (wi_ArtifactAddress instr)
         (wi_ArtifactBlock instr) (b_GasLimitPerCall b) (b_MaxResponseBytes b) v) (t + 8) (b_Vectors b) sel"
  shows "verify_run (E\<lparr>ve_eth := eth'\<rparr>) t ctx instr identity rn now b = verify_run E t ctx instr identity rn now b"
proof -
  have inc: "inconclusiveVerdict (E\<lparr>ve_eth := eth'\<rparr>) tk i d e = inconclusiveVerdict E tk i d e" for tk i d e
    unfolding inconclusiveVerdict_def swap_node by (rule refl)
  show ?thesis
    unfolding verify_run_def Let_def inc swap_node
    by (rule res.case_cong [OF refl], rule res.case_cong [OF refl], rule res.case_cong, rule assms, assumption, assumption)
      (rule refl)+
qed

lemma verify_run_requests:
  assumes valid: "Validate b = None"
  shows "\<exists>qs. length qs \<le> 32 \<and>
     (\<forall>k < length qs. artifact_request (t + 8 + k) (b_TimeoutMsPerCall b # ctx) (wi_ArtifactAddress instr) (wi_ArtifactBlock instr)
        (b_GasLimitPerCall b) (qs ! k)) \<and>
     (\<forall>eth'. (\<forall>q \<in> set qs. same_answer (ve_eth E) eth' q) \<longrightarrow>
        verify_run (E\<lparr>ve_eth := eth'\<rparr>) t ctx instr identity rn now b = verify_run E t ctx instr identity rn now b)"
proof (cases "\<exists>seed sel. TestSeed (ve_lib E) rn (wi_EscrowAddress instr) (wi_JobId instr) (wi_Attempt instr) (wi_SpecHash instr)
      (wi_ArtifactCodeHash instr) = Ok seed \<and> SelectVectors (keccak256 (ve_lib E)) seed (int (length (b_Vectors b))) (b_SelectionCount b) = Ok sel")
  case False
  then have "verify_run (E\<lparr>ve_eth := eth'\<rparr>) t ctx instr identity rn now b = verify_run E t ctx instr identity rn now b" for eth'
    by (intro verify_run_cong) blast
  then show ?thesis by (intro exI [of _ "[]"]) simp
next
  case True
  then obtain seed sel where s: "TestSeed (ve_lib E) rn (wi_EscrowAddress instr) (wi_JobId instr) (wi_Attempt instr) (wi_SpecHash instr)
      (wi_ArtifactCodeHash instr) = Ok seed"
    "SelectVectors (keccak256 (ve_lib E)) seed (int (length (b_Vectors b))) (b_SelectionCount b) = Ok sel" by blast
  let ?ctx = "b_TimeoutMsPerCall b # ctx"
  let ?exec = "\<lambda>eth tk v. ExecuteVector (ve_lib E) eth tk ?ctx (wi_ArtifactAddress instr)
         (wi_ArtifactBlock instr) (b_GasLimitPerCall b) (b_MaxResponseBytes b) v"
  have gas: "0 < b_GasLimitPerCall b" "b_GasLimitPerCall b < 2 ^ 64"
    using Validate_limits [OF valid] by (simp_all add: CallGasCap_def)
  have "length sel \<le> 32"
    using Validate_selects [OF valid, of "ve_lib E" seed] s(2) Validate_selection(3) [OF valid]
    by (metis nat_le_iff of_nat_numeral res.inject(1))
  moreover have "\<forall>k. \<exists>q. artifact_request (t + 8 + k) ?ctx (wi_ArtifactAddress instr) (wi_ArtifactBlock instr) (b_GasLimitPerCall b) q \<and>
      (\<forall>eth eth'. same_answer eth eth' q \<longrightarrow>
         ?exec eth' (t + 8 + k) (b_Vectors b ! (sel ! k)) = ?exec eth (t + 8 + k) (b_Vectors b ! (sel ! k)))"
    by (rule allI, rule ExecuteVector_one_request [OF gas])
  from choice [OF this] obtain Q where
    Q: "\<forall>k. artifact_request (t + 8 + k) ?ctx (wi_ArtifactAddress instr) (wi_ArtifactBlock instr) (b_GasLimitPerCall b) (Q k) \<and>
      (\<forall>eth eth'. same_answer eth eth' (Q k) \<longrightarrow>
         ?exec eth' (t + 8 + k) (b_Vectors b ! (sel ! k)) = ?exec eth (t + 8 + k) (b_Vectors b ! (sel ! k)))" ..
  moreover have "verify_run (E\<lparr>ve_eth := eth'\<rparr>) t ctx instr identity rn now b = verify_run E t ctx instr identity rn now b"
    if "\<forall>q \<in> set (map Q [0..<length sel]). same_answer (ve_eth E) eth' q" for eth'
  proof -
    have "run_selected (?exec eth') (t + 8) (b_Vectors b) sel = run_selected (?exec (ve_eth E)) (t + 8) (b_Vectors b) sel"
      by (rule run_selected_cong) (use Q that in simp)
    then show ?thesis by (intro verify_run_cong) (use s in simp)
  qed
  ultimately show ?thesis using Q by (intro exI [of _ "map Q [0..<length sel]"]) (simp del: set_map)
qed

text \<open>The requests that establish the identity: the artifact's code, and the random number.\<close>

lemma verify_identity_requests:
  "\<exists>data. \<forall>eth'. same_answer (ve_eth E) eth' (AskCode (t + 2) ctx (wi_ArtifactAddress instr) (wi_ArtifactBlock instr)) \<longrightarrow>
     same_answer (ve_eth E) eth' (AskCall (t + 3) ctx (ethereumCallMsg (vc_RandomNumberV2Addr cfg) data) None) \<longrightarrow>
     verify_identity cfg (E\<lparr>ve_eth := eth'\<rparr>) t ctx iid instr = verify_identity cfg E t ctx iid instr"
proof -
  obtain data where data: "abi_Pack (ve_lib E) [TUint256] [VBig (wi_RandomRound instr)] = Ok packed \<Longrightarrow>
      data = func_selector (ve_lib E) ''getRandomNumberHistorical(uint256)'' @ packed" for packed
    by (cases "abi_Pack (ve_lib E) [TUint256] [VBig (wi_RandomRound instr)]") auto
  have fr: "FetchRandomNumber (ve_lib E) eth' (t + 3) ctx (vc_RandomNumberV2Addr cfg) (wi_RandomRound instr) =
      FetchRandomNumber (ve_lib E) (ve_eth E) (t + 3) ctx (vc_RandomNumberV2Addr cfg) (wi_RandomRound instr)"
    if "same_answer (ve_eth E) eth' (AskCall (t + 3) ctx (ethereumCallMsg (vc_RandomNumberV2Addr cfg) data) None)" for eth'
    using that data
    by (cases "abi_Pack (ve_lib E) [TUint256] [VBig (wi_RandomRound instr)]") (simp_all add: FetchRandomNumber_def)
  have rc: "recomputeArtifactCodeHash L eth' (t + 2) ctx (wi_ArtifactAddress instr) (wi_ArtifactBlock instr) =
      recomputeArtifactCodeHash L (ve_eth E) (t + 2) ctx (wi_ArtifactAddress instr) (wi_ArtifactBlock instr)"
    if "same_answer (ve_eth E) eth' (AskCode (t + 2) ctx (wi_ArtifactAddress instr) (wi_ArtifactBlock instr))" for eth' L
    using that by (simp add: recomputeArtifactCodeHash_def)
  show ?thesis
  proof (intro exI [of _ data] allI impI)
    fix eth'
    assume "same_answer (ve_eth E) eth' (AskCode (t + 2) ctx (wi_ArtifactAddress instr) (wi_ArtifactBlock instr))"
      and "same_answer (ve_eth E) eth' (AskCall (t + 3) ctx (ethereumCallMsg (vc_RandomNumberV2Addr cfg) data) None)"
    from rc [OF this(1)] fr [OF this(2)]
    show "verify_identity cfg (E\<lparr>ve_eth := eth'\<rparr>) t ctx iid instr = verify_identity cfg E t ctx iid instr"
      unfolding verify_identity_def Let_def swap_node by (simp only:)
  qed
qed



end
