(* ===== verification/Settlement.thy ===== *)
theory Settlement
  imports Verifier
begin

text \<open>
  The settlement side of the protocol, \<open>settleAttempt\<close> of \<open>contracts/WorkProofEscrow.sol\<close> with its
  binding checks and the signed digest of \<open>contracts/lib/FccVerdict.sol\<close>, and what joins it to the
  verifier: every verdict \<open>Verify\<close> issues for a live job passes the contract's checks. The EVM's
  precompile, the ABI decoder and the block are parameters; \<open>uint256\<close> values are \<open>int\<close>.
\<close>

section \<open>Blocks and digests\<close>

record block_env =
  bk_timestamp :: int
  bk_this :: address
  bk_chainid :: int
  bk_codehash :: "address \<Rightarrow> bytes32"

text \<open>\<open>bytes32("...")\<close>: the characters left-aligned, padded with zero bytes.\<close>

definition bytes32_literal :: "string \<Rightarrow> bytes32" where
  "bytes32_literal s = bytes32_of_bytes (take 32 (string_bytes s @ replicate 32 0))"

definition OP_TYPE :: bytes32 where "OP_TYPE = bytes32_literal ''WORKPROOF''"
definition OP_COMMAND :: bytes32 where "OP_COMMAND = bytes32_literal ''VERIFY''"

definition actionResultHash :: "ext_lib \<Rightarrow> bytes \<Rightarrow> bytes32 \<Rightarrow> string \<Rightarrow> u8 \<Rightarrow> bytes32" where
  "actionResultHash L data iid submissionTag status =
     Keccak256 L (bytes_of_bytes32 (Keccak256 L data) @ bytes_of_bytes32 iid @
                  bytes_of_bytes32 (Keccak256 L (string_bytes submissionTag)) @ [status])"

definition payloadHash :: "ext_lib \<Rightarrow> int \<Rightarrow> bytes32 \<Rightarrow> bytes32" where
  "payloadHash L chainId dataHash =
     Keccak256 L (bytes_of_bytes32 (bytes32_literal ''TEE_ACTION_RESULT'') @ be_bytes 32 (nat chainId) @
                  bytes_of_bytes32 dataHash)"

definition ethSignedHash :: "ext_lib \<Rightarrow> bytes32 \<Rightarrow> bytes32" where
  "ethSignedHash L h =
     Keccak256 L (0x19 # string_bytes ''Ethereum Signed Message:'' @ [0x0A] @ string_bytes ''32'' @ bytes_of_bytes32 h)"

definition SECP256K1_HALF_N :: bytes32 where
  "SECP256K1_HALF_N = 0x7FFFFFFFFFFFFFFFFFFFFFFFFFFFFFFF5D576E7357A4501DDFE92F46681B20A0"

definition recoverCanonical ::
  "(bytes32 \<Rightarrow> u8 \<Rightarrow> bytes32 \<Rightarrow> bytes32 \<Rightarrow> address) \<Rightarrow> bytes32 \<Rightarrow> bytes \<Rightarrow> address" where
  "recoverCanonical ecrecover digest signature =
     (if length signature \<noteq> 65 then 0
      else let r = bytes32_of_bytes (take 32 signature); s = bytes32_of_bytes (take 32 (drop 32 signature));
               v0 = signature ! 64; v = (if v0 < 27 then v0 + 27 else v0) in
        if v \<noteq> 27 \<and> v \<noteq> 28 then 0 else if s > SECP256K1_HALF_N then 0 else ecrecover digest v r s)"

definition recoverVerdictSigner ::
  "ext_lib \<Rightarrow> (bytes32 \<Rightarrow> u8 \<Rightarrow> bytes32 \<Rightarrow> bytes32 \<Rightarrow> address) \<Rightarrow> bytes \<Rightarrow> bytes32 \<Rightarrow> string \<Rightarrow> u8 \<Rightarrow> int \<Rightarrow> bytes \<Rightarrow> address" where
  "recoverVerdictSigner L ecrecover data iid submissionTag status chainId signature =
     recoverCanonical ecrecover (ethSignedHash L (payloadHash L chainId (actionResultHash L data iid submissionTag status))) signature"

section \<open>Binding checks\<close>

text \<open>The contract's custom errors, \<open>require\<close> messages, checked arithmetic and a revert of a called
  contract.\<close>

datatype revert =
    InvalidState | Deadline | InvalidVerdict | NotOwner | IsPaused | ZeroAddress | NoCode | FeeTooHigh
  | RandomNotReady | TeeNotProduction | Message string | ArithmeticPanic | CallReverted

definition checkIdentity :: "block_env \<Rightarrow> EscrowJob \<Rightarrow> VerdictIdentity \<Rightarrow> int \<Rightarrow> revert option" where
  "checkIdentity B j vi jid =
     first_err
       [(vi_SchemaVersion vi \<noteq> 1 \<or> vi_EscrowAddress vi \<noteq> bk_this B \<or> vi_ChainId vi \<noteq> Some (bk_chainid B) \<or>
           vi_JobId vi \<noteq> Some jid, InvalidVerdict),
        (vi_Attempt vi \<noteq> at_attempt (ej_current j) \<or> vi_InstructionId vi \<noteq> at_instructionId (ej_current j),
         InvalidVerdict),
        (vi_SpecHash vi \<noteq> jt_specHash (ej_terms j) \<or>
           vi_PrivateBundleHash vi \<noteq> jt_privateBundleHash (ej_terms j), InvalidVerdict),
        (vi_ArtifactAddress vi \<noteq> at_artifactAddress (ej_current j) \<or>
           vi_ArtifactBlock vi \<noteq> Some (at_artifactBlock (ej_current j)), InvalidVerdict)]"

definition checkOutcomeBinding :: "block_env \<Rightarrow> EscrowJob \<Rightarrow> VerdictOutcome \<Rightarrow> revert option" where
  "checkOutcomeBinding B j vo =
     first_err
       [(bk_codehash B (at_artifactAddress (ej_current j)) \<noteq> at_artifactCodeHash (ej_current j), InvalidVerdict),
        (vo_ArtifactCodeHash vo \<noteq> at_artifactCodeHash (ej_current j), InvalidVerdict),
        (vo_RandomRound vo \<noteq> Some (at_randomRound (ej_current j)) \<or>
           vo_RandomValueHash vo \<noteq> at_randomValueHash (ej_current j), InvalidVerdict),
        (vo_EngineVersionHash vo \<noteq> jt_engineVersionHash (ej_terms j), InvalidVerdict),
        (vo_ReportHash vo = 0, InvalidVerdict),
        (vo_ExecutedCount vo = 0 \<or> vo_PassedCount vo > vo_ExecutedCount vo, InvalidVerdict),
        (vo_Outcome vo = OutcomePass \<and> vo_PassedCount vo \<noteq> vo_ExecutedCount vo, InvalidVerdict),
        (vo_Outcome vo \<noteq> OutcomePass \<and> vo_PassedCount vo = vo_ExecutedCount vo, InvalidVerdict),
        (vo_ExpiresAt vo \<noteq> jt_graceEnds (ej_terms j), InvalidVerdict),
        (uint (vo_IssuedAt vo) > bk_timestamp B \<or> vo_IssuedAt vo < at_dispatchedAt (ej_current j), InvalidVerdict)]"

definition checkBinding :: "block_env \<Rightarrow> EscrowJob \<Rightarrow> VerdictV1 \<Rightarrow> int \<Rightarrow> revert option" where
  "checkBinding B j v jid =
     (case checkIdentity B j (v1_Id v) jid of
        Some e \<Rightarrow> Some e
      | None \<Rightarrow> checkOutcomeBinding B j (v1_Result v))"

section \<open>Settlement\<close>

definition StateAwaitingResubmission :: u8 where "StateAwaitingResubmission = 5"
definition StateRetryable :: u8 where "StateRetryable = 6"
definition StatePaid :: u8 where "StatePaid = 7"
definition StateRefundPending :: u8 where "StateRefundPending = 10"

text \<open>The arguments of the call and the two external functions it uses.\<close>

record settle_args =
  sa_data :: bytes
  sa_opType :: bytes32
  sa_opCommand :: bytes32
  sa_submissionTag :: string
  sa_status :: u8
  sa_signature :: bytes

text \<open>The result is a revert, or the new job and the token transfers it requests, in order. (A failing
  transfer reverts the call; the theory of the whole contract accounts for that.) \<open>abi.decode\<close> of malformed data
  reverts with no error of the contract.\<close>

definition settleAttempt ::
  "ext_lib \<Rightarrow> (bytes \<Rightarrow> VerdictV1 option) \<Rightarrow> (bytes32 \<Rightarrow> u8 \<Rightarrow> bytes32 \<Rightarrow> bytes32 \<Rightarrow> address) \<Rightarrow> address \<Rightarrow> block_env \<Rightarrow> int \<Rightarrow>
   settle_args \<Rightarrow> EscrowJob \<Rightarrow> revert + (EscrowJob \<times> (address \<times> int) list)" where
  "settleAttempt L decode ecrecover treasury B jid args j =
     (case first_err
        [(ej_state j \<noteq> StateVerifying, InvalidState),
         (bk_timestamp B > uint (at_timeoutAt (ej_current j)), InvalidState),
         (bk_timestamp B > uint (jt_graceEnds (ej_terms j)), InvalidState),
         (sa_status args \<noteq> 1, InvalidVerdict),
         (sa_opType args \<noteq> OP_TYPE \<or> sa_opCommand args \<noteq> OP_COMMAND, InvalidVerdict),
         (Keccak256 L (string_bytes (sa_submissionTag args)) \<noteq> Keccak256 L (string_bytes ''threshold''), InvalidVerdict),
         (at_instructionId (ej_current j) = 0, InvalidState)]
      of Some e \<Rightarrow> Inl e
       | None \<Rightarrow>
         (case decode (sa_data args) of
            None \<Rightarrow> Inl CallReverted
          | Some v \<Rightarrow>
            (let signer = recoverVerdictSigner L ecrecover (sa_data args) (vi_InstructionId (v1_Id v))
                   (sa_submissionTag args) (sa_status args) (bk_chainid B) (sa_signature args) in
             if signer = 0 \<or> signer \<noteq> jt_expectedTee (ej_terms j) then Inl InvalidVerdict
             else case checkBinding B j v jid of
               Some e \<Rightarrow> Inl e
             | None \<Rightarrow>
               if vo_Outcome (v1_Result v) = OutcomeFail then
                 Inr (j\<lparr>ej_state := (if bk_timestamp B > uint (jt_submitBy (ej_terms j))
                                     then StateRefundPending else StateAwaitingResubmission)\<rparr>, [])
               else if vo_Outcome (v1_Result v) = OutcomeInconclusive then
                 Inr (j\<lparr>ej_state := (if bk_timestamp B > uint (jt_submitBy (ej_terms j))
                                     then StateRefundPending else StateRetryable)\<rparr>, [])
               else
                 Inr (j\<lparr>ej_state := StatePaid, ej_settled := True\<rparr>,
                      [(jt_contractor (ej_terms j), jt_principal (ej_terms j)), (treasury, jt_fee (ej_terms j))]))))"

section \<open>From verdict to settlement\<close>

text \<open>The call carries this verdict, signed by the expected TEE, in time.\<close>

definition settle_call_ok ::
  "ext_lib \<Rightarrow> (bytes \<Rightarrow> VerdictV1 option) \<Rightarrow> (bytes32 \<Rightarrow> u8 \<Rightarrow> bytes32 \<Rightarrow> bytes32 \<Rightarrow> address) \<Rightarrow> block_env \<Rightarrow>
   settle_args \<Rightarrow> EscrowJob \<Rightarrow> VerdictV1 \<Rightarrow> bool" where
  "settle_call_ok L decode ecrecover B args j v \<longleftrightarrow>
     ej_state j = StateVerifying \<and> bk_timestamp B \<le> uint (at_timeoutAt (ej_current j)) \<and>
     bk_timestamp B \<le> uint (jt_graceEnds (ej_terms j)) \<and> sa_status args = 1 \<and> sa_opType args = OP_TYPE \<and>
     sa_opCommand args = OP_COMMAND \<and>
     Keccak256 L (string_bytes (sa_submissionTag args)) = Keccak256 L (string_bytes ''threshold'') \<and>
     at_instructionId (ej_current j) \<noteq> 0 \<and> decode (sa_data args) = Some v \<and>
     recoverVerdictSigner L ecrecover (sa_data args) (vi_InstructionId (v1_Id v)) (sa_submissionTag args)
       (sa_status args) (bk_chainid B) (sa_signature args) = jt_expectedTee (ej_terms j) \<and>
     jt_expectedTee (ej_terms j) \<noteq> 0"

definition settled_state :: "block_env \<Rightarrow> EscrowJob \<Rightarrow> u8 \<Rightarrow> u8" where
  "settled_state B j outcome =
     (if outcome = OutcomePass then StatePaid
      else if bk_timestamp B > uint (jt_submitBy (ej_terms j)) then StateRefundPending
      else if outcome = OutcomeFail then StateAwaitingResubmission else StateRetryable)"

definition settled_transfers :: "address \<Rightarrow> EscrowJob \<Rightarrow> u8 \<Rightarrow> (address \<times> int) list" where
  "settled_transfers treasury j outcome =
     (if outcome = OutcomePass
      then [(jt_contractor (ej_terms j), jt_principal (ej_terms j)), (treasury, jt_fee (ej_terms j))] else [])"

lemma settleAttempt_Inr_iff:
  "settleAttempt L decode ecrecover treasury B jid args j = Inr r \<longleftrightarrow>
     (\<exists>v. settle_call_ok L decode ecrecover B args j v \<and> checkBinding B j v jid = None \<and>
        r = (let oc = vo_Outcome (v1_Result v);
                 outcome = (if oc = OutcomeFail \<or> oc = OutcomeInconclusive then oc else OutcomePass) in
             (j\<lparr>ej_state := settled_state B j outcome, ej_settled := (ej_settled j \<or> outcome = OutcomePass)\<rparr>,
              settled_transfers treasury j outcome)))"
  (is "?lhs \<longleftrightarrow> (\<exists>v. ?ok v \<and> ?bound v \<and> r = ?result v)")
proof -
  let ?guards = "ej_state j = StateVerifying \<and> bk_timestamp B \<le> uint (at_timeoutAt (ej_current j)) \<and>
     bk_timestamp B \<le> uint (jt_graceEnds (ej_terms j)) \<and> sa_status args = 1 \<and> sa_opType args = OP_TYPE \<and>
     sa_opCommand args = OP_COMMAND \<and>
     Keccak256 L (string_bytes (sa_submissionTag args)) = Keccak256 L (string_bytes ''threshold'') \<and>
     at_instructionId (ej_current j) \<noteq> 0"
  show ?thesis
  proof (cases ?guards)
    case False
    then have "\<not> ?lhs" and "\<not> ?ok v" for v
      by (auto simp: settleAttempt_def settle_call_ok_def not_le split: if_splits)
    then show ?thesis by blast
  next
    case True
    from True show ?thesis
      by (cases "decode (sa_data args)")
        (auto simp: settleAttempt_def settle_call_ok_def Let_def settled_state_def settled_transfers_def
          split: option.split)
  qed
qed

lemma verdict_bound_checks:
  assumes "verdict_bound cfg jid j v" and "bk_this B = vc_EscrowAddress cfg" and "bk_chainid B = uint (vc_ChainID cfg)"
    and "bk_codehash B (at_artifactAddress (ej_current j)) = at_artifactCodeHash (ej_current j)"
    and "vo_ReportHash (v1_Result v) \<noteq> 0"
    and "at_dispatchedAt (ej_current j) \<le> vo_IssuedAt (v1_Result v)" and "uint (vo_IssuedAt (v1_Result v)) \<le> bk_timestamp B"
  shows "checkBinding B j v jid = None"
proof -
  have "checkIdentity B j (v1_Id v) jid = None"
    using assms(1-3) by (simp add: checkIdentity_def verdict_bound_def)
  moreover have "checkOutcomeBinding B j (v1_Result v) = None"
    using assms(1,4-7) by (auto simp: checkOutcomeBinding_def verdict_bound_def)
  ultimately show ?thesis by (simp add: checkBinding_def)
qed

text \<open>End to end: every verdict \<open>Verify\<close> issues is one the escrow accepts. If the job is still as
  the verifier read it, the artifact's code is unchanged, the report hash is not zero, the verifier's
  clock lies between dispatch and the settling block, and the signed result arrives in time, then
  \<open>settleAttempt\<close> does not revert; it pays principal and fee exactly for PASS, and otherwise moves
  no money and leaves the job open for resubmission, retry or refund.\<close>

theorem verdict_settles:
  assumes "Verify cfg E t ctx0 iid instr f = (Ok v, f')"
    and "wi_JobId instr = Some jid" and "ve_GetJob E t jid = Inr j"
    and "bk_this B = vc_EscrowAddress cfg" and "bk_chainid B = uint (vc_ChainID cfg)"
    and "bk_codehash B (at_artifactAddress (ej_current j)) = at_artifactCodeHash (ej_current j)"
    and "vo_ReportHash (v1_Result v) \<noteq> 0"
    and "at_dispatchedAt (ej_current j) \<le> vo_IssuedAt (v1_Result v)"
    and "uint (vo_IssuedAt (v1_Result v)) \<le> bk_timestamp B"
    and "settle_call_ok L decode ecrecover B args j v"
  shows "\<exists>j'. settleAttempt L decode ecrecover treasury B jid args j =
           Inr (j', settled_transfers treasury j (vo_Outcome (v1_Result v))) \<and>
         ej_state j' = settled_state B j (vo_Outcome (v1_Result v)) \<and>
         (ej_settled j' \<longleftrightarrow> vo_Outcome (v1_Result v) = OutcomePass) \<and> ej_terms j' = ej_terms j"
proof -
  from Verify_verdict_bound [OF assms(1)] assms(2,3)
  have b: "verdict_bound cfg jid j v" and u: "\<not> ej_settled j" by auto
  have c: "checkBinding B j v jid = None" by (rule verdict_bound_checks [OF b assms(4-9)])
  have oc: "vo_Outcome (v1_Result v) \<in> {OutcomePass, OutcomeFail, OutcomeInconclusive}"
    using b by (simp add: verdict_bound_def)
  let ?o = "vo_Outcome (v1_Result v)"
  let ?j = "j\<lparr>ej_state := settled_state B j ?o, ej_settled := (ej_settled j \<or> ?o = OutcomePass)\<rparr>"
  have "settleAttempt L decode ecrecover treasury B jid args j = Inr (?j, settled_transfers treasury j ?o)"
    unfolding settleAttempt_Inr_iff using assms(10) c oc by (intro exI [of _ v]) (auto simp: Let_def)
  with u show ?thesis by (intro exI [of _ ?j]) simp
qed

text \<open>C21: Money leaves the escrow only for an authenticated PASS, and only once: if \<open>settleAttempt\<close>
  transfers anything, the submitted data decodes to a verdict with outcome PASS and equal counts, bound
  to this job, escrow and chain and signed by the job's own TEE; exactly the principal goes to the
  contractor and the fee to the treasury; and any later \<open>settleAttempt\<close> on the resulting job reverts.\<close>

theorem settle_pays_only_for_pass:
  assumes "settleAttempt L decode ecrecover treasury B jid args j = Inr (j', transfers)" and "transfers \<noteq> []"
    and "\<And>d w. decode d = Some w \<Longrightarrow> vo_Outcome (v1_Result w) \<in> {OutcomePass, OutcomeFail, OutcomeInconclusive}"
  shows "(\<exists>v. settle_call_ok L decode ecrecover B args j v \<and> vo_Outcome (v1_Result v) = OutcomePass \<and>
           vo_PassedCount (v1_Result v) = vo_ExecutedCount (v1_Result v) \<and> 0 < vo_ExecutedCount (v1_Result v) \<and>
           vi_JobId (v1_Id v) = Some jid \<and> vi_EscrowAddress (v1_Id v) = bk_this B \<and>
           vi_ChainId (v1_Id v) = Some (bk_chainid B) \<and>
           vi_InstructionId (v1_Id v) = at_instructionId (ej_current j) \<and>
           transfers = [(jt_contractor (ej_terms j), jt_principal (ej_terms j)), (treasury, jt_fee (ej_terms j))]) \<and>
         settleAttempt L' decode' ecrecover' treasury' B' jid' args' j' = Inl InvalidState"
proof -
  from assms(1) obtain v where ok: "settle_call_ok L decode ecrecover B args j v" and c: "checkBinding B j v jid = None"
    and r: "(j', transfers) = (let oc = vo_Outcome (v1_Result v);
                 outcome = (if oc = OutcomeFail \<or> oc = OutcomeInconclusive then oc else OutcomePass) in
             (j\<lparr>ej_state := settled_state B j outcome, ej_settled := (ej_settled j \<or> outcome = OutcomePass)\<rparr>,
              settled_transfers treasury j outcome))"
    unfolding settleAttempt_Inr_iff by blast
  have "vo_Outcome (v1_Result v) \<in> {OutcomePass, OutcomeFail, OutcomeInconclusive}"
    using ok assms(3) [of "sa_data args" v] by (simp add: settle_call_ok_def)
  with r assms(2) have p: "vo_Outcome (v1_Result v) = OutcomePass"
    by (auto simp: Let_def settled_transfers_def)
  have i: "checkIdentity B j (v1_Id v) jid = None" and o: "checkOutcomeBinding B j (v1_Result v) = None"
    using c by (simp_all add: checkBinding_def split: option.splits)
  from i have "vi_JobId (v1_Id v) = Some jid" "vi_EscrowAddress (v1_Id v) = bk_this B"
    "vi_ChainId (v1_Id v) = Some (bk_chainid B)" "vi_InstructionId (v1_Id v) = at_instructionId (ej_current j)"
    by (simp_all add: checkIdentity_def split: if_splits)
  moreover from o p have "vo_PassedCount (v1_Result v) = vo_ExecutedCount (v1_Result v)" "vo_ExecutedCount (v1_Result v) \<noteq> 0"
    by (simp_all add: checkOutcomeBinding_def split: if_splits)
  moreover from this have "0 < vo_ExecutedCount (v1_Result v)" by (simp add: word_gt_0)
  moreover from r p have "transfers = [(jt_contractor (ej_terms j), jt_principal (ej_terms j)), (treasury, jt_fee (ej_terms j))]"
    by (simp add: Let_def settled_transfers_def)
  moreover from r p have "ej_state j' = StatePaid" by (simp add: Let_def settled_state_def)
  then have "settleAttempt L' decode' ecrecover' treasury' B' jid' args' j' = Inl InvalidState"
    by (simp add: settleAttempt_def StatePaid_def StateVerifying_def)
  ultimately show ?thesis using ok p by blast
qed

section \<open>A settled run\<close>

definition demo_block :: block_env where
  "demo_block = \<lparr>bk_timestamp = 1200, bk_this = 11, bk_chainid = 114, bk_codehash = (\<lambda>_. 7)\<rparr>"

definition demo_args :: settle_args where
  "demo_args = \<lparr>sa_data = [], sa_opType = OP_TYPE, sa_opCommand = OP_COMMAND, sa_submissionTag = ''threshold'',
     sa_status = 1, sa_signature = replicate 65 0\<rparr>"

definition demo_verdict :: VerdictV1 where
  "demo_verdict = run_verdict (demo_env 42) demo_instr (verdictIdentityFrom demo_instr 77) 1000 [decided demo_equals True] 7"

lemma demo_signer: "recoverVerdictSigner L (\<lambda>_ _ _ _. 3) d i tag st c (replicate 65 0) = 3"
proof -
  have "bytes32_of_bytes (replicate 32 0) = 0" by code_simp
  then show ?thesis
    by (simp add: recoverVerdictSigner_def recoverCanonical_def Let_def SECP256K1_HALF_N_def min_def)
qed

lemma demo_call_ok:
  "settle_call_ok demo_lib (\<lambda>_. Some demo_verdict) (\<lambda>_ _ _ _. 3) demo_block demo_args demo_job demo_verdict"
  by (simp add: settle_call_ok_def demo_args_def demo_signer) (simp add: demo_job_def demo_block_def)

lemma demo_verdict_issued:
  "\<exists>f'. Verify demo_cfg (demo_env 42) 0 [] 77 demo_instr demo_fetcher = (Ok demo_verdict, f')"
  using demo_Verify [of 42] by (simp add: demo_verdict_def)

lemma demo_verdict_fields:
  "vo_Outcome (v1_Result demo_verdict) = OutcomePass" "vo_ReportHash (v1_Result demo_verdict) = 7"
  "vo_IssuedAt (v1_Result demo_verdict) = 1000"
  using demo_outcome [of "demo_env 42" demo_instr _ 1000 demo_equals True 7]
  by (simp_all add: demo_verdict_def) (simp_all add: run_verdict_def)

theorem verdict_settles_witness:
  "\<exists>j'. settleAttempt demo_lib (\<lambda>_. Some demo_verdict) (\<lambda>_ _ _ _. 3) 50 demo_block 1 demo_args demo_job =
     Inr (j', [(2, 100), (50, 1)]) \<and> ej_settled j'"
proof -
  obtain f' where v: "Verify demo_cfg (demo_env 42) 0 [] 77 demo_instr demo_fetcher = (Ok demo_verdict, f')"
    using demo_verdict_issued by blast
  have "\<exists>j'. settleAttempt demo_lib (\<lambda>_. Some demo_verdict) (\<lambda>_ _ _ _. 3) 50 demo_block 1 demo_args demo_job =
           Inr (j', settled_transfers 50 demo_job (vo_Outcome (v1_Result demo_verdict))) \<and>
         ej_state j' = settled_state demo_block demo_job (vo_Outcome (v1_Result demo_verdict)) \<and>
         (ej_settled j' \<longleftrightarrow> vo_Outcome (v1_Result demo_verdict) = OutcomePass) \<and> ej_terms j' = ej_terms demo_job"
    by (rule verdict_settles [OF v])
      (simp_all add: demo_call_ok demo_verdict_fields, simp_all add: demo_instr_def demo_env_def demo_block_def demo_cfg_def demo_job_def)
  then show ?thesis
    by (auto simp: demo_verdict_fields settled_transfers_def demo_job_def)
qed

lemma demo_binding: "checkBinding demo_block demo_job demo_verdict 1 = None"
proof -
  have "verdict_bound demo_cfg 1 demo_job demo_verdict"
    using demo_verdict_issued Verify_verdict_bound [of demo_cfg "demo_env 42" 0 "[]" 77 demo_instr demo_fetcher demo_verdict]
    by (auto simp: demo_env_def demo_instr_def)
  then show ?thesis
    by (rule verdict_bound_checks) (simp_all add: demo_verdict_fields demo_block_def demo_cfg_def demo_job_def)
qed

theorem settle_pays_only_for_pass_witness:
  "\<exists>j'. settleAttempt demo_lib (\<lambda>_. Some demo_verdict) (\<lambda>_ _ _ _. 3) 50 demo_block 1 demo_args demo_job =
          Inr (j', [(2, 100), (50, 1)]) \<and>
        settleAttempt demo_lib (\<lambda>_. Some demo_verdict) (\<lambda>_ _ _ _. 3) 50 demo_block 1 demo_args j' = Inl InvalidState"
proof -
  have "settleAttempt demo_lib (\<lambda>_. Some demo_verdict) (\<lambda>_ _ _ _. 3) 50 demo_block 1 demo_args demo_job =
      Inr (demo_job\<lparr>ej_state := settled_state demo_block demo_job OutcomePass, ej_settled := True\<rparr>,
           settled_transfers 50 demo_job OutcomePass)"
    unfolding settleAttempt_Inr_iff
    by (intro exI [of _ demo_verdict]) (simp add: Let_def demo_verdict_fields demo_call_ok demo_binding)
  moreover have "settled_transfers 50 demo_job OutcomePass = [(2, 100), (50, 1)]"
    by (simp add: settled_transfers_def demo_job_def)
  ultimately obtain j' where
    s: "settleAttempt demo_lib (\<lambda>_. Some demo_verdict) (\<lambda>_ _ _ _. 3) 50 demo_block 1 demo_args demo_job = Inr (j', [(2, 100), (50, 1)])"
    by simp
  have "settleAttempt demo_lib (\<lambda>_. Some demo_verdict) (\<lambda>_ _ _ _. 3) 50 demo_block 1 demo_args j' = Inl InvalidState"
    using settle_pays_only_for_pass [OF s] demo_verdict_fields(1) by simp
  with s show ?thesis by blast
qed

end
