(* ===== verification/Extension.thy ===== *)
theory Extension
  imports Settlement
begin

text \<open>
  The extension server, \<open>go/internal/extension/extension.go\<close> and \<open>utils.go\<close>: construction from the
  configuration, the two HTTP handlers, routing by operation, the greeting handlers with their
  counters and the VERIFY handler. A request is one step on the extension's state; the mutex makes the
  counter updates atomic, so concurrent requests are sequences of steps in lock order. The tee-node
  types' codecs, the request decoders and the node's helper \<open>ToHash\<close> are parameters. A panic in a
  handler aborts the connection and is the response \<open>Panic\<close>.
\<close>

section \<open>Data\<close>

record Action =
  ac_ID :: bytes32
  ac_SubmissionTag :: string
  ac_Message :: bytes

record DataFixed =
  df_OPType :: bytes32
  df_OPCommand :: bytes32
  df_OriginalMessage :: bytes

record ActionResult =
  ar_ID :: bytes32
  ar_SubmissionTag :: string
  ar_Version :: string
  ar_OPType :: bytes32
  ar_OPCommand :: bytes32
  ar_Data :: bytes
  ar_Status :: u8
  ar_Log :: string

record http_request =
  rq_ContentType :: string
  rq_Body :: bytes

type_synonym http_response = "(string, int \<times> bytes) res"

record ext_env =
  xe_ve :: verify_env
  xe_Dial :: "string \<Rightarrow> string option"
  xe_BindEscrow :: "address \<Rightarrow> string option"
  xe_IsHexAddress :: "string \<Rightarrow> bool"
  xe_ToHash :: "string \<Rightarrow> bytes32"
  xe_HashHex :: "bytes32 \<Rightarrow> string"
  xe_ParseDataFixed :: "bytes \<Rightarrow> string + DataFixed"
  xe_DecodeHello :: "bytes \<Rightarrow> string + string"
  xe_DecodeGoodbye :: "bytes \<Rightarrow> string + (string \<times> string)"
  xe_DecodeInstruction :: "bytes \<Rightarrow> string + WorkProofInstruction"
  xe_EncodeVerdict :: "VerdictV1 \<Rightarrow> string + bytes"
  xe_MarshalResult :: "ActionResult \<Rightarrow> bytes"
  xe_UnmarshalLog :: "bytes \<Rightarrow> string option"
  xe_MediaType :: "string \<Rightarrow> string option"
  xe_DecodeAction :: "bytes \<Rightarrow> bool \<Rightarrow> string + Action"
  xe_OnlyOneValue :: "bytes \<Rightarrow> bool"

record http_server =
  hs_Addr :: string
  hs_Routes :: "string list"
  hs_ReadHeaderTimeout :: int
  hs_ReadTimeout :: int
  hs_WriteTimeout :: int
  hs_IdleTimeout :: int

text \<open>The \<open>Extension\<close> struct; a nil pointer is \<open>None\<close>. The counters are Go's \<open>int\<close>: 64 bits, read as signed
  numbers, wrapping.\<close>

record Extension =
  e_Server :: "http_server option"
  e_greetingCount :: u64
  e_lastGreeting :: string
  e_farewellCount :: u64
  e_lastFarewell :: string
  e_verifier :: "(VerifierConfig \<times> CiphertextFetcher) option"

section \<open>Construction\<close>

definition parseRequiredAddress :: "ext_env \<Rightarrow> string \<Rightarrow> string \<Rightarrow> string + address" where
  "parseRequiredAddress X name raw =
     (if \<not> xe_IsHexAddress X raw then Inl (name @ '' must be a 20-byte hex address'')
      else let addr = HexToAddress (ve_lib (xe_ve X)) raw in
        if addr = 0 then Inl (name @ '' must not be the zero address'') else Inr addr)"

definition empty_extension :: Extension where
  "empty_extension = \<lparr>e_Server = None, e_greetingCount = 0, e_lastGreeting = [], e_farewellCount = 0,
     e_lastFarewell = [], e_verifier = None\<rparr>"

definition with_server :: "int \<Rightarrow> Extension \<Rightarrow> Extension" where
  "with_server extensionPort e = e\<lparr>e_Server :=
     Some \<lparr>hs_Addr = '':'' @ dec_int extensionPort, hs_Routes = [''GET /state'', ''POST /action''],
           hs_ReadHeaderTimeout = ServerReadHeaderTimeout, hs_ReadTimeout = ServerReadTimeout,
           hs_WriteTimeout = ServerWriteTimeout, hs_IdleTimeout = ServerIdleTimeout\<rparr>\<rparr>"

definition New :: "ext_env \<Rightarrow> ConfigVars \<Rightarrow> int \<Rightarrow> int \<Rightarrow> Extension" where
  "New X c extensionPort signPort =
     (let e = empty_extension in
      if WorkProofRPCURL c \<noteq> [] \<and> WorkProofEscrowAddress c \<noteq> [] then
        (case parseRequiredAddress X ''WORKPROOF_ESCROW_ADDRESS'' (WorkProofEscrowAddress c) of
           Inl err \<Rightarrow> e
         | Inr escrowAddress \<Rightarrow>
           (case parseRequiredAddress X ''WORKPROOF_RANDOM_NUMBER_V2_ADDRESS'' (WorkProofRandomNumberV2Addr c) of
              Inl err \<Rightarrow> e
            | Inr randomNumberV2Addr \<Rightarrow>
              (case verifier_New (xe_Dial X) (xe_BindEscrow X)
                      \<lparr>vc_ChainID = 114, vc_RPCURL = WorkProofRPCURL c, vc_EscrowAddress = escrowAddress,
                       vc_RandomNumberV2Addr = randomNumberV2Addr, vc_SignPort = signPort,
                       vc_CiphertextHosts = WorkProofCiphertextHosts c\<rparr> of
                 Inl err \<Rightarrow> with_server extensionPort e
               | Inr v \<Rightarrow> with_server extensionPort (e\<lparr>e_verifier := Some v\<rparr>))))
      else with_server extensionPort e)"

text \<open>\<open>StartExtension\<close>: the goroutine dereferences \<open>e.Server\<close>.\<close>

definition StartExtension :: "ext_env \<Rightarrow> ConfigVars \<Rightarrow> int \<Rightarrow> int \<Rightarrow> (string, Extension) res" where
  "StartExtension X c extensionPort signPort =
     (let e = New X c extensionPort signPort in
      case e_Server e of None \<Rightarrow> Panic | Some srv \<Rightarrow> Ok e)"

section \<open>Results\<close>

definition buildResult :: "Action \<Rightarrow> DataFixed \<Rightarrow> bytes \<Rightarrow> u8 \<Rightarrow> string \<Rightarrow> ActionResult" where
  "buildResult a df data status err =
     \<lparr>ar_ID = ac_ID a, ar_SubmissionTag = ac_SubmissionTag a, ar_Version = Version,
      ar_OPType = df_OPType df, ar_OPCommand = df_OPCommand df, ar_Data = data, ar_Status = status,
      ar_Log = (if status = 0 then ''error: '' @ err else if status = 1 then ''ok'' else ''pending'')\<rparr>"

definition getLogFromBody :: "ext_env \<Rightarrow> bytes \<Rightarrow> string" where
  "getLogFromBody X body =
     (case xe_UnmarshalLog X body of None \<Rightarrow> map (\<lambda>b. char_of (unat b)) body | Some l \<Rightarrow> l)"

section \<open>Handlers\<close>

definition processSayHello :: "ext_env \<Rightarrow> Action \<Rightarrow> DataFixed \<Rightarrow> Extension \<Rightarrow> ActionResult \<times> Extension" where
  "processSayHello X action df e =
     (case xe_DecodeHello X (df_OriginalMessage df) of
        Inl err \<Rightarrow> (buildResult action df [] 0 (''decoding request: '' @ err), e)
      | Inr name \<Rightarrow>
        if name = [] then (buildResult action df [] 0 ''name must not be empty'', e)
        else
          (let n = e_greetingCount e + 1;
               greeting = ''Hello, '' @ name @ ''! Welcome to Flare Confidential Compute.'';
               data = string_bytes (json_object
                 [(''greeting'', json_string greeting), (''greetingNumber'', dec_int (sint n))]) in
           (buildResult action df data 1 [], e\<lparr>e_greetingCount := n, e_lastGreeting := greeting\<rparr>)))"

definition processSayGoodbye :: "ext_env \<Rightarrow> Action \<Rightarrow> DataFixed \<Rightarrow> Extension \<Rightarrow> ActionResult \<times> Extension" where
  "processSayGoodbye X action df e =
     (case xe_DecodeGoodbye X (df_OriginalMessage df) of
        Inl err \<Rightarrow> (buildResult action df [] 0 (''decoding request: '' @ err), e)
      | Inr (name, reason) \<Rightarrow>
        if name = [] then (buildResult action df [] 0 ''name must not be empty'', e)
        else
          (let n = e_farewellCount e + 1;
               farewell = ''Goodbye, '' @ name @ ''! Reason: '' @ reason;
               data = string_bytes (json_object
                 [(''farewell'', json_string farewell), (''farewellNumber'', dec_int (sint n))]) in
           (buildResult action df data 1 [], e\<lparr>e_farewellCount := n, e_lastFarewell := farewell\<rparr>)))"

definition processVerify ::
  "ext_env \<Rightarrow> tick \<Rightarrow> Action \<Rightarrow> DataFixed \<Rightarrow> Extension \<Rightarrow> (string, ActionResult) res \<times> Extension" where
  "processVerify X t action df e =
     (case e_verifier e of
        None \<Rightarrow> (Ok (buildResult action df [] 0 ''workproof verifier not configured on this node''), e)
      | Some (cfg, f) \<Rightarrow>
        (case xe_DecodeInstruction X (df_OriginalMessage df) of
           Inl err \<Rightarrow> (Ok (buildResult action df [] 0 (''decoding WorkProofInstruction: '' @ err)), e)
         | Inr instr \<Rightarrow>
           (case Verify cfg (xe_ve X) t [] (ac_ID action) instr f of
              (r, f') \<Rightarrow>
                (let e' = e\<lparr>e_verifier := Some (cfg, f')\<rparr> in
                 case r of
                   Panic \<Rightarrow> (Panic, e')
                 | Err err \<Rightarrow> (Ok (buildResult action df [] 0 (''verify: '' @ err)), e')
                 | Ok verdict \<Rightarrow>
                   (case xe_EncodeVerdict X verdict of
                      Inl err \<Rightarrow> (Ok (buildResult action df [] 0 (''encoding VerdictV1: '' @ err)), e')
                    | Inr data \<Rightarrow> (Ok (buildResult action df data 1 []), e'))))))"

text \<open>A name and its hash in an error text.\<close>

definition hash_name :: "ext_env \<Rightarrow> string \<Rightarrow> string" where
  "hash_name X s = xe_HashHex X (xe_ToHash X s) @ '' ('' @ s @ '')''"

definition processGreeting ::
  "ext_env \<Rightarrow> Action \<Rightarrow> DataFixed \<Rightarrow> Extension \<Rightarrow> http_response \<times> Extension" where
  "processGreeting X action df e =
     (if df_OPCommand df = xe_ToHash X OPCommandSayHello then
        (case processSayHello X action df e of (ar, e') \<Rightarrow> (Ok (200, xe_MarshalResult X ar), e'))
      else if df_OPCommand df = xe_ToHash X OPCommandSayGoodbye then
        (case processSayGoodbye X action df e of (ar, e') \<Rightarrow> (Ok (200, xe_MarshalResult X ar), e'))
      else
        (Ok (501, string_bytes (''unsupported op command: received '' @ xe_HashHex X (df_OPCommand df) @
           '', expected one of ['' @ hash_name X OPCommandSayHello @ '', '' @ hash_name X OPCommandSayGoodbye @ '']'')), e))"

definition processWorkProof ::
  "ext_env \<Rightarrow> tick \<Rightarrow> Action \<Rightarrow> DataFixed \<Rightarrow> Extension \<Rightarrow> http_response \<times> Extension" where
  "processWorkProof X t action df e =
     (if df_OPCommand df = xe_ToHash X OPCommandVerify then
        (case processVerify X t action df e of
           (r, e') \<Rightarrow> (res_bind r (\<lambda>ar. Ok (200, xe_MarshalResult X ar)), e'))
      else
        (Ok (501, string_bytes (''unsupported op command: received '' @ xe_HashHex X (df_OPCommand df) @
           '', expected '' @ hash_name X OPCommandVerify)), e))"

definition processAction :: "ext_env \<Rightarrow> tick \<Rightarrow> Action \<Rightarrow> Extension \<Rightarrow> http_response \<times> Extension" where
  "processAction X t action e =
     (case xe_ParseDataFixed X (ac_Message action) of
        Inl err \<Rightarrow> (Ok (400, string_bytes (''decoding fixed data: '' @ err)), e)
      | Inr df \<Rightarrow>
        if df_OPType df = xe_ToHash X OPTypeGreeting then processGreeting X action df e
        else if df_OPType df = xe_ToHash X OPTypeWorkProof then processWorkProof X t action df e
        else
          (Ok (501, string_bytes (''unsupported op type: received '' @ xe_HashHex X (df_OPType df) @
             '', expected '' @ hash_name X OPTypeGreeting @ '' or '' @ hash_name X OPTypeWorkProof)), e))"

text \<open>\<open>http.Error\<close> appends a newline.\<close>

definition http_Error :: "string \<Rightarrow> int \<Rightarrow> http_response" where
  "http_Error msg code = Ok (code, string_bytes (msg @ [CHR 0x0A]))"

text \<open>\<open>MaxBytesReader\<close> hands the decoder at most the limit and then an error, so a longer body can
  never be followed by end of file.\<close>

definition actionHandler :: "ext_env \<Rightarrow> tick \<Rightarrow> http_request \<Rightarrow> Extension \<Rightarrow> http_response \<times> Extension" where
  "actionHandler X t r e =
     (if rq_ContentType r \<noteq> [] \<and> xe_MediaType X (rq_ContentType r) \<noteq> Some ''application/json'' then
        (http_Error ''Content-Type must be application/json'' 415, e)
      else
        (let tooLong = length (rq_Body r) > MaxActionBodyBytes; body = take MaxActionBodyBytes (rq_Body r) in
         case xe_DecodeAction X body tooLong of
           Inl err \<Rightarrow> (http_Error (''decoding action: '' @ err) 400, e)
         | Inr action \<Rightarrow>
           if tooLong \<or> \<not> xe_OnlyOneValue X body then
             (http_Error ''decoding action: trailing JSON data'' 400, e)
           else processAction X t action e))"

definition state_json :: "ext_env \<Rightarrow> Extension \<Rightarrow> string" where
  "state_json X e = json_object
     [(''stateVersion'', json_string (xe_HashHex X (xe_ToHash X Version))),
      (''state'', json_object
         [(''greetingCount'', dec_int (sint (e_greetingCount e))), (''lastGreeting'', json_string (e_lastGreeting e)),
          (''farewellCount'', dec_int (sint (e_farewellCount e))), (''lastFarewell'', json_string (e_lastFarewell e)),
          (''workProofVerifierConfigured'', json_bool (e_verifier e \<noteq> None))])]"

definition stateHandler :: "ext_env \<Rightarrow> Extension \<Rightarrow> http_response" where
  "stateHandler X e = Ok (200, string_bytes (state_json X e @ [CHR 0x0A]))"

section \<open>The state of a running server\<close>

text \<open>What every request leaves in place: the same server and verifier configuration, and a fetcher that only
  ever used authorised connections.\<close>

definition ext_ok :: "ext_env \<Rightarrow> Extension \<Rightarrow> bool" where
  "ext_ok X e \<longleftrightarrow>
     (\<forall>cfg f. e_verifier e = Some (cfg, f) \<longrightarrow>
        fetcher_ok (ve_net (xe_ve X)) (set (map ToLower (vc_CiphertextHosts cfg))) f)"

definition ext_le :: "Extension \<Rightarrow> Extension \<Rightarrow> bool" where
  "ext_le e e' \<longleftrightarrow> e_Server e' = e_Server e \<and> map_option fst (e_verifier e') = map_option fst (e_verifier e)"

lemma ext_le_refl: "ext_le e e"
  by (simp add: ext_le_def)

lemma ext_le_trans: "ext_le a b \<Longrightarrow> ext_le b c \<Longrightarrow> ext_le a c"
  by (auto simp: ext_le_def)

lemma processSayHello_effect:
  "processSayHello X a df e = (ar, e') \<Longrightarrow>
     (ar_Status ar = 0 \<and> e' = e) \<or>
     (ar_Status ar = 1 \<and> (\<exists>g. e' = e\<lparr>e_greetingCount := e_greetingCount e + 1, e_lastGreeting := g\<rparr>))"
  by (auto simp: processSayHello_def buildResult_def Let_def split: sum.splits if_splits)

lemma processSayGoodbye_effect:
  "processSayGoodbye X a df e = (ar, e') \<Longrightarrow>
     (ar_Status ar = 0 \<and> e' = e) \<or>
     (ar_Status ar = 1 \<and> (\<exists>g. e' = e\<lparr>e_farewellCount := e_farewellCount e + 1, e_lastFarewell := g\<rparr>))"
  by (auto simp: processSayGoodbye_def buildResult_def Let_def split: sum.splits if_splits)

lemma fetchAndDecryptBundle_ok:
  assumes "fetcher_ok (ve_net E) hosts f" and "fetchAndDecryptBundle cfg E t instr f = (r, f')"
  shows "fetcher_ok (ve_net E) hosts f'"
  using assms Fetch_ok [OF assms(1)]
  by (auto simp: fetchAndDecryptBundle_def split: list.splits sum.splits prod.splits if_splits)

lemma Verify_fetcher_ok:
  assumes "fetcher_ok (ve_net E) hosts f" and "Verify cfg E t ctx iid instr f = (r, f')"
  shows "fetcher_ok (ve_net E) hosts f'"
proof -
  obtain fr f1 where fd: "fetchAndDecryptBundle cfg E (t + 4) instr f = (fr, f1)" by fastforce
  have "f' = f \<or> f' = f1"
    using assms(2) fd by (auto simp: Verify_def Let_def split: res.splits sum.splits prod.splits)
  with assms(1) fetchAndDecryptBundle_ok [OF assms(1) fd] show ?thesis by blast
qed

lemma processVerify_effect:
  assumes "processVerify X t a df e = (r, e')" and "ext_ok X e"
  shows "ext_ok X e' \<and> ext_le e e' \<and> e_greetingCount e' = e_greetingCount e \<and> e_farewellCount e' = e_farewellCount e"
proof (cases "\<exists>cfg f instr. e_verifier e = Some (cfg, f) \<and> xe_DecodeInstruction X (df_OriginalMessage df) = Inr instr")
  case False
  with assms have "e' = e" by (auto simp: processVerify_def split: option.splits sum.splits prod.splits)
  with assms(2) show ?thesis by (simp add: ext_le_refl)
next
  case True
  then obtain cfg f instr where v: "e_verifier e = Some (cfg, f)"
    and i: "xe_DecodeInstruction X (df_OriginalMessage df) = Inr instr" by blast
  obtain r1 f1 where w: "Verify cfg (xe_ve X) t [] (ac_ID a) instr f = (r1, f1)" by fastforce
  have "fetcher_ok (ve_net (xe_ve X)) (set (map ToLower (vc_CiphertextHosts cfg))) f1"
    using Verify_fetcher_ok [OF _ w] assms(2) v by (simp add: ext_ok_def)
  moreover have "e' = e\<lparr>e_verifier := Some (cfg, f1)\<rparr>"
    using assms(1) v i w by (auto simp: processVerify_def Let_def split: res.splits sum.splits)
  ultimately show ?thesis using assms(2) v by (simp add: ext_ok_def ext_le_def)
qed

lemma processGreeting_effect:
  assumes "processGreeting X a df e = (r, e')" and "ext_ok X e"
  shows "ext_ok X e' \<and> ext_le e e'"
proof -
  obtain ar1 e1 ar2 e2 where h: "processSayHello X a df e = (ar1, e1)" "processSayGoodbye X a df e = (ar2, e2)"
    by fastforce
  have "e' = e \<or> e' = e1 \<or> e' = e2"
    using assms(1) h by (auto simp: processGreeting_def split: if_splits)
  with processSayHello_effect [OF h(1)] processSayGoodbye_effect [OF h(2)] assms(2) show ?thesis
    by (auto simp: ext_ok_def ext_le_def)
qed

lemma processAction_effect:
  assumes "processAction X t a e = (r, e')" and "ext_ok X e"
  shows "ext_ok X e' \<and> ext_le e e'"
proof (cases "xe_ParseDataFixed X (ac_Message a)")
  case (Inl err)
  with assms show ?thesis by (simp add: processAction_def ext_le_refl)
next
  case (Inr df)
  obtain rv ev where v: "processVerify X t a df e = (rv, ev)" by fastforce
  obtain rg eg where g: "processGreeting X a df e = (rg, eg)" by fastforce
  have "e' = e \<or> e' = ev \<or> e' = eg"
    using assms(1) Inr v g by (auto simp: processAction_def processWorkProof_def split: if_splits)
  with processVerify_effect [OF v assms(2)] processGreeting_effect [OF g assms(2)] assms(2) ext_le_refl
  show ?thesis by blast
qed

lemma actionHandler_effect:
  assumes "actionHandler X t r e = (resp, e')" and "ext_ok X e"
  shows "ext_ok X e' \<and> ext_le e e'"
proof (cases "e' = e")
  case True
  with assms(2) show ?thesis by (simp add: ext_le_refl)
next
  case False
  with assms(1) obtain a where "processAction X t a e = (resp, e')"
    by (auto simp: actionHandler_def Let_def split: sum.splits if_splits)
  from processAction_effect [OF this assms(2)] show ?thesis .
qed

definition request_step :: "ext_env \<Rightarrow> nat \<times> http_request \<Rightarrow> Extension \<Rightarrow> Extension" where
  "request_step X = (\<lambda>(t, r) e. snd (actionHandler X t r e))"

lemma request_step_effect: "ext_ok X e \<Longrightarrow> ext_ok X (request_step X op e) \<and> ext_le e (request_step X op e)"
  using actionHandler_effect [OF prod.collapse [symmetric]] by (simp add: request_step_def split: prod.split)

interpretation server: monotone_machine "request_step X" "ext_ok X" ext_le for X
proof unfold_locales
  fix s op
  assume "ext_ok X s"
  then show "ext_ok X (request_step X op s)" and "ext_le s (request_step X op s)"
    using request_step_effect by blast+
qed (auto intro: ext_le_refl ext_le_trans)

lemma New_ok: "ext_ok X (New X c ep sp)"
  by (auto simp: New_def ext_ok_def with_server_def empty_extension_def verifier_New_def
      NewCiphertextFetcher_ok [simplified] Let_def split: sum.splits option.splits)

text \<open>What a request asks for, as the documents say it: an admissible action of this operation type and command.\<close>

definition asks :: "ext_env \<Rightarrow> http_request \<Rightarrow> string \<Rightarrow> string \<Rightarrow> DataFixed \<Rightarrow> bool" where
  "asks X r opType opCommand df \<longleftrightarrow>
     (rq_ContentType r = [] \<or> xe_MediaType X (rq_ContentType r) = Some ''application/json'') \<and>
     length (rq_Body r) \<le> MaxActionBodyBytes \<and> xe_OnlyOneValue X (rq_Body r) \<and>
     (\<exists>a. xe_DecodeAction X (rq_Body r) False = Inr a \<and> xe_ParseDataFixed X (ac_Message a) = Inr df) \<and>
     df_OPType df = xe_ToHash X opType \<and> df_OPCommand df = xe_ToHash X opCommand"

definition says_hello :: "ext_env \<Rightarrow> http_request \<Rightarrow> bool" where
  "says_hello X r \<longleftrightarrow> (\<exists>df name. asks X r OPTypeGreeting OPCommandSayHello df \<and>
     xe_DecodeHello X (df_OriginalMessage df) = Inr name \<and> name \<noteq> [])"

definition says_goodbye :: "ext_env \<Rightarrow> http_request \<Rightarrow> bool" where
  "says_goodbye X r \<longleftrightarrow> (\<exists>df name reason. asks X r OPTypeGreeting OPCommandSayGoodbye df \<and>
     xe_DecodeGoodbye X (df_OriginalMessage df) = Inr (name, reason) \<and> name \<noteq> [])"

text \<open>One request counts at most once.\<close>

lemma processGreeting_counts:
  assumes "xe_ToHash X OPCommandSayHello \<noteq> xe_ToHash X OPCommandSayGoodbye"
  shows "e_greetingCount (snd (processGreeting X a df e)) = e_greetingCount e + of_bool (df_OPCommand df = xe_ToHash X OPCommandSayHello \<and>
       (\<exists>name. xe_DecodeHello X (df_OriginalMessage df) = Inr name \<and> name \<noteq> []))"
    and "e_farewellCount (snd (processGreeting X a df e)) = e_farewellCount e + of_bool (df_OPCommand df = xe_ToHash X OPCommandSayGoodbye \<and>
       (\<exists>name reason. xe_DecodeGoodbye X (df_OriginalMessage df) = Inr (name, reason) \<and> name \<noteq> []))"
  using assms
  by (auto simp: processGreeting_def processSayHello_def processSayGoodbye_def Let_def split: sum.split prod.split)

lemma processWorkProof_counts:
  "e_greetingCount (snd (processWorkProof X t a df e)) = e_greetingCount e"
  "e_farewellCount (snd (processWorkProof X t a df e)) = e_farewellCount e"
  by (auto simp: processWorkProof_def processVerify_def Let_def split: sum.split prod.split option.split res.split)

lemma request_counts:
  assumes "xe_ToHash X OPCommandSayHello \<noteq> xe_ToHash X OPCommandSayGoodbye"
  shows "e_greetingCount (request_step X (t, r) e) = e_greetingCount e + of_bool (says_hello X r)"
    and "e_farewellCount (request_step X (t, r) e) = e_farewellCount e + of_bool (says_goodbye X r)"
  using processGreeting_counts [OF assms] processWorkProof_counts
  by (auto simp: request_step_def actionHandler_def processAction_def says_hello_def says_goodbye_def asks_def Let_def not_less
      split: sum.split)

lemma history_counts:
  assumes "xe_ToHash X OPCommandSayHello \<noteq> xe_ToHash X OPCommandSayGoodbye"
  shows "e_greetingCount (fold (request_step X) reqs e) = e_greetingCount e + of_nat (length (filter (says_hello X \<circ> snd) reqs))"
    and "e_farewellCount (fold (request_step X) reqs e) = e_farewellCount e + of_nat (length (filter (says_goodbye X \<circ> snd) reqs))"
  by (induction reqs arbitrary: e) (auto simp: request_counts [OF assms])

lemma New_counts: "e_greetingCount (New X c ep sp) = 0" "e_farewellCount (New X c ep sp) = 0"
  by (auto simp: New_def with_server_def empty_extension_def Let_def split: sum.splits)

lemma sint_of_nat_small: "n < 2 ^ 63 \<Longrightarrow> sint (of_nat n :: u64) = int n"
  by (simp add: signed_of_nat signed_take_bit_int_eq_self)


text \<open>A server configured for the concrete run of the verifier.\<close>

definition demo_ext :: ext_env where
  "demo_ext =
     \<lparr>xe_ve = demo_env 42, xe_Dial = (\<lambda>_. None), xe_BindEscrow = (\<lambda>_. None),
      xe_IsHexAddress = (\<lambda>s. length s = 3), xe_ToHash = (\<lambda>s. of_nat (length s)), xe_HashHex = (\<lambda>h. ''0x''),
      xe_ParseDataFixed = (\<lambda>b. if b = [] then Inl ''empty'' else
         Inr \<lparr>df_OPType = (if b = [1] then 9 else 8), df_OPCommand = (if b = [1] then 6 else 9), df_OriginalMessage = b\<rparr>),
      xe_DecodeHello = (\<lambda>b. Inr ''Ada''), xe_DecodeGoodbye = (\<lambda>b. Inl ''short''),
      xe_DecodeInstruction = (\<lambda>b. Inr demo_instr), xe_EncodeVerdict = (\<lambda>v. Inr [9]),
      xe_MarshalResult = (\<lambda>ar. ar_Data ar), xe_UnmarshalLog = (\<lambda>b. None),
      xe_MediaType = (\<lambda>s. None), xe_DecodeAction = (\<lambda>b long. Inr \<lparr>ac_ID = 77, ac_SubmissionTag = ''threshold'', ac_Message = b\<rparr>),
      xe_OnlyOneValue = (\<lambda>b. True)\<rparr>"

definition demo_vars :: ConfigVars where
  "demo_vars = \<lparr>ExtensionPort = 8080, SignPort = 9000, WorkProofRPCURL = ''http://node'', WorkProofEscrowAddress = ''0xb'',
     WorkProofRandomNumberV2Addr = ''0xc'', WorkProofCiphertextHosts = [''gw.example'']\<rparr>"

lemma demo_New: "e_verifier (New demo_ext demo_vars 8080 9000) = Some (demo_cfg, demo_fetcher)"
proof -
  have h: "HexToAddress demo_lib ''0xb'' = 11" "HexToAddress demo_lib ''0xc'' = 12"
    by code_simp+
  have X: "ve_lib (xe_ve demo_ext) = demo_lib" "xe_IsHexAddress demo_ext s = (length s = 3)"
    "xe_Dial demo_ext u = None" "xe_BindEscrow demo_ext a = None" for s u a
    by (simp_all add: demo_ext_def demo_env_def)
  have p: "parseRequiredAddress demo_ext n ''0xb'' = Inr 11" "parseRequiredAddress demo_ext n ''0xc'' = Inr 12" for n
    by (simp_all add: parseRequiredAddress_def X h)
  show ?thesis
    by (simp add: New_def demo_vars_def p verifier_New_def X with_server_def demo_cfg_def demo_fetcher_def Let_def)
qed

definition demo_hello_ext :: ext_env where
  "demo_hello_ext = demo_ext\<lparr>xe_ParseDataFixed := (\<lambda>b.
     Inr \<lparr>df_OPType = of_nat (length OPTypeGreeting), df_OPCommand = of_nat (length OPCommandSayHello), df_OriginalMessage = b\<rparr>)\<rparr>"


section \<open>The signed result\<close>

text \<open>The verdict a VERIFY request produces, if it does.\<close>

definition produced_verdict ::
  "ext_env \<Rightarrow> tick \<Rightarrow> Action \<Rightarrow> DataFixed \<Rightarrow> Extension \<Rightarrow> VerdictV1 \<Rightarrow> bytes \<Rightarrow> bool" where
  "produced_verdict X t a df e v data \<longleftrightarrow>
     (\<exists>cfg f instr f'. e_verifier e = Some (cfg, f) \<and> xe_DecodeInstruction X (df_OriginalMessage df) = Inr instr \<and>
        Verify cfg (xe_ve X) t [] (ac_ID a) instr f = (Ok v, f') \<and> xe_EncodeVerdict X v = Inr data)"

lemma processVerify_ID: "processVerify X t a df e = (Ok ar, e') \<Longrightarrow> ar_ID ar = ac_ID a"
  by (auto simp: processVerify_def buildResult_def Let_def split: option.splits sum.splits prod.splits res.splits)

lemma processVerify_produced:
  assumes "processVerify X t a df e = (Ok ar, e')" and "ar_Status ar = 1"
  shows "\<exists>v. produced_verdict X t a df e v (ar_Data ar)"
  using assms
  by (auto simp: processVerify_def buildResult_def produced_verdict_def Let_def
      split: option.splits sum.splits prod.splits res.splits)

text \<open>A VERIFY result has status 1 exactly when a verdict was formed and encoded, and status 0 with
  empty data otherwise. With status 1 the data is that verdict, and the verdict's instruction identifier
  is the identifier of the result itself, so the digest the escrow rebuilds from the verdict is the
  digest over the result's own fields that the node signs.\<close>

theorem processVerify_status:
  assumes "processVerify X t a df e = (Ok ar, e')"
  shows "(ar_Status ar = 1 \<longleftrightarrow> (\<exists>v data. produced_verdict X t a df e v data)) \<and>
         (ar_Status ar \<noteq> 1 \<longrightarrow> ar_Status ar = 0 \<and> ar_Data ar = []) \<and>
         (\<forall>v data. produced_verdict X t a df e v data \<longrightarrow>
            ar_Data ar = data \<and> vi_InstructionId (v1_Id v) = ar_ID ar \<and>
            actionResultHash L data (vi_InstructionId (v1_Id v)) (ar_SubmissionTag ar) 1 =
              actionResultHash L (ar_Data ar) (ar_ID ar) (ar_SubmissionTag ar) (ar_Status ar))"
proof (cases "\<exists>v data. produced_verdict X t a df e v data")
  case False
  then have "ar_Status ar = 0 \<and> ar_Data ar = []"
    using assms
    by (auto simp: processVerify_def buildResult_def produced_verdict_def Let_def
        split: option.splits sum.splits prod.splits res.splits)
  with False show ?thesis by auto
next
  case True
  then obtain v data cfg f instr f' where w: "e_verifier e = Some (cfg, f)"
    "xe_DecodeInstruction X (df_OriginalMessage df) = Inr instr"
    "Verify cfg (xe_ve X) t [] (ac_ID a) instr f = (Ok v, f')" "xe_EncodeVerdict X v = Inr data"
    unfolding produced_verdict_def by blast
  then have ar: "ar = buildResult a df data 1 []"
    using assms by (simp add: processVerify_def Let_def)
  have uniq: "v' = v \<and> data' = data" if "produced_verdict X t a df e v' data'" for v' data'
    using that w by (auto simp: produced_verdict_def)
  have "vi_InstructionId (v1_Id v) = ac_ID a"
    using w(3) by (cases rule: Verify_cases)
      (auto simp: run_verdict_def verdictIdentityFrom_def dest!: inconclusiveVerdict_Ok)
  moreover have "ar_Status ar = 1" "ar_Data ar = data" "ar_ID ar = ac_ID a" by (simp_all add: ar buildResult_def)
  ultimately show ?thesis using True by (auto dest!: uniq)
qed

theorem processVerify_status_witness:
  "\<exists>ar e'. processVerify demo_ext 0 \<lparr>ac_ID = 77, ac_SubmissionTag = ''threshold'', ac_Message = [1]\<rparr>
       \<lparr>df_OPType = 9, df_OPCommand = 6, df_OriginalMessage = [1]\<rparr> (New demo_ext demo_vars 8080 9000) = (Ok ar, e') \<and>
     ar_Status ar = 1 \<and> ar_Data ar = [9] \<and> ar_ID ar = 77"
proof -
  let ?a = "\<lparr>ac_ID = 77, ac_SubmissionTag = ''threshold'', ac_Message = [1]\<rparr>"
  let ?df = "\<lparr>df_OPType = 9, df_OPCommand = 6, df_OriginalMessage = [1]\<rparr>"
  let ?e = "New demo_ext demo_vars 8080 9000"
  obtain f' where v: "Verify demo_cfg (demo_env 42) 0 [] 77 demo_instr demo_fetcher = (Ok demo_verdict, f')"
    using demo_verdict_issued by blast
  have X: "xe_ve demo_ext = demo_env 42" "xe_DecodeInstruction demo_ext b = Inr demo_instr"
    "xe_EncodeVerdict demo_ext w = Inr [9]" for b w
    by (simp_all add: demo_ext_def)
  from v have "\<exists>ar e'. processVerify demo_ext 0 ?a ?df ?e = (Ok ar, e')"
    by (simp add: processVerify_def demo_New X Let_def)
  then obtain ar e' where p: "processVerify demo_ext 0 ?a ?df ?e = (Ok ar, e')" by blast
  have "produced_verdict demo_ext 0 ?a ?df ?e demo_verdict [9]"
    using v by (simp add: produced_verdict_def demo_New X)
  with processVerify_status [OF p] have "ar_Status ar = 1" "ar_Data ar = [9]" "vi_InstructionId (v1_Id demo_verdict) = ar_ID ar"
    by blast+
  moreover have "vi_InstructionId (v1_Id demo_verdict) = 77"
    by (simp add: demo_verdict_def run_verdict_def verdictIdentityFrom_def)
  ultimately show ?thesis using p by auto
qed

section \<open>Start-up and admission\<close>

text \<open>When the verifier is meant to run (RPC URL and escrow address set) and either address is
  malformed or zero, the constructor returns before the HTTP server exists, so starting the extension
  dereferences a nil server and the misconfiguration is never visible at \<open>/state\<close>. In every other case
  the server starts, and \<open>/state\<close> reports whether a verifier is configured.\<close>

theorem StartExtension_panics_iff:
  "StartExtension X c ep sp = Panic \<longleftrightarrow>
     WorkProofRPCURL c \<noteq> [] \<and> WorkProofEscrowAddress c \<noteq> [] \<and>
     ((\<exists>err. parseRequiredAddress X ''WORKPROOF_ESCROW_ADDRESS'' (WorkProofEscrowAddress c) = Inl err) \<or>
      (\<exists>err. parseRequiredAddress X ''WORKPROOF_RANDOM_NUMBER_V2_ADDRESS'' (WorkProofRandomNumberV2Addr c) = Inl err))"
  by (auto simp: StartExtension_def New_def with_server_def empty_extension_def Let_def
      split: option.splits sum.splits)

text \<open>C37: A request is answered with 200 only if it is an admissible action: a JSON content type (or
  none), a body within the limit holding exactly one action, and a known operation and command. Every
  rejected request leaves the extension's state untouched.\<close>

theorem actionHandler_admission:
  assumes "actionHandler X t r e = (Ok (code, body), e')"
  shows "(code = 200 \<longrightarrow>
           (rq_ContentType r = [] \<or> xe_MediaType X (rq_ContentType r) = Some ''application/json'') \<and>
           length (rq_Body r) \<le> MaxActionBodyBytes \<and> xe_OnlyOneValue X (rq_Body r) \<and>
           (\<exists>a df. xe_DecodeAction X (rq_Body r) False = Inr a \<and> xe_ParseDataFixed X (ac_Message a) = Inr df \<and>
              (df_OPType df, df_OPCommand df) \<in>
                {(xe_ToHash X OPTypeGreeting, xe_ToHash X OPCommandSayHello),
                 (xe_ToHash X OPTypeGreeting, xe_ToHash X OPCommandSayGoodbye),
                 (xe_ToHash X OPTypeWorkProof, xe_ToHash X OPCommandVerify)})) \<and>
         (code \<noteq> 200 \<longrightarrow> code \<in> {400, 415, 501} \<and> e' = e)"
proof (cases "\<exists>a. processAction X t a e = (Ok (code, body), e') \<and> xe_DecodeAction X (rq_Body r) False = Inr a \<and>
    length (rq_Body r) \<le> MaxActionBodyBytes \<and> xe_OnlyOneValue X (rq_Body r) \<and>
    (rq_ContentType r = [] \<or> xe_MediaType X (rq_ContentType r) = Some ''application/json'')")
  case False
  then have "code \<in> {400, 415} \<and> e' = e"
    using assms by (auto simp: actionHandler_def http_Error_def Let_def not_less split: sum.splits if_splits)
  then show ?thesis by auto
next
  case True
  then obtain a where a: "processAction X t a e = (Ok (code, body), e')" "xe_DecodeAction X (rq_Body r) False = Inr a"
    "length (rq_Body r) \<le> MaxActionBodyBytes" "xe_OnlyOneValue X (rq_Body r)"
    "rq_ContentType r = [] \<or> xe_MediaType X (rq_ContentType r) = Some ''application/json''"
    by blast
  show ?thesis
  proof (cases "xe_ParseDataFixed X (ac_Message a)")
    case (Inl err)
    with a(1) show ?thesis by (auto simp: processAction_def)
  next
    case (Inr df)
    with a(1) have "(code = 200 \<and> (df_OPType df, df_OPCommand df) \<in>
          {(xe_ToHash X OPTypeGreeting, xe_ToHash X OPCommandSayHello),
           (xe_ToHash X OPTypeGreeting, xe_ToHash X OPCommandSayGoodbye),
           (xe_ToHash X OPTypeWorkProof, xe_ToHash X OPCommandVerify)}) \<or> (code = 501 \<and> e' = e)"
      by (auto simp: processAction_def processGreeting_def processWorkProof_def res_simps split: if_splits prod.splits)
    with a Inr show ?thesis by auto
  qed
qed

theorem actionHandler_admission_witness:
  "\<exists>body e'. actionHandler demo_ext 0 \<lparr>rq_ContentType = ''text/html'', rq_Body = [1]\<rparr> (New demo_ext demo_vars 8080 9000) =
     (Ok (415, body), e') \<and> e' = New demo_ext demo_vars 8080 9000"
proof -
  let ?r = "\<lparr>rq_ContentType = ''text/html'', rq_Body = [1]\<rparr>"
  have "xe_MediaType demo_ext s = None" for s by (simp add: demo_ext_def)
  then obtain body e' where h: "actionHandler demo_ext 0 ?r (New demo_ext demo_vars 8080 9000) = (Ok (415, body), e')"
    by (simp add: actionHandler_def http_Error_def)
  with actionHandler_admission [OF h] show ?thesis by simp
qed

end
