(* ===== verification/Report.thy ===== *)
theory Report
  imports GoLib
begin

text \<open>
  The deployment report, \<open>tools/pkg/validate/report.go\<close>: statuses, results, the append-only report
  and its renderings for a terminal (grouped by step, in order of first appearance) and as indented
  JSON. Writers are strings: \<open>Fprint\<close> and \<open>FprintJSON\<close> are what is written.
\<close>

section \<open>Data\<close>

datatype Status = PASS | WARN | FAIL | SKIP

text \<open>\<open>Status\<close> is an \<open>int\<close> in the code; the program only ever builds the four named values.\<close>

fun Status_String :: "Status \<Rightarrow> string" where
  "Status_String PASS = ''PASS''"
| "Status_String WARN = ''WARN''"
| "Status_String FAIL = ''FAIL''"
| "Status_String SKIP = ''SKIP''"

record CheckResult =
  c_Step :: string
  c_ID :: string
  c_Name :: string
  c_Status :: Status
  c_Message :: string
  c_Fix :: string

text \<open>A report is the list of its results.\<close>

type_synonym Report = "CheckResult list"

definition Add :: "CheckResult \<Rightarrow> Report \<Rightarrow> Report" where
  "Add result r = r @ [result]"

fun HasFailures :: "Report \<Rightarrow> bool" where
  "HasFailures [] = False"
| "HasFailures (res # r) = (if c_Status res = FAIL then True else HasFailures r)"

text \<open>The four counters of \<open>Summary\<close>, updated result by result.\<close>

fun tally :: "nat \<times> nat \<times> nat \<times> nat \<Rightarrow> Report \<Rightarrow> nat \<times> nat \<times> nat \<times> nat" where
  "tally (p, w, f, s) [] = (p, w, f, s)"
| "tally (p, w, f, s) (res # r) =
     (case c_Status res of
        PASS \<Rightarrow> tally (p + 1, w, f, s) r
      | WARN \<Rightarrow> tally (p, w + 1, f, s) r
      | FAIL \<Rightarrow> tally (p, w, f + 1, s) r
      | SKIP \<Rightarrow> tally (p, w, f, s + 1) r)"

definition Summary :: "Report \<Rightarrow> string" where
  "Summary r =
     (case tally (0, 0, 0, 0) r of
        (passed, warning, failed, skipped) \<Rightarrow>
          dec_nat passed @ '' passed, '' @ dec_nat warning @ '' warning, '' @ dec_nat failed @ '' failed, '' @
          dec_nat skipped @ '' skipped'')"

section \<open>Terminal output\<close>

definition esc :: "string \<Rightarrow> string" where
  "esc code = [CHR 0x1B] @ ''['' @ code @ ''m''"

definition colorReset :: string where "colorReset = esc ''0''"
definition colorRed :: string where "colorRed = esc ''31''"
definition colorGreen :: string where "colorGreen = esc ''32''"
definition colorYellow :: string where "colorYellow = esc ''33''"
definition colorCyan :: string where "colorCyan = esc ''36''"
definition colorGray :: string where "colorGray = esc ''90''"

definition stepLabel :: "string \<Rightarrow> string" where
  "stepLabel step =
     (if step = ''deploy'' then ''Contract Deployment''
      else if step = ''register'' then ''Extension Registration''
      else if step = ''services'' then ''Service Startup''
      else if step = ''tee-version'' then ''TEE Version Registration''
      else if step = ''tee-machine'' then ''TEE Machine Registration''
      else if step = ''test'' then ''Testing''
      else [])"

fun statusColor :: "Status \<Rightarrow> string" where
  "statusColor PASS = colorGreen"
| "statusColor WARN = colorYellow"
| "statusColor FAIL = colorRed"
| "statusColor SKIP = colorGray"

definition nl :: string where "nl = [CHR 0x0A]"

text \<open>The distinct steps in order of first appearance.\<close>

fun collect_steps :: "string list \<Rightarrow> Report \<Rightarrow> string list" where
  "collect_steps steps [] = steps"
| "collect_steps steps (res # r) =
     collect_steps (if c_Step res \<in> set steps then steps else steps @ [c_Step res]) r"

definition result_text :: "CheckResult \<Rightarrow> string" where
  "result_text res =
     ''  '' @ statusColor (c_Status res) @ ''['' @ Status_String (c_Status res) @ '']'' @ colorReset @ '' '' @
     c_ID res @ ''  '' @ c_Name res @ nl @
     (if c_Status res = FAIL \<or> c_Status res = WARN then
        (if c_Message res \<noteq> [] then ''         '' @ c_Message res @ nl else []) @
        (if c_Fix res \<noteq> [] then ''         Fix: '' @ c_Fix res @ nl else [])
      else [])"

definition step_text :: "Report \<Rightarrow> string \<Rightarrow> string" where
  "step_text r step =
     (let label = (if stepLabel step = [] then step else stepLabel step) in
      label @ '':'' @ nl @ concat (map result_text (filter (\<lambda>res. c_Step res = step) r)) @ nl)"

definition Fprint :: "Report \<Rightarrow> string" where
  "Fprint r =
     nl @ colorCyan @ ''=== Deployment Verification Report ==='' @ colorReset @ nl @ nl @
     concat (map (step_text r) (collect_steps [] r)) @ Summary r @ nl"

section \<open>JSON output\<close>

text \<open>One field of an indented object, and the object at a given indentation.\<close>

definition jsonResult_fields :: "CheckResult \<Rightarrow> (string \<times> string) list" where
  "jsonResult_fields res =
     (let msg = TrimSpace (c_Message res); fix = TrimSpace (c_Fix res) in
      [(''step'', c_Step res), (''id'', c_ID res), (''name'', c_Name res),
       (''status'', Status_String (c_Status res))] @
      (if msg = [] then [] else [(''message'', msg)]) @ (if fix = [] then [] else [(''fix'', fix)]))"

definition indented_object :: "(string \<times> string) list \<Rightarrow> string" where
  "indented_object kvs =
     ''    {'' @ nl @
     join_str ('','' @ nl) (map (\<lambda>(k, v). ''      '' @ json_string k @ '': '' @ json_string v) kvs) @ nl @ ''    }''"

definition FprintJSON :: "Report \<Rightarrow> string" where
  "FprintJSON r =
     ''{'' @ nl @ ''  '' @ json_string ''results'' @ '': '' @
     (if r = [] then ''[]''
      else ''['' @ nl @ join_str ('','' @ nl) (map (indented_object \<circ> jsonResult_fields) r) @ nl @ ''  ]'') @
     '','' @ nl @ ''  '' @ json_string ''summary'' @ '': '' @ json_string (Summary r) @ nl @ ''}'' @ nl"

section \<open>Counting\<close>

definition count_status :: "Status \<Rightarrow> Report \<Rightarrow> nat" where
  "count_status s r = length (filter (\<lambda>res. c_Status res = s) r)"

lemma tally_eq:
  "tally (p, w, f, s) r =
     (p + count_status PASS r, w + count_status WARN r, f + count_status FAIL r, s + count_status SKIP r)"
  by (induction r arbitrary: p w f s) (simp_all add: count_status_def split: Status.split)

lemma HasFailures_iff: "HasFailures r \<longleftrightarrow> (\<exists>res \<in> set r. c_Status res = FAIL)"
  by (induction r) auto

lemma count_status_total: "count_status PASS r + count_status WARN r + count_status FAIL r + count_status SKIP r = length r"
proof (induction r)
  case (Cons res r)
  then show ?case by (cases "c_Status res") (simp_all add: count_status_def)
qed (simp add: count_status_def)

text \<open>The summary line is exact: it prints the number of results of each status, the four numbers
  add up to the number of results, and the failure flag that decides the exit code is set exactly when
  the printed failure count is positive.\<close>

theorem Summary_exact:
  "Summary r =
     dec_nat (count_status PASS r) @ '' passed, '' @ dec_nat (count_status WARN r) @ '' warning, '' @
     dec_nat (count_status FAIL r) @ '' failed, '' @ dec_nat (count_status SKIP r) @ '' skipped'' \<and>
   count_status PASS r + count_status WARN r + count_status FAIL r + count_status SKIP r = length r \<and>
   (HasFailures r \<longleftrightarrow> 0 < count_status FAIL r)"
  using count_status_total [of r]
  by (auto simp: Summary_def tally_eq HasFailures_iff count_status_def filter_empty_conv)

section \<open>Grouping\<close>

lemma collect_steps_set: "set (collect_steps steps r) = set steps \<union> c_Step ` set r"
  by (induction steps r rule: collect_steps.induct) auto

lemma collect_steps_distinct: "distinct steps \<Longrightarrow> distinct (collect_steps steps r)"
  by (induction steps r rule: collect_steps.induct) auto

lemma mset_concat_filter:
  assumes "distinct steps"
  shows "mset (concat (map (\<lambda>s. filter (\<lambda>res. c_Step res = s) r) steps)) = mset (filter (\<lambda>res. c_Step res \<in> set steps) r)"
  using assms
proof (induction steps)
  case Nil
  then show ?case by simp
next
  case (Cons s steps)
  have "mset (filter (\<lambda>res. c_Step res = s \<or> c_Step res \<in> set steps) r) =
      mset (filter (\<lambda>res. c_Step res = s) r) + mset (filter (\<lambda>res. c_Step res \<in> set steps) r)"
    using Cons.prems by (induction r) auto
  with Cons show ?case by simp
qed

definition grouped :: "Report \<Rightarrow> Report" where
  "grouped r = concat (map (\<lambda>s. filter (\<lambda>res. c_Step res = s) r) (collect_steps [] r))"

lemma mset_grouped: "mset (grouped r) = mset r"
proof -
  have "filter (\<lambda>res. c_Step res \<in> set (collect_steps [] r)) r = r"
    by (simp add: collect_steps_set filter_id_conv)
  then show ?thesis
    by (simp add: grouped_def mset_concat_filter collect_steps_distinct)
qed

text \<open>Grouping loses nothing and repeats nothing: the results the terminal report prints, in the
  order of its groups, are a permutation of the report, and within each step they keep the order in
  which the checks ran.\<close>

theorem Fprint_groups_everything:
  "mset (grouped r) = mset r \<and>
   (\<forall>step. filter (\<lambda>res. c_Step res = step) (grouped r) = filter (\<lambda>res. c_Step res = step) r) \<and>
   Fprint r = nl @ colorCyan @ ''=== Deployment Verification Report ==='' @ colorReset @ nl @ nl @
     concat (map (step_text (grouped r)) (collect_steps [] r)) @ Summary r @ nl"
proof -
  have pick: "filter (\<lambda>res. c_Step res = step) (concat (map (\<lambda>s. filter (\<lambda>res. c_Step res = s) r) ss)) =
      (if step \<in> set ss then filter (\<lambda>res. c_Step res = step) r else [])" if "distinct ss" for step ss
    using that
  proof (induction ss)
    case (Cons s ss)
    have "filter (\<lambda>res. c_Step res = s \<and> c_Step res = step) r = (if s = step then filter (\<lambda>res. c_Step res = step) r else [])"
      by (auto simp: filter_empty_conv intro: filter_cong)
    with Cons show ?case by auto
  qed simp
  have same: "filter (\<lambda>res. c_Step res = step) (grouped r) = filter (\<lambda>res. c_Step res = step) r" for step
  proof (cases "step \<in> c_Step ` set r")
    case False
    then have "filter (\<lambda>res. c_Step res = step) r = []" by (auto simp: filter_empty_conv)
    with False show ?thesis
      using pick [OF collect_steps_distinct, of "[]" step r] by (simp add: grouped_def collect_steps_set)
  next
    case True
    then show ?thesis
      using pick [OF collect_steps_distinct, of "[]" step r] by (simp add: grouped_def collect_steps_set)
  qed
  then have "step_text (grouped r) = step_text r" by (simp add: fun_eq_iff step_text_def)
  with same mset_grouped show ?thesis by (simp add: Fprint_def)
qed

end
