(* ===== verification/Checks.thy ===== *)
theory Checks
  imports Report Exec
begin

text \<open>
  The deployment checks, \<open>tools/pkg/validate/checks.go\<close> and \<open>validate.go\<close>. A check group appends
  its results to the report; it is modelled by the list it appends. The environment (process
  variables, files, chain client, registry and allowlist bindings, HTTP and TCP probes) is a record of
  arbitrary functions; a nil client, key or binding is \<open>None\<close>. Go iterates over the address map in
  an unspecified order, possibly a different one for each loop, so \<open>RegisterDeployChecks\<close> takes the
  two orders as arguments.
\<close>

section \<open>Environment\<close>

record chain_client =
  cl_CodeAt :: "address \<Rightarrow> string + bytes"
  cl_BalanceAt :: "address \<Rightarrow> string + int"
  cl_ChainID :: "string + int"

record registry_caller =
  rg_NextPublicExtensionId :: "string + int"
  rg_InstructionsSender :: "int \<Rightarrow> string + address"
  rg_IsKeyTypeSupported :: "int \<Rightarrow> bytes32 \<Rightarrow> string + bool"

record check_env =
  ce_Getenv :: "string \<Rightarrow> string"
  ce_Open :: "string \<Rightarrow> string option"
  ce_NotExist :: "string \<Rightarrow> bool"
  ce_AddressHex :: "address \<Rightarrow> string"
  ce_HexToAddress :: "string \<Rightarrow> address"
  ce_EVMType :: bytes32
  ce_DialTCP :: "string \<Rightarrow> bool"
  ce_HttpStatus :: "string \<Rightarrow> int option"

type_synonym allowlist_caller = "int \<Rightarrow> address \<Rightarrow> string + bool"

text \<open>The UTF-8 bytes of the dash the messages use.\<close>

definition dash :: string where "dash = '' '' @ [CHR 0xE2, CHR 0x80, CHR 0x94] @ '' ''"

definition result :: "string \<Rightarrow> string \<Rightarrow> string \<Rightarrow> Status \<Rightarrow> string \<Rightarrow> string \<Rightarrow> CheckResult" where
  "result step i name st msg fix =
     \<lparr>c_Step = step, c_ID = i, c_Name = name, c_Status = st, c_Message = msg, c_Fix = fix\<rparr>"

definition rebuild_fix :: string where
  "rebuild_fix = ''Delete config/extension.env and re-run scripts/pre-build.sh''"

section \<open>Address and balance checks\<close>

definition MinDeployBalance :: int where "MinDeployBalance = 10000000000000000"

definition addressRegex :: "string \<Rightarrow> bool" where
  "addressRegex s \<longleftrightarrow> HasPrefix s ''0x'' \<and> length s = 42 \<and> list_all is_hex_digit (drop 2 s)"

definition extensionIDRegex :: "string \<Rightarrow> bool" where
  "extensionIDRegex s \<longleftrightarrow> HasPrefix s ''0x'' \<and> length s = 66 \<and> list_all is_hex_digit (drop 2 s)"

definition AddressNotZero :: "check_env \<Rightarrow> address \<Rightarrow> string \<Rightarrow> string option" where
  "AddressNotZero C addr label =
     (if addr = 0 then Some (label @ '' is the zero address ('' @ ce_AddressHex C addr @ '') in the addresses file'')
      else None)"

definition AddressHasCode :: "check_env \<Rightarrow> chain_client option \<Rightarrow> address \<Rightarrow> string \<Rightarrow> string option" where
  "AddressHasCode C client addr label =
     (case client of
        None \<Rightarrow> Some (''cannot check '' @ label @ '': no chain client connected'')
      | Some cl \<Rightarrow>
        (case cl_CodeAt cl addr of
           Inl e \<Rightarrow> Some (''cannot check '' @ label @ '': '' @ e)
         | Inr code \<Rightarrow>
           if length code = 0 then
             Some (label @ '' at '' @ ce_AddressHex C addr @ '' has no deployed code. '' @
               ''This address will be set as immutable in the contract constructor and cannot be changed. '' @
               ''Check your deployed-addresses.json file'' @ dash @ ''are you on the right network?'')
           else None))"

definition KeyHasFunds :: "check_env \<Rightarrow> chain_client option \<Rightarrow> address \<Rightarrow> int \<Rightarrow> string option" where
  "KeyHasFunds C client addr minWei =
     (case client of
        None \<Rightarrow> Some ''cannot check deployer balance: no chain client connected''
      | Some cl \<Rightarrow>
        (case cl_BalanceAt cl addr of
           Inl e \<Rightarrow> Some (''cannot check deployer balance: '' @ e)
         | Inr balance \<Rightarrow>
           if balance < minWei then
             Some (''deployer '' @ ce_AddressHex C addr @ '' has insufficient funds (balance: '' @ dec_int balance @
               '' wei, minimum required: '' @ dec_int minWei @ '' wei). Fund this account before deploying'')
           else None))"

definition IsUsingDevKey :: "check_env \<Rightarrow> bool" where
  "IsUsingDevKey C \<longleftrightarrow> ce_Getenv C ''DEPLOYMENT_PRIVATE_KEY'' = []"

section \<open>extension.env\<close>

text \<open>\<open>bufio.Scanner\<close> with \<open>ScanLines\<close>: lines without their terminator, no empty last line, a trailing
  carriage return dropped, and scanning ends at a line too long for the buffer.\<close>

definition drop_cr :: "string \<Rightarrow> string" where
  "drop_cr l = (if l \<noteq> [] \<and> last l = CHR 0x0D then butlast l else l)"

definition scan_lines :: "string \<Rightarrow> string list" where
  "scan_lines s =
     (let ls = Split s (CHR 0x0A); ls' = (if last ls = [] then butlast ls else ls) in
      map drop_cr (takeWhile (\<lambda>l. length l < 65536) ls'))"

text \<open>The key and value of one line, if it assigns one.\<close>

definition env_assignment :: "string \<Rightarrow> (string \<times> string) option" where
  "env_assignment raw =
     (let line = TrimSpace raw in
      if line = [] \<or> HasPrefix line ''#'' then None
      else case SplitN2 line (CHR ''='') of
        [k, v] \<Rightarrow> Some (TrimSpace k, TrimSpace v)
      | _ \<Rightarrow> None)"

text \<open>The loop of \<open>CheckExtensionEnvFormat\<close> fills a map.\<close>

fun env_vars :: "(string \<rightharpoonup> string) \<Rightarrow> string list \<Rightarrow> (string \<rightharpoonup> string)" where
  "env_vars vars [] = vars"
| "env_vars vars (l # ls) =
     env_vars (case env_assignment l of None \<Rightarrow> vars | Some (k, v) \<Rightarrow> vars(k \<mapsto> v)) ls"

text \<open>The loop of \<open>parseExtensionEnv\<close> keeps two variables.\<close>

fun env_pair :: "string \<times> string \<Rightarrow> string list \<Rightarrow> string \<times> string" where
  "env_pair (extensionID, instructionSender) [] = (extensionID, instructionSender)"
| "env_pair (extensionID, instructionSender) (l # ls) =
     (case env_assignment l of
        None \<Rightarrow> env_pair (extensionID, instructionSender) ls
      | Some (k, v) \<Rightarrow>
        if k = ''EXTENSION_ID'' then env_pair (v, instructionSender) ls
        else if k = ''INSTRUCTION_SENDER'' then env_pair (extensionID, v) ls
        else env_pair (extensionID, instructionSender) ls)"

definition parseExtensionEnv :: "check_env \<Rightarrow> string \<Rightarrow> string \<times> string" where
  "parseExtensionEnv C path =
     (case ce_Open C path of None \<Rightarrow> ([], []) | Some content \<Rightarrow> env_pair ([], []) (scan_lines content))"

definition check_env_entry :: "(string \<rightharpoonup> string) \<Rightarrow> string \<Rightarrow> (string \<Rightarrow> bool) \<Rightarrow> CheckResult" where
  "check_env_entry vars key ok =
     (case vars key of
        None \<Rightarrow> result ''deploy'' ''D7'' (key @ '' in extension.env'') FAIL (key @ '' not found in extension.env'') rebuild_fix
      | Some val \<Rightarrow>
        if \<not> ok val then
          result ''deploy'' ''D7'' (key @ '' in extension.env'') FAIL (key @ '' has invalid format: '' @ go_quote val) rebuild_fix
        else result ''deploy'' ''D7'' (key @ '' in extension.env'') PASS val [])"

definition CheckExtensionEnvFormat :: "check_env \<Rightarrow> string \<Rightarrow> CheckResult list" where
  "CheckExtensionEnvFormat C path =
     (case ce_Open C path of
        None \<Rightarrow> [result ''deploy'' ''D7'' ''extension.env exists'' SKIP (''file not found: '' @ path) []]
      | Some content \<Rightarrow>
        (let vars = env_vars Map.empty (scan_lines content) in
         [check_env_entry vars ''INSTRUCTION_SENDER'' addressRegex,
          check_env_entry vars ''EXTENSION_ID'' extensionIDRegex]))"

section \<open>Deployment\<close>

definition CheckDeployerKeySource :: "check_env \<Rightarrow> CheckResult" where
  "CheckDeployerKeySource C =
     (if ce_Getenv C ''DEPLOYMENT_PRIVATE_KEY'' \<noteq> [] then
        result ''deploy'' ''D5'' ''deployer key source'' PASS ''DEPLOYMENT_PRIVATE_KEY is set'' []
      else if ce_Getenv C ''LOCAL_MODE'' = ''true'' \<or> ce_Getenv C ''LOCAL_MODE'' = [] then
        result ''deploy'' ''D5'' ''deployer key source'' PASS ''using Hardhat dev key (LOCAL_MODE)'' []
      else
        result ''deploy'' ''D5'' ''deployer key source'' WARN
          (''DEPLOYMENT_PRIVATE_KEY not set'' @ dash @ ''using Hardhat dev key which has no funds on Coston2'')
          ''Set DEPLOYMENT_PRIVATE_KEY in .env to a funded account on the target network'')"

definition chainName :: "string \<Rightarrow> string" where
  "chainName i =
     (if i = ''31337'' then ''Hardhat/Anvil (local devnet)'' else if i = ''114'' then ''Coston2 (testnet)''
      else if i = ''14'' then ''Flare (mainnet)'' else ''unknown network'')"

definition checkChainID :: "chain_client \<Rightarrow> CheckResult" where
  "checkChainID cl =
     (case cl_ChainID cl of
        Inl e \<Rightarrow> result ''deploy'' ''D6'' ''chain ID'' FAIL (''failed to get chain ID: '' @ e) ''Check CHAIN_URL''
      | Inr i \<Rightarrow> result ''deploy'' ''D6'' ''chain ID'' PASS
                  (''chain ID '' @ dec_int i @ '' ('' @ chainName (dec_int i) @ '')'') [])"

definition check_not_zero :: "check_env \<Rightarrow> string \<times> address \<Rightarrow> CheckResult" where
  "check_not_zero C = (\<lambda>(label, addr).
     case AddressNotZero C addr label of
       Some e \<Rightarrow> result ''deploy'' ''D3'' (label @ '' address not zero'') FAIL e
                  ''Re-run the deploy script or check deployed-addresses.json''
     | None \<Rightarrow> result ''deploy'' ''D3'' (label @ '' address not zero'') PASS (ce_AddressHex C addr) [])"

definition check_has_code :: "check_env \<Rightarrow> chain_client option \<Rightarrow> string \<times> address \<Rightarrow> CheckResult" where
  "check_has_code C client = (\<lambda>(label, addr).
     case AddressHasCode C client addr label of
       Some e \<Rightarrow> result ''deploy'' ''D1'' (label @ '' has deployed code'') FAIL e
                  ''Deploy contracts or check CHAIN_URL / deployed-addresses.json''
     | None \<Rightarrow> result ''deploy'' ''D1'' (label @ '' has deployed code'') PASS
                  (''code found at '' @ ce_AddressHex C addr) [])"

definition check_funds :: "check_env \<Rightarrow> chain_client option \<Rightarrow> address \<Rightarrow> CheckResult" where
  "check_funds C client addr =
     (case KeyHasFunds C client addr MinDeployBalance of
        Some e \<Rightarrow> result ''deploy'' ''D5'' ''deployer has sufficient funds'' FAIL e ''Fund the deployer account before deploying''
      | None \<Rightarrow> result ''deploy'' ''D5'' ''deployer has sufficient funds'' PASS ''balance above minimum threshold'' [])"

text \<open>\<open>key\<close> is the address of the deployer key, \<open>order1\<close> and \<open>order2\<close> the iteration orders of the two
  loops over the address map.\<close>

definition RegisterDeployChecks ::
  "check_env \<Rightarrow> chain_client option \<Rightarrow> address option \<Rightarrow> (string \<times> address) list \<Rightarrow> (string \<times> address) list \<Rightarrow>
   string \<Rightarrow> CheckResult list" where
  "RegisterDeployChecks C client key order1 order2 extensionEnvPath =
     (let zeroAddrs = set (map fst (filter (\<lambda>(label, addr). AddressNotZero C addr label \<noteq> None) order1)) in
      map (check_not_zero C) order1 @
      map (check_has_code C client) (filter (\<lambda>la. fst la \<notin> zeroAddrs) order2) @
      [CheckDeployerKeySource C] @
      (case (key, client) of (Some addr, Some _) \<Rightarrow> [check_funds C client addr] | _ \<Rightarrow> []) @
      (case client of None \<Rightarrow> [] | Some cl \<Rightarrow> [checkChainID cl]) @
      (if extensionEnvPath \<noteq> [] then CheckExtensionEnvFormat C extensionEnvPath else []))"

section \<open>Registration\<close>

text \<open>\<open>SetString(s, 16)\<close> on hexadecimal digits.\<close>

definition parse_hex :: "string \<Rightarrow> int" where
  "parse_hex s = int (foldl (\<lambda>a c. a * 16 + hex_value c) 0 s)"

text \<open>R1, with the counter it reads.\<close>

definition check_counter :: "registry_caller \<Rightarrow> CheckResult \<times> int option" where
  "check_counter reg =
     (case rg_NextPublicExtensionId reg of
        Inl e \<Rightarrow> (result ''register'' ''R1'' ''next public extension id'' FAIL
                    (''failed to query nextPublicExtensionId: '' @ e) [], None)
      | Inr counter \<Rightarrow>
        if counter = 0 then
          (result ''register'' ''R1'' ''next public extension id'' WARN
             (''nextPublicExtensionId is 0'' @ dash @ ''no public extensions registered yet'') [], Some counter)
        else
          (result ''register'' ''R1'' ''next public extension id'' PASS
             (''nextPublicExtensionId = '' @ dec_int counter) [], Some counter))"

definition check_sender :: "check_env \<Rightarrow> registry_caller \<Rightarrow> int \<Rightarrow> string \<Rightarrow> CheckResult" where
  "check_sender C reg extensionID instrSender =
     (case rg_InstructionsSender reg extensionID of
        Inl e \<Rightarrow> result ''register'' ''R2'' ''instruction sender matches on-chain'' FAIL
                   (''failed to query instruction sender: '' @ e) []
      | Inr onChainSender \<Rightarrow>
        if onChainSender = ce_HexToAddress C instrSender then
          result ''register'' ''R2'' ''instruction sender matches on-chain'' PASS
            (''on-chain sender '' @ ce_AddressHex C onChainSender @ '' matches extension.env'') []
        else
          result ''register'' ''R2'' ''instruction sender matches on-chain'' FAIL
            (''on-chain sender '' @ ce_AddressHex C onChainSender @ '' != extension.env '' @ instrSender)
            ''Re-register the extension or update extension.env'')"

definition check_owner :: "allowlist_caller \<Rightarrow> int \<Rightarrow> address \<Rightarrow> CheckResult" where
  "check_owner allowlist extensionID deployerAddr =
     (case allowlist extensionID deployerAddr of
        Inl e \<Rightarrow> result ''register'' ''R3'' ''deployer is allowed TEE machine owner'' FAIL
                   (''failed to query allowlist: '' @ e) []
      | Inr allowed \<Rightarrow>
        if allowed then
          result ''register'' ''R3'' ''deployer is allowed TEE machine owner'' PASS
            ''deployer is on the TEE machine owner allowlist'' []
        else
          result ''register'' ''R3'' ''deployer is allowed TEE machine owner'' FAIL
            ''deployer is NOT on the TEE machine owner allowlist''
            ''Run the register step to add the deployer as a TEE machine owner'')"

definition check_key_type :: "check_env \<Rightarrow> registry_caller \<Rightarrow> int \<Rightarrow> CheckResult" where
  "check_key_type C reg extensionID =
     (case rg_IsKeyTypeSupported reg extensionID (ce_EVMType C) of
        Inl e \<Rightarrow> result ''register'' ''R4'' ''EVM key type supported'' FAIL (''failed to query key type support: '' @ e) []
      | Inr supported \<Rightarrow>
        if supported then
          result ''register'' ''R4'' ''EVM key type supported'' PASS ''EVM key type is supported for this extension'' []
        else
          result ''register'' ''R4'' ''EVM key type supported'' FAIL ''EVM key type is NOT supported for this extension''
            ''Run the register step to add EVM key type support'')"

text \<open>The identifiers below the counter whose sender is the given one, in ascending order.\<close>

definition matching_ids :: "registry_caller \<Rightarrow> int \<Rightarrow> address \<Rightarrow> int list" where
  "matching_ids reg counter expected =
     filter (\<lambda>i. rg_InstructionsSender reg i = Inr expected)
       (map int [0..<nat (sint (of_int counter :: 64 word))])"

definition check_unique_sender :: "check_env \<Rightarrow> registry_caller \<Rightarrow> int \<Rightarrow> string \<Rightarrow> CheckResult" where
  "check_unique_sender C reg counter instrSender =
     (let ids = matching_ids reg counter (ce_HexToAddress C instrSender) in
      if length ids > 1 then
        result ''register'' ''R7'' ''unique instruction sender'' WARN
          (''INSTRUCTION_SENDER '' @ instrSender @ '' is used by multiple extensions: '' @
           join_str '', '' (map dec_int ids)) []
      else
        result ''register'' ''R7'' ''unique instruction sender'' PASS
          ''instruction sender is unique across registered extensions'' [])"

definition RegisterRegistrationChecks ::
  "check_env \<Rightarrow> chain_client option \<Rightarrow> address option \<Rightarrow> registry_caller option \<Rightarrow> allowlist_caller option \<Rightarrow>
   string \<Rightarrow> CheckResult list" where
  "RegisterRegistrationChecks C client key registry allowlist extensionEnvPath =
     (if extensionEnvPath = [] then
        [result ''register'' ''R1-R7'' ''registration checks'' SKIP ''no --config path provided'' []]
      else case parseExtensionEnv C extensionEnvPath of (extIDStr, instrSender) \<Rightarrow>
        if extIDStr = [] \<and> instrSender = [] then
          [result ''register'' ''R1-R7'' ''registration checks'' SKIP
             (''config/extension.env not found'' @ dash @ ''run pre-build.sh first'') []]
        else
          (let online = (case (registry, client) of (Some reg, Some _) \<Rightarrow> Some reg | _ \<Rightarrow> None);
               r1 = map_option check_counter online;
               counter = (case r1 of None \<Rightarrow> None | Some (_, c) \<Rightarrow> c) in
           (case r1 of None \<Rightarrow> [] | Some (res, _) \<Rightarrow> [res]) @
           (if \<not> extensionIDRegex extIDStr then
              [result ''register'' ''R2'' ''EXTENSION_ID format'' FAIL
                 (''malformed EXTENSION_ID: '' @ go_quote extIDStr) rebuild_fix]
            else
              (let extensionID = parse_hex (drop 2 extIDStr) in
               (case online of
                  Some reg \<Rightarrow> if addressRegex instrSender then [check_sender C reg extensionID instrSender] else []
                | None \<Rightarrow> []) @
               (case (key, allowlist, client) of
                  (Some addr, Some al, Some _) \<Rightarrow> [check_owner al extensionID addr]
                | _ \<Rightarrow> []) @
               (case online of Some reg \<Rightarrow> [check_key_type C reg extensionID] | None \<Rightarrow> []) @
               (case (counter, online) of
                  (Some c, Some reg) \<Rightarrow>
                    if c > 0 \<and> addressRegex instrSender then [check_unique_sender C reg c instrSender] else []
                | _ \<Rightarrow> [])))))"

section \<open>Services\<close>

text \<open>\<open>GET url/info\<close> answered with 200.\<close>

definition info_ok :: "check_env \<Rightarrow> string \<Rightarrow> bool" where
  "info_ok C u \<longleftrightarrow> ce_HttpStatus C (u @ ''/info'') = Some 200"

definition check_S2 :: "check_env \<Rightarrow> string \<Rightarrow> CheckResult" where
  "check_S2 C path =
     (let name = ''EXTENSION_ID is set and well-formed'' in
      if path = [] then result ''services'' ''S2'' name SKIP ''run pre-build.sh first'' []
      else let extID = fst (parseExtensionEnv C path) in
        if extID = [] then
          result ''services'' ''S2'' name FAIL ''EXTENSION_ID is empty or not found in extension.env'' rebuild_fix
        else if \<not> extensionIDRegex extID then
          result ''services'' ''S2'' name FAIL (''EXTENSION_ID has invalid format: '' @ go_quote extID) rebuild_fix
        else result ''services'' ''S2'' name PASS extID [])"

definition check_S5 :: "check_env \<Rightarrow> CheckResult" where
  "check_S5 C =
     (let port = (if ce_Getenv C ''EXTENSION_PORT'' = [] then ''7702'' else ce_Getenv C ''EXTENSION_PORT'') in
      if ce_DialTCP C (''localhost:'' @ port) then
        result ''services'' ''S5'' ''extension port not in use'' WARN
          (''port '' @ port @ '' is already in use'' @ dash @ ''extension server will fail to bind'')
          ''Stop the process using that port or change EXTENSION_PORT''
      else result ''services'' ''S5'' ''extension port not in use'' PASS ''port available'' [])"

definition check_S7 :: "check_env \<Rightarrow> CheckResult" where
  "check_S7 C =
     (let extPort = ce_Getenv C ''EXTENSION_PORT''; signPort = ce_Getenv C ''SIGN_PORT'' in
      result ''services'' ''S7'' ''port configuration'' PASS
        (if extPort \<noteq> [] \<or> signPort \<noteq> [] then ''EXTENSION_PORT='' @ extPort @ '', SIGN_PORT='' @ signPort
         else ''using defaults (standalone: 8080/9090, Docker: 7702/7701)'') [])"

definition check_S9 :: "check_env \<Rightarrow> CheckResult" where
  "check_S9 C =
     (let u = ce_Getenv C ''EXT_PROXY_URL'' in
      if u = [] then result ''services'' ''S9'' ''EXT_PROXY_URL reachable'' SKIP ''EXT_PROXY_URL not set'' []
      else if info_ok C u then
        result ''services'' ''S9'' ''EXT_PROXY_URL reachable'' PASS (''proxy reachable at '' @ u) []
      else
        result ''services'' ''S9'' ''EXT_PROXY_URL reachable'' WARN
          (''proxy not reachable at '' @ u @ dash @ ''is the proxy running?'') ''Start the proxy or check EXT_PROXY_URL'')"

definition check_S10 :: "check_env \<Rightarrow> CheckResult" where
  "check_S10 C =
     (let localMode = ce_Getenv C ''LOCAL_MODE''; privateKey = ce_Getenv C ''PROXY_PRIVATE_KEY'';
          name = ''PROXY_PRIVATE_KEY set on non-local'' in
      if localMode = ''true'' \<or> localMode = [] then result ''services'' ''S10'' name PASS ''local mode, dev key OK'' []
      else if localMode = ''false'' \<and> privateKey = [] then
        result ''services'' ''S10'' name WARN
          (''PROXY_PRIVATE_KEY not set in non-local mode'' @ dash @ ''proxy will use default key'')
          ''Set PROXY_PRIVATE_KEY in .env for non-local deployments''
      else result ''services'' ''S10'' name PASS ''PROXY_PRIVATE_KEY is configured'' [])"

definition RegisterServicesChecks :: "check_env \<Rightarrow> string \<Rightarrow> CheckResult list" where
  "RegisterServicesChecks C path = [check_S2 C path, check_S5 C, check_S7 C, check_S9 C, check_S10 C]"

section \<open>TEE version\<close>

definition check_V2 :: "check_env \<Rightarrow> CheckResult" where
  "check_V2 C =
     (let extOwnerKey = ce_Getenv C ''EXTENSION_OWNER_KEY''; privKey = ce_Getenv C ''DEPLOYMENT_PRIVATE_KEY'';
          localMode = ce_Getenv C ''LOCAL_MODE''; name = ''extension owner key'' in
      if extOwnerKey \<noteq> [] then result ''tee-version'' ''V2'' name PASS ''EXTENSION_OWNER_KEY is configured'' []
      else if privKey \<noteq> [] then
        result ''tee-version'' ''V2'' name PASS ''using DEPLOYMENT_PRIVATE_KEY (EXTENSION_OWNER_KEY not set)'' []
      else if localMode \<noteq> ''true'' \<and> localMode \<noteq> [] then
        result ''tee-version'' ''V2'' name WARN
          (''neither EXTENSION_OWNER_KEY nor DEPLOYMENT_PRIVATE_KEY set'' @ dash @
           ''AddTeeVersion will use dev key which isn't the extension owner on Coston2'')
          ''Set EXTENSION_OWNER_KEY or DEPLOYMENT_PRIVATE_KEY in .env''
      else result ''tee-version'' ''V2'' name PASS ''using dev key (local mode)'' [])"

definition check_V4 :: "check_env \<Rightarrow> string \<Rightarrow> CheckResult" where
  "check_V4 C path =
     (let name = ''EXTENSION_ID valid'' in
      if path = [] then result ''tee-version'' ''V4'' name SKIP ''no --config provided'' []
      else let extID = fst (parseExtensionEnv C path) in
        if extID = [] then
          (if ce_NotExist C path then
             result ''tee-version'' ''V4'' name SKIP (''extension.env not found'' @ dash @ ''run pre-build.sh first'') []
           else result ''tee-version'' ''V4'' name FAIL ''EXTENSION_ID not set'' rebuild_fix)
        else if \<not> extensionIDRegex extID then
          result ''tee-version'' ''V4'' name FAIL ''EXTENSION_ID malformed'' rebuild_fix
        else result ''tee-version'' ''V4'' name PASS extID [])"

definition check_V6 :: "check_env \<Rightarrow> CheckResult" where
  "check_V6 C =
     (let u = ce_Getenv C ''EXT_PROXY_URL'' in
      if u = [] then
        result ''tee-version'' ''V6'' ''proxy reachable'' SKIP
          (''EXT_PROXY_URL not set'' @ dash @ ''allow-tee-version uses -p flag'') []
      else if info_ok C u then
        result ''tee-version'' ''V6'' ''proxy reachable'' PASS (''proxy reachable at '' @ u) []
      else
        result ''tee-version'' ''V6'' ''proxy reachable'' WARN
          (''proxy not reachable at '' @ u @ dash @ ''start services first'') ''Start the proxy or check EXT_PROXY_URL'')"

definition RegisterTeeVersionChecks :: "check_env \<Rightarrow> string \<Rightarrow> CheckResult list" where
  "RegisterTeeVersionChecks C path = [check_V2 C, check_V4 C path, check_V6 C]"

section \<open>TEE machine\<close>

definition check_T1 :: "check_env \<Rightarrow> CheckResult" where
  "check_T1 C =
     (let simulatedTee = ce_Getenv C ''SIMULATED_TEE''; localMode = ce_Getenv C ''LOCAL_MODE'';
          name = ''SIMULATED_TEE mode'' in
      if simulatedTee = ''true'' \<and> localMode = ''false'' then
        result ''tee-machine'' ''T1'' name WARN
          (''SIMULATED_TEE=true on non-local deployment'' @ dash @
           ''machine will be registered with test attestation values. Set SIMULATED_TEE=false for real TEE hardware'')
          ''Set SIMULATED_TEE=false in .env when deploying to a real GCP TEE''
      else if simulatedTee = ''true'' then result ''tee-machine'' ''T1'' name PASS ''simulated TEE mode (local)'' []
      else result ''tee-machine'' ''T1'' name PASS ''real attestation mode'' [])"

definition check_T5 :: "check_env \<Rightarrow> CheckResult" where
  "check_T5 C =
     (let u = ce_Getenv C ''NORMAL_PROXY_URL'' in
      if u = [] then result ''tee-machine'' ''T5'' ''NORMAL_PROXY_URL reachable'' SKIP ''NORMAL_PROXY_URL not set'' []
      else if info_ok C u then
        result ''tee-machine'' ''T5'' ''NORMAL_PROXY_URL reachable'' PASS (''normal proxy reachable at '' @ u) []
      else
        result ''tee-machine'' ''T5'' ''NORMAL_PROXY_URL reachable'' WARN
          (''normal proxy not reachable at '' @ u @ dash @ ''required for FTDC availability check'')
          ''Ensure the normal/FTDC proxy is running and NORMAL_PROXY_URL is correct in .env'')"

definition check_T10 :: "check_env \<Rightarrow> CheckResult" where
  "check_T10 C =
     (let u = ce_Getenv C ''EXT_PROXY_URL'' in
      if u = [] then result ''tee-machine'' ''T10'' ''host URL reachable'' SKIP ''EXT_PROXY_URL not set'' []
      else if info_ok C u then
        result ''tee-machine'' ''T10'' ''host URL reachable'' PASS (''host URL reachable at '' @ u) []
      else
        result ''tee-machine'' ''T10'' ''host URL reachable'' WARN
          (''host URL not reachable at '' @ u @ dash @
           ''machine will be registered with unreachable host. Data providers can't relay instructions'')
          ''Ensure the host is accessible and EXT_PROXY_URL or -h flag points to the right URL'')"

definition RegisterTeeMachineChecks :: "check_env \<Rightarrow> string \<Rightarrow> CheckResult list" where
  "RegisterTeeMachineChecks C path = [check_T1 C, check_T5 C, check_T10 C]"

section \<open>Testing\<close>

definition check_E1 :: "check_env \<Rightarrow> string \<Rightarrow> CheckResult" where
  "check_E1 C path =
     (let name = ''INSTRUCTION_SENDER valid'' in
      if path = [] then result ''test'' ''E1'' name SKIP ''no --config provided'' []
      else let instrSender = snd (parseExtensionEnv C path) in
        if ce_NotExist C path then
          result ''test'' ''E1'' name SKIP (''extension.env not found'' @ dash @ ''run pre-build.sh first'') []
        else if instrSender = [] then
          result ''test'' ''E1'' name FAIL (''INSTRUCTION_SENDER not set'' @ dash @ ''run pre-build.sh'')
            ''Run scripts/pre-build.sh to deploy and register the extension''
        else if \<not> addressRegex instrSender then
          result ''test'' ''E1'' name FAIL ''INSTRUCTION_SENDER malformed'' rebuild_fix
        else result ''test'' ''E1'' name PASS instrSender [])"

definition check_E3 :: "check_env \<Rightarrow> CheckResult" where
  "check_E3 C =
     (let u = ce_Getenv C ''EXT_PROXY_URL''; name = ''proxy reachable for test results'' in
      if u = [] then result ''test'' ''E3'' name SKIP ''EXT_PROXY_URL not set'' []
      else if info_ok C u then result ''test'' ''E3'' name PASS ''proxy reachable for test result polling'' []
      else
        result ''test'' ''E3'' name WARN (''proxy not reachable'' @ dash @ ''test results cannot be polled'')
          ''Start the proxy or check EXT_PROXY_URL'')"

definition check_E6 :: CheckResult where
  "check_E6 = result ''test'' ''E6'' ''OPType/OPCommand alignment info'' PASS
     (''OPType/OPCommand hashes are validated at runtime'' @ dash @
      ''if a 501 error occurs, check the hash values in the error message'') []"

definition RegisterTestChecks :: "check_env \<Rightarrow> string \<Rightarrow> CheckResult list" where
  "RegisterTestChecks C path = [check_E1 C path, check_E3 C, check_E6]"

definition RegisterStubChecks :: "string \<Rightarrow> string \<Rightarrow> string \<Rightarrow> CheckResult list" where
  "RegisterStubChecks step idRange name = [result step idRange name SKIP ''not yet implemented'' []]"

section \<open>The verify-deploy command\<close>

text \<open>\<open>tools/cmd/verify-deploy/main.go\<close>. What \<open>DefaultSupport\<close> provides is an argument: an error, or the
  client, key address, bindings and the manager's address.\<close>

record support_info =
  si_client :: chain_client
  si_key :: address
  si_registry :: registry_caller
  si_allowlist :: allowlist_caller
  si_manager :: address

record deploy_flags =
  fl_af :: string
  fl_cf :: string
  fl_config :: string
  fl_step :: string
  fl_checks :: string
  fl_json :: bool

definition deploy_group :: "check_env \<Rightarrow> support_info \<Rightarrow> string \<Rightarrow> CheckResult list" where
  "deploy_group C s path =
     (let addresses = [(''FlareTeeManager'', si_manager s)] in
      RegisterDeployChecks C (Some (si_client s)) (Some (si_key s)) addresses addresses path)"

definition register_group :: "check_env \<Rightarrow> support_info \<Rightarrow> string \<Rightarrow> CheckResult list" where
  "register_group C s path =
     RegisterRegistrationChecks C (Some (si_client s)) (Some (si_key s)) (Some (si_registry s)) (Some (si_allowlist s)) path"

text \<open>The report before filtering, or what is written to standard error.\<close>

definition collect_report :: "check_env \<Rightarrow> (string + support_info) \<Rightarrow> deploy_flags \<Rightarrow> string + Report" where
  "collect_report C support fl =
     (let path = fl_config fl; step = fl_step fl in
      if step = ''deploy'' \<or> step = ''register'' \<or> step = ''all'' then
        (case support of
           Inl e \<Rightarrow>
             Inl (''Error initializing support: '' @ e @ nl @ nl @ ''Hints:'' @ nl @
                  ''  - Check that the addresses file exists: '' @ fl_af fl @ nl @
                  ''  - Check that the chain node is running: '' @ fl_cf fl @ nl @
                  ''  - If using a custom key, ensure DEPLOYMENT_PRIVATE_KEY is set in .env'' @ nl)
         | Inr s \<Rightarrow>
           Inr (if step = ''deploy'' then deploy_group C s path
                else if step = ''register'' then register_group C s path
                else deploy_group C s path @ register_group C s path @ RegisterServicesChecks C path @
                     RegisterTeeVersionChecks C path @ RegisterTeeMachineChecks C path @ RegisterTestChecks C path))
      else if step = ''services'' then Inr (RegisterServicesChecks C path)
      else if step = ''tee-version'' then Inr (RegisterTeeVersionChecks C path)
      else if step = ''tee-machine'' then Inr (RegisterTeeMachineChecks C path)
      else if step = ''test'' then Inr (RegisterTestChecks C path)
      else Inl (''Unknown step: '' @ go_quote step @ nl @
                ''Valid steps: deploy, register, services, tee-version, tee-machine, test, all'' @ nl))"

definition allowed_ids :: "string \<Rightarrow> string list" where
  "allowed_ids checksFilter = filter (\<lambda>t. t \<noteq> []) (map TrimSpace (Split checksFilter (CHR '','')))"

definition filter_report :: "string \<Rightarrow> Report \<Rightarrow> Report" where
  "filter_report checksFilter r =
     (if checksFilter = [] then r else filter (\<lambda>res. c_ID res \<in> set (allowed_ids checksFilter)) r)"

text \<open>Exit code, standard output and standard error.\<close>

definition verify_deploy_main ::
  "check_env \<Rightarrow> (string + support_info) \<Rightarrow> deploy_flags \<Rightarrow> int \<times> string \<times> string" where
  "verify_deploy_main C support fl =
     (case collect_report C support fl of
        Inl err \<Rightarrow> (1, [], err)
      | Inr r0 \<Rightarrow>
        (let r = filter_report (fl_checks fl) r0 in
         (if HasFailures r then 1 else 0, if fl_json fl then FprintJSON r else Fprint r, [])))"

section \<open>One parser, two loops\<close>

definition var_or_empty :: "(string \<rightharpoonup> string) \<Rightarrow> string \<Rightarrow> string" where
  "var_or_empty vars k = (case vars k of None \<Rightarrow> [] | Some v \<Rightarrow> v)"

lemma var_or_empty_upd: "var_or_empty (vars(k \<mapsto> v)) x = (if x = k then v else var_or_empty vars x)"
  by (simp add: var_or_empty_def)

lemma env_pair_assign:
  "env_assignment l = Some (k, v) \<Longrightarrow>
     env_pair (p, q) (l # ls) =
     env_pair (if ''EXTENSION_ID'' = k then v else p, if ''INSTRUCTION_SENDER'' = k then v else q) ls"
  by simp

lemma env_pair_vars:
  "env_pair (var_or_empty vars ''EXTENSION_ID'', var_or_empty vars ''INSTRUCTION_SENDER'') ls =
     (var_or_empty (env_vars vars ls) ''EXTENSION_ID'', var_or_empty (env_vars vars ls) ''INSTRUCTION_SENDER'')"
proof (induction ls arbitrary: vars)
  case Nil
  then show ?case by simp
next
  case (Cons l ls)
  show ?case
  proof (cases "env_assignment l")
    case None
    with Cons show ?thesis by simp
  next
    case (Some kv)
    obtain k v where "kv = (k, v)" by fastforce
    with Some have a: "env_assignment l = Some (k, v)" by simp
    show ?thesis
      unfolding env_pair_assign [OF a] var_or_empty_upd [symmetric] Cons.IH by (simp add: a)
  qed
qed

text \<open>The two readers of \<open>extension.env\<close> agree. Whatever the file contains (comments, blank lines,
  repeated keys, carriage returns), the pair that \<open>parseExtensionEnv\<close> returns is what the map built by
  \<open>CheckExtensionEnvFormat\<close> holds for the two keys, with the empty string for a missing one; in
  particular the last assignment wins in both.\<close>

theorem env_readers_agree:
  "parseExtensionEnv C path =
     (let vars = (case ce_Open C path of None \<Rightarrow> Map.empty | Some s \<Rightarrow> env_vars Map.empty (scan_lines s)) in
      (case vars ''EXTENSION_ID'' of None \<Rightarrow> [] | Some v \<Rightarrow> v,
       case vars ''INSTRUCTION_SENDER'' of None \<Rightarrow> [] | Some v \<Rightarrow> v))"
  using env_pair_vars [of Map.empty]
  by (simp add: parseExtensionEnv_def Let_def var_or_empty_def split: option.split)

section \<open>What a check group promises\<close>

text \<open>All its results carry its step, and only warnings and failures come with a fix.\<close>

definition wf_result :: "string \<Rightarrow> CheckResult \<Rightarrow> bool" where
  "wf_result step r \<longleftrightarrow> c_Step r = step \<and> (c_Status r = PASS \<or> c_Status r = SKIP \<longrightarrow> c_Fix r = [])"

locale check_group =
  fixes run :: "'arg \<Rightarrow> CheckResult list" and step :: string
  assumes group_wf: "r \<in> set (run x) \<Longrightarrow> wf_result step r"
begin

lemma group_step: "filter (\<lambda>r. c_Step r = step) (run x) = run x"
  using group_wf by (auto simp: filter_id_conv wf_result_def)

lemma group_other: "s \<noteq> step \<Longrightarrow> filter (\<lambda>r. c_Step r = s) (run x) = []"
  using group_wf by (auto simp: filter_empty_conv wf_result_def)

lemma group_fixes: "r \<in> set (run x) \<Longrightarrow> c_Fix r \<noteq> [] \<Longrightarrow> c_Status r \<in> {WARN, FAIL}"
  using group_wf [of r x] by (cases "c_Status r") (auto simp: wf_result_def)

end

lemma wf_result_result [simp]:
  "wf_result s (result step i n st m f) \<longleftrightarrow> step = s \<and> (st = PASS \<or> st = SKIP \<longrightarrow> f = [])"
  by (auto simp: wf_result_def result_def)

lemma c_ID_result [simp]: "c_ID (result step i n st m f) = i"
  by (simp add: result_def)

lemma c_Status_result [simp]: "c_Status (result step i n st m f) = st"
  by (simp add: result_def)

lemma deploy_results_wf:
  "wf_result ''deploy'' (check_not_zero C la)" "wf_result ''deploy'' (check_has_code C cl la)"
  "wf_result ''deploy'' (CheckDeployerKeySource C)" "wf_result ''deploy'' (check_funds C cl a)"
  "wf_result ''deploy'' (checkChainID c)" "wf_result ''deploy'' (check_env_entry vars key ok)"
  by (auto simp: check_not_zero_def check_has_code_def CheckDeployerKeySource_def check_funds_def checkChainID_def
      check_env_entry_def split: prod.split option.split sum.split)

interpretation deploy: check_group
  "\<lambda>(C, cl, key, o1, o2, path). RegisterDeployChecks C cl key o1 o2 path" "''deploy''"
proof unfold_locales
  fix r and x :: "check_env \<times> chain_client option \<times> address option \<times> (string \<times> address) list \<times> (string \<times> address) list \<times> string"
  obtain C cl key o1 o2 path where x: "x = (C, cl, key, o1, o2, path)" by (metis prod.collapse)
  assume "r \<in> set (case x of (C, cl, key, o1, o2, path) \<Rightarrow> RegisterDeployChecks C cl key o1 o2 path)"
  then show "wf_result ''deploy'' r"
    by (auto simp: x RegisterDeployChecks_def CheckExtensionEnvFormat_def deploy_results_wf Let_def
        split: option.splits if_splits)
qed

lemma register_results_wf:
  "wf_result ''register'' (fst (check_counter reg))" "wf_result ''register'' (check_sender C reg i s)"
  "wf_result ''register'' (check_owner al i a)" "wf_result ''register'' (check_key_type C reg i)"
  "wf_result ''register'' (check_unique_sender C reg c s)"
  by (auto simp: check_counter_def check_sender_def check_owner_def check_key_type_def check_unique_sender_def Let_def
      split: sum.split)

interpretation register: check_group
  "\<lambda>(C, cl, key, reg, al, path). RegisterRegistrationChecks C cl key reg al path" "''register''"
proof unfold_locales
  fix r and x :: "check_env \<times> chain_client option \<times> address option \<times> registry_caller option \<times> allowlist_caller option \<times> string"
  obtain C cl key reg al path where x: "x = (C, cl, key, reg, al, path)" by (metis prod.collapse)
  have "wf_result ''register'' a" if "check_counter g = (a, b)" for g a b
    using register_results_wf(1) [of g] that by simp
  moreover assume "r \<in> set (case x of (C, cl, key, reg, al, path) \<Rightarrow> RegisterRegistrationChecks C cl key reg al path)"
  ultimately show "wf_result ''register'' r"
    by (auto simp: x RegisterRegistrationChecks_def register_results_wf Let_def
        split: option.splits if_splits prod.splits)
qed

lemmas service_defs = check_S2_def check_S5_def check_S7_def check_S9_def check_S10_def
lemmas version_defs = check_V2_def check_V4_def check_V6_def
lemmas machine_defs = check_T1_def check_T5_def check_T10_def
lemmas test_defs = check_E1_def check_E3_def check_E6_def

interpretation services: check_group "\<lambda>(C, path). RegisterServicesChecks C path" "''services''"
  by unfold_locales (auto simp: RegisterServicesChecks_def service_defs Let_def)

interpretation tee_version: check_group "\<lambda>(C, path). RegisterTeeVersionChecks C path" "''tee-version''"
  by unfold_locales (auto simp: RegisterTeeVersionChecks_def version_defs Let_def)

interpretation tee_machine: check_group "\<lambda>(C, path). RegisterTeeMachineChecks C path" "''tee-machine''"
  by unfold_locales (auto simp: RegisterTeeMachineChecks_def machine_defs Let_def)

interpretation testing: check_group "\<lambda>(C, path). RegisterTestChecks C path" "''test''"
  by unfold_locales (auto simp: RegisterTestChecks_def test_defs Let_def)

text \<open>The deployment checks do not depend on the order in which Go walks the address map: for any
  iteration orders of the two loops the same results are reported, each as often, so the summary and
  the exit status are the same.\<close>

theorem deploy_checks_order_independent:
  assumes "mset o1 = mset o1'" and "mset o2 = mset o2'"
  shows "mset (RegisterDeployChecks C client key o1 o2 path) = mset (RegisterDeployChecks C client key o1' o2' path) \<and>
         Summary (RegisterDeployChecks C client key o1 o2 path) = Summary (RegisterDeployChecks C client key o1' o2' path) \<and>
         HasFailures (RegisterDeployChecks C client key o1 o2 path) = HasFailures (RegisterDeployChecks C client key o1' o2' path)"
proof -
  have "set o1 = set o1'" using assms(1) by (rule mset_eq_setD)
  then have z: "set (map fst (filter (\<lambda>(l, a). AddressNotZero C a l \<noteq> None) o1)) =
      set (map fst (filter (\<lambda>(l, a). AddressNotZero C a l \<noteq> None) o1'))" by simp
  have m: "mset (RegisterDeployChecks C client key o1 o2 path) = mset (RegisterDeployChecks C client key o1' o2' path)"
    unfolding RegisterDeployChecks_def Let_def z by (simp add: assms mset_filter)
  have c: "count_status s a = count_status s b" if "mset a = mset b" for s a b
    unfolding count_status_def using that by (metis mset_filter size_mset)
  have "Summary a = Summary b" if "mset a = mset b" for a b
    using c [OF that] by (simp add: Summary_def tally_eq)
  moreover have "HasFailures a = HasFailures b" if "mset a = mset b" for a b
    using mset_eq_setD [OF that] by (simp add: HasFailures_iff)
  ultimately show ?thesis using m by blast
qed

definition demo_check_env :: check_env where
  "demo_check_env =
     \<lparr>ce_Getenv = (\<lambda>k. if k = ''LOCAL_MODE'' then ''1'' else []), ce_Open = (\<lambda>p. None), ce_NotExist = (\<lambda>p. True),
      ce_AddressHex = ref_address_text, ce_HexToAddress = (\<lambda>s. 1), ce_EVMType = 0, ce_DialTCP = (\<lambda>a. False),
      ce_HttpStatus = (\<lambda>u. None)\<rparr>"

theorem deploy_checks_order_independent_witness:
  "HasFailures (RegisterDeployChecks demo_check_env None None [(''A'', 1), (''B'', 0)] [(''A'', 1), (''B'', 0)] []) =
   HasFailures (RegisterDeployChecks demo_check_env None None [(''B'', 0), (''A'', 1)] [(''A'', 1), (''B'', 0)] [])"
proof -
  have "mset [(''A'', 1 :: address), (''B'', 0)] = mset [(''B'', 0), (''A'', 1)]" by simp
  from deploy_checks_order_independent [OF this refl, of demo_check_env None None "[(''A'', 1), (''B'', 0)]" "[]"]
  show ?thesis by blast
qed

text \<open>C40: The command's exit status is what its users rely on: it is 0 exactly when the step name is
  known, support could be initialised where the step needs the chain, and no selected check failed;
  and a full run reports, under each of the six steps, exactly what that step's checks produced.\<close>

theorem verify_deploy_exit:
  "(fst (verify_deploy_main C support fl) = 0 \<longleftrightarrow>
      (\<exists>r. collect_report C support fl = Inr r \<and>
         (\<forall>res \<in> set r. c_Status res = FAIL \<longrightarrow> fl_checks fl \<noteq> [] \<and> c_ID res \<notin> set (allowed_ids (fl_checks fl))))) \<and>
   (support = Inr s \<and> fl_step fl = ''all'' \<longrightarrow>
      (\<exists>r. collect_report C support fl = Inr r \<and>
         filter (\<lambda>res. c_Step res = ''deploy'') r = deploy_group C s (fl_config fl) \<and>
         filter (\<lambda>res. c_Step res = ''register'') r = register_group C s (fl_config fl) \<and>
         filter (\<lambda>res. c_Step res = ''services'') r = RegisterServicesChecks C (fl_config fl) \<and>
         filter (\<lambda>res. c_Step res = ''tee-version'') r = RegisterTeeVersionChecks C (fl_config fl) \<and>
         filter (\<lambda>res. c_Step res = ''tee-machine'') r = RegisterTeeMachineChecks C (fl_config fl) \<and>
         filter (\<lambda>res. c_Step res = ''test'') r = RegisterTestChecks C (fl_config fl)))"
proof (intro conjI impI)
  show "fst (verify_deploy_main C support fl) = 0 \<longleftrightarrow>
      (\<exists>r. collect_report C support fl = Inr r \<and>
         (\<forall>res \<in> set r. c_Status res = FAIL \<longrightarrow> fl_checks fl \<noteq> [] \<and> c_ID res \<notin> set (allowed_ids (fl_checks fl))))"
    by (auto simp: verify_deploy_main_def filter_report_def HasFailures_iff Let_def split: sum.split)
next
  assume a: "support = Inr s \<and> fl_step fl = ''all''"
  let ?p = "fl_config fl"
  let ?dx = "(C, Some (si_client s), Some (si_key s), [(''FlareTeeManager'', si_manager s)], [(''FlareTeeManager'', si_manager s)], ?p)"
  let ?rx = "(C, Some (si_client s), Some (si_key s), Some (si_registry s), Some (si_allowlist s), ?p)"
  note own = deploy.group_step [of ?dx] register.group_step [of ?rx] services.group_step [of "(C, ?p)"]
    tee_version.group_step [of "(C, ?p)"] tee_machine.group_step [of "(C, ?p)"] testing.group_step [of "(C, ?p)"]
  note other = deploy.group_other [of _ ?dx] register.group_other [of _ ?rx] services.group_other [of _ "(C, ?p)"]
    tee_version.group_other [of _ "(C, ?p)"] tee_machine.group_other [of _ "(C, ?p)"] testing.group_other [of _ "(C, ?p)"]
  have g: "deploy_group C s ?p = (case ?dx of (C, cl, key, o1, o2, path) \<Rightarrow> RegisterDeployChecks C cl key o1 o2 path)"
    "register_group C s ?p = (case ?rx of (C, cl, key, reg, al, path) \<Rightarrow> RegisterRegistrationChecks C cl key reg al path)"
    by (simp_all add: deploy_group_def register_group_def Let_def)
  show "\<exists>r. collect_report C support fl = Inr r \<and>
         filter (\<lambda>res. c_Step res = ''deploy'') r = deploy_group C s ?p \<and>
         filter (\<lambda>res. c_Step res = ''register'') r = register_group C s ?p \<and>
         filter (\<lambda>res. c_Step res = ''services'') r = RegisterServicesChecks C ?p \<and>
         filter (\<lambda>res. c_Step res = ''tee-version'') r = RegisterTeeVersionChecks C ?p \<and>
         filter (\<lambda>res. c_Step res = ''tee-machine'') r = RegisterTeeMachineChecks C ?p \<and>
         filter (\<lambda>res. c_Step res = ''test'') r = RegisterTestChecks C ?p"
    using a own other by (simp add: collect_report_def g Let_def)
qed

definition demo_flags :: deploy_flags where
  "demo_flags = \<lparr>fl_af = [], fl_cf = [], fl_config = [], fl_step = ''services'', fl_checks = [], fl_json = False\<rparr>"

theorem verify_deploy_exit_witness:
  "fst (verify_deploy_main demo_check_env (Inl ''offline'') demo_flags) = 0"
proof -
  have "collect_report demo_check_env (Inl ''offline'') demo_flags = Inr (RegisterServicesChecks demo_check_env [])"
    by (simp add: collect_report_def demo_flags_def Let_def)
  moreover have "c_Status res \<noteq> FAIL" if "res \<in> set (RegisterServicesChecks demo_check_env [])" for res
    using that by (auto simp: RegisterServicesChecks_def service_defs demo_check_env_def info_ok_def Let_def)
  ultimately show ?thesis using verify_deploy_exit [of demo_check_env "Inl ''offline''" demo_flags] by auto
qed

text \<open>The key check of the service step can report the opposite of what holds: for any \<open>LOCAL_MODE\<close>
  other than the three values it knows (such as 1), it passes with the message that
  \<open>PROXY_PRIVATE_KEY\<close> is configured although the variable is empty.\<close>

theorem S10_reports_missing_key_as_configured:
  assumes "ce_Getenv C ''LOCAL_MODE'' \<notin> {''true'', ''false'', []}" and "ce_Getenv C ''PROXY_PRIVATE_KEY'' = []"
  shows "\<exists>res \<in> set (RegisterServicesChecks C path).
           c_ID res = ''S10'' \<and> c_Status res = PASS \<and> c_Message res = ''PROXY_PRIVATE_KEY is configured''"
proof -
  have "check_S10 C = result ''services'' ''S10'' ''PROXY_PRIVATE_KEY set on non-local'' PASS ''PROXY_PRIVATE_KEY is configured'' []"
    using assms by (auto simp: check_S10_def Let_def)
  then show ?thesis by (simp add: RegisterServicesChecks_def result_def)
qed

theorem S10_reports_missing_key_as_configured_witness:
  "\<exists>res \<in> set (RegisterServicesChecks demo_check_env []).
     c_ID res = ''S10'' \<and> c_Status res = PASS \<and> c_Message res = ''PROXY_PRIVATE_KEY is configured''"
  by (rule S10_reports_missing_key_as_configured) (simp_all add: demo_check_env_def)

end
