(* ===== verification/Escrow.thy ===== *)
theory Escrow
  imports Settlement
begin

text \<open>
  The whole escrow contract, \<open>contracts/WorkProofEscrow.sol\<close>: construction, owner controls and the job
  life cycle from creation to payment, cancellation or refund. A call is a function from the contract's
  storage to a revert (nothing changes) or the new storage and the token movements it makes. What the
  contract calls (token, TEE registries, relay, random number source) is the environment of the call: a
  function that answers, or reverts. \<open>nonReentrant\<close> guards every function that calls out and touches a
  job, so calls are atomic. \<open>uint256\<close> values are \<open>int\<close>, with the checked additions of Solidity 0.8
  written out; \<open>uint64\<close> and \<open>uint16\<close> values are words. Events are not modelled.
\<close>

section \<open>Storage and environment\<close>

definition StateCreated :: u8 where "StateCreated = 0"
definition StateAccepted :: u8 where "StateAccepted = 1"
definition StateRandomnessPending :: u8 where "StateRandomnessPending = 2"
definition StateReadyToVerify :: u8 where "StateReadyToVerify = 3"
definition StateCancelled :: u8 where "StateCancelled = 8"
definition StateRefunded :: u8 where "StateRefunded = 9"

lemmas escrow_states =
  StateCreated_def StateAccepted_def StateRandomnessPending_def StateReadyToVerify_def StateVerifying_def
  StateAwaitingResubmission_def StateRetryable_def StatePaid_def StateCancelled_def StateRefunded_def
  StateRefundPending_def

definition TEE_STATUS_PRODUCTION :: u8 where "TEE_STATUS_PRODUCTION = 2"
definition MAX_PROTOCOL_FEE_BPS :: u16 where "MAX_PROTOCOL_FEE_BPS = 1000"
definition MIN_VERIFICATION_TIMEOUT :: u64 where "MIN_VERIFICATION_TIMEOUT = 30"
definition MAX_VERIFICATION_TIMEOUT :: u64 where "MAX_VERIFICATION_TIMEOUT = 604800"
definition FIRST_PUBLIC_EXTENSION_ID :: int where "FIRST_PUBLIC_EXTENSION_ID = 0x10000"

text \<open>What never-written storage holds.\<close>

definition zero_terms :: JobTerms where
  "zero_terms = \<lparr>jt_client = 0, jt_contractor = 0, jt_expectedTee = 0, jt_principal = 0, jt_fee = 0, jt_createdAt = 0,
     jt_acceptBy = 0, jt_submitBy = 0, jt_graceEnds = 0, jt_verificationTimeout = 0, jt_specHash = 0,
     jt_privateBundleHash = 0, jt_engineVersionHash = 0, jt_ciphertextHash = 0\<rparr>"

definition zero_attempt :: AttemptState where
  "zero_attempt = \<lparr>at_attempt = 0, at_artifactAddress = 0, at_artifactBlock = 0, at_artifactCodeHash = 0,
     at_targetRound = 0, at_randomRound = 0, at_randomValueHash = 0, at_randomLocked = False,
     at_instructionId = 0, at_dispatchedAt = 0, at_timeoutAt = 0\<rparr>"

definition zero_job :: EscrowJob where
  "zero_job = \<lparr>ej_terms = zero_terms, ej_current = zero_attempt, ej_state = StateCreated, ej_settled = False\<rparr>"

record immutables =
  im_token :: address
  im_extensionRegistry :: address
  im_machineRegistry :: address
  im_relay :: address
  im_randomNumberV2 :: address
  im_treasury :: address

record escrow =
  es_owner :: address
  es_pendingOwner :: address
  es_protocolFeeBps :: u16
  es_paused :: bool
  es_extensionId :: int
  es_nextJobId :: int
  es_jobs :: "int \<Rightarrow> EscrowJob"

record TeeInstructionParams =
  ip_opType :: bytes32
  ip_opCommand :: bytes32
  ip_message :: bytes
  ip_cosigners :: "address list"
  ip_cosignersThreshold :: u64
  ip_claimBackAddress :: address

text \<open>The environment of one call: the block, the sender, and the called contracts' answers (\<open>None\<close> or
  \<open>False\<close> when they revert).\<close>

record call_env =
  cv_block :: block_env
  cv_number :: int
  cv_sender :: address
  cv_codeLength :: "address \<Rightarrow> nat"
  cv_nextPublicExtensionId :: "int option"
  cv_instructionsSender :: "int \<Rightarrow> address option"
  cv_sendInstructions :: "address list \<Rightarrow> TeeInstructionParams \<Rightarrow> bytes32 option"
  cv_teeStatus :: "address \<Rightarrow> u8 option"
  cv_votingRoundId :: "int \<Rightarrow> int option"
  cv_randomNumber :: "int \<Rightarrow> (int \<times> bool) option"
  cv_transferFrom :: "address \<Rightarrow> address \<Rightarrow> int \<Rightarrow> bool"
  cv_transfer :: "address \<Rightarrow> int \<Rightarrow> bool"

abbreviation now_of :: "call_env \<Rightarrow> int" where "now_of c \<equiv> bk_timestamp (cv_block c)"

text \<open>Libraries and precompiles the contract uses.\<close>

record contract_lib =
  cl_lib :: ext_lib
  cl_decode :: "bytes \<Rightarrow> VerdictV1 option"
  cl_encode :: "WorkProofInstruction \<Rightarrow> bytes"
  cl_ecrecover :: "bytes32 \<Rightarrow> u8 \<Rightarrow> bytes32 \<Rightarrow> bytes32 \<Rightarrow> address"

text \<open>Token movements: tokens pulled into the escrow, tokens sent out.\<close>

datatype move = Pull address int | Push address int

text \<open>Checked addition of \<open>uint256\<close>.\<close>

definition add256 :: "int \<Rightarrow> int \<Rightarrow> int option" where
  "add256 a b = (if a + b < 2 ^ 256 then Some (a + b) else None)"

section \<open>Construction and owner controls\<close>

definition escrow_constructor ::
  "call_env \<Rightarrow> address option \<Rightarrow> address option \<Rightarrow> address option \<Rightarrow> address \<Rightarrow> address \<Rightarrow> address \<Rightarrow> u16 \<Rightarrow>
   revert + (immutables \<times> escrow)" where
  "escrow_constructor c fAsset relay random extReg machReg treasury bps =
     (case first_err
        [(extReg = 0 \<or> machReg = 0 \<or> treasury = 0, ZeroAddress),
         (cv_codeLength c extReg = 0 \<or> cv_codeLength c machReg = 0, NoCode),
         (bps > MAX_PROTOCOL_FEE_BPS, FeeTooHigh),
         (fAsset = None, CallReverted), (fAsset = Some 0, ZeroAddress),
         (relay = None, CallReverted), (relay = Some 0, ZeroAddress),
         (random = None, CallReverted), (random = Some 0, ZeroAddress),
         (treasury = bk_this (cv_block c) \<or> Some treasury = fAsset, ZeroAddress)]
      of Some e \<Rightarrow> Inl e
       | None \<Rightarrow>
         Inr (\<lparr>im_token = the fAsset, im_extensionRegistry = extReg, im_machineRegistry = machReg,
               im_relay = the relay, im_randomNumberV2 = the random, im_treasury = treasury\<rparr>,
              \<lparr>es_owner = cv_sender c, es_pendingOwner = 0, es_protocolFeeBps = bps, es_paused = False,
               es_extensionId = 0, es_nextJobId = 0, es_jobs = (\<lambda>_. zero_job)\<rparr>))"

text \<open>The scan of \<open>setExtensionId\<close> over the registry.\<close>

function find_extension :: "call_env \<Rightarrow> int \<Rightarrow> int \<Rightarrow> revert + int" where
  "find_extension c i n =
     (if i < n then
        (case cv_instructionsSender c i of
           None \<Rightarrow> Inl CallReverted
         | Some a \<Rightarrow> if a = bk_this (cv_block c) then Inr i else find_extension c (i + 1) n)
      else Inl (Message ''Extension ID not found.''))"
  by pat_completeness auto

termination
  by (relation "measure (\<lambda>(c, i, n). nat (n - i))") auto

declare find_extension.simps [simp del]

definition setExtensionId :: "call_env \<Rightarrow> escrow \<Rightarrow> revert + escrow" where
  "setExtensionId c s =
     (if es_extensionId s \<noteq> 0 then Inl (Message ''Extension ID already set.'')
      else case cv_nextPublicExtensionId c of
        None \<Rightarrow> Inl CallReverted
      | Some n \<Rightarrow>
        (case find_extension c FIRST_PUBLIC_EXTENSION_ID n of
           Inl e \<Rightarrow> Inl e
         | Inr i \<Rightarrow> Inr (s\<lparr>es_extensionId := i\<rparr>)))"

definition pauseNewWork :: "call_env \<Rightarrow> escrow \<Rightarrow> revert + escrow" where
  "pauseNewWork c s = (if cv_sender c \<noteq> es_owner s then Inl NotOwner else Inr (s\<lparr>es_paused := True\<rparr>))"

definition unpauseNewWork :: "call_env \<Rightarrow> escrow \<Rightarrow> revert + escrow" where
  "unpauseNewWork c s = (if cv_sender c \<noteq> es_owner s then Inl NotOwner else Inr (s\<lparr>es_paused := False\<rparr>))"

definition setProtocolFee :: "call_env \<Rightarrow> u16 \<Rightarrow> escrow \<Rightarrow> revert + escrow" where
  "setProtocolFee c newBps s =
     (if cv_sender c \<noteq> es_owner s then Inl NotOwner
      else if newBps > MAX_PROTOCOL_FEE_BPS then Inl FeeTooHigh
      else Inr (s\<lparr>es_protocolFeeBps := newBps\<rparr>))"

definition transferOwnership :: "call_env \<Rightarrow> address \<Rightarrow> escrow \<Rightarrow> revert + escrow" where
  "transferOwnership c newOwner s =
     (if cv_sender c \<noteq> es_owner s then Inl NotOwner
      else if newOwner = 0 then Inl ZeroAddress
      else Inr (s\<lparr>es_pendingOwner := newOwner\<rparr>))"

definition acceptOwnership :: "call_env \<Rightarrow> escrow \<Rightarrow> revert + escrow" where
  "acceptOwnership c s =
     (if cv_sender c \<noteq> es_pendingOwner s then Inl NotOwner
      else Inr (s\<lparr>es_owner := cv_sender c, es_pendingOwner := 0\<rparr>))"

section \<open>Job life cycle\<close>

definition confirmProductionTee :: "call_env \<Rightarrow> address \<Rightarrow> revert option" where
  "confirmProductionTee c teeId =
     (if teeId = 0 then Some TeeNotProduction
      else case cv_teeStatus c teeId of
        None \<Rightarrow> Some CallReverted
      | Some st \<Rightarrow> if st \<noteq> TEE_STATUS_PRODUCTION then Some TeeNotProduction else None)"

record create_args =
  ca_contractor :: address
  ca_expectedTee :: address
  ca_principal :: "128 word"
  ca_acceptBy :: u64
  ca_submitBy :: u64
  ca_graceEnds :: u64
  ca_verificationTimeout :: u64
  ca_specHash :: bytes32
  ca_privateBundleHash :: bytes32
  ca_engineVersionHash :: bytes32
  ca_ciphertextHash :: bytes32

definition protocol_fee :: "128 word \<Rightarrow> u16 \<Rightarrow> int" where
  "protocol_fee amt bps = (uint amt * uint bps) div 10000 mod 2 ^ 128"

definition created_terms :: "call_env \<Rightarrow> create_args \<Rightarrow> int \<Rightarrow> JobTerms" where
  "created_terms c a fee =
     \<lparr>jt_client = cv_sender c, jt_contractor = ca_contractor a, jt_expectedTee = ca_expectedTee a,
      jt_principal = uint (ca_principal a), jt_fee = fee, jt_createdAt = of_int (now_of c),
      jt_acceptBy = ca_acceptBy a, jt_submitBy = ca_submitBy a, jt_graceEnds = ca_graceEnds a,
      jt_verificationTimeout = ca_verificationTimeout a, jt_specHash = ca_specHash a,
      jt_privateBundleHash = ca_privateBundleHash a, jt_engineVersionHash = ca_engineVersionHash a,
      jt_ciphertextHash = ca_ciphertextHash a\<rparr>"

definition createJob :: "call_env \<Rightarrow> create_args \<Rightarrow> escrow \<Rightarrow> revert + (escrow \<times> move list)" where
  "createJob c a s =
     (case first_err
        [(es_paused s, IsPaused),
         (ca_contractor a = 0 \<or> ca_expectedTee a = 0 \<or> uint (ca_acceptBy a) \<le> now_of c \<or>
            ca_submitBy a \<le> ca_acceptBy a \<or> ca_graceEnds a \<le> ca_submitBy a \<or>
            ca_verificationTimeout a < MIN_VERIFICATION_TIMEOUT \<or>
            ca_verificationTimeout a > MAX_VERIFICATION_TIMEOUT \<or> ca_principal a = 0, InvalidVerdict),
         (es_extensionId s = 0, Message ''Extension ID is not set.'')]
      of Some e \<Rightarrow> Inl e
       | None \<Rightarrow>
         (case confirmProductionTee c (ca_expectedTee a) of
            Some e \<Rightarrow> Inl e
          | None \<Rightarrow>
            (let fee = protocol_fee (ca_principal a) (es_protocolFeeBps s);
                 amount = uint (ca_principal a) + fee; i = es_nextJobId s in
             if \<not> cv_transferFrom c (cv_sender c) (bk_this (cv_block c)) amount then Inl CallReverted
             else if add256 i 1 = None then Inl ArithmeticPanic
             else Inr (s\<lparr>es_nextJobId := i + 1,
                        es_jobs := (es_jobs s)(i := (es_jobs s i)\<lparr>ej_terms := created_terms c a fee,
                                                                 ej_state := StateCreated\<rparr>)\<rparr>,
                       [Pull (cv_sender c) amount]))))"

definition acceptJob :: "call_env \<Rightarrow> EscrowJob \<Rightarrow> revert + (EscrowJob \<times> move list)" where
  "acceptJob c j =
     (if ej_state j \<noteq> StateCreated \<or> cv_sender c \<noteq> jt_contractor (ej_terms j) then Inl InvalidState
      else if now_of c > uint (jt_acceptBy (ej_terms j)) then Inl Deadline
      else Inr (j\<lparr>ej_state := StateAccepted\<rparr>, []))"

definition cancelUnaccepted :: "call_env \<Rightarrow> EscrowJob \<Rightarrow> revert + (EscrowJob \<times> move list)" where
  "cancelUnaccepted c j =
     (if ej_state j \<noteq> StateCreated \<or> cv_sender c \<noteq> jt_client (ej_terms j) then Inl InvalidState
      else let amount = jt_principal (ej_terms j) + jt_fee (ej_terms j) in
        if \<not> cv_transfer c (jt_client (ej_terms j)) amount then Inl CallReverted
        else Inr (j\<lparr>ej_state := StateCancelled, ej_settled := True\<rparr>, [Push (jt_client (ej_terms j)) amount]))"

definition submitAttempt :: "call_env \<Rightarrow> bool \<Rightarrow> address \<Rightarrow> EscrowJob \<Rightarrow> revert + (EscrowJob \<times> move list)" where
  "submitAttempt c is_paused artifactAddress j =
     (case first_err
        [(is_paused, IsPaused),
         (cv_sender c \<noteq> jt_contractor (ej_terms j) \<or>
            ej_state j \<noteq> StateAccepted \<and> ej_state j \<noteq> StateAwaitingResubmission \<and> ej_state j \<noteq> StateRetryable, InvalidState),
         (now_of c > uint (jt_submitBy (ej_terms j)), Deadline),
         (artifactAddress = 0 \<or> cv_codeLength c artifactAddress = 0, InvalidVerdict),
         (at_attempt (ej_current j) = - 1, ArithmeticPanic)]
      of Some e \<Rightarrow> Inl e
       | None \<Rightarrow>
         (case cv_votingRoundId c (now_of c) of
            None \<Rightarrow> Inl CallReverted
          | Some r \<Rightarrow>
            (case add256 r 1 of
               None \<Rightarrow> Inl ArithmeticPanic
             | Some targetRound \<Rightarrow>
               Inr (j\<lparr>ej_current :=
                        \<lparr>at_attempt = at_attempt (ej_current j) + 1, at_artifactAddress = artifactAddress,
                         at_artifactBlock = cv_number c, at_artifactCodeHash = bk_codehash (cv_block c) artifactAddress,
                         at_targetRound = targetRound, at_randomRound = 0, at_randomValueHash = 0,
                         at_randomLocked = False, at_instructionId = 0, at_dispatchedAt = 0, at_timeoutAt = 0\<rparr>,
                     ej_state := StateRandomnessPending\<rparr>, []))))"

definition lockRandomness :: "contract_lib \<Rightarrow> call_env \<Rightarrow> EscrowJob \<Rightarrow> revert + (EscrowJob \<times> move list)" where
  "lockRandomness cl c j =
     (if ej_state j \<noteq> StateRandomnessPending then Inl InvalidState
      else let cur = ej_current j in
        case cv_randomNumber c (at_targetRound cur) of
          None \<Rightarrow> Inl RandomNotReady
        | Some (randomNumber, isSecure) \<Rightarrow>
          if \<not> isSecure then
            (case add256 (at_targetRound cur) 1 of
               None \<Rightarrow> Inl ArithmeticPanic
             | Some r \<Rightarrow> Inr (j\<lparr>ej_current := cur\<lparr>at_targetRound := r\<rparr>\<rparr>, []))
          else
            Inr (j\<lparr>ej_current := cur\<lparr>at_randomRound := at_targetRound cur,
                     at_randomValueHash := Keccak256 (cl_lib cl) (be_bytes 32 (nat randomNumber)),
                     at_randomLocked := True\<rparr>,
                   ej_state := StateReadyToVerify\<rparr>, []))"

text \<open>The instruction a dispatch sends to the extension.\<close>

definition dispatched_instruction :: "call_env \<Rightarrow> int \<Rightarrow> EscrowJob \<Rightarrow> WorkProofInstruction" where
  "dispatched_instruction c jid j =
     \<lparr>wi_ChainId = Some (bk_chainid (cv_block c)), wi_EscrowAddress = bk_this (cv_block c), wi_JobId = Some jid,
      wi_Attempt = at_attempt (ej_current j), wi_SpecHash = jt_specHash (ej_terms j),
      wi_PrivateBundleHash = jt_privateBundleHash (ej_terms j), wi_CiphertextHash = jt_ciphertextHash (ej_terms j),
      wi_ArtifactAddress = at_artifactAddress (ej_current j),
      wi_ArtifactBlock = Some (at_artifactBlock (ej_current j)),
      wi_ArtifactCodeHash = at_artifactCodeHash (ej_current j),
      wi_RandomRound = Some (at_randomRound (ej_current j)),
      wi_RandomValueHash = at_randomValueHash (ej_current j),
      wi_EngineVersionHash = jt_engineVersionHash (ej_terms j), wi_ExpiresAt = jt_graceEnds (ej_terms j)\<rparr>"

definition dispatchVerification ::
  "contract_lib \<Rightarrow> call_env \<Rightarrow> int \<Rightarrow> EscrowJob \<Rightarrow> revert + (EscrowJob \<times> move list)" where
  "dispatchVerification cl c jid j =
     (if ej_state j \<noteq> StateReadyToVerify \<or> \<not> at_randomLocked (ej_current j) then Inl InvalidState
      else case confirmProductionTee c (jt_expectedTee (ej_terms j)) of
        Some e \<Rightarrow> Inl e
      | None \<Rightarrow>
        (case cv_sendInstructions c [jt_expectedTee (ej_terms j)]
                \<lparr>ip_opType = OP_TYPE, ip_opCommand = OP_COMMAND,
                 ip_message = cl_encode cl (dispatched_instruction c jid j), ip_cosigners = [],
                 ip_cosignersThreshold = 0, ip_claimBackAddress = cv_sender c\<rparr> of
           None \<Rightarrow> Inl CallReverted
         | Some instructionId \<Rightarrow>
           (case add256 (now_of c) (uint (jt_verificationTimeout (ej_terms j))) of
              None \<Rightarrow> Inl ArithmeticPanic
            | Some rawTimeoutAt \<Rightarrow>
              (let timeoutAt = (if rawTimeoutAt < uint (jt_graceEnds (ej_terms j)) then of_int rawTimeoutAt
                                else jt_graceEnds (ej_terms j)) in
               if uint timeoutAt \<le> now_of c then Inl Deadline
               else Inr (j\<lparr>ej_current := (ej_current j)\<lparr>at_instructionId := instructionId,
                             at_dispatchedAt := of_int (now_of c), at_timeoutAt := timeoutAt\<rparr>,
                          ej_state := StateVerifying\<rparr>, [])))))"

definition expireVerification :: "call_env \<Rightarrow> EscrowJob \<Rightarrow> revert + (EscrowJob \<times> move list)" where
  "expireVerification c j =
     (if ej_state j \<noteq> StateVerifying \<or> now_of c \<le> uint (at_timeoutAt (ej_current j)) then Inl InvalidState
      else Inr (j\<lparr>ej_current := (ej_current j)\<lparr>at_instructionId := 0, at_dispatchedAt := 0, at_timeoutAt := 0\<rparr>,
                 ej_state := StateRetryable\<rparr>, []))"

text \<open>\<open>settleAttempt\<close> with its transfers executed: a token that refuses one reverts the call.\<close>

definition settle_job ::
  "immutables \<Rightarrow> contract_lib \<Rightarrow> call_env \<Rightarrow> int \<Rightarrow> settle_args \<Rightarrow> EscrowJob \<Rightarrow> revert + (EscrowJob \<times> move list)" where
  "settle_job im cl c jid args j =
     (case settleAttempt (cl_lib cl) (cl_decode cl) (cl_ecrecover cl) (im_treasury im) (cv_block c) jid args j of
        Inl e \<Rightarrow> Inl e
      | Inr (j', transfers) \<Rightarrow>
        if list_all (\<lambda>(to, amount). cv_transfer c to amount) transfers
        then Inr (j', map (\<lambda>(to, amount). Push to amount) transfers) else Inl CallReverted)"

definition refundExpired :: "call_env \<Rightarrow> EscrowJob \<Rightarrow> revert + (EscrowJob \<times> move list)" where
  "refundExpired c j =
     (if ej_settled j \<or> now_of c \<le> uint (jt_graceEnds (ej_terms j)) then Inl InvalidState
      else let amount = jt_principal (ej_terms j) + jt_fee (ej_terms j) in
        if \<not> cv_transfer c (jt_client (ej_terms j)) amount then Inl CallReverted
        else Inr (j\<lparr>ej_state := StateRefunded, ej_settled := True\<rparr>, [Push (jt_client (ej_terms j)) amount]))"

section \<open>Calls\<close>

datatype job_call =
    AcceptJob
  | CancelUnaccepted
  | SubmitAttempt address
  | LockRandomness
  | DispatchVerification
  | ExpireVerification
  | SettleAttempt settle_args
  | RefundExpired

datatype escrow_call =
    SetExtensionId
  | PauseNewWork
  | UnpauseNewWork
  | SetProtocolFee u16
  | TransferOwnership address
  | AcceptOwnership
  | CreateJob create_args
  | JobCall int job_call

fun exec_job_call ::
  "immutables \<Rightarrow> contract_lib \<Rightarrow> call_env \<Rightarrow> bool \<Rightarrow> int \<Rightarrow> job_call \<Rightarrow> EscrowJob \<Rightarrow> revert + (EscrowJob \<times> move list)" where
  "exec_job_call im cl c is_paused i AcceptJob = acceptJob c"
| "exec_job_call im cl c is_paused i CancelUnaccepted = cancelUnaccepted c"
| "exec_job_call im cl c is_paused i (SubmitAttempt a) = submitAttempt c is_paused a"
| "exec_job_call im cl c is_paused i LockRandomness = lockRandomness cl c"
| "exec_job_call im cl c is_paused i DispatchVerification = dispatchVerification cl c i"
| "exec_job_call im cl c is_paused i ExpireVerification = expireVerification c"
| "exec_job_call im cl c is_paused i (SettleAttempt args) = settle_job im cl c i args"
| "exec_job_call im cl c is_paused i RefundExpired = refundExpired c"

definition admin :: "(revert + escrow) \<Rightarrow> revert + (escrow \<times> move list)" where
  "admin r = (case r of Inl e \<Rightarrow> Inl e | Inr s \<Rightarrow> Inr (s, []))"

fun exec_call :: "immutables \<Rightarrow> contract_lib \<Rightarrow> call_env \<Rightarrow> escrow_call \<Rightarrow> escrow \<Rightarrow> revert + (escrow \<times> move list)" where
  "exec_call im cl c SetExtensionId s = admin (setExtensionId c s)"
| "exec_call im cl c PauseNewWork s = admin (pauseNewWork c s)"
| "exec_call im cl c UnpauseNewWork s = admin (unpauseNewWork c s)"
| "exec_call im cl c (SetProtocolFee bps) s = admin (setProtocolFee c bps s)"
| "exec_call im cl c (TransferOwnership a) s = admin (transferOwnership c a s)"
| "exec_call im cl c AcceptOwnership s = admin (acceptOwnership c s)"
| "exec_call im cl c (CreateJob a) s = createJob c a s"
| "exec_call im cl c (JobCall i jc) s =
     (case exec_job_call im cl c (es_paused s) i jc (es_jobs s i) of
        Inl e \<Rightarrow> Inl e
      | Inr (j', mv) \<Rightarrow> Inr (s\<lparr>es_jobs := (es_jobs s)(i := j')\<rparr>, mv))"

end
