(* ===== verification/Simulation.thy ===== *)
theory Simulation
  imports Prelude
begin

text \<open>
  The deterministic escrow laboratory \<open>go/internal/workproof/simulation.go\<close>: a job, a
  three-column ledger and the operations \<open>Accept\<close>, \<open>Submit\<close>, \<open>Settle\<close>, \<open>Cancel\<close> and
  \<open>Refund\<close>. Every operation either returns an error and changes nothing or returns the new
  state. Reachable states are those obtained from \<open>NewJob\<close> by any sequence of calls; the
  ledger invariant (money moves at most once, in full, to the right account) is proved by rule
  induction over them.
\<close>

unbundle bit_operations_syntax

section \<open>Data\<close>

datatype State = Created | Accepted | AwaitingResubmission | Retryable | Paid | Cancelled | Refunded

text \<open>\<open>type Outcome uint8\<close> with \<open>Pass = iota + 1\<close>: any byte can arrive in a verdict.\<close>

type_synonym Outcome = u8

definition Pass :: Outcome where "Pass = 1"
definition Fail :: Outcome where "Fail = 2"
definition Inconclusive :: Outcome where "Inconclusive = 3"

record Verdict =
  v_Escrow :: string
  v_JobID :: string
  v_InstructionID :: string
  v_Attempt :: u64
  v_Outcome :: Outcome
  v_Passed :: u32
  v_Executed :: u32
  v_IssuedAt :: u64
  v_ExpiresAt :: u64
  v_TEEID :: string

record Job =
  j_Client :: string
  j_Contractor :: string
  j_ExpectedTEE :: string
  j_Principal :: int
  j_Fee :: int
  j_State :: State
  j_Attempt :: u64
  j_SubmitBy :: u64
  j_GraceEnds :: u64
  j_Settled :: bool

record Ledger =
  l_Client :: int
  l_Contractor :: int
  l_Treasury :: int

datatype sim_error =
    NotAwaitingAcceptance
  | NotSubmitReady
  | SubmissionDeadlinePassed
  | AlreadySettled
  | UnexpectedTEE
  | StaleAttempt
  | VerdictExpired
  | UnknownOutcome u8
  | CannotCancel
  | RefundNotAvailable

section \<open>Operations\<close>

definition NewJob :: "string \<Rightarrow> string \<Rightarrow> string \<Rightarrow> int \<Rightarrow> int \<Rightarrow> u64 \<Rightarrow> u64 \<Rightarrow> Job \<times> Ledger" where
  "NewJob client contractor tee prin fee submitBy graceEnds =
     (\<lparr>j_Client = client, j_Contractor = contractor, j_ExpectedTEE = tee,
       j_Principal = prin, j_Fee = fee, j_State = Created, j_Attempt = 0,
       j_SubmitBy = submitBy, j_GraceEnds = graceEnds, j_Settled = False\<rparr>,
      \<lparr>l_Client = 0, l_Contractor = 0, l_Treasury = 0\<rparr>)"

definition Accept :: "Job \<Rightarrow> sim_error + Job" where
  "Accept j = (if j_State j \<noteq> Created then Inl NotAwaitingAcceptance
               else Inr (j\<lparr>j_State := Accepted\<rparr>))"

definition Submit :: "Job \<Rightarrow> u64 \<Rightarrow> sim_error + Job" where
  "Submit j now =
     (if j_State j \<noteq> Accepted \<and> j_State j \<noteq> AwaitingResubmission \<and> j_State j \<noteq> Retryable
      then Inl NotSubmitReady
      else if now > j_SubmitBy j then Inl SubmissionDeadlinePassed
      else Inr (j\<lparr>j_Attempt := j_Attempt j + 1\<rparr>))"

definition Settle :: "Job \<Rightarrow> u64 \<Rightarrow> Verdict \<Rightarrow> Ledger \<Rightarrow> sim_error + (Job \<times> Ledger)" where
  "Settle j now v l =
     (if j_Settled j then Inl AlreadySettled
      else if v_Outcome v = Pass then
        (if v_TEEID v \<noteq> j_ExpectedTEE j then Inl UnexpectedTEE
         else if v_Attempt v \<noteq> j_Attempt j then Inl StaleAttempt
         else if v_ExpiresAt v < now then Inl VerdictExpired
         else Inr (j\<lparr>j_State := Paid, j_Settled := True\<rparr>,
                   l\<lparr>l_Contractor := l_Contractor l + j_Principal j,
                     l_Treasury := l_Treasury l + j_Fee j\<rparr>))
      else if v_Outcome v = Fail then Inr (j\<lparr>j_State := AwaitingResubmission\<rparr>, l)
      else if v_Outcome v = Inconclusive then Inr (j\<lparr>j_State := Retryable\<rparr>, l)
      else Inl (UnknownOutcome (v_Outcome v)))"

definition Cancel :: "Job \<Rightarrow> u64 \<Rightarrow> Ledger \<Rightarrow> sim_error + (Job \<times> Ledger)" where
  "Cancel j now l =
     (if j_State j \<noteq> Created \<or> now > j_SubmitBy j then Inl CannotCancel
      else Inr (j\<lparr>j_State := Cancelled, j_Settled := True\<rparr>,
                l\<lparr>l_Client := l_Client l + (j_Principal j + j_Fee j)\<rparr>))"

definition Refund :: "Job \<Rightarrow> u64 \<Rightarrow> Ledger \<Rightarrow> sim_error + (Job \<times> Ledger)" where
  "Refund j now l =
     (if j_Settled j \<or> now \<le> j_GraceEnds j then Inl RefundNotAvailable
      else Inr (j\<lparr>j_State := Refunded, j_Settled := True\<rparr>,
                l\<lparr>l_Client := l_Client l + (j_Principal j + j_Fee j)\<rparr>))"

definition DeterministicRound :: "u64 \<Rightarrow> u64 \<Rightarrow> u64" where
  "DeterministicRound seed futureRound = seed XOR (futureRound * 0x9e3779b97f4a7c15)"

section \<open>Runs\<close>

text \<open>A caller invokes the five methods in any order, with any arguments; a call that returns an
  error leaves job and ledger as they were.\<close>

datatype sim_op =
    OpAccept
  | OpSubmit u64
  | OpSettle u64 Verdict
  | OpCancel u64
  | OpRefund u64

fun sim_call :: "sim_op \<Rightarrow> Job \<times> Ledger \<Rightarrow> sim_error + (Job \<times> Ledger)" where
  "sim_call OpAccept (j, l) = (case Accept j of Inl e \<Rightarrow> Inl e | Inr j' \<Rightarrow> Inr (j', l))"
| "sim_call (OpSubmit now) (j, l) = (case Submit j now of Inl e \<Rightarrow> Inl e | Inr j' \<Rightarrow> Inr (j', l))"
| "sim_call (OpSettle now v) (j, l) = Settle j now v l"
| "sim_call (OpCancel now) (j, l) = Cancel j now l"
| "sim_call (OpRefund now) (j, l) = Refund j now l"

definition sim_step :: "sim_op \<Rightarrow> Job \<times> Ledger \<Rightarrow> Job \<times> Ledger" where
  "sim_step op s = (case sim_call op s of Inl e \<Rightarrow> s | Inr s' \<Rightarrow> s')"

inductive sim_reach :: "Job \<times> Ledger \<Rightarrow> bool" where
  sim_new: "sim_reach (NewJob client contractor tee prin fee submitBy graceEnds)"
| sim_next: "sim_reach s \<Longrightarrow> sim_call op s = Inr t \<Longrightarrow> sim_reach t"

section \<open>The ledger invariant\<close>

text \<open>What the ledger shows is determined by the job's state: nothing before settlement, principal
  to the contractor and fee to the treasury when paid, everything to the client otherwise.\<close>

definition ledger_for :: "Job \<Rightarrow> Ledger" where
  "ledger_for j = (case j_State j of
      Paid \<Rightarrow> \<lparr>l_Client = 0, l_Contractor = j_Principal j, l_Treasury = j_Fee j\<rparr>
    | Cancelled \<Rightarrow> \<lparr>l_Client = j_Principal j + j_Fee j, l_Contractor = 0, l_Treasury = 0\<rparr>
    | Refunded \<Rightarrow> \<lparr>l_Client = j_Principal j + j_Fee j, l_Contractor = 0, l_Treasury = 0\<rparr>
    | _ \<Rightarrow> \<lparr>l_Client = 0, l_Contractor = 0, l_Treasury = 0\<rparr>)"

definition terminal :: "State \<Rightarrow> bool" where
  "terminal s \<longleftrightarrow> s \<in> {Paid, Cancelled, Refunded}"

definition ledger_ok :: "Job \<times> Ledger \<Rightarrow> bool" where
  "ledger_ok s \<longleftrightarrow> (j_Settled (fst s) \<longleftrightarrow> terminal (j_State (fst s))) \<and> snd s = ledger_for (fst s)"

text \<open>The terms of a job: everything no operation may change.\<close>

definition same_terms :: "Job \<times> Ledger \<Rightarrow> Job \<times> Ledger \<Rightarrow> bool" where
  "same_terms s t \<longleftrightarrow>
     j_Client (fst t) = j_Client (fst s) \<and> j_Contractor (fst t) = j_Contractor (fst s) \<and>
     j_ExpectedTEE (fst t) = j_ExpectedTEE (fst s) \<and> j_Principal (fst t) = j_Principal (fst s) \<and>
     j_Fee (fst t) = j_Fee (fst s) \<and> j_SubmitBy (fst t) = j_SubmitBy (fst s) \<and>
     j_GraceEnds (fst t) = j_GraceEnds (fst s)"

text \<open>Once settled, the whole state is frozen.\<close>

definition settles_once :: "Job \<times> Ledger \<Rightarrow> Job \<times> Ledger \<Rightarrow> bool" where
  "settles_once s t \<longleftrightarrow> same_terms s t \<and> (j_Settled (fst s) \<longrightarrow> t = s)"

lemmas sim_op_defs = Accept_def Submit_def Settle_def Cancel_def Refund_def
lemmas outcome_defs = Pass_def Fail_def Inconclusive_def

lemma ledger_ok_call:
  assumes "ledger_ok s" and "sim_call op s = Inr t"
  shows "ledger_ok t"
  using assms
  by (cases s; cases op)
    (auto simp: sim_op_defs ledger_ok_def ledger_for_def terminal_def
      split: if_splits sum.splits State.splits)

lemma settled_call_fails:
  assumes "ledger_ok s" and "j_Settled (fst s)"
  shows "\<exists>e. sim_call op s = Inl e"
  using assms
  by (cases s; cases op) (auto simp: sim_op_defs ledger_ok_def terminal_def split: sum.splits)

lemma same_terms_call: "sim_call op s = Inr t \<Longrightarrow> same_terms s t"
  by (cases s; cases op) (auto simp: sim_op_defs same_terms_def split: if_splits sum.splits)

interpretation sim: monotone_machine sim_step ledger_ok settles_once
proof (unfold_locales, goal_cases)
  case (1 s op)
  then show ?case by (auto simp: sim_step_def split: sum.splits intro: ledger_ok_call)
next
  case (2 s)
  then show ?case by (simp add: settles_once_def same_terms_def)
next
  case (3 s t u)
  then show ?case by (auto simp: settles_once_def same_terms_def)
next
  case (4 s op)
  then show ?case
    using settled_call_fails [of s op]
    by (auto simp: sim_step_def settles_once_def same_terms_def [of s s]
        split: sum.splits dest: same_terms_call)
qed

lemma ledger_ok_NewJob: "ledger_ok (NewJob client contractor tee prin fee submitBy graceEnds)"
  by (simp add: NewJob_def ledger_ok_def ledger_for_def terminal_def)

lemma sim_reach_ledger_ok: "sim_reach s \<Longrightarrow> ledger_ok s"
  by (induction rule: sim_reach.induct) (auto intro: ledger_ok_NewJob ledger_ok_call)

section \<open>Odd multipliers are invertible\<close>

lemma golden_inverse: "(0x9e3779b97f4a7c15 :: u64) * 0xf1de83e19937733d = 1"
  by simp

lemma golden_mult_inject:
  "(a :: u64) * 0x9e3779b97f4a7c15 = b * 0x9e3779b97f4a7c15 \<longleftrightarrow> a = b"
proof
  assume "a * 0x9e3779b97f4a7c15 = b * 0x9e3779b97f4a7c15"
  then have "a * (0x9e3779b97f4a7c15 * 0xf1de83e19937733d) =
      b * (0x9e3779b97f4a7c15 * 0xf1de83e19937733d)"
    by (simp only: mult.assoc [symmetric])
  then show "a = b" by (simp only: golden_inverse mult_1_right)
qed simp

lemma xor_left_inject: "(s :: u64) XOR a = s XOR b \<longleftrightarrow> a = b"
proof
  assume "s XOR a = s XOR b"
  then have "s XOR (s XOR a) = s XOR (s XOR b)" by (rule arg_cong)
  then show "a = b" by (simp add: xor.assoc [symmetric])
qed simp

section \<open>A concrete run\<close>

text \<open>The run of \<open>TestPassPaysOnceAndRejectsMutations\<close>: accept, submit at 5, settle a PASS at 6.\<close>

definition demo_new :: "Job \<times> Ledger" where
  "demo_new = NewJob ''client'' ''contractor'' ''tee-1'' 100 7 10 20"

definition demo_pass :: Verdict where
  "demo_pass = \<lparr>v_Escrow = [], v_JobID = [], v_InstructionID = [], v_Attempt = 1,
     v_Outcome = Pass, v_Passed = 0, v_Executed = 0, v_IssuedAt = 0, v_ExpiresAt = 9,
     v_TEEID = ''tee-1''\<rparr>"

definition demo_ops :: "sim_op list" where
  "demo_ops = [OpAccept, OpSubmit 5, OpSettle 6 demo_pass]"

definition demo_submitted :: "Job \<times> Ledger" where
  "demo_submitted = fold sim_step [OpAccept, OpSubmit 5] demo_new"

lemmas demo_defs = demo_new_def demo_pass_def demo_ops_def NewJob_def sim_step_def sim_op_defs
  outcome_defs

lemma sim_reach_step: "sim_reach s \<Longrightarrow> sim_reach (sim_step op s)"
  by (auto simp: sim_step_def split: sum.splits intro: sim_next)

lemma sim_reach_run: "sim_reach s \<Longrightarrow> sim_reach (fold sim_step ops s)"
  by (induction ops arbitrary: s) (simp_all add: sim_reach_step)

lemma demo_run:
  "fold sim_step demo_ops demo_new =
     (\<lparr>j_Client = ''client'', j_Contractor = ''contractor'', j_ExpectedTEE = ''tee-1'',
       j_Principal = 100, j_Fee = 7, j_State = Paid, j_Attempt = 1, j_SubmitBy = 10,
       j_GraceEnds = 20, j_Settled = True\<rparr>,
      \<lparr>l_Client = 0, l_Contractor = 100, l_Treasury = 7\<rparr>)"
  by (simp add: demo_defs)

lemma demo_reach_new: "sim_reach demo_new"
  unfolding demo_new_def by (rule sim_new)

lemmas demo_reach = sim_reach_run [OF demo_reach_new, of demo_ops, unfolded demo_run]

section \<open>Properties\<close>

text \<open>In every state reachable from \<open>NewJob\<close> by any calls with any arguments, the ledger holds
  exactly what the job's state entitles each party to: nothing before settlement; principal to the
  contractor and the fee to the treasury in \<open>Paid\<close>; principal plus fee to the client in
  \<open>Cancelled\<close> and \<open>Refunded\<close>; and \<open>Settled\<close> is set in exactly those three states.\<close>

theorem sim_ledger_invariant:
  "sim_reach (j, l) \<Longrightarrow>
     l = ledger_for j \<and> (j_Settled j \<longleftrightarrow> terminal (j_State j)) \<and>
     l_Client l + l_Contractor l + l_Treasury l =
       (if j_Settled j then j_Principal j + j_Fee j else 0)"
  using sim_reach_ledger_ok [of "(j, l)"]
  by (auto simp: ledger_ok_def ledger_for_def terminal_def split: State.splits)

theorem sim_ledger_invariant_witness:
  "snd (fold sim_step demo_ops demo_new) = ledger_for (fst (fold sim_step demo_ops demo_new))"
  using sim_ledger_invariant [OF demo_reach] by (simp add: demo_run)

text \<open>A job settles at most once: after settlement no sequence of calls, whatever the arguments,
  changes the job or the ledger any more.\<close>

theorem sim_settles_once:
  "sim_reach s \<Longrightarrow> j_Settled (fst s) \<Longrightarrow> fold sim_step ops s = s"
  using sim.rel_run [OF sim_reach_ledger_ok, of s ops] by (simp add: settles_once_def)

theorem sim_settles_once_witness:
  "fold sim_step (demo_ops @ [OpSettle 7 demo_pass, OpRefund 30, OpCancel 1]) demo_new =
     fold sim_step demo_ops demo_new"
  using sim_settles_once [OF demo_reach, of "[OpSettle 7 demo_pass, OpRefund 30, OpCancel 1]"]
  by (simp add: demo_run)

text \<open>The contractor's balance changes only in a \<open>Settle\<close> call with a PASS verdict that names the
  expected TEE and the current attempt and has not expired; the job is then \<open>Paid\<close>.\<close>

theorem sim_payment_needs_pass:
  assumes "sim_call op (j, l) = Inr (j', l')" and "l_Contractor l' \<noteq> l_Contractor l"
  shows "\<exists>now v. op = OpSettle now v \<and> v_Outcome v = Pass \<and> v_TEEID v = j_ExpectedTEE j \<and>
           v_Attempt v = j_Attempt j \<and> now \<le> v_ExpiresAt v \<and>
           \<not> j_Settled j \<and> j_State j' = Paid \<and> j_Settled j'"
  using assms
  by (cases op) (auto simp: sim_op_defs split: if_splits sum.splits)

theorem sim_payment_needs_pass_witness:
  "\<exists>now v. OpSettle 6 demo_pass = OpSettle now v \<and> v_Outcome v = Pass"
proof -
  have "sim_call (OpSettle 6 demo_pass) (fst demo_submitted, snd demo_submitted) =
      Inr (fst (fold sim_step demo_ops demo_new), snd (fold sim_step demo_ops demo_new))"
    and "l_Contractor (snd (fold sim_step demo_ops demo_new)) \<noteq> l_Contractor (snd demo_submitted)"
    by (simp_all add: demo_submitted_def demo_defs)
  from sim_payment_needs_pass [OF this] show ?thesis by blast
qed

text \<open>No funds are ever stuck: whatever happened before, an unsettled job can be refunded in full
  to the client at any time after \<open>GraceEnds\<close>.\<close>

theorem sim_refund_available:
  assumes "sim_reach (j, l)" and "\<not> j_Settled j" and "now > j_GraceEnds j"
  shows "\<exists>j' l'. sim_call (OpRefund now) (j, l) = Inr (j', l') \<and> j_State j' = Refunded \<and>
           l' = \<lparr>l_Client = j_Principal j + j_Fee j, l_Contractor = 0, l_Treasury = 0\<rparr>"
  using sim_reach_ledger_ok [OF assms(1)] assms(2,3)
  by (auto simp: Refund_def ledger_ok_def ledger_for_def terminal_def split: State.splits)

theorem sim_refund_available_witness:
  "\<exists>j' l'. sim_call (OpRefund 21) demo_new = Inr (j', l') \<and> l_Client l' = 107"
proof -
  have "sim_reach (fst demo_new, snd demo_new)" and "\<not> j_Settled (fst demo_new)"
    and "j_GraceEnds (fst demo_new) < 21"
    using demo_reach_new by (simp_all add: demo_new_def NewJob_def)
  from sim_refund_available [OF this] show ?thesis
    by (auto simp: demo_new_def NewJob_def)
qed

text \<open>For a fixed seed the simulated randomness is a bijection of the round number (the multiplier
  is odd, hence invertible modulo \<open>2^64\<close>): distinct future rounds never collide and every value is
  hit by some round.\<close>

theorem DeterministicRound_bij: "bij (DeterministicRound seed)"
proof (rule bijI)
  show "inj (DeterministicRound seed)"
    by (rule injI) (simp add: DeterministicRound_def xor_left_inject golden_mult_inject)
  have inverse: "(0xf1de83e19937733d :: u64) * 0x9e3779b97f4a7c15 = 1"
    by (simp only: golden_inverse mult.commute)
  show "surj (DeterministicRound seed)"
  proof (rule surjI)
    fix y
    have "(seed XOR y) * 0xf1de83e19937733d * 0x9e3779b97f4a7c15 = seed XOR y"
      by (simp only: mult.assoc inverse mult_1_right)
    then show "DeterministicRound seed ((seed XOR y) * 0xf1de83e19937733d) = y"
      by (simp only: DeterministicRound_def) (simp add: xor.assoc [symmetric])
  qed
qed

text \<open>\<open>Settle\<close> does not look at the job's state: a PASS verdict for attempt 0 pays a job that was
  never accepted and for which nothing was ever submitted.\<close>

theorem sim_pass_pays_unaccepted_job:
  assumes "v_Outcome v = Pass" and "v_TEEID v = tee" and "v_Attempt v = 0" and "now \<le> v_ExpiresAt v"
  shows "\<exists>j l. sim_call (OpSettle now v) (NewJob client contractor tee prin fee submitBy graceEnds) =
           Inr (j, l) \<and> j_State j = Paid \<and> l_Contractor l = prin \<and> l_Treasury l = fee"
  using assms by (simp add: NewJob_def Settle_def not_less [symmetric])

theorem sim_pass_pays_unaccepted_job_witness:
  "\<exists>j l. sim_call (OpSettle 6 (demo_pass\<lparr>v_Attempt := 0\<rparr>)) demo_new = Inr (j, l) \<and>
     l_Contractor l = 100"
proof -
  have "v_Outcome (demo_pass\<lparr>v_Attempt := 0\<rparr>) = Pass"
    and "v_TEEID (demo_pass\<lparr>v_Attempt := 0\<rparr>) = ''tee-1''"
    and "v_Attempt (demo_pass\<lparr>v_Attempt := 0\<rparr>) = 0"
    and "6 \<le> v_ExpiresAt (demo_pass\<lparr>v_Attempt := 0\<rparr>)"
    by (simp_all add: demo_pass_def)
  from sim_pass_pays_unaccepted_job [OF this, of "''client''" "''contractor''" 100 7 10 20]
  show ?thesis unfolding demo_new_def by blast
qed

end
