(* ===== verification/EscrowSafety.thy ===== *)
theory EscrowSafety
  imports Escrow Simulation
begin

text \<open>
  What the escrow contract guarantees over every history of calls: a job-level invariant kept by every
  operation, conservation of the tokens (the contract holds exactly the stakes of the open jobs), frozen
  terms, monotone progress, and refunds that nobody can block. Histories are the runs of the inductive
  relation \<open>escrow_run\<close>; reverted calls change nothing and are not steps.
\<close>

section \<open>Calls that can occur\<close>

text \<open>Facts of the chain and of the token: the block time is not negative, no call comes from the zero
  address, and the token rejects transfers to the zero address, as ERC-20 implementations do.\<close>

definition evm_call :: "call_env \<Rightarrow> bool" where
  "evm_call c \<longleftrightarrow> 0 \<le> now_of c \<and> cv_sender c \<noteq> 0 \<and> (\<forall>amount. \<not> cv_transfer c 0 amount)"

section \<open>The job invariant\<close>

definition terms_ok :: "JobTerms \<Rightarrow> bool" where
  "terms_ok t \<longleftrightarrow>
     jt_client t \<noteq> 0 \<and> jt_contractor t \<noteq> 0 \<and> jt_expectedTee t \<noteq> 0 \<and> 0 < jt_principal t \<and> jt_principal t < 2 ^ 128 \<and>
     0 \<le> jt_fee t \<and> 10 * jt_fee t \<le> jt_principal t \<and> jt_acceptBy t < jt_submitBy t \<and> jt_submitBy t < jt_graceEnds t"

definition final_state :: "u8 \<Rightarrow> bool" where
  "final_state st \<longleftrightarrow> st = StatePaid \<or> st = StateCancelled \<or> st = StateRefunded"

definition job_ok :: "EscrowJob \<Rightarrow> bool" where
  "job_ok j \<longleftrightarrow>
     terms_ok (ej_terms j) \<and> ej_state j \<le> StateRefundPending \<and> (ej_settled j \<longleftrightarrow> final_state (ej_state j)) \<and>
     (ej_state j = StateCreated \<or> ej_state j = StateAccepted \<longrightarrow> ej_current j = zero_attempt) \<and>
     (ej_state j = StateReadyToVerify \<or> ej_state j = StateVerifying \<longrightarrow>
        at_randomLocked (ej_current j) \<and> at_randomRound (ej_current j) = at_targetRound (ej_current j)) \<and>
     (ej_state j = StateVerifying \<longrightarrow>
        at_dispatchedAt (ej_current j) < at_timeoutAt (ej_current j) \<and>
        at_timeoutAt (ej_current j) \<le> jt_graceEnds (ej_terms j))"

text \<open>What a job still holds, and what leaves or enters with a list of movements.\<close>

definition stake :: "EscrowJob \<Rightarrow> int" where
  "stake j = (if ej_settled j then 0 else jt_principal (ej_terms j) + jt_fee (ej_terms j))"

fun net :: "move list \<Rightarrow> int" where
  "net [] = 0"
| "net (Pull a n # mv) = n + net mv"
| "net (Push a n # mv) = net mv - n"

lemma net_append [simp]: "net (xs @ ys) = net xs + net ys"
  by (induction xs rule: net.induct) auto

text \<open>The ways a settled job's money can go.\<close>

definition payout :: "immutables \<Rightarrow> EscrowJob \<Rightarrow> move list \<Rightarrow> bool" where
  "payout im j mv \<longleftrightarrow>
     ej_state j = StatePaid \<and> mv = [Push (jt_contractor (ej_terms j)) (jt_principal (ej_terms j)),
                                  Push (im_treasury im) (jt_fee (ej_terms j))] \<or>
     (ej_state j = StateCancelled \<or> ej_state j = StateRefunded) \<and>
       mv = [Push (jt_client (ej_terms j)) (jt_principal (ej_terms j) + jt_fee (ej_terms j))]"

text \<open>What one successful operation on a job does, whichever it is.\<close>

definition job_progress :: "immutables \<Rightarrow> EscrowJob \<Rightarrow> EscrowJob \<Rightarrow> move list \<Rightarrow> bool" where
  "job_progress im j j' mv \<longleftrightarrow>
     ej_terms j' = ej_terms j \<and> at_attempt (ej_current j) \<le> at_attempt (ej_current j') \<and> \<not> ej_settled j \<and>
     (if ej_settled j' then payout im j' mv else mv = [])"

lemmas job_ops =
  acceptJob_def cancelUnaccepted_def submitAttempt_def lockRandomness_def dispatchVerification_def
  expireVerification_def refundExpired_def settle_job_def

named_theorems job_op_ok

lemma acceptJob_ok [job_op_ok]:
  assumes "acceptJob c j = Inr (j', mv)" and "job_ok j" and "evm_call c"
  shows "job_ok j' \<and> job_progress im j j' mv"
  using assms by (auto simp: acceptJob_def job_ok_def job_progress_def final_state_def escrow_states split: if_splits)

lemma cancelUnaccepted_ok [job_op_ok]:
  assumes "cancelUnaccepted c j = Inr (j', mv)" and "job_ok j" and "evm_call c"
  shows "job_ok j' \<and> job_progress im j j' mv"
  using assms
  by (auto simp: cancelUnaccepted_def job_ok_def job_progress_def payout_def final_state_def escrow_states Let_def split: if_splits)

lemma word_le_succ: "n \<noteq> - 1 \<Longrightarrow> n \<le> n + 1" for n :: u64
proof -
  assume "n \<noteq> - 1"
  then have "1 + n \<noteq> 0" by (metis add.commute eq_neg_iff_add_eq_0)
  then show ?thesis by (simp add: word_le_nat_alt unatSuc add.commute [of n])
qed

lemma submitAttempt_ok [job_op_ok]:
  assumes "submitAttempt c p a j = Inr (j', mv)" and "job_ok j" and "evm_call c"
  shows "job_ok j' \<and> job_progress im j j' mv"
proof -
  from assms(1) obtain cur where
    st: "ej_state j = StateAccepted \<or> ej_state j = StateAwaitingResubmission \<or> ej_state j = StateRetryable" and
    j': "j' = j\<lparr>ej_current := cur, ej_state := StateRandomnessPending\<rparr>" and mv: "mv = []" and
    at: "at_attempt cur = at_attempt (ej_current j) + 1" "at_attempt (ej_current j) \<noteq> - 1"
    by (auto simp: submitAttempt_def split: if_splits option.splits)
  have "\<not> ej_settled j"
    using st assms(2) by (elim disjE) (simp_all add: job_ok_def final_state_def escrow_states)
  then show ?thesis
    using assms(2) word_le_succ [OF at(2)]
    by (simp add: j' mv at(1) job_ok_def job_progress_def final_state_def escrow_states)
qed

lemma lockRandomness_ok [job_op_ok]:
  assumes "lockRandomness cl c j = Inr (j', mv)" and "job_ok j" and "evm_call c"
  shows "job_ok j' \<and> job_progress im j j' mv"
  using assms
  by (auto simp: lockRandomness_def job_ok_def job_progress_def final_state_def escrow_states add256_def Let_def
      split: if_splits option.splits)

lemma expireVerification_ok [job_op_ok]:
  assumes "expireVerification c j = Inr (j', mv)" and "job_ok j" and "evm_call c"
  shows "job_ok j' \<and> job_progress im j j' mv"
  using assms
  by (auto simp: expireVerification_def job_ok_def job_progress_def final_state_def escrow_states split: if_splits)

text \<open>A job that ends: only the state and the flag change.\<close>

lemma job_ok_final:
  assumes "job_ok j" and "final_state st"
  shows "job_ok (j\<lparr>ej_state := st, ej_settled := True\<rparr>)"
proof -
  have "st \<le> StateRefundPending \<and> st \<noteq> StateCreated \<and> st \<noteq> StateAccepted \<and> st \<noteq> StateReadyToVerify \<and> st \<noteq> StateVerifying"
    using assms(2) unfolding final_state_def by (elim disjE) (simp_all add: escrow_states)
  then show ?thesis using assms by (simp add: job_ok_def)
qed

lemma refundExpired_ok [job_op_ok]:
  assumes "refundExpired c j = Inr (j', mv)" and "job_ok j" and "evm_call c"
  shows "job_ok j' \<and> job_progress im j j' mv"
proof -
  from assms(1) have j': "j' = j\<lparr>ej_state := StateRefunded, ej_settled := True\<rparr>" and u: "\<not> ej_settled j"
    and mv: "mv = [Push (jt_client (ej_terms j)) (jt_principal (ej_terms j) + jt_fee (ej_terms j))]"
    by (simp_all add: refundExpired_def Let_def split: if_splits)
  have "job_ok j'" unfolding j' by (rule job_ok_final [OF assms(2)]) (simp add: final_state_def)
  then show ?thesis using u by (simp add: j' mv job_progress_def payout_def)
qed

lemma dispatch_timeout:
  assumes "rawT < uint (g :: u64)" and "0 \<le> rawT" shows "uint (of_int rawT :: u64) = rawT"
  using assms uint_lt2p [of g] by (simp add: uint_word_of_int_eq take_bit_int_eq_self)

lemma dispatchVerification_ok [job_op_ok]:
  assumes "dispatchVerification cl c i j = Inr (j', mv)" and "job_ok j" and "evm_call c"
  shows "job_ok j' \<and> job_progress im j j' mv"
proof -
  let ?g = "jt_graceEnds (ej_terms j)"
  from assms(1) obtain rawT iid where
    st: "ej_state j = StateReadyToVerify" "at_randomLocked (ej_current j)" and
    raw: "add256 (now_of c) (uint (jt_verificationTimeout (ej_terms j))) = Some rawT" and
    late: "now_of c < uint (if rawT < uint ?g then of_int rawT else ?g)" and
    j': "j' = j\<lparr>ej_current := (ej_current j)\<lparr>at_instructionId := iid, at_dispatchedAt := of_int (now_of c),
           at_timeoutAt := (if rawT < uint ?g then of_int rawT else ?g)\<rparr>, ej_state := StateVerifying\<rparr>" and mv: "mv = []"
    by (auto simp: dispatchVerification_def Let_def not_le split: if_splits option.splits)
  have now: "0 \<le> now_of c" using assms(3) by (simp add: evm_call_def)
  then have r0: "0 \<le> rawT" using raw by (auto simp: add256_def split: if_splits)
  let ?t = "if rawT < uint ?g then of_int rawT else ?g"
  have "?t \<le> ?g" using r0 by (auto simp: word_le_def dispatch_timeout)
  moreover have "(of_int (now_of c) :: u64) < ?t"
    using late now dispatch_timeout [of "now_of c" ?t] by (simp add: word_less_def)
  ultimately show ?thesis
    using assms(2) st by (simp add: j' mv job_ok_def job_progress_def final_state_def escrow_states)
qed

lemma settle_job_Inr:
  assumes "settle_job im cl c i args j = Inr (j', mv)"
  obtains v oc where "settle_call_ok (cl_lib cl) (cl_decode cl) (cl_ecrecover cl) (cv_block c) args j v"
    "checkBinding (cv_block c) j v i = None" "ej_state j = StateVerifying"
    "oc = (let r = vo_Outcome (v1_Result v) in if r = OutcomeFail \<or> r = OutcomeInconclusive then r else OutcomePass)"
    "j' = j\<lparr>ej_state := settled_state (cv_block c) j oc, ej_settled := (ej_settled j \<or> oc = OutcomePass)\<rparr>"
    "mv = map (\<lambda>(to, amount). Push to amount) (settled_transfers (im_treasury im) j oc)"
proof -
  from assms obtain transfers where
    s: "settleAttempt (cl_lib cl) (cl_decode cl) (cl_ecrecover cl) (im_treasury im) (cv_block c) i args j = Inr (j', transfers)"
    and mv: "mv = map (\<lambda>(to, amount). Push to amount) transfers"
    by (auto simp: settle_job_def split: sum.splits if_splits)
  from s obtain v where ok: "settle_call_ok (cl_lib cl) (cl_decode cl) (cl_ecrecover cl) (cv_block c) args j v"
    and b: "checkBinding (cv_block c) j v i = None" and
    r: "(j', transfers) = (let oc = vo_Outcome (v1_Result v);
          outcome = (if oc = OutcomeFail \<or> oc = OutcomeInconclusive then oc else OutcomePass) in
        (j\<lparr>ej_state := settled_state (cv_block c) j outcome, ej_settled := (ej_settled j \<or> outcome = OutcomePass)\<rparr>,
         settled_transfers (im_treasury im) j outcome))"
    unfolding settleAttempt_Inr_iff by blast
  show ?thesis
  proof (rule that [OF ok b _ refl])
    show "ej_state j = StateVerifying" using ok by (simp add: settle_call_ok_def)
  qed (use r mv in \<open>simp_all only: Let_def prod.inject\<close>)
qed

lemma settle_job_ok [job_op_ok]:
  assumes "settle_job im cl c i args j = Inr (j', mv)" and "job_ok j" and "evm_call c"
  shows "job_ok j' \<and> job_progress im j j' mv"
proof -
  from assms(1) obtain oc where st: "ej_state j = StateVerifying" and
    j': "j' = j\<lparr>ej_state := settled_state (cv_block c) j oc, ej_settled := (ej_settled j \<or> oc = OutcomePass)\<rparr>" and
    mv: "mv = map (\<lambda>(to, amount). Push to amount) (settled_transfers (im_treasury im) j oc)"
    by (rule settle_job_Inr)
  have u: "\<not> ej_settled j" using assms(2) st by (simp add: job_ok_def final_state_def escrow_states)
  show ?thesis
  proof (cases "oc = OutcomePass")
    case True
    then have "job_ok j'"
      using job_ok_final [OF assms(2), of StatePaid] by (simp add: j' settled_state_def final_state_def)
    with True u show ?thesis
      by (simp add: j' mv job_progress_def payout_def settled_state_def settled_transfers_def)
  next
    case False
    then have "job_ok j'"
      using assms(2) u by (simp add: j' job_ok_def settled_state_def final_state_def escrow_states)
    with False u show ?thesis by (simp add: j' mv job_progress_def settled_transfers_def)
  qed
qed

lemma exec_job_call_ok:
  assumes "exec_job_call im cl c p i jc j = Inr (j', mv)" and "job_ok j" and "evm_call c"
  shows "job_ok j' \<and> job_progress im j j' mv"
  using assms by (cases jc) (simp_all add: job_op_ok)

lemma exec_job_call_zero:
  assumes "evm_call c"
  shows "\<exists>e. exec_job_call im cl c p i jc zero_job = Inl e"
proof -
  have z: "ej_state zero_job = StateCreated" "ej_terms zero_job = zero_terms" by (simp_all add: zero_job_def)
  have "refundExpired c zero_job = Inl InvalidState \<or> refundExpired c zero_job = Inl CallReverted"
    using assms by (simp add: refundExpired_def z zero_terms_def evm_call_def Let_def)
  then show ?thesis
    using assms
    by (cases jc) (auto simp: acceptJob_def cancelUnaccepted_def submitAttempt_def lockRandomness_def
        dispatchVerification_def expireVerification_def settle_job_def settleAttempt_def z zero_terms_def
        evm_call_def escrow_states)
qed

section \<open>The contract invariant\<close>

definition escrow_inv :: "escrow \<Rightarrow> bool" where
  "escrow_inv s \<longleftrightarrow>
     0 \<le> es_nextJobId s \<and> es_protocolFeeBps s \<le> MAX_PROTOCOL_FEE_BPS \<and>
     (\<forall>i. i < 0 \<or> es_nextJobId s \<le> i \<longrightarrow> es_jobs s i = zero_job) \<and>
     (\<forall>i. 0 \<le> i \<and> i < es_nextJobId s \<longrightarrow> job_ok (es_jobs s i))"

definition held :: "escrow \<Rightarrow> int" where
  "held s = (\<Sum>i \<in> {0..<es_nextJobId s}. stake (es_jobs s i))"

text \<open>What every job of the first state can expect of the second: it is still there, with its terms, and
  if it was settled, nothing about it has changed.\<close>

definition escrow_le :: "escrow \<Rightarrow> escrow \<Rightarrow> bool" where
  "escrow_le s s' \<longleftrightarrow>
     es_nextJobId s \<le> es_nextJobId s' \<and>
     (\<forall>i. 0 \<le> i \<and> i < es_nextJobId s \<longrightarrow>
        ej_terms (es_jobs s' i) = ej_terms (es_jobs s i) \<and>
        at_attempt (ej_current (es_jobs s i)) \<le> at_attempt (ej_current (es_jobs s' i)) \<and>
        (ej_settled (es_jobs s i) \<longrightarrow> es_jobs s' i = es_jobs s i))"

lemma escrow_le_refl: "escrow_le s s"
  by (simp add: escrow_le_def)

lemma escrow_le_trans: "escrow_le s t \<Longrightarrow> escrow_le t u \<Longrightarrow> escrow_le s u"
  unfolding escrow_le_def by (fastforce intro: order_trans)

lemma protocol_fee_bounds:
  assumes "bps \<le> MAX_PROTOCOL_FEE_BPS"
  shows "0 \<le> protocol_fee amt bps" and "10 * protocol_fee amt bps \<le> uint amt"
proof -
  have b: "uint bps \<le> 1000" using assms by (simp add: MAX_PROTOCOL_FEE_BPS_def word_le_def)
  have "uint amt * uint bps \<le> uint amt * 1000" by (rule mult_left_mono [OF b]) simp
  then have d: "(uint amt * uint bps) div 10000 \<le> uint amt div 10" by linarith
  moreover have "uint amt < 2 ^ 128" using uint_lt2p [of amt] by simp
  moreover have p: "0 \<le> (uint amt * uint bps) div 10000" by (simp add: pos_imp_zdiv_nonneg_iff)
  ultimately have "protocol_fee amt bps = (uint amt * uint bps) div 10000"
    unfolding protocol_fee_def by (intro mod_pos_pos_trivial) auto
  with d p show "0 \<le> protocol_fee amt bps" and "10 * protocol_fee amt bps \<le> uint amt" by auto
qed

lemma createJob_ok:
  assumes "createJob c a s = Inr (s', mv)" and "escrow_inv s" and "evm_call c"
  shows "escrow_inv s' \<and> held s' = held s + net mv \<and> escrow_le s s'"
proof -
  let ?fee = "protocol_fee (ca_principal a) (es_protocolFeeBps s)" and ?n = "es_nextJobId s"
  let ?j = "zero_job\<lparr>ej_terms := created_terms c a ?fee\<rparr>"
  have z: "es_jobs s ?n = zero_job" using assms(2) by (simp add: escrow_inv_def)
  from assms(1) have
    g: "ca_contractor a \<noteq> 0" "ca_expectedTee a \<noteq> 0" "ca_acceptBy a < ca_submitBy a" "ca_submitBy a < ca_graceEnds a"
      "ca_principal a \<noteq> 0" and
    s': "s' = s\<lparr>es_nextJobId := ?n + 1, es_jobs := (es_jobs s)(?n := ?j)\<rparr>" and
    mv: "mv = [Pull (cv_sender c) (uint (ca_principal a) + ?fee)]"
    by (auto simp: createJob_def Let_def z zero_job_def not_le split: if_splits option.splits)
  have fee: "0 \<le> ?fee" "10 * ?fee \<le> uint (ca_principal a)"
    using protocol_fee_bounds assms(2) by (simp_all add: escrow_inv_def)
  have pr: "0 < uint (ca_principal a)" "uint (ca_principal a) < 2 ^ 128"
    using g(5) uint_lt2p [of "ca_principal a"] uint_ge_0 [of "ca_principal a"]
    by (simp_all add: less_le uint_0_iff [symmetric])
  have "terms_ok (created_terms c a ?fee)"
    using g fee pr assms(3) by (simp add: terms_ok_def created_terms_def evm_call_def)
  then have "job_ok ?j" by (simp add: job_ok_def zero_job_def final_state_def escrow_states)
  then have inv: "escrow_inv s'" using assms(2) by (auto simp: escrow_inv_def s')
  have "{0..<?n + 1} = insert ?n {0..<?n}" using assms(2) by (auto simp: escrow_inv_def)
  then have "held s' = stake ?j + held s" by (simp add: held_def s')
  then have "held s' = held s + net mv" by (simp add: mv stake_def zero_job_def created_terms_def)
  then show ?thesis using inv by (simp add: s' escrow_le_def)
qed

lemma job_call_ok:
  assumes "exec_job_call im cl c p i jc (es_jobs s i) = Inr (j', mv)" and "escrow_inv s" and "evm_call c"
    and "s' = s\<lparr>es_jobs := (es_jobs s)(i := j')\<rparr>"
  shows "escrow_inv s' \<and> held s' = held s + net mv \<and> escrow_le s s'"
proof -
  have i: "0 \<le> i \<and> i < es_nextJobId s"
  proof (rule ccontr)
    assume "\<not> ?thesis"
    then have "es_jobs s i = zero_job" using assms(2) by (auto simp: escrow_inv_def)
    with exec_job_call_zero [OF assms(3)] assms(1) show False by (metis sum.distinct(1))
  qed
  then have j: "job_ok (es_jobs s i)" using assms(2) by (simp add: escrow_inv_def)
  from exec_job_call_ok [OF assms(1) j assms(3)]
  have j': "job_ok j'" and pg: "job_progress im (es_jobs s i) j' mv" by simp_all
  have "held s' = held s - stake (es_jobs s i) + stake j'"
    using i by (simp add: held_def assms(4) sum.remove [of "{0..<es_nextJobId s}" i])
  moreover have "stake j' = stake (es_jobs s i) + net mv"
    using pg by (auto simp: job_progress_def stake_def payout_def split: if_splits)
  ultimately have "held s' = held s + net mv" by simp
  moreover have "escrow_inv s'" using assms(2) j' i by (auto simp: escrow_inv_def assms(4))
  moreover have "escrow_le s s'" using pg by (auto simp: escrow_le_def assms(4) job_progress_def)
  ultimately show ?thesis by blast
qed

lemma admin_ok:
  assumes "exec_call im cl c call s = Inr (s', mv)" and "escrow_inv s"
    and "\<And>a. call \<noteq> CreateJob a" and "\<And>i jc. call \<noteq> JobCall i jc"
  shows "escrow_inv s' \<and> held s' = held s + net mv \<and> escrow_le s s'"
  using assms
  by (cases call) (auto simp: admin_def setExtensionId_def pauseNewWork_def unpauseNewWork_def setProtocolFee_def
      transferOwnership_def acceptOwnership_def escrow_inv_def held_def escrow_le_def not_less
      split: sum.splits if_splits option.splits)

lemma exec_call_ok:
  assumes "exec_call im cl c call s = Inr (s', mv)" and "escrow_inv s" and "evm_call c"
  shows "escrow_inv s' \<and> held s' = held s + net mv \<and> escrow_le s s'"
proof (cases call)
  case (CreateJob a)
  then show ?thesis using assms createJob_ok by simp
next
  case (JobCall i jc)
  then obtain j' where "exec_job_call im cl c (es_paused s) i jc (es_jobs s i) = Inr (j', mv)"
    "s' = s\<lparr>es_jobs := (es_jobs s)(i := j')\<rparr>"
    using assms(1) by (auto split: sum.splits)
  then show ?thesis using job_call_ok assms(2,3) by blast
qed (use admin_ok [OF assms(1,2)] in simp_all)

section \<open>Histories\<close>

inductive escrow_run :: "immutables \<Rightarrow> contract_lib \<Rightarrow> escrow \<Rightarrow> move list \<Rightarrow> escrow \<Rightarrow> bool"
  for im cl s where
  run_start: "escrow_run im cl s [] s"
| run_call: "escrow_run im cl s mv s' \<Longrightarrow> evm_call c \<Longrightarrow> exec_call im cl c call s' = Inr (s'', mv') \<Longrightarrow>
             escrow_run im cl s (mv @ mv') s''"

lemma escrow_run_ok:
  assumes "escrow_run im cl s mv s'" and "escrow_inv s"
  shows "escrow_inv s' \<and> held s' = held s + net mv \<and> escrow_le s s'"
  using assms
proof (induction rule: escrow_run.induct)
  case run_start
  then show ?case by (simp add: escrow_le_refl)
next
  case (run_call mv s' c call s'' mv')
  then have i: "escrow_inv s'" "held s' = held s + net mv" "escrow_le s s'" by simp_all
  from exec_call_ok [OF run_call.hyps(3) i(1) run_call.hyps(2)] i(2,3) show ?case
    by (auto intro: escrow_le_trans)
qed

lemma constructor_inv:
  "escrow_constructor c fAsset relay random extReg machReg treasury bps = Inr (im, s) \<Longrightarrow> escrow_inv s \<and> held s = 0"
  by (auto simp: escrow_constructor_def escrow_inv_def held_def not_less split: if_splits)

definition reachable :: "immutables \<Rightarrow> contract_lib \<Rightarrow> move list \<Rightarrow> escrow \<Rightarrow> bool" where
  "reachable im cl mv s \<longleftrightarrow>
     (\<exists>c fAsset relay random extReg machReg treasury bps s0.
        escrow_constructor c fAsset relay random extReg machReg treasury bps = Inr (im, s0) \<and> escrow_run im cl s0 mv s)"

lemma reachable_inv: "reachable im cl mv s \<Longrightarrow> escrow_inv s \<and> held s = net mv"
  unfolding reachable_def using constructor_inv escrow_run_ok by fastforce

text \<open>C2: The escrow is solvent and keeps nothing for itself. Over every history of calls since deployment
  (by anyone, in any order, with any answers of the registries and the random source), the tokens pulled
  in minus the tokens sent out are exactly the principals and fees of the jobs that are not settled; a job
  is settled exactly when it was paid, cancelled or refunded, its fee is at most a tenth of its principal,
  and its deadlines are ordered.\<close>

theorem escrow_solvent:
  assumes "reachable im cl mv s"
  shows "net mv = (\<Sum>i \<in> {0..<es_nextJobId s}. if ej_settled (es_jobs s i) then 0
                   else jt_principal (ej_terms (es_jobs s i)) + jt_fee (ej_terms (es_jobs s i))) \<and>
     (\<forall>i. 0 \<le> i \<and> i < es_nextJobId s \<longrightarrow>
        (let j = es_jobs s i; t = ej_terms j in
         (ej_settled j \<longleftrightarrow> ej_state j \<in> {StatePaid, StateCancelled, StateRefunded}) \<and>
         0 < jt_principal t \<and> 0 \<le> jt_fee t \<and> 10 * jt_fee t \<le> jt_principal t \<and>
         jt_acceptBy t < jt_submitBy t \<and> jt_submitBy t < jt_graceEnds t))"
  using reachable_inv [OF assms]
  by (auto simp: held_def stake_def escrow_inv_def job_ok_def terms_ok_def final_state_def Let_def)

lemma state_cases: "st \<le> StateRefundPending \<Longrightarrow>
   st \<in> {StateCreated, StateAccepted, StateRandomnessPending, StateReadyToVerify, StateVerifying,
          StateAwaitingResubmission, StateRetryable, StatePaid, StateCancelled, StateRefunded, StateRefundPending}"
proof -
  assume "st \<le> StateRefundPending"
  then have "unat st \<le> 10" by (simp add: escrow_states word_le_nat_alt)
  then have "unat st \<in> set [0..<11]" by simp
  then have "of_nat (unat st) \<in> (of_nat :: nat \<Rightarrow> u8) ` set [0..<11]" by (rule imageI)
  then show ?thesis by (simp add: escrow_states upt_rec)
qed

text \<open>C20: Stored jobs are well formed. In every reachable state a created job has non-zero parties, one of the
  contract's eleven states, and the attempt data its state calls for: none before the first submission,
  locked randomness of the target round once it is ready, and a dispatch window that is not empty and ends
  by the end of the grace period while it is being verified.\<close>

theorem escrow_jobs_well_formed:
  assumes "reachable im cl mv s" and "0 \<le> i" and "i < es_nextJobId s"
  shows "let j = es_jobs s i; cur = ej_current j; t = ej_terms j in
     jt_client t \<noteq> 0 \<and> jt_contractor t \<noteq> 0 \<and> jt_expectedTee t \<noteq> 0 \<and> jt_principal t < 2 ^ 128 \<and>
     ej_state j \<in> {StateCreated, StateAccepted, StateRandomnessPending, StateReadyToVerify, StateVerifying,
       StateAwaitingResubmission, StateRetryable, StatePaid, StateCancelled, StateRefunded, StateRefundPending} \<and>
     (ej_state j = StateCreated \<or> ej_state j = StateAccepted \<longrightarrow> cur = zero_attempt) \<and>
     (ej_state j = StateReadyToVerify \<or> ej_state j = StateVerifying \<longrightarrow>
        at_randomLocked cur \<and> at_randomRound cur = at_targetRound cur) \<and>
     (ej_state j = StateVerifying \<longrightarrow> at_dispatchedAt cur < at_timeoutAt cur \<and> at_timeoutAt cur \<le> jt_graceEnds t)"
proof -
  have j: "job_ok (es_jobs s i)" using reachable_inv [OF assms(1)] assms(2,3) by (simp add: escrow_inv_def)
  with state_cases [of "ej_state (es_jobs s i)"] show ?thesis unfolding Let_def job_ok_def terms_ok_def by blast
qed

section \<open>Once only\<close>

lemma exec_job_call_settled:
  assumes "job_ok j" and "ej_settled j" and "evm_call c"
  shows "\<exists>e. exec_job_call im cl c p i jc j = Inl e"
  using exec_job_call_ok [OF _ assms(1,3), of im cl p i jc] assms(2)
  by (cases "exec_job_call im cl c p i jc j") (auto simp: job_progress_def)

text \<open>C15: Agreements are frozen and settlements are final. From any reachable state, whatever calls follow,
  a job keeps its client, contractor, TEE, amounts, deadlines and hashes; its attempt number never
  decreases; and once it is settled it never changes again and every further call on it reverts, so its
  money leaves the contract at most once.\<close>

theorem escrow_terms_frozen:
  assumes "reachable im cl mv s" and "escrow_run im cl s mv' s'" and "0 \<le> i" and "i < es_nextJobId s"
  shows "ej_terms (es_jobs s' i) = ej_terms (es_jobs s i) \<and>
     at_attempt (ej_current (es_jobs s i)) \<le> at_attempt (ej_current (es_jobs s' i)) \<and>
     (ej_settled (es_jobs s i) \<longrightarrow> es_jobs s' i = es_jobs s i \<and>
        (\<forall>c jc. evm_call c \<longrightarrow> (\<exists>e. exec_call im cl c (JobCall i jc) s' = Inl e)))"
proof -
  from reachable_inv [OF assms(1)] have inv: "escrow_inv s" by simp
  from escrow_run_ok [OF assms(2) inv] have inv': "escrow_inv s'" and le: "escrow_le s s'" by simp_all
  have "job_ok (es_jobs s' i)" using inv' le assms(3,4) by (simp add: escrow_inv_def escrow_le_def)
  then have "\<exists>e. exec_call im cl c (JobCall i jc) s' = Inl e" if "ej_settled (es_jobs s' i)" "evm_call c" for c jc
    using exec_job_call_settled [OF _ that] by (metis exec_call.simps(8) sum.case(1))
  then show ?thesis using le assms(3,4) by (auto simp: escrow_le_def)
qed

lemma settleAttempt_late:
  "bk_timestamp B > uint (jt_graceEnds (ej_terms j)) \<Longrightarrow>
     \<exists>e. settleAttempt L decode ecrecover treasury B jid args j = Inl e"
  by (simp add: settleAttempt_def)

lemma stake_held:
  assumes "reachable im cl mv s" and "0 \<le> i" and "i < es_nextJobId s"
  shows "stake (es_jobs s i) \<le> net mv"
proof -
  from reachable_inv [OF assms(1)] have inv: "escrow_inv s" and h: "held s = net mv" by simp_all
  have "0 \<le> stake (es_jobs s k)" if "k \<in> {0..<es_nextJobId s}" for k
  proof -
    have "job_ok (es_jobs s k)" using inv that by (simp add: escrow_inv_def)
    then show ?thesis by (simp add: job_ok_def terms_ok_def stake_def)
  qed
  then have "stake (es_jobs s i) \<le> held s"
    unfolding held_def using assms(2,3) by (intro member_le_sum) auto
  with h show ?thesis by simp
qed

text \<open>C16: Refunds cannot be blocked. In every reachable state, for every unsettled job and every call made
  after its grace deadline, by anyone, paused or not: \<open>refundExpired\<close> returns the full principal and fee to
  the client (provided the token accepts the transfer), the contract holds at least that amount, and no
  settlement goes through any more.\<close>

theorem escrow_refund_available:
  assumes "reachable im cl mv s" and "0 \<le> i" and "i < es_nextJobId s" and "\<not> ej_settled (es_jobs s i)"
    and "now_of c > uint (jt_graceEnds (ej_terms (es_jobs s i)))"
    and "cv_transfer c (jt_client (ej_terms (es_jobs s i)))
           (jt_principal (ej_terms (es_jobs s i)) + jt_fee (ej_terms (es_jobs s i)))"
  shows "\<exists>s'. exec_call im cl c (JobCall i RefundExpired) s =
           Inr (s', [Push (jt_client (ej_terms (es_jobs s i)))
                       (jt_principal (ej_terms (es_jobs s i)) + jt_fee (ej_terms (es_jobs s i)))]) \<and>
         ej_settled (es_jobs s' i) \<and> ej_state (es_jobs s' i) = StateRefunded \<and>
         jt_principal (ej_terms (es_jobs s i)) + jt_fee (ej_terms (es_jobs s i)) \<le> net mv \<and>
         (\<exists>e. exec_call im cl c (JobCall i (SettleAttempt args)) s = Inl e)"
proof -
  obtain e where "settleAttempt (cl_lib cl) (cl_decode cl) (cl_ecrecover cl) (im_treasury im) (cv_block c) i args (es_jobs s i) = Inl e"
    using settleAttempt_late [OF assms(5)] by blast
  then have "exec_call im cl c (JobCall i (SettleAttempt args)) s = Inl e" by (simp add: settle_job_def)
  moreover have "stake (es_jobs s i) \<le> net mv" by (rule stake_held [OF assms(1-3)])
  moreover have "exec_call im cl c (JobCall i RefundExpired) s =
      Inr (s\<lparr>es_jobs := (es_jobs s)(i := (es_jobs s i)\<lparr>ej_state := StateRefunded, ej_settled := True\<rparr>)\<rparr>,
           [Push (jt_client (ej_terms (es_jobs s i))) (jt_principal (ej_terms (es_jobs s i)) + jt_fee (ej_terms (es_jobs s i)))])"
    using assms(4-6) by (simp add: refundExpired_def Let_def)
  ultimately show ?thesis using assms(4) by (simp add: stake_def)
qed

section \<open>Progress\<close>

text \<open>Where a job stands within its attempt.\<close>

definition stage :: "u8 \<Rightarrow> nat" where
  "stage st =
     (if st = StateCreated then 0 else if st = StateAccepted then 1 else if st = StateRandomnessPending then 2
      else if st = StateReadyToVerify then 3 else if st = StateVerifying then 4
      else if final_state st then 6 else 5)"

definition position :: "EscrowJob \<Rightarrow> nat \<times> nat \<times> int" where
  "position j = (unat (at_attempt (ej_current j)), stage (ej_state j), at_targetRound (ej_current j))"

definition before :: "nat \<times> nat \<times> int \<Rightarrow> nat \<times> nat \<times> int \<Rightarrow> bool" where
  "before p q \<longleftrightarrow> (case p of (a, st, r) \<Rightarrow> case q of (a', st', r') \<Rightarrow>
     a < a' \<or> a = a' \<and> (st < st' \<or> st = st' \<and> r < r'))"

lemma before_trans: "before p q \<Longrightarrow> before q r \<Longrightarrow> before p r"
  by (auto simp: before_def split: prod.splits)

lemma stage_final: "final_state st \<Longrightarrow> stage st = 6"
  unfolding final_state_def by (elim disjE) (simp_all add: stage_def final_state_def escrow_states)

lemma stage_open: "\<not> final_state st \<Longrightarrow> stage st \<le> 5"
  by (simp add: stage_def)

lemma unat_succ: "n \<noteq> - 1 \<Longrightarrow> unat (n + 1) = Suc (unat n)" for n :: u64
  by (metis add.commute eq_neg_iff_add_eq_0 unatSuc)

lemma exec_job_call_before:
  assumes "exec_job_call im cl c p i jc j = Inr (j', mv)" and "job_ok j" and "evm_call c"
  shows "before (position j) (position j')"
proof (cases "ej_settled j'")
  case True
  from exec_job_call_ok [OF assms] have ok: "job_ok j'" and pg: "job_progress im j j' mv" by simp_all
  then have "final_state (ej_state j')" "\<not> final_state (ej_state j)"
    using True assms(2) by (simp_all add: job_ok_def job_progress_def)
  then have "stage (ej_state j') = 6" "stage (ej_state j) \<le> 5" by (simp_all add: stage_final stage_open)
  moreover have "at_attempt (ej_current j) \<le> at_attempt (ej_current j')" using pg by (simp add: job_progress_def)
  ultimately show ?thesis by (auto simp: before_def position_def word_le_nat_alt)
next
  case False
  show ?thesis
  proof (cases jc)
    case (SubmitAttempt a)
    with assms(1) have "at_attempt (ej_current j') = at_attempt (ej_current j) + 1" "at_attempt (ej_current j) \<noteq> - 1"
      by (auto simp: submitAttempt_def split: if_splits option.splits)
    then show ?thesis by (simp add: before_def position_def unat_succ)
  next
    case (SettleAttempt args)
    with assms(1) obtain oc where "ej_state j = StateVerifying"
      "j' = j\<lparr>ej_state := settled_state (cv_block c) j oc, ej_settled := (ej_settled j \<or> oc = OutcomePass)\<rparr>"
      by (auto elim: settle_job_Inr)
    with False show ?thesis
      by (simp add: before_def position_def stage_def settled_state_def final_state_def escrow_states)
  next
    case LockRandomness
    with assms(1) show ?thesis
      by (auto simp: lockRandomness_def before_def position_def stage_def add256_def escrow_states Let_def
          split: if_splits option.splits)
  next
    case DispatchVerification
    with assms(1) show ?thesis
      by (auto simp: dispatchVerification_def before_def position_def stage_def escrow_states Let_def
          split: if_splits option.splits)
  next
    case AcceptJob
    with assms(1) show ?thesis
      by (auto simp: acceptJob_def before_def position_def stage_def escrow_states split: if_splits)
  next
    case ExpireVerification
    with assms(1) show ?thesis
      by (auto simp: expireVerification_def before_def position_def stage_def final_state_def escrow_states split: if_splits)
  next
    case CancelUnaccepted
    with assms(1) False show ?thesis by (auto simp: cancelUnaccepted_def Let_def split: if_splits)
  next
    case RefundExpired
    with assms(1) False show ?thesis by (auto simp: refundExpired_def Let_def split: if_splits)
  qed
qed

text \<open>Along a run every job either stays where it is or moves forward.\<close>

lemma exec_call_before:
  assumes "exec_call im cl c call s = Inr (s', mv)" and "escrow_inv s" and "evm_call c" and "0 \<le> i" and "i < es_nextJobId s"
  shows "es_jobs s' i = es_jobs s i \<or> before (position (es_jobs s i)) (position (es_jobs s' i))"
proof (cases "\<exists>jc. call = JobCall i jc")
  case True
  then obtain jc j' where "exec_job_call im cl c (es_paused s) i jc (es_jobs s i) = Inr (j', mv)" "es_jobs s' i = j'"
    using assms(1) by (auto split: sum.splits)
  moreover have "job_ok (es_jobs s i)" using assms(2,4,5) by (simp add: escrow_inv_def)
  ultimately show ?thesis using exec_job_call_before assms(3) by blast
next
  case False
  then have "es_jobs s' i = es_jobs s i"
    using assms(1,5)
    by (cases call) (auto simp: admin_def setExtensionId_def pauseNewWork_def unpauseNewWork_def setProtocolFee_def
        transferOwnership_def acceptOwnership_def createJob_def Let_def split: sum.splits if_splits option.splits)
  then show ?thesis ..
qed

lemma escrow_run_before:
  assumes "escrow_run im cl s mv s'" and "escrow_inv s" and "0 \<le> i" and "i < es_nextJobId s"
  shows "es_jobs s' i = es_jobs s i \<or> before (position (es_jobs s i)) (position (es_jobs s' i))"
  using assms
proof (induction rule: escrow_run.induct)
  case (run_call mv s' c call s'' mv')
  then have ok: "escrow_inv s'" "i < es_nextJobId s'"
    using escrow_run_ok by (fastforce simp: escrow_le_def)+
  from exec_call_before [OF run_call.hyps(3) ok(1) run_call.hyps(2) \<open>0 \<le> i\<close> ok(2)] run_call
  show ?case by (metis before_trans)
qed simp

text \<open>C17: A verdict window closes for good. Once an attempt has been judged, has timed out, or the job has
  ended, no signed result for that attempt or an earlier one ever settles again, in any later state of any
  history: the state has moved on, or the attempt number has.\<close>

theorem verdict_window_closes:
  assumes "reachable im cl mv s" and "0 \<le> i" and "i < es_nextJobId s"
    and "ej_state (es_jobs s i) \<in> {StateAwaitingResubmission, StateRetryable, StateRefundPending, StatePaid, StateCancelled, StateRefunded}"
    and "escrow_run im cl s mv' s'"
    and "cl_decode cl (sa_data args) = Some v" and "vi_Attempt (v1_Id v) \<le> at_attempt (ej_current (es_jobs s i))"
  shows "\<exists>e. exec_call im cl c (JobCall i (SettleAttempt args)) s' = Inl e"
proof (rule ccontr)
  assume "\<not> ?thesis"
  then obtain j' mv'' where "settle_job im cl c i args (es_jobs s' i) = Inr (j', mv'')"
    by (cases "settle_job im cl c i args (es_jobs s' i)") auto
  then obtain w where w: "settle_call_ok (cl_lib cl) (cl_decode cl) (cl_ecrecover cl) (cv_block c) args (es_jobs s' i) w"
    "checkBinding (cv_block c) (es_jobs s' i) w i = None" and st: "ej_state (es_jobs s' i) = StateVerifying"
    by (rule settle_job_Inr)
  have "w = v" using w(1) assms(6) by (simp add: settle_call_ok_def)
  then have at: "vi_Attempt (v1_Id v) = at_attempt (ej_current (es_jobs s' i))"
    using w(2) by (auto simp: checkBinding_def checkIdentity_def split: option.splits if_splits)
  have five: "5 \<le> stage (ej_state (es_jobs s i))"
    using assms(4) by (auto simp: stage_def final_state_def escrow_states)
  have four: "stage (ej_state (es_jobs s' i)) = 4" using st by (simp add: stage_def escrow_states)
  have "es_jobs s' i = es_jobs s i \<or> before (position (es_jobs s i)) (position (es_jobs s' i))"
    using escrow_run_before [OF assms(5) _ assms(2,3)] reachable_inv [OF assms(1)] by simp
  then have "at_attempt (ej_current (es_jobs s i)) < at_attempt (ej_current (es_jobs s' i))"
    using five four by (auto simp: before_def position_def word_less_nat_alt)
  with at assms(7) show False by simp
qed

section \<open>Dispatch meets the verifier\<close>

text \<open>C18: What the contract dispatches is what the verifier accepts. If \<open>dispatchVerification\<close> succeeds, the
  instruction it sent passes every comparison the verifier makes with the job it reads back: settled flag
  and state, hashes, engine version, expiry, attempt, artifact and randomness; and the chain and escrow in
  it are those of the contract.\<close>

theorem dispatch_passes_cross_check:
  assumes "dispatchVerification cl c i j = Inr (j', mv)" and "job_ok j"
    and "bk_chainid (cv_block c) = uint (vc_ChainID cfg)" and "bk_this (cv_block c) = vc_EscrowAddress cfg"
  shows "crossCheckInstruction (dispatched_instruction c i j) j' = Ok () \<and>
     chainIDMatches (wi_ChainId (dispatched_instruction c i j)) (vc_ChainID cfg) \<and>
     wi_EscrowAddress (dispatched_instruction c i j) = vc_EscrowAddress cfg \<and>
     wi_JobId (dispatched_instruction c i j) = Some i"
proof -
  from assms(1) obtain iid t1 t2 where "ej_state j = StateReadyToVerify"
    and j': "j' = j\<lparr>ej_current := (ej_current j)\<lparr>at_instructionId := iid, at_dispatchedAt := t1, at_timeoutAt := t2\<rparr>,
      ej_state := StateVerifying\<rparr>"
    by (auto simp: dispatchVerification_def Let_def split: if_splits option.splits)
  then have "\<not> ej_settled j" using assms(2) by (simp add: job_ok_def final_state_def escrow_states)
  then show ?thesis
    using assms(3,4) by (simp add: dispatched_instruction_def crossCheckInstruction_def check_cmp_def check_eq_def j')
qed

section \<open>A concrete history\<close>

text \<open>Calls one after another; a revert ends the history.\<close>

fun exec_calls :: "immutables \<Rightarrow> contract_lib \<Rightarrow> (call_env \<times> escrow_call) list \<Rightarrow> escrow \<times> move list \<Rightarrow> (escrow \<times> move list) option" where
  "exec_calls im cl [] (s, mv) = Some (s, mv)"
| "exec_calls im cl ((c, call) # calls) (s, mv) =
     (case exec_call im cl c call s of
        Inl e \<Rightarrow> None
      | Inr (s', mv') \<Rightarrow> exec_calls im cl calls (s', mv @ mv'))"

lemma exec_calls_run:
  assumes "exec_calls im cl calls (s1, mv1) = Some (s', mv')" and "escrow_run im cl s mv1 s1"
    and "\<forall>(c, call) \<in> set calls. evm_call c"
  shows "escrow_run im cl s mv' s'"
  using assms
proof (induction calls arbitrary: s1 mv1)
  case (Cons cc calls)
  obtain c call where cc: "cc = (c, call)" by (cases cc)
  with Cons.prems(1) obtain s2 mv2 where e: "exec_call im cl c call s1 = Inr (s2, mv2)"
    and r: "exec_calls im cl calls (s2, mv1 @ mv2) = Some (s', mv')"
    by (auto split: sum.splits)
  have "escrow_run im cl s (mv1 @ mv2) s2"
    using Cons.prems(2,3) e by (auto simp: cc intro: run_call)
  with Cons.IH [OF r] Cons.prems(3) show ?case by simp
qed simp

definition demo_call :: "int \<Rightarrow> address \<Rightarrow> call_env" where
  "demo_call t sender =
     \<lparr>cv_block = \<lparr>bk_timestamp = t, bk_this = 11, bk_chainid = 114, bk_codehash = (\<lambda>_. 7)\<rparr>, cv_number = 99,
      cv_sender = sender, cv_codeLength = (\<lambda>_. 1), cv_nextPublicExtensionId = Some 0x10001,
      cv_instructionsSender = (\<lambda>_. Some 11), cv_sendInstructions = (\<lambda>_ _. Some 77), cv_teeStatus = (\<lambda>_. Some 2),
      cv_votingRoundId = (\<lambda>_. Some 2), cv_randomNumber = (\<lambda>_. Some (9, True)),
      cv_transferFrom = (\<lambda>_ _ _. True), cv_transfer = (\<lambda>to _. to \<noteq> 0)\<rparr>"

definition demo_contract :: contract_lib where
  "demo_contract = \<lparr>cl_lib = demo_lib, cl_decode = (\<lambda>_. Some demo_verdict), cl_encode = (\<lambda>_. []),
     cl_ecrecover = (\<lambda>_ _ _ _. 3)\<rparr>"

definition demo_create :: create_args where
  "demo_create = \<lparr>ca_contractor = 2, ca_expectedTee = 3, ca_principal = 100, ca_acceptBy = 20, ca_submitBy = 1500,
     ca_graceEnds = 3000, ca_verificationTimeout = 1100, ca_specHash = 0, ca_privateBundleHash = 7,
     ca_engineVersionHash = 7, ca_ciphertextHash = 7\<rparr>"

text \<open>Two jobs; the first is cancelled, the second accepted, submitted, randomised and dispatched.\<close>

definition demo_calls :: "(call_env \<times> escrow_call) list" where
  "demo_calls =
     [(demo_call 5 9, SetExtensionId), (demo_call 10 1, CreateJob demo_create), (demo_call 10 1, CreateJob demo_create),
      (demo_call 15 2, JobCall 1 AcceptJob), (demo_call 800 2, JobCall 1 (SubmitAttempt 5)),
      (demo_call 850 9, JobCall 1 LockRandomness), (demo_call 900 9, JobCall 1 DispatchVerification),
      (demo_call 950 1, JobCall 0 CancelUnaccepted)]"

definition demo_deploy :: "revert + (immutables \<times> escrow)" where
  "demo_deploy = escrow_constructor (demo_call 1 8) (Some 60) (Some 61) (Some 62) 63 64 50 100"

definition demo_im :: immutables where
  "demo_im = \<lparr>im_token = 60, im_extensionRegistry = 63, im_machineRegistry = 64, im_relay = 61,
     im_randomNumberV2 = 62, im_treasury = 50\<rparr>"

definition demo_state0 :: escrow where
  "demo_state0 = \<lparr>es_owner = 8, es_pendingOwner = 0, es_protocolFeeBps = 100, es_paused = False,
     es_extensionId = 0, es_nextJobId = 0, es_jobs = (\<lambda>_. zero_job)\<rparr>"

lemma demo_deployed: "demo_deploy = Inr (demo_im, demo_state0)"
  by (simp add: demo_deploy_def escrow_constructor_def demo_call_def demo_im_def demo_state0_def MAX_PROTOCOL_FEE_BPS_def)

lemma demo_call_evm: "0 \<le> t \<Longrightarrow> a \<noteq> 0 \<Longrightarrow> evm_call (demo_call t a)"
  by (simp add: evm_call_def demo_call_def)

lemma demo_extension: "setExtensionId (demo_call t a) demo_state0 = Inr (demo_state0\<lparr>es_extensionId := 0x10000\<rparr>)"
  by (simp add: setExtensionId_def demo_call_def demo_state0_def FIRST_PUBLIC_EXTENSION_ID_def find_extension.simps)

definition demo_created :: EscrowJob where
  "demo_created = zero_job\<lparr>ej_terms := ej_terms demo_job\<rparr>"

lemma demo_create:
  assumes "\<not> es_paused s" "es_extensionId s \<noteq> 0" "es_protocolFeeBps s = 100" "es_jobs s (es_nextJobId s) = zero_job"
    "es_nextJobId s < 10"
  shows "createJob (demo_call 10 1) demo_create s =
    Inr (s\<lparr>es_nextJobId := es_nextJobId s + 1, es_jobs := (es_jobs s)(es_nextJobId s := demo_created)\<rparr>, [Pull 1 101])"
  using assms
  by (simp add: createJob_def demo_call_def demo_create_def confirmProductionTee_def TEE_STATUS_PRODUCTION_def
      MIN_VERIFICATION_TIMEOUT_def MAX_VERIFICATION_TIMEOUT_def protocol_fee_def add256_def created_terms_def
      demo_created_def demo_job_def zero_job_def Let_def)

definition demo_ready :: EscrowJob where
  "demo_ready = demo_job\<lparr>ej_state := StateReadyToVerify,
     ej_current := (ej_current demo_job)\<lparr>at_instructionId := 0, at_dispatchedAt := 0, at_timeoutAt := 0\<rparr>\<rparr>"

definition demo_submitted :: EscrowJob where
  "demo_submitted = demo_ready\<lparr>ej_state := StateRandomnessPending,
     ej_current := (ej_current demo_ready)\<lparr>at_randomRound := 0, at_randomValueHash := 0, at_randomLocked := False\<rparr>\<rparr>"

definition demo_cancelled :: EscrowJob where
  "demo_cancelled = demo_created\<lparr>ej_state := StateCancelled, ej_settled := True\<rparr>"

lemma demo_life:
  "acceptJob (demo_call 15 2) demo_created = Inr (demo_created\<lparr>ej_state := StateAccepted\<rparr>, [])"
  "submitAttempt (demo_call 800 2) False 5 (demo_created\<lparr>ej_state := StateAccepted\<rparr>) = Inr (demo_submitted, [])"
  "lockRandomness demo_contract (demo_call 850 9) demo_submitted = Inr (demo_ready, [])"
  "dispatchVerification demo_contract (demo_call 900 9) 1 demo_ready = Inr (demo_job, [])"
  "cancelUnaccepted (demo_call 950 1) demo_created = Inr (demo_cancelled, [Push 1 101])"
  by (simp_all add: job_ops demo_call_def demo_created_def demo_submitted_def demo_ready_def demo_job_def demo_cancelled_def
      demo_contract_def demo_lib_def zero_job_def zero_attempt_def add256_def confirmProductionTee_def
      TEE_STATUS_PRODUCTION_def escrow_states Let_def)

definition demo_state :: escrow where
  "demo_state = demo_state0\<lparr>es_extensionId := 0x10000, es_nextJobId := 2,
     es_jobs := (\<lambda>_. zero_job)(1 := demo_job, 0 := demo_cancelled)\<rparr>"

lemma demo_history_runs:
  "exec_calls demo_im demo_contract demo_calls (demo_state0, []) = Some (demo_state, [Pull 1 101, Pull 1 101, Push 1 101])"
  unfolding demo_calls_def
  by (simp add: admin_def demo_extension demo_create)
    (simp add: demo_state0_def demo_create demo_life demo_state_def fun_upd_twist)

lemma demo_reachable: "reachable demo_im demo_contract [Pull 1 101, Pull 1 101, Push 1 101] demo_state"
proof -
  have "\<forall>(c, call) \<in> set demo_calls. evm_call c"
    by (simp add: demo_calls_def demo_call_evm)
  from exec_calls_run [OF demo_history_runs run_start this]
  show ?thesis unfolding reachable_def using demo_deployed unfolding demo_deploy_def by blast
qed

theorem escrow_solvent_witness:
  "net [Pull 1 101, Pull 1 101, Push 1 101] = (101 :: int) \<and> ej_settled (es_jobs demo_state 0) \<and>
   \<not> ej_settled (es_jobs demo_state 1) \<and> 0 < jt_principal (ej_terms (es_jobs demo_state 1))"
  using escrow_solvent [OF demo_reachable, THEN conjunct2, rule_format, of 1]
  by (simp add: demo_state_def demo_state0_def demo_cancelled_def demo_job_def Let_def)

theorem escrow_jobs_well_formed_witness:
  "at_randomLocked (ej_current (es_jobs demo_state 1)) \<and> ej_state (es_jobs demo_state 1) = StateVerifying \<and>
   at_dispatchedAt (ej_current (es_jobs demo_state 1)) < at_timeoutAt (ej_current (es_jobs demo_state 1))"
proof -
  have "1 < es_nextJobId demo_state" "ej_state (es_jobs demo_state 1) = StateVerifying"
    by (simp_all add: demo_state_def demo_job_def)
  with escrow_jobs_well_formed [OF demo_reachable, of 1] show ?thesis unfolding Let_def by simp
qed

theorem escrow_terms_frozen_witness:
  "\<exists>e. exec_call demo_im demo_contract (demo_call 5000 9) (JobCall 0 RefundExpired) demo_state = Inl e"
proof -
  have "0 < es_nextJobId demo_state" "ej_settled (es_jobs demo_state 0)"
    by (simp_all add: demo_state_def demo_cancelled_def)
  with escrow_terms_frozen [OF demo_reachable run_start, of 0]
  have "evm_call c \<longrightarrow> (\<exists>e. exec_call demo_im demo_contract c (JobCall 0 jc) demo_state = Inl e)" for c jc by blast
  moreover have "evm_call (demo_call 5000 9)" by (rule demo_call_evm) simp_all
  ultimately show ?thesis by blast
qed

theorem escrow_refund_available_witness:
  "\<exists>s'. exec_call demo_im demo_contract (demo_call 4000 9) (JobCall 1 RefundExpired) demo_state = Inr (s', [Push 1 101])"
proof -
  have j: "es_jobs demo_state 1 = demo_job" "1 < es_nextJobId demo_state" by (simp_all add: demo_state_def)
  have "\<not> ej_settled (es_jobs demo_state 1)"
    "now_of (demo_call 4000 9) > uint (jt_graceEnds (ej_terms (es_jobs demo_state 1)))"
    "cv_transfer (demo_call 4000 9) (jt_client (ej_terms (es_jobs demo_state 1)))
       (jt_principal (ej_terms (es_jobs demo_state 1)) + jt_fee (ej_terms (es_jobs demo_state 1)))"
    by (simp_all add: j demo_job_def demo_call_def)
  from escrow_refund_available [OF demo_reachable _ j(2) this] show ?thesis
    by (auto simp: j demo_job_def)
qed

text \<open>The dispatched attempt of the history times out.\<close>

definition demo_timed_out :: escrow where
  "demo_timed_out = demo_state\<lparr>es_jobs := (es_jobs demo_state)(1 := demo_job\<lparr>ej_current := (ej_current demo_job)
     \<lparr>at_instructionId := 0, at_dispatchedAt := 0, at_timeoutAt := 0\<rparr>, ej_state := StateRetryable\<rparr>)\<rparr>"

lemma reachable_call:
  "reachable im cl mv s \<Longrightarrow> evm_call c \<Longrightarrow> exec_call im cl c call s = Inr (s', mv') \<Longrightarrow> reachable im cl (mv @ mv') s'"
  unfolding reachable_def by (blast intro: run_call)

theorem verdict_window_closes_witness:
  "\<exists>e. exec_call demo_im demo_contract (demo_call 2600 9) (JobCall 1 (SettleAttempt demo_args)) demo_timed_out = Inl e"
proof -
  have "exec_call demo_im demo_contract (demo_call 2500 9) (JobCall 1 ExpireVerification) demo_state = Inr (demo_timed_out, [])"
    by (simp add: expireVerification_def demo_state_def demo_timed_out_def demo_call_def) (simp add: demo_job_def)
  from reachable_call [OF demo_reachable _ this] demo_call_evm [of 2500 9]
  have r: "reachable demo_im demo_contract [Pull 1 101, Pull 1 101, Push 1 101] demo_timed_out" by simp
  have "1 < es_nextJobId demo_timed_out" by (simp add: demo_timed_out_def demo_state_def)
  moreover have "ej_state (es_jobs demo_timed_out 1) \<in> {StateAwaitingResubmission, StateRetryable, StateRefundPending, StatePaid, StateCancelled, StateRefunded}"
    by (simp add: demo_timed_out_def)
  moreover have "cl_decode demo_contract (sa_data demo_args) = Some demo_verdict"
    "vi_Attempt (v1_Id demo_verdict) \<le> at_attempt (ej_current (es_jobs demo_timed_out 1))"
    by (simp_all add: demo_contract_def demo_timed_out_def demo_verdict_def run_verdict_def verdictIdentityFrom_def
        demo_instr_def demo_job_def)
  ultimately show ?thesis using verdict_window_closes [OF r _ _ _ run_start] by simp
qed

theorem dispatch_passes_cross_check_witness:
  "crossCheckInstruction (dispatched_instruction (demo_call 900 9) 1 demo_ready) demo_job = Ok ()"
proof -
  have "job_ok demo_ready"
    by (simp add: job_ok_def terms_ok_def final_state_def demo_ready_def demo_job_def escrow_states)
  from dispatch_passes_cross_check [OF demo_life(4) this, of demo_cfg] show ?thesis
    by (simp add: demo_call_def demo_cfg_def)
qed

end
