(* ===== verification/EscrowRefinement.thy ===== *)
theory EscrowRefinement
  imports EscrowSafety
begin

text \<open>
  The contract against the Go laboratory. \<open>go/internal/workproof/simulation.go\<close> is the repository's own
  abstract account of a job: seven states and a ledger instead of eleven states, randomness, dispatch and
  signatures. A job of the contract is matched with a laboratory job with the same terms and attempt; the
  contract's intermediate states match the laboratory state the attempt started from. Every operation of
  the contract on a job is then one laboratory call or none, with one exception that is stated as such: the
  contract lets a client cancel an unaccepted job at any time, the laboratory only until the submission
  deadline.
\<close>

section \<open>Matching\<close>

definition states_match :: "u8 \<Rightarrow> State \<Rightarrow> bool" where
  "states_match st x \<longleftrightarrow>
     (case x of
        Created \<Rightarrow> st = StateCreated
      | Accepted \<Rightarrow> st = StateAccepted \<or> st = StateRandomnessPending \<or> st = StateReadyToVerify \<or> st = StateVerifying
      | AwaitingResubmission \<Rightarrow> st = StateAwaitingResubmission \<or> st = StateRefundPending \<or>
          st = StateRandomnessPending \<or> st = StateReadyToVerify \<or> st = StateVerifying
      | Retryable \<Rightarrow> st = StateRetryable \<or> st = StateRefundPending \<or>
          st = StateRandomnessPending \<or> st = StateReadyToVerify \<or> st = StateVerifying
      | Paid \<Rightarrow> st = StatePaid
      | Cancelled \<Rightarrow> st = StateCancelled
      | Refunded \<Rightarrow> st = StateRefunded)"

definition job_match :: "immutables \<Rightarrow> (address \<Rightarrow> string) \<Rightarrow> EscrowJob \<times> move list \<Rightarrow> Job \<times> Ledger \<Rightarrow> bool" where
  "job_match im nm cs as \<longleftrightarrow>
     (case cs of (j, mv) \<Rightarrow> case as of (x, l) \<Rightarrow>
        job_ok j \<and> ledger_ok (x, l) \<and> states_match (ej_state j) (j_State x) \<and>
        j_Client x = nm (jt_client (ej_terms j)) \<and> j_Contractor x = nm (jt_contractor (ej_terms j)) \<and>
        j_ExpectedTEE x = nm (jt_expectedTee (ej_terms j)) \<and> j_Principal x = jt_principal (ej_terms j) \<and>
        j_Fee x = jt_fee (ej_terms j) \<and> j_SubmitBy x = jt_submitBy (ej_terms j) \<and>
        j_GraceEnds x = jt_graceEnds (ej_terms j) \<and> j_Attempt x = at_attempt (ej_current j) \<and>
        (if ej_settled j then payout im j mv else mv = []))"

text \<open>One successful operation on a job, at a time that fits 64 bits, that is not a late cancellation.\<close>

definition late_cancel :: "call_env \<Rightarrow> job_call \<Rightarrow> EscrowJob \<Rightarrow> bool" where
  "late_cancel c jc j \<longleftrightarrow> jc = CancelUnaccepted \<and> now_of c > uint (jt_submitBy (ej_terms j))"

definition job_step :: "immutables \<Rightarrow> contract_lib \<Rightarrow> int \<Rightarrow> EscrowJob \<times> move list \<Rightarrow> EscrowJob \<times> move list \<Rightarrow> bool" where
  "job_step im cl i cs cs' \<longleftrightarrow>
     (\<exists>c p jc j' mv'. evm_call c \<and> now_of c < 2 ^ 64 \<and> \<not> late_cancel c jc (fst cs) \<and>
        exec_job_call im cl c p i jc (fst cs) = Inr (j', mv') \<and> cs' = (j', snd cs @ mv'))"

definition lab_step :: "Job \<times> Ledger \<Rightarrow> Job \<times> Ledger \<Rightarrow> bool" where
  "lab_step s t \<longleftrightarrow> (\<exists>op. sim_call op s = Inr t)"

section \<open>One call\<close>

lemma time_cast: "0 \<le> t \<Longrightarrow> t < 2 ^ 64 \<Longrightarrow> uint (of_int t :: u64) = t"
  by (simp add: uint_word_of_int_eq take_bit_int_eq_self)

text \<open>The laboratory call, if any, that answers an operation of the contract.\<close>

definition answer :: "(address \<Rightarrow> string) \<Rightarrow> call_env \<Rightarrow> job_call \<Rightarrow> EscrowJob \<Rightarrow> EscrowJob \<Rightarrow> sim_op option" where
  "answer nm c jc j j' =
     (let now = of_int (now_of c);
          verdict = (\<lambda>oc. \<lparr>v_Escrow = [], v_JobID = [], v_InstructionID = [], v_Attempt = at_attempt (ej_current j), v_Outcome = oc,
             v_Passed = 0, v_Executed = 0, v_IssuedAt = 0, v_ExpiresAt = jt_graceEnds (ej_terms j),
             v_TEEID = nm (jt_expectedTee (ej_terms j))\<rparr>) in
      case jc of
        AcceptJob \<Rightarrow> Some OpAccept
      | CancelUnaccepted \<Rightarrow> Some (OpCancel now)
      | SubmitAttempt a \<Rightarrow> Some (OpSubmit now)
      | LockRandomness \<Rightarrow> None
      | DispatchVerification \<Rightarrow> None
      | ExpireVerification \<Rightarrow> Some (OpSettle now (verdict Inconclusive))
      | SettleAttempt args \<Rightarrow> Some (OpSettle now (verdict
          (if ej_state j' = StatePaid then Pass else if ej_state j' = StateAwaitingResubmission then Fail else Inconclusive)))
      | RefundExpired \<Rightarrow> Some (OpRefund now))"

lemma match_call:
  assumes "job_match im nm (j, mv) (x, l)" and "evm_call c" and "now_of c < 2 ^ 64" and "\<not> late_cancel c jc j"
    and "exec_job_call im cl c p i jc j = Inr (j', mv')"
    and "\<And>op. answer nm c jc j j' = Some op \<Longrightarrow> sim_call op (x, l) = Inr (x', l')"
    and "answer nm c jc j j' = None \<Longrightarrow> (x', l') = (x, l)"
    and "states_match (ej_state j') (j_State x')" and "j_Attempt x' = at_attempt (ej_current j')"
  shows "job_match im nm (j', mv @ mv') (x', l')"
proof -
  have ok: "job_ok j" and lo: "ledger_ok (x, l)" using assms(1) by (simp_all add: job_match_def)
  from exec_job_call_ok [OF assms(5) ok assms(2)] have j': "job_ok j'" and pg: "job_progress im j j' mv'" by simp_all
  have "same_terms (x, l) (x', l') \<and> ledger_ok (x', l')"
  proof (cases "answer nm c jc j j'")
    case None
    then show ?thesis using assms(7) lo by (simp add: same_terms_def)
  next
    case (Some op)
    then show ?thesis using assms(6) lo by (blast intro: ledger_ok_call same_terms_call)
  qed
  then show ?thesis
    using assms(1,8,9) j' pg by (auto simp: job_match_def same_terms_def job_progress_def split: if_splits)
qed

definition answered :: "(address \<Rightarrow> string) \<Rightarrow> call_env \<Rightarrow> job_call \<Rightarrow> EscrowJob \<Rightarrow> EscrowJob \<Rightarrow> Job \<Rightarrow> Ledger \<Rightarrow> bool" where
  "answered nm c jc j j' x l \<longleftrightarrow>
     (\<exists>x' l'. (case answer nm c jc j j' of None \<Rightarrow> x' = x \<and> l' = l | Some op \<Rightarrow> sim_call op (x, l) = Inr (x', l')) \<and>
        states_match (ej_state j') (j_State x') \<and> j_Attempt x' = at_attempt (ej_current j'))"

lemma states_match_simps:
  "states_match StateCreated x \<longleftrightarrow> x = Created"
  "states_match StateAccepted x \<longleftrightarrow> x = Accepted"
  "states_match StateRandomnessPending x \<longleftrightarrow> x = Accepted \<or> x = AwaitingResubmission \<or> x = Retryable"
  "states_match StateReadyToVerify x \<longleftrightarrow> x = Accepted \<or> x = AwaitingResubmission \<or> x = Retryable"
  "states_match StateVerifying x \<longleftrightarrow> x = Accepted \<or> x = AwaitingResubmission \<or> x = Retryable"
  "states_match StateAwaitingResubmission x \<longleftrightarrow> x = AwaitingResubmission"
  "states_match StateRetryable x \<longleftrightarrow> x = Retryable"
  "states_match StateRefundPending x \<longleftrightarrow> x = AwaitingResubmission \<or> x = Retryable"
  "states_match StatePaid x \<longleftrightarrow> x = Paid"
  "states_match StateCancelled x \<longleftrightarrow> x = Cancelled"
  "states_match StateRefunded x \<longleftrightarrow> x = Refunded"
  by (cases x; simp add: states_match_def escrow_states)+

lemma match_settled: "job_match im nm (j, mv) (x, l) \<Longrightarrow> j_Settled x \<longleftrightarrow> ej_settled j"
proof -
  assume "job_match im nm (j, mv) (x, l)"
  then have "ej_settled j \<longleftrightarrow> final_state (ej_state j)" "states_match (ej_state j) (j_State x)"
    "j_Settled x \<longleftrightarrow> terminal (j_State x)"
    by (simp_all add: job_match_def job_ok_def ledger_ok_def)
  then show ?thesis
    by (cases "j_State x") (auto simp: states_match_def terminal_def final_state_def escrow_states)
qed

lemma match_facts:
  assumes "job_match im nm (j, mv) (x, l)"
  shows "states_match (ej_state j) (j_State x)" "j_ExpectedTEE x = nm (jt_expectedTee (ej_terms j))"
    "j_SubmitBy x = jt_submitBy (ej_terms j)" "j_GraceEnds x = jt_graceEnds (ej_terms j)"
    "j_Attempt x = at_attempt (ej_current j)" "j_Settled x \<longleftrightarrow> ej_settled j" "job_ok j"
  using assms match_settled [OF assms] by (simp_all add: job_match_def)

lemma now_le: "0 \<le> t \<Longrightarrow> t < 2 ^ 64 \<Longrightarrow> of_int t \<le> d \<longleftrightarrow> t \<le> uint d" for d :: u64
  by (simp add: word_le_def time_cast)

lemma now_less: "0 \<le> t \<Longrightarrow> t < 2 ^ 64 \<Longrightarrow> d < of_int t \<longleftrightarrow> uint d < t" for d :: u64
  by (simp add: word_less_def time_cast)

lemma answered_cases:
  assumes "job_match im nm (j, mv) (x, l)" and "evm_call c" and "now_of c < 2 ^ 64" and "\<not> late_cancel c jc j"
    and "exec_job_call im cl c p i jc j = Inr (j', mv')"
  shows "answered nm c jc j j' x l"
proof -
  note m = match_facts [OF assms(1)]
  have t: "0 \<le> now_of c" using assms(2) by (simp add: evm_call_def)
  note tm = now_le [OF t assms(3)] now_less [OF t assms(3)]
  show ?thesis
  proof (cases jc)
    case AcceptJob
    with assms(5) have "ej_state j = StateCreated" "j' = j\<lparr>ej_state := StateAccepted\<rparr>"
      by (auto simp: acceptJob_def split: if_splits)
    with AcceptJob m show ?thesis by (simp add: answered_def answer_def states_match_simps Accept_def)
  next
    case CancelUnaccepted
    with assms(4,5) have "ej_state j = StateCreated" "j' = j\<lparr>ej_state := StateCancelled, ej_settled := True\<rparr>"
      "now_of c \<le> uint (jt_submitBy (ej_terms j))"
      by (auto simp: cancelUnaccepted_def late_cancel_def Let_def split: if_splits)
    with CancelUnaccepted m show ?thesis by (simp add: answered_def answer_def states_match_simps Cancel_def tm)
  next
    case (SubmitAttempt a)
    with assms(5) obtain cur where
      "ej_state j = StateAccepted \<or> ej_state j = StateAwaitingResubmission \<or> ej_state j = StateRetryable"
      "j' = j\<lparr>ej_current := cur, ej_state := StateRandomnessPending\<rparr>" "at_attempt cur = at_attempt (ej_current j) + 1"
      "now_of c \<le> uint (jt_submitBy (ej_terms j))"
      by (auto simp: submitAttempt_def not_less split: if_splits option.splits)
    with SubmitAttempt m show ?thesis
      by (elim disjE) (simp_all add: answered_def answer_def states_match_simps Submit_def tm not_less)
  next
    case LockRandomness
    with assms(5) have "ej_state j = StateRandomnessPending" "at_attempt (ej_current j') = at_attempt (ej_current j)"
      "ej_state j' = StateRandomnessPending \<or> ej_state j' = StateReadyToVerify"
      by (auto simp: lockRandomness_def Let_def split: if_splits option.splits)
    with LockRandomness m show ?thesis by (auto simp: answered_def answer_def states_match_simps)
  next
    case DispatchVerification
    with assms(5) have "ej_state j = StateReadyToVerify" "at_attempt (ej_current j') = at_attempt (ej_current j)"
      "ej_state j' = StateVerifying"
      by (auto simp: dispatchVerification_def Let_def split: if_splits option.splits)
    with DispatchVerification m show ?thesis by (auto simp: answered_def answer_def states_match_simps)
  next
    case ExpireVerification
    with assms(5) have "ej_state j = StateVerifying" "at_attempt (ej_current j') = at_attempt (ej_current j)"
      "ej_state j' = StateRetryable"
      by (auto simp: expireVerification_def split: if_splits)
    moreover from this have "\<not> ej_settled j" using m(7) by (simp add: job_ok_def final_state_def escrow_states)
    ultimately show ?thesis using ExpireVerification m
      by (simp add: answered_def answer_def states_match_simps Settle_def outcome_defs Let_def)
  next
    case (SettleAttempt args)
    with assms(5) obtain v oc where v: "settle_call_ok (cl_lib cl) (cl_decode cl) (cl_ecrecover cl) (cv_block c) args j v"
      and oc: "oc = (let r = vo_Outcome (v1_Result v) in if r = OutcomeFail \<or> r = OutcomeInconclusive then r else OutcomePass)"
      and j': "j' = j\<lparr>ej_state := settled_state (cv_block c) j oc, ej_settled := (ej_settled j \<or> oc = OutcomePass)\<rparr>"
      by (auto elim: settle_job_Inr)
    from v have st: "ej_state j = StateVerifying" and g: "now_of c \<le> uint (jt_graceEnds (ej_terms j))"
      by (simp_all add: settle_call_ok_def)
    have u: "\<not> ej_settled j" using m(7) st by (simp add: job_ok_def final_state_def escrow_states)
    have "ej_state j' = settled_state (cv_block c) j oc" "at_attempt (ej_current j') = at_attempt (ej_current j)"
      by (simp_all add: j')
    then show ?thesis using SettleAttempt m u g st
      by (auto simp: answered_def answer_def states_match_simps [unfolded escrow_states] Settle_def outcome_defs Let_def
          settled_state_def tm not_less escrow_states split: if_splits)
  next
    case RefundExpired
    with assms(5) have "\<not> ej_settled j" "j' = j\<lparr>ej_state := StateRefunded, ej_settled := True\<rparr>"
      "uint (jt_graceEnds (ej_terms j)) < now_of c"
      by (auto simp: refundExpired_def Let_def not_le split: if_splits)
    with RefundExpired m show ?thesis by (simp add: answered_def answer_def states_match_simps Refund_def tm not_le)
  qed
qed

section \<open>Runs\<close>

interpretation laboratory: forward_simulation "job_step im cl i" lab_step "job_match im nm" for im cl i nm
proof (unfold_locales, goal_cases)
  case (1 cs cs' as)
  obtain j mv x l where s: "cs = (j, mv)" "as = (x, l)" by (cases cs, cases as)
  from 1(1) obtain c p jc j' mv' where c: "evm_call c" "now_of c < 2 ^ 64" "\<not> late_cancel c jc j"
    "exec_job_call im cl c p i jc j = Inr (j', mv')" and cs': "cs' = (j', mv @ mv')"
    by (auto simp: job_step_def s)
  from 1(2) have mt: "job_match im nm (j, mv) (x, l)" by (simp add: s)
  from answered_cases [OF mt c] obtain x' l' where
    a: "case answer nm c jc j j' of None \<Rightarrow> x' = x \<and> l' = l | Some op \<Rightarrow> sim_call op (x, l) = Inr (x', l')"
    and st: "states_match (ej_state j') (j_State x')" and at: "j_Attempt x' = at_attempt (ej_current j')"
    unfolding answered_def by blast
  have "job_match im nm (j', mv @ mv') (x', l')"
    by (rule match_call [OF mt c _ _ st at]) (use a in \<open>simp_all split: option.splits\<close>)
  moreover have "lab_step\<^sup>*\<^sup>* (x, l) (x', l')"
    using a by (cases "answer nm c jc j j'") (auto intro!: r_into_rtranclp simp: lab_step_def)
  ultimately show ?case unfolding s cs' by blast
qed

text \<open>The laboratory job of a freshly created contract job.\<close>

definition lab_job :: "(address \<Rightarrow> string) \<Rightarrow> JobTerms \<Rightarrow> Job \<times> Ledger" where
  "lab_job nm t = NewJob (nm (jt_client t)) (nm (jt_contractor t)) (nm (jt_expectedTee t)) (jt_principal t) (jt_fee t)
     (jt_submitBy t) (jt_graceEnds t)"

lemma lab_job_match:
  "terms_ok t \<Longrightarrow> job_match im nm (zero_job\<lparr>ej_terms := t\<rparr>, []) (lab_job nm t)"
  using ledger_ok_NewJob
  by (simp add: job_match_def lab_job_def NewJob_def job_ok_def zero_job_def zero_attempt_def final_state_def
      states_match_simps [unfolded escrow_states] escrow_states)

lemma lab_steps_reach: "lab_step\<^sup>*\<^sup>* s t \<Longrightarrow> sim_reach s \<Longrightarrow> sim_reach t"
  by (induction rule: rtranclp_induct) (auto simp: lab_step_def intro: sim_next)

lemma job_steps_terms:
  assumes "(job_step im cl i)\<^sup>*\<^sup>* cs cs'" and "job_ok (fst cs)"
  shows "job_ok (fst cs') \<and> ej_terms (fst cs') = ej_terms (fst cs)"
  using assms
proof (induction rule: rtranclp_induct)
  case (step a b)
  then show ?case using exec_job_call_ok by (fastforce simp: job_step_def job_progress_def)
qed simp

text \<open>C19: The contract refines the laboratory. Whatever operations act on a job of the contract after its
  creation (late cancellations apart), the laboratory can follow with its own calls: it reaches a job with
  the same terms and attempt, in a corresponding state, and its ledger shows exactly the tokens the
  contract has sent for the job: principal to the contractor and fee to the treasury if it was paid,
  everything to the client if it was cancelled or refunded, nothing otherwise.\<close>

theorem contract_refines_laboratory:
  assumes "(job_step im cl i)\<^sup>*\<^sup>* (zero_job\<lparr>ej_terms := t\<rparr>, []) (j, mv)" and "terms_ok t"
  shows "\<exists>x l. sim_reach (x, l) \<and> lab_step\<^sup>*\<^sup>* (lab_job nm t) (x, l) \<and>
     states_match (ej_state j) (j_State x) \<and> j_Attempt x = at_attempt (ej_current j) \<and>
     j_Principal x = jt_principal t \<and> j_Fee x = jt_fee t \<and> ej_terms j = t \<and>
     l = (if ej_state j = StatePaid then \<lparr>l_Client = 0, l_Contractor = jt_principal t, l_Treasury = jt_fee t\<rparr>
          else if ej_settled j then \<lparr>l_Client = jt_principal t + jt_fee t, l_Contractor = 0, l_Treasury = 0\<rparr>
          else \<lparr>l_Client = 0, l_Contractor = 0, l_Treasury = 0\<rparr>) \<and>
     (if ej_settled j then payout im j mv else mv = [])"
proof -
  let ?j0 = "zero_job\<lparr>ej_terms := t\<rparr>"
  have m0: "job_match im nm (?j0, []) (lab_job nm t)" by (rule lab_job_match [OF assms(2)])
  then have "job_ok ?j0" by (simp add: job_match_def split: prod.splits)
  with job_steps_terms [OF assms(1)] have t: "ej_terms j = t" by simp
  from laboratory.simulate_run [OF assms(1) m0] obtain x l where
    lab: "lab_step\<^sup>*\<^sup>* (lab_job nm t) (x, l)" and m: "job_match im nm (j, mv) (x, l)" by auto
  have "sim_reach (x, l)" by (rule lab_steps_reach [OF lab]) (simp add: lab_job_def sim_new)
  moreover from m have "ledger_ok (x, l)" "states_match (ej_state j) (j_State x)" "ej_settled j \<longleftrightarrow> final_state (ej_state j)"
    by (simp_all add: job_match_def job_ok_def)
  then have "l = (if ej_state j = StatePaid then \<lparr>l_Client = 0, l_Contractor = j_Principal x, l_Treasury = j_Fee x\<rparr>
      else if ej_settled j then \<lparr>l_Client = j_Principal x + j_Fee x, l_Contractor = 0, l_Treasury = 0\<rparr>
      else \<lparr>l_Client = 0, l_Contractor = 0, l_Treasury = 0\<rparr>)"
    by (cases "j_State x") (auto simp: ledger_ok_def ledger_for_def states_match_def final_state_def escrow_states)
  ultimately show ?thesis using lab m t by (auto simp: job_match_def)
qed

lemma demo_terms_ok: "terms_ok (ej_terms demo_job)"
  by (simp add: terms_ok_def demo_job_def)

lemma demo_job_steps: "(job_step demo_im demo_contract 1)\<^sup>*\<^sup>* (demo_created, []) (demo_job, [])"
proof -
  have st: "job_step demo_im demo_contract 1 (j, []) (j', [])"
    if "exec_job_call demo_im demo_contract (demo_call t a) False 1 jc j = Inr (j', [])" "0 \<le> t" "t < 2 ^ 64" "a \<noteq> 0"
      "jc \<noteq> CancelUnaccepted" for t a jc j j'
    unfolding job_step_def late_cancel_def using that demo_call_evm [of t a]
    by (intro exI [of _ "demo_call t a"] exI [of _ False] exI [of _ jc]) (auto simp: demo_call_def)
  have "job_step demo_im demo_contract 1 (demo_created, []) (demo_created\<lparr>ej_state := StateAccepted\<rparr>, [])"
    by (rule st [of 15 2 AcceptJob]) (simp_all add: demo_life)
  moreover have "job_step demo_im demo_contract 1 (demo_created\<lparr>ej_state := StateAccepted\<rparr>, []) (demo_submitted, [])"
    by (rule st [of 800 2 "SubmitAttempt 5"]) (simp_all add: demo_life)
  moreover have "job_step demo_im demo_contract 1 (demo_submitted, []) (demo_ready, [])"
    by (rule st [of 850 9 LockRandomness]) (simp_all add: demo_life)
  moreover have "job_step demo_im demo_contract 1 (demo_ready, []) (demo_job, [])"
    by (rule st [of 900 9 DispatchVerification]) (simp_all add: demo_life)
  ultimately show ?thesis by (meson converse_rtranclp_into_rtranclp rtranclp.rtrancl_refl)
qed

theorem contract_refines_laboratory_witness:
  "\<exists>x l. sim_reach (x, l) \<and> states_match StateVerifying (j_State x) \<and> j_Attempt x = 1 \<and>
     l = \<lparr>l_Client = 0, l_Contractor = 0, l_Treasury = 0\<rparr>"
proof -
  have j: "ej_state demo_job = StateVerifying" "at_attempt (ej_current demo_job) = 1" "\<not> ej_settled demo_job"
    by (simp_all add: demo_job_def)
  have "StateVerifying \<noteq> StatePaid" by (simp add: escrow_states)
  with contract_refines_laboratory [OF demo_job_steps [unfolded demo_created_def] demo_terms_ok, of "\<lambda>_. []"] j
  show ?thesis by auto
qed

text \<open>The exception is real: after the submission deadline the contract still cancels an unaccepted job
  and returns the money, where the laboratory refuses.\<close>

lemma late_cancel_diverges:
  assumes "cv_sender c = jt_client t" and "cv_transfer c (jt_client t) (jt_principal t + jt_fee t)"
    and "now_of c > uint (jt_submitBy t)" and "0 \<le> now_of c" and "now_of c < 2 ^ 64"
  shows "(\<exists>j'. cancelUnaccepted c (zero_job\<lparr>ej_terms := t\<rparr>) = Inr (j', [Push (jt_client t) (jt_principal t + jt_fee t)])) \<and>
     sim_call (OpCancel (of_int (now_of c))) (lab_job nm t) = Inl CannotCancel"
  using assms
  by (simp add: cancelUnaccepted_def zero_job_def Let_def lab_job_def NewJob_def Cancel_def now_less)

end
