(* ===== verification/Tools.thy ===== *)
theory Tools
  imports Exec
begin

text \<open>
  What the deployment tools share: the Support value of \<open>tools/pkg/support/support.go\<close> (address files,
  deployer key, contract bindings, waiting for transactions), the default key of
  \<open>tools/pkg/configs/configs.go\<close> and the revert decoding of \<open>tools/pkg/fccutils/revert.go\<close>. A tool acts on
  a world: the interactions so far (a tick), the transactions it has sent, the files, and the seconds it
  has slept. A computation returns an error or a value together with the new world. The chain, the
  network, the clock and the file system answer through \<open>tool_env\<close>, a function of the tick; third-party
  libraries are its remaining fields. Log lines are not modelled.
\<close>

section \<open>Worlds and computations\<close>

type_synonym privkey = bytes32

record PublicKey =
  pk_X :: bytes32
  pk_Y :: bytes32

text \<open>\<open>machinemanager.IMachineManagerTeeMachineData\<close>.\<close>

record TeeMachineData =
  md_ExtensionId :: int
  md_InitialOwner :: address
  md_CodeHash :: bytes32
  md_Platform :: bytes32
  md_PublicKey :: PublicKey
  md_GovernanceHash :: bytes32

text \<open>The availability proof: header and request stay in their encoded form, of which only the TEE id of
  the request is read.\<close>

record AvailabilityResponse =
  av_Status :: int
  av_TeeTimestamp :: int
  av_CodeHash :: bytes32
  av_Platform :: bytes32
  av_InitialSigningPolicyId :: int
  av_LastSigningPolicyId :: int
  av_State :: bytes

record AvailabilityProof =
  ap_SigningPolicySignatures :: "bytes list"
  ap_Header :: bytes
  ap_RequestBody :: bytes
  ap_RequestTeeId :: address
  ap_ResponseBody :: AvailabilityResponse

text \<open>The contract methods the tools send transactions to.\<close>

datatype contract_call =
    MachineRegister TeeMachineData "u8 \<times> bytes32 \<times> bytes32" address string address
  | RequestTeeAttestationTx address address
  | RequestAvailabilityCheckTx address bytes32 address address address
  | ToProductionTx AvailabilityProof
  | AddTeeVersionTx int bytes32 bytes32 "bytes32 list"
  | ExtensionRegister address address
  | AddAllowedTeeMachineOwnersTx int "address list"
  | AddAllowedTeeWalletProjectOwnersTx int "address list"
  | AddSupportedKeyTypesTx int "bytes32 list"
  | SetNewTeeGovernanceTx int "address list" u64
  | SetExtensionIdTx address
  | SendSayHelloTx address bytes
  | SendSayGoodbyeTx address string string
  | DeployHelloWorldTx address address
  | DeployEscrowTx address address address u16

record TransactOpts =
  op_From :: address
  op_Value :: int

record Log =
  lg_Address :: address
  lg_Topics :: "bytes32 list"
  lg_Data :: bytes

record Receipt =
  rc_Status :: u64
  rc_Logs :: "Log list"
  rc_TxHash :: bytes32
  rc_ContractAddress :: address

text \<open>An error of the RPC client; \<open>re_data\<close> is the value its \<open>ErrorData\<close> method returns, \<open>None\<close> if it
  has no such method or returns nil.\<close>

datatype err_data = DataString string | DataBytes bytes | DataOther

record rpc_err =
  re_text :: string
  re_data :: "err_data option"

record http_resp =
  hr_StatusCode :: int
  hr_Body :: bytes
  hr_ReadErr :: "string option"

text \<open>What the tools read of the \<open>Result\<close> of an action response.\<close>

record node_result =
  nr_Status :: u8
  nr_Log :: string
  nr_Data :: bytes

record world =
  w_now :: tick
  w_sent :: "(TransactOpts \<times> contract_call) list"
  w_files :: "string \<Rightarrow> bytes option"
  w_slept :: nat

type_synonym ('w, 'e, 'a) computation = "'w \<Rightarrow> ('e + 'a) \<times> 'w"
type_synonym ('e, 'a) comp = "(world, 'e, 'a) computation"
type_synonym 'a tool = "(string, 'a) comp"

definition ret :: "'a \<Rightarrow> ('w, 'e, 'a) computation" where
  "ret x w = (Inr x, w)"

definition throw :: "'e \<Rightarrow> ('w, 'e, 'a) computation" where
  "throw e w = (Inl e, w)"

text \<open>Run, then continue with the error or with the value.\<close>

definition handle ::
  "('w, 'e, 'a) computation \<Rightarrow> ('e \<Rightarrow> ('w, 'f, 'b) computation) \<Rightarrow> ('a \<Rightarrow> ('w, 'f, 'b) computation) \<Rightarrow> ('w, 'f, 'b) computation" where
  "handle m h k w = (case m w of (Inl e, w') \<Rightarrow> h e w' | (Inr x, w') \<Rightarrow> k x w')"

text \<open>\<open>x, err := m(); if err != nil { return err }\<close>, with the error text prefixed in the second form.\<close>

definition attempt ::
  "('w, 'e, 'a) computation \<Rightarrow> ('a \<Rightarrow> ('w, 'e, 'b) computation) \<Rightarrow> ('w, 'e, 'b) computation" where
  "attempt m k = handle m throw k"

definition attempt_wrap ::
  "string \<Rightarrow> ('w, string, 'a) computation \<Rightarrow> ('a \<Rightarrow> ('w, string, 'b) computation) \<Rightarrow> ('w, string, 'b) computation" where
  "attempt_wrap p m k = handle m (\<lambda>e. throw (p @ e)) k"

definition ask :: "(tick \<Rightarrow> 'e + 'a) \<Rightarrow> ('e, 'a) comp" where
  "ask f w = (f (w_now w), w\<lparr>w_now := w_now w + 1\<rparr>)"

definition sleep :: "nat \<Rightarrow> ('e, unit) comp" where
  "sleep n w = (Inr (), w\<lparr>w_slept := w_slept w + n\<rparr>)"

definition lift :: "'e + 'a \<Rightarrow> ('w, 'e, 'a) computation" where
  "lift r w = (r, w)"

lemmas comp_defs = ret_def throw_def handle_def attempt_def attempt_wrap_def ask_def sleep_def lift_def

section \<open>The environment of the tools\<close>

text \<open>A transaction as \<open>TransactionByHash\<close> returns it, and the message replayed from it.\<close>

record TxInfo =
  ti_ChainId :: int
  ti_To :: "address option"
  ti_Gas :: u64
  ti_GasPrice :: int
  ti_Value :: int
  ti_Data :: bytes

record ReplayMsg =
  rm_From :: address
  rm_To :: "address option"
  rm_Gas :: u64
  rm_GasPrice :: "int option"
  rm_Value :: "int option"
  rm_Data :: bytes

datatype read_error = NotExist | ReadError string

text \<open>\<open>support.Addresses\<close> and \<open>support.RawContract\<close>.\<close>

record Addresses =
  ad_FlareSystemManager :: address
  ad_Fdc2Hub :: address
  ad_FlareTeeManager :: address

record RawContract =
  raw_Name :: string
  raw_ContractName :: string
  raw_Address :: string

datatype facet =
    MachineManager | WalletManager | WalletKeyManager | WalletProjectManager | FlareSystemsManager
  | Fdc2HubFacet | Verification | ExtensionManager | OwnerAllowlist | ExtensionGovernance

record tool_env =
  te_Transact :: "tick \<Rightarrow> TransactOpts \<Rightarrow> contract_call \<Rightarrow> rpc_err + bytes32"
  te_WaitMined :: "tick \<Rightarrow> bytes32 \<Rightarrow> string + Receipt"
  te_TransactionByHash :: "tick \<Rightarrow> bytes32 \<Rightarrow> string + TxInfo"
  te_Sender :: "TxInfo \<Rightarrow> string + address"
  te_CallContract :: "tick \<Rightarrow> ReplayMsg \<Rightarrow> rpc_err + bytes"
  te_ChainID :: "tick \<Rightarrow> string + int"
  te_Dial :: "tick \<Rightarrow> string \<Rightarrow> string + unit"
  te_Bind :: "facet \<Rightarrow> address \<Rightarrow> string + address"
  te_NewKeyedTransactor :: "privkey \<Rightarrow> int \<Rightarrow> string + address"
  te_PubkeyToAddress :: "privkey \<Rightarrow> address"
  te_UnpackRevert :: "bytes \<Rightarrow> string option"
  te_Getenv :: "tick \<Rightarrow> string \<Rightarrow> string"
  te_HexToECDSA :: "string \<Rightarrow> string + privkey"
  te_HexToAddress :: "string \<Rightarrow> address"
  te_HexToHash :: "string \<Rightarrow> bytes32"
  te_ReadFail :: "tick \<Rightarrow> string \<Rightarrow> string option"
  te_WriteFail :: "tick \<Rightarrow> string \<Rightarrow> (string \<times> bytes option) option"
  te_RemoveFail :: "tick \<Rightarrow> string \<Rightarrow> bool"
  te_json_Addresses :: "bytes \<Rightarrow> string + Addresses"
  te_json_Contracts :: "bytes \<Rightarrow> string + RawContract list"
  te_Get :: "tick \<Rightarrow> string \<Rightarrow> string + http_resp"
  te_Post :: "tick \<Rightarrow> string \<Rightarrow> bytes \<Rightarrow> string + http_resp"

text \<open>Sending a transaction: the node either refuses it or it is sent for good.\<close>

definition transact :: "'z tool_env_scheme \<Rightarrow> TransactOpts \<Rightarrow> contract_call \<Rightarrow> (rpc_err, bytes32) comp" where
  "transact E opts c w =
     (case te_Transact E (w_now w) opts c of
        Inl e \<Rightarrow> (Inl e, w\<lparr>w_now := w_now w + 1\<rparr>)
      | Inr h \<Rightarrow> (Inr h, w\<lparr>w_now := w_now w + 1, w_sent := w_sent w @ [(opts, c)]\<rparr>))"

text \<open>\<open>os.ReadFile\<close>, \<open>os.WriteFile\<close> and \<open>os.Remove\<close>. A failing write leaves whatever the system left.\<close>

definition os_ReadFile :: "'z tool_env_scheme \<Rightarrow> string \<Rightarrow> (read_error, bytes) comp" where
  "os_ReadFile E path w =
     (case te_ReadFail E (w_now w) path of
        Some e \<Rightarrow> Inl (ReadError e)
      | None \<Rightarrow> (case w_files w path of None \<Rightarrow> Inl NotExist | Some d \<Rightarrow> Inr d),
      w\<lparr>w_now := w_now w + 1\<rparr>)"

definition os_WriteFile :: "'z tool_env_scheme \<Rightarrow> string \<Rightarrow> bytes \<Rightarrow> unit tool" where
  "os_WriteFile E path d w =
     (case te_WriteFail E (w_now w) path of
        None \<Rightarrow> (Inr (), w\<lparr>w_now := w_now w + 1, w_files := (w_files w)(path \<mapsto> d)\<rparr>)
      | Some (e, left) \<Rightarrow> (Inl e, w\<lparr>w_now := w_now w + 1, w_files := (w_files w)(path := left)\<rparr>))"

definition os_Remove :: "'z tool_env_scheme \<Rightarrow> string \<Rightarrow> ('e, unit) comp" where
  "os_Remove E path w =
     (Inr (), w\<lparr>w_now := w_now w + 1,
        w_files := (if te_RemoveFail E (w_now w) path then w_files w else (w_files w)(path := None))\<rparr>)"

fun read_error_text :: "string \<Rightarrow> read_error \<Rightarrow> string" where
  "read_error_text path NotExist = ''open '' @ path @ '': no such file or directory''"
| "read_error_text path (ReadError e) = e"

definition Hash_Hex :: "bytes32 \<Rightarrow> string" where
  "Hash_Hex h = ''0x'' @ hex_EncodeToString (bytes_of_bytes32 h)"

section \<open>Revert reasons\<close>

definition decodeRevertHex :: "'z tool_env_scheme \<Rightarrow> string \<Rightarrow> string" where
  "decodeRevertHex E s =
     (let hexStr = TrimPrefix s ''0x'' in
      case hex_DecodeString hexStr of
        None \<Rightarrow> []
      | Some decoded \<Rightarrow>
        if length decoded < 4 then []
        else case te_UnpackRevert E decoded of Some reason \<Rightarrow> reason | None \<Rightarrow> ''0x'' @ hexStr)"

definition DecodeRevertReason :: "'z tool_env_scheme \<Rightarrow> rpc_err \<Rightarrow> string" where
  "DecodeRevertReason E err =
     (case re_data err of Some (DataString hexStr) \<Rightarrow> decodeRevertHex E hexStr | _ \<Rightarrow> [])"

definition SimulateAndDecodeRevert ::
  "'z tool_env_scheme \<Rightarrow> address \<Rightarrow> address \<Rightarrow> int option \<Rightarrow> bytes \<Rightarrow> ('e, string) comp" where
  "SimulateAndDecodeRevert E from to val data =
     handle (ask (\<lambda>t. te_CallContract E t \<lparr>rm_From = from, rm_To = Some to, rm_Gas = 0, rm_GasPrice = None,
                                            rm_Value = val, rm_Data = data\<rparr>))
       (\<lambda>err. ret (if DecodeRevertReason E err \<noteq> [] then DecodeRevertReason E err else re_text err))
       (\<lambda>result. ret (if 4 \<le> length result then decodeRevertHex E (hex_EncodeToString result) else []))"

text \<open>A custom error of a parsed ABI: its selector hash, and what its arguments print as when the payload
  (\<open>Unpack\<close>) or the payload without selector (\<open>Inputs.Unpack\<close>) is decoded.\<close>

record abi_error =
  ae_name :: string
  ae_ID :: bytes32
  ae_Unpack :: "bytes \<Rightarrow> string option"
  ae_Inputs :: "bytes \<Rightarrow> string + string"

definition custom_error_text :: "abi_error \<Rightarrow> bytes \<Rightarrow> string" where
  "custom_error_text e data =
     (case ae_Unpack e data of
        Some argStr \<Rightarrow> if argStr \<noteq> ''[]'' \<and> argStr \<noteq> ''<nil>'' then ae_name e @ argStr else ae_name e
      | None \<Rightarrow> ae_name e)"

text \<open>The errors are listed in the order in which the map iteration of the run visits them.\<close>

definition MatchCustomError :: "abi_error list \<Rightarrow> string \<Rightarrow> string" where
  "MatchCustomError errs revertHex =
     (case hex_DecodeString (TrimPrefix revertHex ''0x'') of
        None \<Rightarrow> []
      | Some data \<Rightarrow>
        if length data < 4 then []
        else case find (\<lambda>e. take 4 (bytes_of_bytes32 (ae_ID e)) = take 4 data) errs of
          None \<Rightarrow> []
        | Some e \<Rightarrow> custom_error_text e data)"

section \<open>Support\<close>

definition decodeRevertFromError :: "'z tool_env_scheme \<Rightarrow> rpc_err \<Rightarrow> string" where
  "decodeRevertFromError E err =
     (case re_data err of
        Some (DataString hexStr) \<Rightarrow>
          (case hex_DecodeString (TrimPrefix hexStr ''0x'') of
             None \<Rightarrow> []
           | Some decoded \<Rightarrow> (case te_UnpackRevert E decoded of Some reason \<Rightarrow> reason | None \<Rightarrow> []))
      | _ \<Rightarrow> [])"

definition getFailingMessage :: "'z tool_env_scheme \<Rightarrow> bytes32 \<Rightarrow> string tool" where
  "getFailingMessage E hash =
     attempt (ask (\<lambda>t. te_TransactionByHash E t hash)) (\<lambda>tx.
     attempt (lift (te_Sender E tx)) (\<lambda>from.
     handle (ask (\<lambda>t. te_CallContract E t \<lparr>rm_From = from, rm_To = ti_To tx, rm_Gas = ti_Gas tx,
                 rm_GasPrice = Some (ti_GasPrice tx), rm_Value = Some (ti_Value tx), rm_Data = ti_Data tx\<rparr>))
       (\<lambda>err. ret (if decodeRevertFromError E err \<noteq> [] then decodeRevertFromError E err else re_text err))
       (\<lambda>res. ret (case te_UnpackRevert E res of
                     Some reason \<Rightarrow> reason
                   | None \<Rightarrow> if res \<noteq> [] then ''0x'' @ hex_EncodeToString res else ''unknown revert reason''))))"

definition CheckTx :: "'z tool_env_scheme \<Rightarrow> bytes32 \<Rightarrow> Receipt tool" where
  "CheckTx E tx =
     attempt_wrap (''transaction not mined within 2 minutes (tx: '' @ Hash_Hex tx @ ''): '')
       (ask (\<lambda>t. te_WaitMined E t tx)) (\<lambda>receipt.
     if rc_Status receipt = 0 then
       attempt (getFailingMessage E tx) (\<lambda>reason. throw (''error: Transaction fail: '' @ reason))
     else ret receipt)"

text \<open>The fields of \<open>Addresses\<close> as reflection sees them: name, JSON tag, and the field itself.\<close>

definition Addresses_fields :: "(string \<times> string \<times> (address \<Rightarrow> Addresses \<Rightarrow> Addresses)) list" where
  "Addresses_fields =
     [(''FlareSystemManager'', ''FlareSystemsManager'', \<lambda>a d. d\<lparr>ad_FlareSystemManager := a\<rparr>),
      (''Fdc2Hub'', ''Fdc2Hub'', \<lambda>a d. d\<lparr>ad_Fdc2Hub := a\<rparr>),
      (''FlareTeeManager'', ''FlareTeeManager'', \<lambda>a d. d\<lparr>ad_FlareTeeManager := a\<rparr>)]"

definition fieldMap :: "string \<rightharpoonup> (address \<Rightarrow> Addresses \<Rightarrow> Addresses)" where
  "fieldMap = map_of (rev (map (\<lambda>(name, tag, dest). (if tag = [] \<or> tag = ''-'' then name else tag, dest)) Addresses_fields))"

definition zero_Addresses :: Addresses where
  "zero_Addresses = \<lparr>ad_FlareSystemManager = 0, ad_Fdc2Hub = 0, ad_FlareTeeManager = 0\<rparr>"

definition store_address :: "'z tool_env_scheme \<Rightarrow> RawContract \<Rightarrow> Addresses \<Rightarrow> Addresses" where
  "store_address E c addrs =
     (case fieldMap (raw_Name c) of Some dest \<Rightarrow> dest (te_HexToAddress E (raw_Address c)) addrs | None \<Rightarrow> addrs)"

definition ParseAddresses :: "'z tool_env_scheme \<Rightarrow> string \<Rightarrow> Addresses tool" where
  "ParseAddresses E filePath =
     handle (os_ReadFile E filePath) (\<lambda>e. throw (read_error_text filePath e)) (\<lambda>file.
     attempt (lift (te_json_Contracts E file)) (\<lambda>raw. ret (fold (store_address E) raw zero_Addresses)))"

definition ReadAddresses :: "'z tool_env_scheme \<Rightarrow> string \<Rightarrow> Addresses tool" where
  "ReadAddresses E filePath =
     handle (os_ReadFile E filePath) (\<lambda>e. throw (read_error_text filePath e)) (\<lambda>file. lift (te_json_Addresses E file))"

definition PrvWithFunds_hex :: string where
  "PrvWithFunds_hex = ''804b01a8c27a65cc694a867be76edae3ccce7a7161cda1f67a8349df696d2207''"

text \<open>The variable is read after \<open>godotenv.Load\<close>; the dev key is the package variable set by \<open>init\<close>.\<close>

definition DefaultPrivateKey :: "'z tool_env_scheme \<Rightarrow> privkey \<Rightarrow> privkey tool" where
  "DefaultPrivateKey E PrvWithFunds =
     attempt (ask (\<lambda>t. Inr (te_Getenv E t ''DEPLOYMENT_PRIVATE_KEY''))) (\<lambda>s.
     if s = [] then ret PrvWithFunds
     else lift (te_HexToECDSA E (if HasPrefix s ''0x'' \<or> HasPrefix s ''0X'' then drop 2 s else s)))"

record Support =
  sp_Prv :: privkey
  sp_FlareSystemManager :: address
  sp_Fdc2Hub :: address
  sp_TeeMachineRegistry :: address
  sp_TeeWalletProjectManager :: address
  sp_TeeWalletManager :: address
  sp_TeeWalletKeyManager :: address
  sp_TeeVerification :: address
  sp_TeeExtensionRegistry :: address
  sp_TeeExtensionGovernance :: address
  sp_TeeOwnerAllowlist :: address
  sp_Addresses :: Addresses
  sp_ChainID :: int

definition NewSupport :: "'z tool_env_scheme \<Rightarrow> privkey \<Rightarrow> Addresses \<Rightarrow> Support tool" where
  "NewSupport E prv addresses =
     (let diamond = ad_FlareTeeManager addresses in
      attempt (lift (te_Bind E MachineManager diamond)) (\<lambda>tr.
      attempt (lift (te_Bind E WalletManager diamond)) (\<lambda>twm.
      attempt (lift (te_Bind E WalletKeyManager diamond)) (\<lambda>twkm.
      attempt (lift (te_Bind E WalletProjectManager diamond)) (\<lambda>twpm.
      attempt (lift (te_Bind E FlareSystemsManager (ad_FlareSystemManager addresses))) (\<lambda>sm.
      attempt (lift (te_Bind E Fdc2HubFacet (ad_Fdc2Hub addresses))) (\<lambda>ftdc.
      attempt (lift (te_Bind E Verification diamond)) (\<lambda>tv.
      attempt (lift (te_Bind E ExtensionManager diamond)) (\<lambda>ter.
      attempt (lift (te_Bind E OwnerAllowlist diamond)) (\<lambda>toal.
      attempt (lift (te_Bind E ExtensionGovernance diamond)) (\<lambda>teg.
      attempt (ask (te_ChainID E)) (\<lambda>chainID.
      ret \<lparr>sp_Prv = prv, sp_FlareSystemManager = sm, sp_Fdc2Hub = ftdc, sp_TeeMachineRegistry = tr,
           sp_TeeWalletProjectManager = twpm, sp_TeeWalletManager = twm, sp_TeeWalletKeyManager = twkm,
           sp_TeeVerification = tv, sp_TeeExtensionRegistry = ter, sp_TeeExtensionGovernance = teg,
           sp_TeeOwnerAllowlist = toal, sp_Addresses = addresses, sp_ChainID = chainID\<rparr>))))))))))))"

definition DefaultSupport :: "'z tool_env_scheme \<Rightarrow> privkey \<Rightarrow> string \<Rightarrow> string \<Rightarrow> Support tool" where
  "DefaultSupport E PrvWithFunds AddressesFilePath chainNodeURL =
     attempt (handle (ReadAddresses E AddressesFilePath) (\<lambda>_. ParseAddresses E AddressesFilePath) ret) (\<lambda>addr.
     attempt (ask (\<lambda>t. te_Dial E t chainNodeURL)) (\<lambda>_.
     attempt (DefaultPrivateKey E PrvWithFunds) (\<lambda>privKey. NewSupport E privKey addr)))"

section \<open>Reasoning about runs\<close>

named_theorems run_iff \<open>what a run with a given result consists of\<close>
named_theorems within_intros \<open>computations that stay within a relation of worlds\<close>

lemma run_ret [run_iff]: "ret x w = (r, w') \<longleftrightarrow> r = Inr x \<and> w' = w"
  by (auto simp: ret_def)

lemma run_throw [run_iff]: "throw e w = (r, w') \<longleftrightarrow> r = Inl e \<and> w' = w"
  by (auto simp: throw_def)

lemma run_lift [run_iff]: "lift r w = (r', w') \<longleftrightarrow> r = r' \<and> w' = w"
  by (auto simp: lift_def)

lemma run_ask [run_iff]: "ask f w = (r, w') \<longleftrightarrow> f (w_now w) = r \<and> w' = w\<lparr>w_now := w_now w + 1\<rparr>"
  by (auto simp: ask_def)

lemma run_sleep [run_iff]: "sleep n w = (r, w') \<longleftrightarrow> r = Inr () \<and> w' = w\<lparr>w_slept := w_slept w + n\<rparr>"
  by (auto simp: sleep_def)

lemma run_handle [run_iff]:
  "handle m h k w = (r, w'') \<longleftrightarrow>
     (\<exists>e w'. m w = (Inl e, w') \<and> h e w' = (r, w'')) \<or> (\<exists>x w'. m w = (Inr x, w') \<and> k x w' = (r, w''))"
  by (auto simp: handle_def split: prod.splits sum.splits)

lemma run_attempt [run_iff]:
  "attempt m k w = (Inr y, w'') \<longleftrightarrow> (\<exists>x w'. m w = (Inr x, w') \<and> k x w' = (Inr y, w''))"
  "attempt m k w = (Inl e, w'') \<longleftrightarrow> m w = (Inl e, w'') \<or> (\<exists>x w'. m w = (Inr x, w') \<and> k x w' = (Inl e, w''))"
  by (auto simp: attempt_def run_iff)

lemma run_attempt_wrap [run_iff]:
  "attempt_wrap p m k w = (Inr y, w'') \<longleftrightarrow> (\<exists>x w'. m w = (Inr x, w') \<and> k x w' = (Inr y, w''))"
  "attempt_wrap p m k w = (Inl e, w'') \<longleftrightarrow>
     (\<exists>e'. m w = (Inl e', w'') \<and> e = p @ e') \<or> (\<exists>x w'. m w = (Inr x, w') \<and> k x w' = (Inl e, w''))"
  by (auto simp: attempt_wrap_def run_iff)

lemma run_transact [run_iff]:
  "transact E opts c w = (Inr h, w') \<longleftrightarrow>
     te_Transact E (w_now w) opts c = Inr h \<and> w' = w\<lparr>w_now := w_now w + 1, w_sent := w_sent w @ [(opts, c)]\<rparr>"
  by (auto simp: transact_def split: sum.splits)

definition within :: "('w \<Rightarrow> 'w \<Rightarrow> bool) \<Rightarrow> ('w, 'e, 'a) computation \<Rightarrow> bool" where
  "within R m \<longleftrightarrow> (\<forall>w. R w (snd (m w)))"

text \<open>A preorder of worlds: a computation stays within it when its parts do.\<close>

locale run_relation =
  fixes R :: "'w \<Rightarrow> 'w \<Rightarrow> bool"
  assumes refl: "R w w"
    and comp: "R w w' \<Longrightarrow> R w' w'' \<Longrightarrow> R w w''"
begin

lemma within_ret [within_intros]: "within R (ret x)"
  by (simp add: within_def ret_def refl)

lemma within_throw [within_intros]: "within R (throw x)"
  by (simp add: within_def throw_def refl)

lemma within_lift [within_intros]: "within R (lift r)"
  by (simp add: within_def lift_def refl)

lemma within_if [within_intros]: "(b \<Longrightarrow> within R m) \<Longrightarrow> (\<not> b \<Longrightarrow> within R n) \<Longrightarrow> within R (if b then m else n)"
  by simp

lemma within_handle [within_intros]:
  assumes "within R m" and "\<And>e. within R (h e)" and "\<And>x. within R (k x)"
  shows "within R (handle m h k)"
proof -
  have "R w (snd (handle m h k w))" for w
  proof (cases "m w")
    case (Pair r w')
    with assms(1) have "R w w'" by (auto simp: within_def dest: spec [of _ w])
    moreover have "R w' (snd (handle m h k w))"
      using assms(2,3) by (cases r) (simp_all add: handle_def Pair within_def)
    ultimately show ?thesis by (rule comp)
  qed
  then show ?thesis by (simp add: within_def)
qed

lemma within_attempt [within_intros]: "within R m \<Longrightarrow> (\<And>x. within R (k x)) \<Longrightarrow> within R (attempt m k)"
  unfolding attempt_def by (intro within_handle within_throw)

lemma within_attempt_wrap [within_intros]:
  "within R m \<Longrightarrow> (\<And>x. within R (k x)) \<Longrightarrow> within R (attempt_wrap p m k)"
  unfolding attempt_wrap_def by (intro within_handle within_throw)

end

text \<open>One that asking, waiting and reading files respect, for the tools' world.\<close>

locale world_relation = run_relation R for R :: "world \<Rightarrow> world \<Rightarrow> bool" +
  assumes quiet: "w_sent w' = w_sent w \<Longrightarrow> w_files w' = w_files w \<Longrightarrow> R w w'"
begin

lemma within_ask [within_intros]: "within R (ask f)"
  by (simp add: within_def ask_def quiet)

lemma within_sleep [within_intros]: "within R (sleep n)"
  by (simp add: within_def sleep_def quiet)

lemma within_ReadFile [within_intros]: "within R (os_ReadFile E path)"
  by (simp add: within_def os_ReadFile_def quiet)

lemma within_SimulateAndDecodeRevert [within_intros]: "within R (SimulateAndDecodeRevert E from to val d)"
  unfolding SimulateAndDecodeRevert_def by (intro within_intros)

lemma within_getFailingMessage [within_intros]: "within R (getFailingMessage E h)"
  unfolding getFailingMessage_def by (intro within_intros)

lemma within_CheckTx [within_intros]: "within R (CheckTx E h)"
  unfolding CheckTx_def by (intro within_intros)

end

text \<open>Sending only transactions of a given kind and leaving the files alone.\<close>

definition sends :: "contract_call set \<Rightarrow> world \<Rightarrow> world \<Rightarrow> bool" where
  "sends T w w' \<longleftrightarrow> w_files w' = w_files w \<and> (\<exists>new. w_sent w' = w_sent w @ new \<and> snd ` set new \<subseteq> T)"

interpretation sending: world_relation "sends T" for T
  by unfold_locales (force simp: sends_def)+

lemma within_transact [within_intros]: "c \<in> T \<Longrightarrow> within (sends T) (transact E opts c)"
  by (auto simp: within_def sends_def transact_def split: sum.splits)

lemma withinD: "within R m \<Longrightarrow> m w = (r, w') \<Longrightarrow> R w w'"
  unfolding within_def by (metis snd_conv)

section \<open>What the support functions deliver\<close>

text \<open>A receipt is delivered exactly for a transaction that was mined and did not fail.\<close>

lemma CheckTx_Inr [run_iff]:
  "CheckTx E tx w = (Inr r, w') \<longleftrightarrow>
     te_WaitMined E (w_now w) tx = Inr r \<and> rc_Status r \<noteq> 0 \<and> w' = w\<lparr>w_now := w_now w + 1\<rparr>"
  by (auto simp: CheckTx_def run_iff split: if_splits)

text \<open>Every TEE facet is bound to the diamond, and the key and chain are those of the caller and the node.\<close>

lemma NewSupport_Inr:
  assumes "NewSupport E prv addresses w = (Inr s, w')"
    and "\<And>f a b. te_Bind E f a = Inr b \<Longrightarrow> b = a"
  shows "sp_Prv s = prv \<and> te_ChainID E (w_now w) = Inr (sp_ChainID s) \<and> sp_Addresses s = addresses \<and>
     {sp_TeeMachineRegistry s, sp_TeeWalletManager s, sp_TeeWalletKeyManager s, sp_TeeWalletProjectManager s,
      sp_TeeVerification s, sp_TeeExtensionRegistry s, sp_TeeOwnerAllowlist s, sp_TeeExtensionGovernance s} =
        {ad_FlareTeeManager addresses} \<and>
     sp_FlareSystemManager s = ad_FlareSystemManager addresses \<and> sp_Fdc2Hub s = ad_Fdc2Hub addresses"
  using assms by (auto simp: NewSupport_def Let_def run_iff dest!: assms(2))

text \<open>A later entry of an address file overrides an earlier one, unknown names are ignored, and a field that
  is never named stays zero.\<close>

definition last_named :: "'z tool_env_scheme \<Rightarrow> string \<Rightarrow> RawContract list \<Rightarrow> address" where
  "last_named E n raw =
     (let cs = filter (\<lambda>c. raw_Name c = n) raw in if cs = [] then 0 else te_HexToAddress E (raw_Address (last cs)))"

lemma fieldMap_simps:
  "fieldMap n = (if n = ''FlareSystemsManager'' then Some (\<lambda>a d. d\<lparr>ad_FlareSystemManager := a\<rparr>)
     else if n = ''Fdc2Hub'' then Some (\<lambda>a d. d\<lparr>ad_Fdc2Hub := a\<rparr>)
     else if n = ''FlareTeeManager'' then Some (\<lambda>a d. d\<lparr>ad_FlareTeeManager := a\<rparr>) else None)"
  by (simp add: fieldMap_def Addresses_fields_def)

lemma last_named_snoc:
  "last_named E n (raw @ [c]) = (if raw_Name c = n then te_HexToAddress E (raw_Address c) else last_named E n raw)"
  by (simp add: last_named_def Let_def)

lemma ParseAddresses_last_wins:
  "fold (store_address E) raw zero_Addresses =
     \<lparr>ad_FlareSystemManager = last_named E ''FlareSystemsManager'' raw, ad_Fdc2Hub = last_named E ''Fdc2Hub'' raw,
      ad_FlareTeeManager = last_named E ''FlareTeeManager'' raw\<rparr>"
proof (induction raw rule: rev_induct)
  case Nil
  then show ?case by (simp add: zero_Addresses_def last_named_def)
next
  case (snoc c raw)
  then show ?case by (simp add: store_address_def fieldMap_simps last_named_snoc)
qed

text \<open>The name found for a revert does not depend on the order of the map iteration, as long as no two
  errors of the ABI share a selector.\<close>

lemma find_perm:
  assumes "mset xs = mset ys" and "\<And>x y. x \<in> set xs \<Longrightarrow> y \<in> set xs \<Longrightarrow> P x \<Longrightarrow> P y \<Longrightarrow> x = y"
  shows "find P xs = find P ys"
proof (cases "find P xs")
  case None
  then have "\<not> (\<exists>x. x \<in> set ys \<and> P x)" using mset_eq_setD [OF assms(1)] by (simp add: find_None_iff)
  with None show ?thesis by (metis find_None_iff)
next
  case (Some x)
  then have x: "x \<in> set ys" "P x" using mset_eq_setD [OF assms(1)] by (auto simp: find_Some_iff)
  then obtain y where "find P ys = Some y" by (metis find_None_iff option.exhaust)
  moreover from this have "y \<in> set xs" "P y" using mset_eq_setD [OF assms(1)] by (auto simp: find_Some_iff)
  ultimately show ?thesis using assms(2) Some x mset_eq_setD [OF assms(1)] by metis
qed

lemma MatchCustomError_order_independent:
  assumes "mset errs = mset errs'"
    and "inj_on (\<lambda>e. take 4 (bytes_of_bytes32 (ae_ID e))) (set errs)"
  shows "MatchCustomError errs s = MatchCustomError errs' s"
proof -
  have "find (\<lambda>e. take 4 (bytes_of_bytes32 (ae_ID e)) = d) errs = find (\<lambda>e. take 4 (bytes_of_bytes32 (ae_ID e)) = d) errs'" for d
    using assms by (intro find_perm) (auto dest: inj_onD)
  then show ?thesis unfolding MatchCustomError_def by (simp only:)
qed

end
