(* ===== verification/Registration.thy ===== *)
theory Registration
  imports Tools
begin

text \<open>
  Registration of a TEE machine, \<open>tools/pkg/fccutils\<close>: the resumable flow of \<open>registration.go\<close> with its
  state file, the node calls of \<open>tee_calls.go\<close> and \<open>common.go\<close>, the constants and decoders of
  \<open>encoding.go\<close>, the signing policy gate of \<open>policy_consistency.go\<close> and the revert diagnosis of
  \<open>diag.go\<close>. The contract bindings, the TEE node's types and the JSON decoders are fields of \<open>node_env\<close>.
\<close>

section \<open>Node data and environment\<close>

record TeeInfoData =
  tn_PublicKey :: PublicKey
  tn_ChainID :: int
  tn_LastSigningPolicyID :: u32
  tn_rest :: bytes

record MachineData =
  nm_ExtensionID :: bytes32
  nm_InitialOwner :: address
  nm_CodeHash :: bytes32
  nm_Platform :: bytes32
  nm_PublicKey :: PublicKey
  nm_GovernanceHash :: bytes32

record SignedTeeInfoResponse =
  sn_TeeInfo :: TeeInfoData
  sn_Attestation :: string
  sn_MachineData :: MachineData
  sn_DataSignature :: bytes
  sn_ProxySignature :: bytes

record ProveResponse =
  pr_ResponseHeader :: bytes
  pr_RequestBody :: bytes
  pr_ResponseBody :: bytes
  pr_DataProviderSignatures :: "bytes list"

record registrationState =
  rs_CompletedSteps :: string
  rs_TeeAttestInstructionID :: bytes32
  rs_InstructionID :: bytes32

record node_env = tool_env +
  ne_GetTeeMachine :: "tick \<Rightarrow> address \<Rightarrow> string + address"
  ne_RewardEpochId :: "tick \<Rightarrow> string + int option"
  ne_json_TeeInfo :: "http_resp \<Rightarrow> string + SignedTeeInfoResponse"
  ne_json_ActionResponse :: "http_resp \<Rightarrow> string + node_result"
  ne_json_ProveResponse :: "bytes \<Rightarrow> string + ProveResponse"
  ne_json_State :: "bytes \<Rightarrow> string + registrationState"
  ne_json_ProxyURL :: "string \<Rightarrow> string + bytes"
  ne_ParsePubKey :: "PublicKey \<Rightarrow> string + PublicKey"
  ne_PubkeyToAddress :: "PublicKey \<Rightarrow> address"
  ne_TeeInfoHash :: "TeeInfoData \<Rightarrow> string + bytes"
  ne_BytesToHash :: "bytes \<Rightarrow> bytes32"
  ne_ProxyTeeInfoHash :: "int \<Rightarrow> bytes32 \<Rightarrow> string + bytes32"
  ne_FromHex :: "string \<Rightarrow> bytes"
  ne_TextHash :: "bytes \<Rightarrow> bytes"
  ne_SigToPub :: "bytes \<Rightarrow> bytes \<Rightarrow> string + PublicKey"
  ne_ParseClaims :: "string \<Rightarrow> string + (string + bytes32) \<times> (string + bytes32)"
  ne_RSVtoVRS :: "bytes \<Rightarrow> string + u8 \<times> bytes32 \<times> bytes32"
  ne_ParseTeeInstructionsSent :: "Log \<Rightarrow> string + bytes32"
  ne_ParseTeeAttestationRequested :: "Log \<Rightarrow> string + bytes32"
  ne_Abi :: "facet \<Rightarrow> string + abi_error list"
  ne_Pack :: "contract_call \<Rightarrow> string + bytes"
  ne_DecodeResponse :: "bytes \<Rightarrow> string + bytes"
  ne_DecodeRequestBody :: "bytes \<Rightarrow> string + bytes \<times> address"
  ne_DecodeResponseBody :: "bytes \<Rightarrow> string + AvailabilityResponse"

section \<open>Node calls\<close>

definition PlatformIntel :: bytes32 where
  "PlatformIntel = 0x4743505f494e54454c5f54445800000000000000000000000000000000000000"
definition PlatformAMD :: bytes32 where
  "PlatformAMD = 0x4743505f414d445f534556000000000000000000000000000000000000000000"
definition PlatformAMDESEV :: bytes32 where
  "PlatformAMDESEV = 0x4743505f414d445f5345565f4553000000000000000000000000000000000000"
definition TestPlatform :: bytes32 where
  "TestPlatform = 0x544553545f504c4154464f524d00000000000000000000000000000000000000"
definition TeeCodeHash :: bytes32 where
  "TeeCodeHash = 0x194844cf417dde867073e5ab7199fa4d21fd82b5dbe2bdea8b3d7fc18d10fdc2"

definition DecodeFTDCTeeAvailabilityCheckRequest :: "node_env \<Rightarrow> bytes \<Rightarrow> string + bytes \<times> address" where
  "DecodeFTDCTeeAvailabilityCheckRequest E data = ne_DecodeRequestBody E data"

definition DecodeFTDCTeeAvailabilityCheckResponse :: "node_env \<Rightarrow> bytes \<Rightarrow> string + AvailabilityResponse" where
  "DecodeFTDCTeeAvailabilityCheckResponse E data = ne_DecodeResponseBody E data"

definition repeats :: nat where
  "repeats = 15"

text \<open>The status code of the answer is not looked at.\<close>

definition TeeInfo :: "node_env \<Rightarrow> string \<Rightarrow> SignedTeeInfoResponse tool" where
  "TeeInfo E nodeURL =
     attempt (ask (\<lambda>t. te_Get E t (nodeURL @ ''/info''))) (\<lambda>result. lift (ne_json_TeeInfo E result))"

definition CodeHashAndPlatform :: "node_env \<Rightarrow> string \<Rightarrow> (bytes32 \<times> bytes32) tool" where
  "CodeHashAndPlatform E attestationString =
     attempt (lift (ne_ParseClaims E attestationString)) (\<lambda>(codeHash, platform).
     attempt (lift codeHash) (\<lambda>c. attempt (lift platform) (\<lambda>p. ret (c, p))))"

definition TeeProxyId :: "node_env \<Rightarrow> SignedTeeInfoResponse \<Rightarrow> (address \<times> address) tool" where
  "TeeProxyId E teeInfo =
     attempt (lift (ne_ParsePubKey E (tn_PublicKey (sn_TeeInfo teeInfo)))) (\<lambda>pubKey.
     attempt (lift (ne_TeeInfoHash E (sn_TeeInfo teeInfo))) (\<lambda>hash.
     attempt (lift (ne_ProxyTeeInfoHash E (tn_ChainID (sn_TeeInfo teeInfo)) (ne_BytesToHash E hash))) (\<lambda>infoSignHash.
     attempt (lift (ne_SigToPub E (ne_TextHash E (bytes_of_bytes32 infoSignHash)) (sn_ProxySignature teeInfo))) (\<lambda>proxyPubKey.
     ret (ne_PubkeyToAddress E pubKey, ne_PubkeyToAddress E proxyPubKey)))))"

definition poll_ok :: "string + http_resp \<Rightarrow> bool" where
  "poll_ok r = (case r of Inl _ \<Rightarrow> False | Inr resp \<Rightarrow> hr_StatusCode resp = 200)"

text \<open>The loop of \<open>ActionResult\<close>: the answer of the last request made.\<close>

fun poll_loop :: "node_env \<Rightarrow> string \<Rightarrow> nat \<Rightarrow> string + http_resp \<Rightarrow> http_resp tool" where
  "poll_loop E url 0 prev w = (prev, w)"
| "poll_loop E url (Suc n) prev w =
     (let r = te_Get E (w_now w) url; w' = w\<lparr>w_now := w_now w + 1\<rparr> in
      if poll_ok r then (r, w') else poll_loop E url n r (w'\<lparr>w_slept := w_slept w' + 2\<rparr>))"

definition ActionResult :: "node_env \<Rightarrow> string \<Rightarrow> bytes32 \<Rightarrow> node_result tool" where
  "ActionResult E nodeURL actionID =
     attempt (poll_loop E (nodeURL @ ''/action/result/'' @ Hash_Hex actionID) repeats (Inl [])) (\<lambda>result.
     if hr_StatusCode result \<noteq> 200 then throw (''action result status not ok, got: '' @ dec_int (hr_StatusCode result))
     else lift (ne_json_ActionResponse E result))"

definition SetProxyUrl :: "node_env \<Rightarrow> int \<Rightarrow> int \<Rightarrow> unit tool" where
  "SetProxyUrl E configurationPort proxyPort =
     attempt (lift (ne_json_ProxyURL E (''http://localhost:'' @ dec_int proxyPort))) (\<lambda>body.
     attempt (ask (\<lambda>t. te_Post E t (''http://localhost:'' @ dec_int configurationPort @ ''/proxy'') body)) (\<lambda>resp.
     if hr_StatusCode resp \<noteq> 200 then throw (''unexpected status code: '' @ dec_int (hr_StatusCode resp)) else ret ()))"

definition GetTeeProxyID :: "node_env \<Rightarrow> string \<Rightarrow> (address \<times> address) tool" where
  "GetTeeProxyID E proxyURL = attempt (TeeInfo E proxyURL) (TeeProxyId E)"

definition GetCodeHashAndPlatform :: "node_env \<Rightarrow> SignedTeeInfoResponse \<Rightarrow> (bytes32 \<times> bytes32) tool" where
  "GetCodeHashAndPlatform E teeInfo =
     attempt (ask (\<lambda>t. Inr (te_Getenv E t ''SIMULATED_TEE''))) (\<lambda>v.
     attempt (if v = ''true'' then ret (TeeCodeHash, TestPlatform) else CodeHashAndPlatform E (sn_Attestation teeInfo))
       (\<lambda>(codeHash, platform).
     if codeHash \<noteq> nm_CodeHash (sn_MachineData teeInfo) then
       throw (''code hashes do not match: '' @ Hash_Hex codeHash @ '', '' @ Hash_Hex (nm_CodeHash (sn_MachineData teeInfo)))
     else if platform \<noteq> nm_Platform (sn_MachineData teeInfo) then
       throw (''platforms do not matc: '' @ Hash_Hex platform @ '', '' @ Hash_Hex (nm_Platform (sn_MachineData teeInfo)))
     else ret (codeHash, platform)))"

definition HashArrayToBytes32Array :: "bytes32 list \<Rightarrow> bytes32 list" where
  "HashArrayToBytes32Array hashes = map (\<lambda>h. h) hashes"

section \<open>The signing policy gate\<close>

definition policyInSync :: "u64 \<Rightarrow> u64 \<Rightarrow> bool" where
  "policyInSync onchainEpoch proxyPolicyID \<longleftrightarrow> proxyPolicyID = onchainEpoch \<or> proxyPolicyID = onchainEpoch + 1"

definition outOfSyncError :: "u64 \<Rightarrow> u64 \<Rightarrow> string" where
  "outOfSyncError onchainEpoch proxyPolicyID =
     (let rel = (if proxyPolicyID < onchainEpoch
                 then ''proxy is '' @ dec_nat (unat (onchainEpoch - proxyPolicyID)) @ '' epoch(s) behind''
                 else ''proxy is '' @ dec_nat (unat (proxyPolicyID - onchainEpoch)) @ '' epoch(s) ahead'') in
      ''FTDC proxy signing policy out of sync with on-chain reward epoch'' @
      '': proxy signing policy '' @ dec_nat (unat proxyPolicyID) @ '' vs on-chain current reward epoch '' @
      dec_nat (unat onchainEpoch) @ '' ('' @ rel @ ''); '' @
      ''data providers will reject the availability check with 404 '' @ [CHR 0x22] @ ''no round'' @ [CHR 0x22] @ ''; '' @
      ''wait for the proxy to catch up to the current signing policy, or check the proxy's '' @
      ''initial_signing_policy_offset and C-chain indexer sync'')"

definition CheckFTDCProxyPolicyConsistency :: "node_env \<Rightarrow> string \<Rightarrow> unit tool" where
  "CheckFTDCProxyPolicyConsistency E ftdcProxyURL =
     handle (ask (ne_RewardEpochId E)) (\<lambda>_. ret ()) (\<lambda>onchain.
     case onchain of
       None \<Rightarrow> ret ()
     | Some n \<Rightarrow>
       handle (TeeInfo E ftdcProxyURL) (\<lambda>_. ret ()) (\<lambda>info.
         let onchainEpoch = of_int n; proxyPolicyID = ucast (tn_LastSigningPolicyID (sn_TeeInfo info)) in
         if \<not> policyInSync onchainEpoch proxyPolicyID then throw (outOfSyncError onchainEpoch proxyPolicyID) else ret ()))"

section \<open>Diagnosis of a reverted availability check\<close>

definition ExtractRevertData :: "node_env \<Rightarrow> rpc_err \<Rightarrow> bytes" where
  "ExtractRevertData E err =
     (case re_data err of
        Some (DataString d) \<Rightarrow> ne_FromHex E d
      | Some (DataBytes d) \<Rightarrow> d
      | _ \<Rightarrow> [])"

text \<open>What the diagnosis logs.\<close>

datatype diagnosis =
    DiagLoadAbi string
  | DiagPack string
  | DiagSucceeded
  | DiagNoData string
  | DiagTooShort bytes
  | DiagReason string
  | DiagArgsFailed string string string bytes
  | DiagError string string string
  | DiagUnknown bytes bytes

definition diag_sources :: "(string \<times> facet) list" where
  "diag_sources = [(''Verification'', Verification), (''Fdc2Hub'', Fdc2HubFacet),
     (''MachineManager'', MachineManager), (''ExtensionManager'', ExtensionManager)]"

definition diag_custom :: "string \<Rightarrow> abi_error \<Rightarrow> bytes \<Rightarrow> diagnosis" where
  "diag_custom src e revertData =
     (case ae_Inputs e (drop 4 revertData) of
        Inl unpackErr \<Rightarrow> DiagArgsFailed src (ae_name e) unpackErr revertData
      | Inr args \<Rightarrow> DiagError src (ae_name e) args)"

fun diag_lookup :: "node_env \<Rightarrow> (string \<times> facet) list \<Rightarrow> bytes \<Rightarrow> diagnosis" where
  "diag_lookup E [] revertData = DiagUnknown (take 4 revertData) revertData"
| "diag_lookup E ((name, md) # srcs) revertData =
     (case ne_Abi E md of
        Inl _ \<Rightarrow> diag_lookup E srcs revertData
      | Inr errs \<Rightarrow>
        (case find (\<lambda>e. take 4 (bytes_of_bytes32 (ae_ID e)) = take 4 revertData) errs of
           Some e \<Rightarrow> diag_custom name e revertData
         | None \<Rightarrow> diag_lookup E srcs revertData))"

definition diagnose :: "node_env \<Rightarrow> rpc_err \<Rightarrow> diagnosis" where
  "diagnose E callErr =
     (let revertData = ExtractRevertData E callErr in
      if revertData = [] then DiagNoData (re_text callErr)
      else if length revertData < 4 then DiagTooShort revertData
      else case (if take 4 revertData = [0x08, 0xc3, 0x79, 0xa0] then te_UnpackRevert E revertData else None) of
        Some reason \<Rightarrow> DiagReason reason
      | None \<Rightarrow> diag_lookup E diag_sources revertData)"

definition diagAvailabilityCheckRevert :: "node_env \<Rightarrow> Support \<Rightarrow> TransactOpts \<Rightarrow> contract_call \<Rightarrow> ('e, diagnosis) comp" where
  "diagAvailabilityCheckRevert E s opts c =
     (case ne_Abi E Verification of
        Inl err \<Rightarrow> ret (DiagLoadAbi err)
      | Inr _ \<Rightarrow>
        (case ne_Pack E c of
           Inl err \<Rightarrow> ret (DiagPack err)
         | Inr calldata \<Rightarrow>
           handle (ask (\<lambda>t. te_CallContract E t \<lparr>rm_From = te_PubkeyToAddress E (sp_Prv s),
                      rm_To = Some (ad_FlareTeeManager (sp_Addresses s)), rm_Gas = 0, rm_GasPrice = None,
                      rm_Value = Some (op_Value opts), rm_Data = calldata\<rparr>))
             (\<lambda>callErr. ret (diagnose E callErr)) (\<lambda>_. ret DiagSucceeded)))"

section \<open>Registration steps\<close>

definition registration_fee :: int where
  "registration_fee = 1000000000"

definition NewTransactor :: "node_env \<Rightarrow> privkey \<Rightarrow> int \<Rightarrow> int \<Rightarrow> TransactOpts tool" where
  "NewTransactor E prv chainID v =
     attempt (lift (te_NewKeyedTransactor E prv chainID)) (\<lambda>from. ret \<lparr>op_From = from, op_Value = v\<rparr>)"

definition machine_data :: "SignedTeeInfoResponse \<Rightarrow> TeeMachineData" where
  "machine_data teeInfo = (let d = sn_MachineData teeInfo in
     \<lparr>md_ExtensionId = uint (nm_ExtensionID d), md_InitialOwner = nm_InitialOwner d, md_CodeHash = nm_CodeHash d,
      md_Platform = nm_Platform d, md_PublicKey = nm_PublicKey d, md_GovernanceHash = nm_GovernanceHash d\<rparr>)"

text \<open>The reason given when \<open>register()\<close> is refused.\<close>

definition register_revert_reason :: "node_env \<Rightarrow> Support \<Rightarrow> TransactOpts \<Rightarrow> contract_call \<Rightarrow> rpc_err \<Rightarrow> ('e, string) comp" where
  "register_revert_reason E s opts c err =
     attempt
       (case (ne_Abi E MachineManager, ne_Pack E c) of
          (Inr parsed, Inr callData) \<Rightarrow>
            attempt (SimulateAndDecodeRevert E (te_PubkeyToAddress E (sp_Prv s)) (ad_FlareTeeManager (sp_Addresses s))
                       (Some (op_Value opts)) callData) (\<lambda>raw.
            ret (if MatchCustomError parsed raw \<noteq> [] then MatchCustomError parsed raw
                 else if DecodeRevertReason E err = [] then raw else DecodeRevertReason E err))
        | _ \<Rightarrow> ret (DecodeRevertReason E err))
       (\<lambda>reason. ret (if reason = [] then re_text err else reason))"

definition PreRegistration ::
  "node_env \<Rightarrow> Support \<Rightarrow> string \<Rightarrow> address \<Rightarrow> SignedTeeInfoResponse \<Rightarrow> (bytes32 \<times> bytes32) tool" where
  "PreRegistration E s hostURL proxyID teeInfo =
     attempt (NewTransactor E (sp_Prv s) (sp_ChainID s) registration_fee) (\<lambda>opts.
     if length (sn_DataSignature teeInfo) \<noteq> 65 then throw ''signature error''
     else attempt (lift (ne_RSVtoVRS E (sn_DataSignature teeInfo))) (\<lambda>signature.
       let c = MachineRegister (machine_data teeInfo) signature proxyID hostURL (te_PubkeyToAddress E (sp_Prv s)) in
       attempt (handle (transact E opts c)
                  (\<lambda>err. attempt (register_revert_reason E s opts c err) (\<lambda>reason. throw (''register() reverted: '' @ reason)))
                  ret) (\<lambda>tx.
       attempt (CheckTx E tx) (\<lambda>receipt.
       if length (rc_Logs receipt) < 2 then throw ''unexpected logs, this should not happen''
       else
         attempt_wrap ''failed to parse TeeAttestationRequested event: ''
           (lift (ne_ParseTeeAttestationRequested E (rc_Logs receipt ! 1))) (\<lambda>challenge.
         attempt_wrap ''failed to parse TeeInstructionsSent event: ''
           (lift (ne_ParseTeeInstructionsSent E (rc_Logs receipt ! 0))) (\<lambda>instructionID.
         ret (challenge, instructionID)))))))"

definition RequestTeeAttestation :: "node_env \<Rightarrow> Support \<Rightarrow> address \<Rightarrow> bytes32 tool" where
  "RequestTeeAttestation E s teeID =
     attempt (NewTransactor E (sp_Prv s) (sp_ChainID s) registration_fee) (\<lambda>opts.
     attempt (handle (transact E opts (RequestTeeAttestationTx teeID (te_PubkeyToAddress E (sp_Prv s))))
                (\<lambda>err. throw (''error: '' @ re_text err)) ret) (\<lambda>tx.
     attempt (CheckTx E tx) (\<lambda>receipt.
     if length (rc_Logs receipt) < 2 then throw ''unexpected logs, this should not happen''
     else attempt_wrap ''failed to parse TeeInstructionsSent event: ''
            (lift (ne_ParseTeeInstructionsSent E (rc_Logs receipt ! 0))) ret)))"

definition RequestFTDCAvailabilityCheck :: "node_env \<Rightarrow> Support \<Rightarrow> address \<Rightarrow> address \<Rightarrow> bytes32 \<Rightarrow> bytes32 tool" where
  "RequestFTDCAvailabilityCheck E s teeID externalTeeID teeAttestInstructionID =
     attempt (NewTransactor E (sp_Prv s) (sp_ChainID s) registration_fee) (\<lambda>opts.
     let claimBackAddress = te_PubkeyToAddress E (sp_Prv s);
         c = RequestAvailabilityCheckTx teeID teeAttestInstructionID externalTeeID claimBackAddress claimBackAddress in
     attempt (handle (transact E opts c)
                (\<lambda>err. attempt (diagAvailabilityCheckRevert E s opts c) (\<lambda>_. throw (re_text err))) ret) (\<lambda>tx.
     attempt (CheckTx E tx) (\<lambda>receipt.
     if rc_Logs receipt = [] then throw ''no logs found in receipt''
     else attempt_wrap ''failed to parse TeeInstructionsSent event: ''
            (lift (ne_ParseTeeInstructionsSent E (rc_Logs receipt ! 0))) ret)))"

definition GetFTDCAvailabilityCheckResult :: "node_env \<Rightarrow> string \<Rightarrow> bytes32 \<Rightarrow> AvailabilityProof tool" where
  "GetFTDCAvailabilityCheckResult E hostURL instructionId =
     attempt (ActionResult E hostURL instructionId) (\<lambda>result.
     attempt (lift (ne_json_ProveResponse E (nr_Data result))) (\<lambda>ftdcProof.
     attempt (lift (ne_DecodeResponse E (pr_ResponseHeader ftdcProof))) (\<lambda>header.
     attempt (lift (DecodeFTDCTeeAvailabilityCheckRequest E (pr_RequestBody ftdcProof))) (\<lambda>(request, teeId).
     attempt (lift (DecodeFTDCTeeAvailabilityCheckResponse E (pr_ResponseBody ftdcProof))) (\<lambda>response.
     ret \<lparr>ap_SigningPolicySignatures = pr_DataProviderSignatures ftdcProof, ap_Header = header,
          ap_RequestBody = request, ap_RequestTeeId = teeId,
          ap_ResponseBody =
            \<lparr>av_Status = av_Status response, av_TeeTimestamp = av_TeeTimestamp response,
             av_CodeHash = av_CodeHash response, av_Platform = av_Platform response,
             av_InitialSigningPolicyId = av_InitialSigningPolicyId response,
             av_LastSigningPolicyId = av_LastSigningPolicyId response, av_State = av_State response\<rparr>\<rparr>)))))"

definition ToProduction :: "node_env \<Rightarrow> Support \<Rightarrow> AvailabilityProof \<Rightarrow> unit tool" where
  "ToProduction E s proof' =
     attempt (NewTransactor E (sp_Prv s) (sp_ChainID s) 0) (\<lambda>opts.
     attempt (handle (transact E opts (ToProductionTx proof')) (\<lambda>err. throw (re_text err)) ret) (\<lambda>tx.
     attempt (CheckTx E tx) (\<lambda>_.
     attempt (ask (\<lambda>t. ne_GetTeeMachine E t (ap_RequestTeeId proof'))) (\<lambda>teeId.
     if teeId \<noteq> ap_RequestTeeId proof' then throw ''tee machine not set up correctly'' else ret ()))))"

definition StringToBytes32 :: "string \<Rightarrow> string + bytes32" where
  "StringToBytes32 s =
     (if length s > 32 then Inl (''version '' @ go_quote s @ '' exceeds 32 bytes'')
      else Inr (bytes32_of_bytes (string_bytes s @ replicate (32 - length s) 0)))"

definition AddTeeVersion :: "node_env \<Rightarrow> Support \<Rightarrow> privkey \<Rightarrow> int \<Rightarrow> bytes32 \<Rightarrow> bytes32 \<Rightarrow> string \<Rightarrow> unit tool" where
  "AddTeeVersion E s privKey extensionId codeHash platform version =
     attempt (NewTransactor E privKey (sp_ChainID s) 0) (\<lambda>opts.
     attempt (lift (StringToBytes32 version)) (\<lambda>versionBytes.
     attempt (handle (transact E opts (AddTeeVersionTx extensionId versionBytes codeHash [platform]))
                (\<lambda>err. throw (''TeeExtensionRegistry.AddTeeVersion failed: '' @ re_text err)) ret) (\<lambda>tx.
     attempt (CheckTx E tx) (\<lambda>_. ret ()))))"

section \<open>The resumable flow\<close>

text \<open>The state file as \<open>json.MarshalIndent\<close> writes it.\<close>

definition state_field :: "string \<Rightarrow> string \<Rightarrow> string" where
  "state_field k v = ''  '' @ json_string k @ '': '' @ json_string v"

definition registrationState_json :: "registrationState \<Rightarrow> bytes" where
  "registrationState_json st = string_bytes (''{'' @ [CHR 0x0A] @
     state_field ''completed_steps'' (rs_CompletedSteps st) @ '','' @ [CHR 0x0A] @
     state_field ''tee_attest_instruction_id'' (Hash_Hex (rs_TeeAttestInstructionID st)) @ '','' @ [CHR 0x0A] @
     state_field ''instruction_id'' (Hash_Hex (rs_InstructionID st)) @ [CHR 0x0A] @ ''}'')"

definition empty_state :: registrationState where
  "empty_state = \<lparr>rs_CompletedSteps = [], rs_TeeAttestInstructionID = 0, rs_InstructionID = 0\<rparr>"

definition savedAvailabilityInstructionID :: "node_env \<Rightarrow> string \<Rightarrow> registrationState option \<Rightarrow> bytes32" where
  "savedAvailabilityInstructionID E instructionIDString state =
     (if instructionIDString \<noteq> [] then te_HexToHash E instructionIDString
      else case state of
        Some st \<Rightarrow> if Contains (rs_CompletedSteps st) ''a'' \<and> rs_InstructionID st \<noteq> 0 then rs_InstructionID st else 0
      | None \<Rightarrow> 0)"

definition loadState :: "node_env \<Rightarrow> string \<Rightarrow> registrationState tool" where
  "loadState E path =
     handle (os_ReadFile E path)
       (\<lambda>e. case e of NotExist \<Rightarrow> ret empty_state | ReadError m \<Rightarrow> throw (''failed to read state file: '' @ m))
       (\<lambda>data. attempt_wrap ''failed to parse state file: '' (lift (ne_json_State E data)) ret)"

definition saveState :: "node_env \<Rightarrow> string \<Rightarrow> registrationState \<Rightarrow> unit tool" where
  "saveState E path st = attempt_wrap ''failed to write state file: '' (os_WriteFile E path (registrationState_json st)) ret"

record register_args =
  ra_teeInfo :: SignedTeeInfoResponse
  ra_hostURL :: string
  ra_ftdcTeeURL :: string
  ra_ftdcTee :: address
  ra_command :: string
  ra_instructionID :: string

text \<open>Saving after a step: a failure to write is only logged.\<close>

definition save_progress :: "node_env \<Rightarrow> string \<Rightarrow> registrationState \<Rightarrow> unit tool" where
  "save_progress E path st = handle (saveState E path st) (\<lambda>_. ret ()) ret"

definition register_step :: "node_env \<Rightarrow> Support \<Rightarrow> register_args \<Rightarrow> address \<Rightarrow> address \<Rightarrow> bytes32 tool" where
  "register_step E s a teeID proxyID =
     (let pre = attempt (PreRegistration E s (ra_hostURL a) proxyID (ra_teeInfo a)) (\<lambda>(_, i). ret i) in
      handle (ask (\<lambda>t. ne_GetTeeMachine E t teeID)) (\<lambda>_. pre)
        (\<lambda>machine. if machine \<noteq> 0 then RequestTeeAttestation E s teeID else pre))"

definition step_r ::
  "node_env \<Rightarrow> Support \<Rightarrow> register_args \<Rightarrow> string \<Rightarrow> address \<Rightarrow> address \<Rightarrow> registrationState \<Rightarrow> (bytes32 \<times> registrationState) tool" where
  "step_r E s a path teeID proxyID st =
     (if Contains (ra_command a) ''r'' then
        attempt
          (if Contains (rs_CompletedSteps st) ''r'' then ret (rs_TeeAttestInstructionID st, st)
           else attempt (register_step E s a teeID proxyID) (\<lambda>i.
             let st' = st\<lparr>rs_CompletedSteps := rs_CompletedSteps st @ ''r'', rs_TeeAttestInstructionID := i\<rparr> in
             attempt (save_progress E path st') (\<lambda>_. ret (i, st'))))
          (\<lambda>r. attempt (sleep 1) (\<lambda>_. ret r))
      else ret (0, st))"

definition step_R ::
  "node_env \<Rightarrow> Support \<Rightarrow> register_args \<Rightarrow> string \<Rightarrow> address \<Rightarrow> bytes32 \<Rightarrow> registrationState \<Rightarrow> (bytes32 \<times> registrationState) tool" where
  "step_R E s a path teeID attestID st =
     (if Contains (ra_command a) ''R'' then
        attempt
          (if Contains (rs_CompletedSteps st) ''R'' then ret (rs_TeeAttestInstructionID st, st)
           else attempt (RequestTeeAttestation E s teeID) (\<lambda>i.
             let st' = st\<lparr>rs_CompletedSteps := rs_CompletedSteps st @ ''R'', rs_TeeAttestInstructionID := i\<rparr> in
             attempt (save_progress E path st') (\<lambda>_. ret (i, st'))))
          (\<lambda>r. attempt (sleep 1) (\<lambda>_. ret r))
      else ret (attestID, st))"

definition step_a ::
  "node_env \<Rightarrow> Support \<Rightarrow> register_args \<Rightarrow> string \<Rightarrow> address \<Rightarrow> bytes32 \<Rightarrow> registrationState \<Rightarrow> (bytes32 \<times> registrationState) tool" where
  "step_a E s a path teeID attestID st =
     (if Contains (ra_command a) ''a'' then
        attempt
          (if Contains (rs_CompletedSteps st) ''a'' then ret (rs_InstructionID st, st)
           else attempt (CheckFTDCProxyPolicyConsistency E (ra_ftdcTeeURL a)) (\<lambda>_.
             attempt (RequestFTDCAvailabilityCheck E s teeID (ra_ftdcTee a) attestID) (\<lambda>i.
             let st' = st\<lparr>rs_CompletedSteps := rs_CompletedSteps st @ ''a'', rs_InstructionID := i\<rparr> in
             attempt (save_progress E path st') (\<lambda>_. ret (i, st')))))
          (\<lambda>r. attempt (sleep 1) (\<lambda>_. ret r))
      else ret (savedAvailabilityInstructionID E (ra_instructionID a) (Some st), st))"

definition step_p :: "node_env \<Rightarrow> Support \<Rightarrow> register_args \<Rightarrow> bytes32 \<Rightarrow> unit tool" where
  "step_p E s a instructionID =
     (if Contains (ra_command a) ''p'' then
        attempt (GetFTDCAvailabilityCheckResult E (ra_ftdcTeeURL a) instructionID) (ToProduction E s)
      else ret ())"

definition RegisterNode :: "node_env \<Rightarrow> Support \<Rightarrow> register_args \<Rightarrow> string \<Rightarrow> unit tool" where
  "RegisterNode E s a stateFilePath =
     attempt (TeeProxyId E (ra_teeInfo a)) (\<lambda>(teeID, proxyID).
     attempt (loadState E stateFilePath) (\<lambda>state.
     attempt (step_r E s a stateFilePath teeID proxyID state) (\<lambda>(attestID, state).
     attempt (step_R E s a stateFilePath teeID attestID state) (\<lambda>(attestID, state).
     attempt (step_a E s a stateFilePath teeID attestID state) (\<lambda>(instructionID, state).
     attempt (step_p E s a instructionID) (\<lambda>_. os_Remove E stateFilePath))))))"

end
