(* ===== verification/RegistrationSafety.thy ===== *)
theory RegistrationSafety
  imports Registration "HOL-Library.Sublist"
begin

text \<open>
  What the registration flow guarantees: polling is bounded and takes the first good answer, the policy gate
  blocks exactly confirmed mismatches, a failed registration can be resumed without repeating a completed
  step, and a complete registration sends exactly its four transactions, chained by the ids the chain
  announced.
\<close>

section \<open>Polling\<close>

definition poll_at :: "node_env \<Rightarrow> string \<Rightarrow> tick \<Rightarrow> nat \<Rightarrow> string + http_resp" where
  "poll_at E url t k = te_Get E (t + k) url"

text \<open>The first good answer among the polls that start at tick \<open>t\<close>.\<close>

definition first_ok :: "node_env \<Rightarrow> string \<Rightarrow> tick \<Rightarrow> nat \<Rightarrow> bool" where
  "first_ok E url t k \<longleftrightarrow> poll_ok (poll_at E url t k) \<and> (\<forall>j < k. \<not> poll_ok (poll_at E url t j))"

lemma first_ok_simps:
  "first_ok E url t 0 \<longleftrightarrow> poll_ok (te_Get E t url)"
  "first_ok E url t (Suc k) \<longleftrightarrow> \<not> poll_ok (te_Get E t url) \<and> first_ok E url (Suc t) k"
  by (auto simp: first_ok_def poll_at_def All_less_Suc2)

lemma poll_loop_again:
  "\<not> poll_ok (te_Get E (w_now w) url) \<Longrightarrow> poll_loop E url (Suc n) prev w =
     poll_loop E url n (te_Get E (w_now w) url) (w\<lparr>w_now := w_now w + 1, w_slept := w_slept w + 2\<rparr>)"
  by (simp add: Let_def)

lemma poll_loop_result:
  assumes "poll_loop E url (Suc n) prev w = (r, w')"
  shows "w_sent w' = w_sent w \<and> w_files w' = w_files w \<and> w_now w' \<le> w_now w + Suc n \<and> w_slept w' \<le> w_slept w + 2 * Suc n \<and>
     (\<forall>resp. r = Inr resp \<and> hr_StatusCode resp = 200 \<longleftrightarrow>
        (\<exists>k < Suc n. first_ok E url (w_now w) k \<and> poll_at E url (w_now w) k = Inr resp))"
  using assms
proof (induction n arbitrary: prev w)
  case 0
  then show ?case by (auto simp: Let_def first_ok_simps poll_at_def poll_ok_def split: if_splits sum.splits)
next
  case (Suc n)
  show ?case
  proof (cases "poll_ok (te_Get E (w_now w) url)")
    case True
    with Suc.prems show ?thesis
      by (subst Ex_less_Suc2) (auto simp: Let_def first_ok_simps poll_at_def poll_ok_def split: sum.splits)
  next
    case False
    with Suc.prems have "poll_loop E url (Suc n) (te_Get E (w_now w) url)
        (w\<lparr>w_now := w_now w + 1, w_slept := w_slept w + 2\<rparr>) = (r, w')" by (simp only: poll_loop_again [OF False])
    from Suc.IH [OF this] False show ?thesis
      by (subst Ex_less_Suc2) (simp add: first_ok_simps poll_at_def)
  qed
qed

text \<open>Polling for a result is bounded. \<open>ActionResult\<close> makes at most 15 requests and sleeps at most 30
  seconds, touches nothing else, and succeeds exactly when one of its polls is answered 200 and the first
  such answer decodes; it then returns that answer.\<close>

theorem ActionResult_polls:
  "case ActionResult E nodeURL i w of (r, w') \<Rightarrow>
     w_now w' \<le> w_now w + 15 \<and> w_slept w' \<le> w_slept w + 30 \<and> w_sent w' = w_sent w \<and> w_files w' = w_files w \<and>
     (\<forall>d. r = Inr d \<longleftrightarrow>
        (\<exists>k resp. k < 15 \<and> first_ok E (nodeURL @ ''/action/result/'' @ Hash_Hex i) (w_now w) k \<and>
           poll_at E (nodeURL @ ''/action/result/'' @ Hash_Hex i) (w_now w) k = Inr resp \<and>
           ne_json_ActionResponse E resp = Inr d))"
proof -
  let ?url = "nodeURL @ ''/action/result/'' @ Hash_Hex i"
  obtain r w' where pl: "poll_loop E ?url (Suc 14) (Inl []) w = (r, w')"
    by (cases "poll_loop E ?url (Suc 14) (Inl []) w")
  have n: "Suc 14 = 15" "repeats = Suc 14" by (simp_all add: repeats_def)
  have "ActionResult E nodeURL i w = (case r of Inl e \<Rightarrow> Inl e
     | Inr resp \<Rightarrow> if hr_StatusCode resp \<noteq> 200 then Inl (''action result status not ok, got: '' @ dec_int (hr_StatusCode resp))
                  else ne_json_ActionResponse E resp, w')"
    unfolding ActionResult_def attempt_def handle_def n(2) pl by (cases r) (simp_all add: throw_def lift_def)
  moreover have "(\<exists>resp. (r = Inr resp \<and> hr_StatusCode resp = 200) \<and> ne_json_ActionResponse E resp = Inr d) \<longleftrightarrow>
     (\<exists>k resp. k < 15 \<and> first_ok E ?url (w_now w) k \<and> poll_at E ?url (w_now w) k = Inr resp \<and> ne_json_ActionResponse E resp = Inr d)" for d
    using poll_loop_result [OF pl] unfolding n(1) by blast
  ultimately show ?thesis using poll_loop_result [OF pl] by (cases r) auto
qed

section \<open>The policy gate\<close>

text \<open>The gate fails exactly on a confirmed mismatch: both lookups answered, and the proxy's policy is neither
  the current reward epoch nor the next one, modulo the width of \<open>uint64\<close>.\<close>

lemma policy_gate:
  "(\<exists>e w'. CheckFTDCProxyPolicyConsistency E url w = (Inl e, w')) \<longleftrightarrow>
     (\<exists>n resp info. ne_RewardEpochId E (w_now w) = Inr (Some n) \<and>
        te_Get E (w_now w + 1) (url @ ''/info'') = Inr resp \<and> ne_json_TeeInfo E resp = Inr info \<and>
        uint (tn_LastSigningPolicyID (sn_TeeInfo info)) \<notin> {n mod 2 ^ 64, (n + 1) mod 2 ^ 64})"
proof -
  have sync: "policyInSync (of_int n) (ucast p) \<longleftrightarrow> uint p \<in> {n mod 2 ^ 64, (n + 1) mod 2 ^ 64}" for n and p :: u32
  proof -
    have "uint (ucast p :: u64) = uint p"
      by (simp add: unsigned_ucast_eq take_bit_int_eq_self order_less_le_trans [OF uint_lt2p])
    moreover have "uint (of_int n :: u64) = n mod 2 ^ 64" "uint (of_int n + 1 :: u64) = (n + 1) mod 2 ^ 64"
      by (simp_all add: uint_word_ariths unsigned_of_int take_bit_eq_mod mod_simps)
    ultimately show ?thesis unfolding policyInSync_def by (simp add: word_uint_eq_iff)
  qed
  show ?thesis
    by (auto simp: CheckFTDCProxyPolicyConsistency_def TeeInfo_def comp_defs sync Let_def split: option.splits sum.splits if_splits prod.splits)
qed

section \<open>What the requests leave behind\<close>

text \<open>A transaction that was sent and mined, and the instruction id its first log announces.\<close>

definition announced :: "node_env \<Rightarrow> TransactOpts \<Rightarrow> contract_call \<Rightarrow> bytes32 \<Rightarrow> bool" where
  "announced E opts c i \<longleftrightarrow>
     (\<exists>t h r. te_Transact E t opts c = Inr h \<and> te_WaitMined E (t + 1) h = Inr r \<and> rc_Status r \<noteq> 0 \<and>
        rc_Logs r \<noteq> [] \<and> ne_ParseTeeInstructionsSent E (rc_Logs r ! 0) = Inr i)"

definition sent_one :: "world \<Rightarrow> world \<Rightarrow> TransactOpts \<Rightarrow> contract_call \<Rightarrow> bool" where
  "sent_one w w' opts c \<longleftrightarrow> w_sent w' = w_sent w @ [(opts, c)] \<and> w_files w' = w_files w"

lemma NewTransactor_Inr [run_iff]:
  "NewTransactor E prv cid v w = (Inr o', w') \<longleftrightarrow>
     (\<exists>from. te_NewKeyedTransactor E prv cid = Inr from \<and> o' = \<lparr>op_From = from, op_Value = v\<rparr> \<and> w' = w)"
  by (auto simp: NewTransactor_def run_iff)

text \<open>The options every registration request is sent with.\<close>

definition fee_opts :: "node_env \<Rightarrow> Support \<Rightarrow> TransactOpts \<Rightarrow> bool" where
  "fee_opts E s opts \<longleftrightarrow> te_NewKeyedTransactor E (sp_Prv s) (sp_ChainID s) = Inr (op_From opts) \<and> op_Value opts = registration_fee"

lemma RequestTeeAttestation_Inr:
  assumes "RequestTeeAttestation E s teeID w = (Inr i, w')"
  shows "\<exists>opts. fee_opts E s opts \<and> sent_one w w' opts (RequestTeeAttestationTx teeID (te_PubkeyToAddress E (sp_Prv s))) \<and>
     announced E opts (RequestTeeAttestationTx teeID (te_PubkeyToAddress E (sp_Prv s))) i"
  using assms
  by (fastforce simp: RequestTeeAttestation_def run_iff fee_opts_def sent_one_def announced_def split: if_splits)

lemma RequestFTDCAvailabilityCheck_Inr:
  assumes "RequestFTDCAvailabilityCheck E s teeID ext att w = (Inr i, w')"
  defines "c \<equiv> RequestAvailabilityCheckTx teeID att ext (te_PubkeyToAddress E (sp_Prv s)) (te_PubkeyToAddress E (sp_Prv s))"
  shows "\<exists>opts. fee_opts E s opts \<and> sent_one w w' opts c \<and> announced E opts c i"
  using assms
  by (fastforce simp: RequestFTDCAvailabilityCheck_def Let_def run_iff fee_opts_def sent_one_def announced_def split: if_splits)

lemma PreRegistration_Inr:
  assumes "PreRegistration E s hostURL proxyID teeInfo w = (Inr (ch, i), w')"
  shows "\<exists>opts sig. fee_opts E s opts \<and> length (sn_DataSignature teeInfo) = 65 \<and> ne_RSVtoVRS E (sn_DataSignature teeInfo) = Inr sig \<and>
     (let c = MachineRegister (machine_data teeInfo) sig proxyID hostURL (te_PubkeyToAddress E (sp_Prv s)) in
      sent_one w w' opts c \<and> announced E opts c i)"
  using assms
  by (fastforce simp: PreRegistration_def Let_def run_iff fee_opts_def sent_one_def announced_def split: if_splits)

lemma ToProduction_Inr:
  assumes "ToProduction E s pf w = (Inr u, w')"
  shows "\<exists>opts t. te_NewKeyedTransactor E (sp_Prv s) (sp_ChainID s) = Inr (op_From opts) \<and> op_Value opts = 0 \<and>
     sent_one w w' opts (ToProductionTx pf) \<and> ne_GetTeeMachine E t (ap_RequestTeeId pf) = Inr (ap_RequestTeeId pf)"
  using assms by (fastforce simp: ToProduction_def run_iff sent_one_def split: if_splits)

section \<open>Resuming\<close>

definition wf_state :: "registrationState \<Rightarrow> bool" where
  "wf_state st \<longleftrightarrow> distinct (rs_CompletedSteps st) \<and> set (rs_CompletedSteps st) \<subseteq> set ''rRa''"

text \<open>Documented behaviour of the JSON package: what was marshalled is read back.\<close>

definition state_codec :: "node_env \<Rightarrow> bool" where
  "state_codec E \<longleftrightarrow> (\<forall>st. wf_state st \<longrightarrow> ne_json_State E (registrationState_json st) = Inr st)"

text \<open>State files that can be read back and written.\<close>

definition reliable_store :: "node_env \<Rightarrow> string \<Rightarrow> bool" where
  "reliable_store E path \<longleftrightarrow> state_codec E \<and> (\<forall>t. te_WriteFail E t path = None)"

text \<open>The state a run would load.\<close>

definition stored :: "node_env \<Rightarrow> string \<Rightarrow> world \<Rightarrow> registrationState \<Rightarrow> bool" where
  "stored E path w st \<longleftrightarrow>
     (case w_files w path of None \<Rightarrow> st = empty_state | Some d \<Rightarrow> ne_json_State E d = Inr st)"

text \<open>The transactions that belong to a step that is not completed yet.\<close>

fun tx_open :: "registrationState \<Rightarrow> contract_call \<Rightarrow> bool" where
  "tx_open st (MachineRegister d sig p u c) = (CHR ''r'' \<notin> set (rs_CompletedSteps st))"
| "tx_open st (RequestTeeAttestationTx t c) = (\<not> {CHR ''r'', CHR ''R''} \<subseteq> set (rs_CompletedSteps st))"
| "tx_open st (RequestAvailabilityCheckTx t i e p c) = (CHR ''a'' \<notin> set (rs_CompletedSteps st))"
| "tx_open st (ToProductionTx p) = True"
| "tx_open st _ = False"

text \<open>Later progress: completed steps stay, in order, with their ids.\<close>

definition state_le :: "registrationState \<Rightarrow> registrationState \<Rightarrow> bool" where
  "state_le st st' \<longleftrightarrow> prefix (rs_CompletedSteps st) (rs_CompletedSteps st') \<and>
     (CHR ''a'' \<in> set (rs_CompletedSteps st) \<longrightarrow> rs_InstructionID st' = rs_InstructionID st) \<and>
     ({CHR ''r'', CHR ''R''} \<subseteq> set (rs_CompletedSteps st) \<longrightarrow> rs_TeeAttestInstructionID st' = rs_TeeAttestInstructionID st)"

definition progressed :: "node_env \<Rightarrow> string \<Rightarrow> registrationState \<Rightarrow> world \<Rightarrow> world \<Rightarrow> registrationState \<Rightarrow> bool" where
  "progressed E path st w w' st' \<longleftrightarrow> wf_state st' \<and> stored E path w' st' \<and> state_le st st' \<and>
     (\<exists>new. w_sent w' = w_sent w @ new \<and> (\<forall>(opts, c) \<in> set new. tx_open st c))"

lemma Contains_single [simp]: "Contains s [c] \<longleftrightarrow> c \<in> set s"
  by (induction s) (auto simp: HasPrefix_def)

lemma state_le_refl: "state_le st st"
  by (simp add: state_le_def)

lemma state_le_trans: "state_le s t \<Longrightarrow> state_le t u \<Longrightarrow> state_le s u"
  unfolding state_le_def by (auto dest: set_mono_prefix)

lemma tx_open_le: "state_le st st' \<Longrightarrow> tx_open st' c \<Longrightarrow> tx_open st c"
  by (cases c) (auto simp: state_le_def dest: set_mono_prefix)

lemma progressed_trans:
  assumes "progressed E path s w w' t" and "progressed E path t w' w'' u"
  shows "progressed E path s w w'' u"
proof -
  from assms obtain new new' where "w_sent w' = w_sent w @ new" "\<forall>(opts, c) \<in> set new. tx_open s c"
    "w_sent w'' = w_sent w' @ new'" "\<forall>(opts, c) \<in> set new'. tx_open t c" "state_le s t"
    unfolding progressed_def by blast
  then have "w_sent w'' = w_sent w @ (new @ new') \<and> (\<forall>(opts, c) \<in> set (new @ new'). tx_open s c)"
    by (auto intro: tx_open_le)
  with assms show ?thesis unfolding progressed_def by (blast intro: state_le_trans)
qed

lemma sends_progressed:
  "wf_state st \<Longrightarrow> stored E path w st \<Longrightarrow> sends {c. tx_open st c} w w' \<Longrightarrow> progressed E path st w w' st"
  by (force simp: progressed_def sends_def stored_def state_le_refl)

lemma within_NewTransactor [within_intros]: "within (sends T) (NewTransactor E prv cid v)"
  unfolding NewTransactor_def by (intro within_intros)

lemma within_RequestTeeAttestation:
  "RequestTeeAttestationTx teeID (te_PubkeyToAddress E (sp_Prv s)) \<in> T \<Longrightarrow> within (sends T) (RequestTeeAttestation E s teeID)"
  unfolding RequestTeeAttestation_def by (intro within_intros within_transact)

lemma within_diag [within_intros]: "within (sends T) (diagAvailabilityCheckRevert E s opts c)"
  unfolding diagAvailabilityCheckRevert_def by (auto intro!: within_intros split: sum.split)

lemma within_RequestFTDCAvailabilityCheck:
  "RequestAvailabilityCheckTx teeID att ext (te_PubkeyToAddress E (sp_Prv s)) (te_PubkeyToAddress E (sp_Prv s)) \<in> T \<Longrightarrow>
     within (sends T) (RequestFTDCAvailabilityCheck E s teeID ext att)"
  unfolding RequestFTDCAvailabilityCheck_def Let_def by (intro within_intros within_transact)

lemma within_register_revert_reason [within_intros]: "within (sends T) (register_revert_reason E s opts c err)"
  unfolding register_revert_reason_def by (auto intro!: within_intros split: sum.split)

lemma within_PreRegistration:
  "(\<And>sig. MachineRegister (machine_data teeInfo) sig proxyID hostURL (te_PubkeyToAddress E (sp_Prv s)) \<in> T) \<Longrightarrow>
     within (sends T) (PreRegistration E s hostURL proxyID teeInfo)"
  unfolding PreRegistration_def Let_def by (intro within_intros within_transact)

lemma within_register_step:
  assumes "RequestTeeAttestationTx teeID (te_PubkeyToAddress E (sp_Prv s)) \<in> T"
    and "\<And>sig. MachineRegister (machine_data (ra_teeInfo a)) sig proxyID (ra_hostURL a) (te_PubkeyToAddress E (sp_Prv s)) \<in> T"
  shows "within (sends T) (register_step E s a teeID proxyID)"
  unfolding register_step_def Let_def
  by (intro within_intros within_PreRegistration within_RequestTeeAttestation assms) (auto intro: within_intros)

lemma within_TeeInfo [within_intros]: "within (sends T) (TeeInfo E url)"
  unfolding TeeInfo_def by (intro within_intros)

lemma within_policy [within_intros]: "within (sends T) (CheckFTDCProxyPolicyConsistency E url)"
  unfolding CheckFTDCProxyPolicyConsistency_def Let_def by (auto intro!: within_intros split: option.split)

lemma within_poll_loop: "within (sends T) (poll_loop E url repeats prev)"
proof -
  have "repeats = Suc 14" by (simp add: repeats_def)
  with poll_loop_result show ?thesis unfolding within_def sends_def
    by (metis append_Nil2 empty_subsetI image_empty list.set(1) surjective_pairing)
qed

lemma within_ActionResult [within_intros]: "within (sends T) (ActionResult E url i)"
  unfolding ActionResult_def by (intro within_intros within_poll_loop)

lemma within_proof_result [within_intros]: "within (sends T) (GetFTDCAvailabilityCheckResult E url i)"
  unfolding GetFTDCAvailabilityCheckResult_def by (intro within_intros) (auto intro!: within_intros)

lemma within_ToProduction: "ToProductionTx pf \<in> T \<Longrightarrow> within (sends T) (ToProduction E s pf)"
  unfolding ToProduction_def by (intro within_intros within_transact)

lemma within_TeeProxyId [within_intros]: "within (sends T) (TeeProxyId E teeInfo)"
  unfolding TeeProxyId_def by (intro within_intros)

lemma within_loadState [within_intros]: "within (sends T) (loadState E path)"
  unfolding loadState_def by (intro within_intros) (auto intro!: within_intros split: read_error.split)

text \<open>A checkpointed step: skipped when completed, otherwise performed and recorded.\<close>

lemma checkpoint_progressed:
  assumes st: "wf_state st" "stored E path w st"
    and env: "reliable_store E path"
    and req: "\<not> skip \<Longrightarrow> within (sends {c. tx_open st c}) req"
    and upd: "\<And>i. \<not> skip \<Longrightarrow> wf_state (upd i) \<and> state_le st (upd i)"
    and run: "attempt (if skip then ret (x, st)
                else attempt req (\<lambda>i. attempt (save_progress E path (upd i)) (\<lambda>_. ret (i, upd i))))
             (\<lambda>r. attempt (sleep 1) (\<lambda>_. ret r)) w = (r, w')"
  shows "\<exists>st'. progressed E path st w w' st' \<and> (\<forall>i st''. r = Inr (i, st'') \<longrightarrow> st'' = st')"
proof (cases skip)
  case True
  with run have "r = Inr (x, st)" "w' = w\<lparr>w_slept := w_slept w + 1\<rparr>" by (simp_all add: comp_defs)
  with st have "progressed E path st w w' st" by (auto intro!: sends_progressed simp: sends_def)
  with \<open>r = _\<close> show ?thesis by blast
next
  case False
  obtain r0 w0 where r0: "req w = (r0, w0)" by (cases "req w")
  with req [OF False] have "sends {c. tx_open st c} w w0" by (rule withinD)
  with st have p: "progressed E path st w w0 st" by (rule sends_progressed)
  show ?thesis
  proof (cases r0)
    case (Inl e)
    with run False r0 have "r = Inl e" "w' = w0" by (simp_all add: comp_defs)
    with p show ?thesis by blast
  next
    case (Inr i)
    with run False r0 env have r: "r = Inr (i, upd i)"
      "w' = w0\<lparr>w_now := w_now w0 + 1, w_files := (w_files w0)(path \<mapsto> registrationState_json (upd i)), w_slept := w_slept w0 + 1\<rparr>"
      by (simp_all add: comp_defs save_progress_def saveState_def os_WriteFile_def reliable_store_def)
    from upd [OF False] env have "stored E path w' (upd i)" by (simp add: stored_def r reliable_store_def state_codec_def)
    with upd [OF False] p r have "progressed E path st w w' (upd i)" unfolding progressed_def by simp
    with r(1) show ?thesis by blast
  qed
qed

text \<open>Computations that carry the state along, and computations whose failures keep what was reached.\<close>

definition tracked :: "node_env \<Rightarrow> string \<Rightarrow> registrationState \<Rightarrow> ('a \<times> registrationState) tool \<Rightarrow> bool" where
  "tracked E path st m \<longleftrightarrow> (\<forall>w r w'. wf_state st \<and> stored E path w st \<and> m w = (r, w') \<longrightarrow>
     (\<exists>st'. progressed E path st w w' st' \<and> (\<forall>x st''. r = Inr (x, st'') \<longrightarrow> st'' = st')))"

definition fails_tracked :: "node_env \<Rightarrow> string \<Rightarrow> registrationState \<Rightarrow> 'a tool \<Rightarrow> bool" where
  "fails_tracked E path st m \<longleftrightarrow> (\<forall>w e w'. wf_state st \<and> stored E path w st \<and> m w = (Inl e, w') \<longrightarrow>
     (\<exists>st'. progressed E path st w w' st'))"

lemma trackedI:
  "(\<And>w r w'. wf_state st \<Longrightarrow> stored E path w st \<Longrightarrow> m w = (r, w') \<Longrightarrow>
      \<exists>st'. progressed E path st w w' st' \<and> (\<forall>x st''. r = Inr (x, st'') \<longrightarrow> st'' = st')) \<Longrightarrow> tracked E path st m"
  by (simp add: tracked_def)

lemma trackedD:
  "tracked E path st m \<Longrightarrow> wf_state st \<Longrightarrow> stored E path w st \<Longrightarrow> m w = (r, w') \<Longrightarrow>
     \<exists>st'. progressed E path st w w' st' \<and> (\<forall>x st''. r = Inr (x, st'') \<longrightarrow> st'' = st')"
  by (simp add: tracked_def)

lemma fails_trackedD:
  "fails_tracked E path st m \<Longrightarrow> wf_state st \<Longrightarrow> stored E path w st \<Longrightarrow> m w = (Inl e, w') \<Longrightarrow>
     \<exists>st'. progressed E path st w w' st'"
  by (simp add: fails_tracked_def)

lemma progressed_stored: "progressed E path st w w' st' \<Longrightarrow> wf_state st' \<and> stored E path w' st'"
  by (simp add: progressed_def)

lemma tracked_then:
  assumes "tracked E path st m" and "\<And>x st'. fails_tracked E path st' (k x st')"
  shows "fails_tracked E path st (attempt m (\<lambda>(x, st). k x st))"
  unfolding fails_tracked_def
proof (intro allI impI, elim conjE)
  fix w e w'
  assume st: "wf_state st" "stored E path w st" and run: "attempt m (\<lambda>(x, st). k x st) w = (Inl e, w')"
  obtain r w1 where r: "m w = (r, w1)" by (cases "m w")
  obtain st' where p: "progressed E path st w w1 st'" "\<forall>x st''. r = Inr (x, st'') \<longrightarrow> st'' = st'"
    using trackedD [OF assms(1) st r] by blast
  show "\<exists>st'. progressed E path st w w' st'"
  proof (cases r)
    case (Inl e')
    with run r p show ?thesis by (auto simp: comp_defs)
  next
    case (Inr y)
    with p(2) obtain x where "y = (x, st')" by (cases y) auto
    with run r Inr have "k x st' w1 = (Inl e, w')" by (simp add: comp_defs)
    from fails_trackedD [OF assms(2) _ _ this] progressed_stored [OF p(1)] p(1) show ?thesis
      by (blast intro: progressed_trans)
  qed
qed

lemma sends_then:
  assumes "within (sends {c. tx_open st c}) m" and "\<And>x. fails_tracked E path st (k x)"
  shows "fails_tracked E path st (attempt m k)"
  unfolding fails_tracked_def
proof (intro allI impI, elim conjE)
  fix w e w'
  assume st: "wf_state st" "stored E path w st" and run: "attempt m k w = (Inl e, w')"
  obtain r w1 where r: "m w = (r, w1)" by (cases "m w")
  from sends_progressed [OF st withinD [OF assms(1) r]] have p: "progressed E path st w w1 st" .
  show "\<exists>st'. progressed E path st w w' st'"
  proof (cases r)
    case (Inl e')
    with run r p show ?thesis by (auto simp: comp_defs)
  next
    case (Inr x)
    with run r have "k x w1 = (Inl e, w')" by (simp add: comp_defs)
    from fails_trackedD [OF assms(2) _ _ this] progressed_stored [OF p] p show ?thesis
      by (blast intro: progressed_trans)
  qed
qed

lemma idle_progressed: "wf_state st \<Longrightarrow> stored E path w st \<Longrightarrow> progressed E path st w w st"
  by (rule sends_progressed) (auto simp: sends_def)

lemma step_r_progressed:
  assumes env: "reliable_store E path"
  shows "tracked E path st (step_r E s a path teeID proxyID st)"
proof (rule trackedI, goal_cases)
  case (1 w r w')
  note st = 1(1,2) and run = 1(3)
  show ?case
  proof (cases "CHR ''r'' \<in> set (ra_command a)")
    case True
    show ?thesis
      by (rule checkpoint_progressed [OF st env, where req = "register_step E s a teeID proxyID"
            and skip = "CHR ''r'' \<in> set (rs_CompletedSteps st)" and x = "rs_TeeAttestInstructionID st"
            and upd = "\<lambda>i. st\<lparr>rs_CompletedSteps := rs_CompletedSteps st @ ''r'', rs_TeeAttestInstructionID := i\<rparr>"])
        (use run st(1) True in \<open>auto intro!: within_register_step simp: step_r_def Let_def wf_state_def state_le_def\<close>)
  next
    case False
    with st run show ?thesis by (auto simp: step_r_def comp_defs intro: idle_progressed)
  qed
qed

lemma step_R_progressed:
  assumes env: "reliable_store E path"
  shows "tracked E path st (step_R E s a path teeID att st)"
proof (rule trackedI, goal_cases)
  case (1 w r w')
  note st = 1(1,2) and run = 1(3)
  show ?case
  proof (cases "CHR ''R'' \<in> set (ra_command a)")
    case True
    show ?thesis
      by (rule checkpoint_progressed [OF st env, where req = "RequestTeeAttestation E s teeID"
            and skip = "CHR ''R'' \<in> set (rs_CompletedSteps st)" and x = "rs_TeeAttestInstructionID st"
            and upd = "\<lambda>i. st\<lparr>rs_CompletedSteps := rs_CompletedSteps st @ ''R'', rs_TeeAttestInstructionID := i\<rparr>"])
        (use run st(1) True in \<open>auto intro!: within_RequestTeeAttestation simp: step_R_def Let_def wf_state_def state_le_def\<close>)
  next
    case False
    with st run show ?thesis by (auto simp: step_R_def comp_defs intro: idle_progressed)
  qed
qed

lemma step_a_progressed:
  assumes env: "reliable_store E path"
  shows "tracked E path st (step_a E s a path teeID att st)"
proof (rule trackedI, goal_cases)
  case (1 w r w')
  note st = 1(1,2) and run = 1(3)
  show ?case
  proof (cases "CHR ''a'' \<in> set (ra_command a)")
    case True
    have assoc: "attempt m (\<lambda>x. attempt n (k x)) = attempt (attempt m (\<lambda>_. n)) (\<lambda>y. k () y)" for m :: "unit tool" and n :: "bytes32 tool" and k :: "unit \<Rightarrow> bytes32 \<Rightarrow> (bytes32 \<times> registrationState) tool"
      by (rule ext) (auto simp: comp_defs split: sum.splits prod.splits)
    show ?thesis
      by (rule checkpoint_progressed [OF st env,
            where req = "attempt (CheckFTDCProxyPolicyConsistency E (ra_ftdcTeeURL a)) (\<lambda>_. RequestFTDCAvailabilityCheck E s teeID (ra_ftdcTee a) att)"
            and skip = "CHR ''a'' \<in> set (rs_CompletedSteps st)" and x = "rs_InstructionID st"
            and upd = "\<lambda>i. st\<lparr>rs_CompletedSteps := rs_CompletedSteps st @ ''a'', rs_InstructionID := i\<rparr>"])
        (use run st(1) True in \<open>auto intro!: within_intros within_RequestFTDCAvailabilityCheck simp: step_a_def Let_def wf_state_def state_le_def assoc\<close>)
  next
    case False
    with st run show ?thesis by (auto simp: step_a_def comp_defs intro: idle_progressed)
  qed
qed

lemma loadState_stored:
  "loadState E path w = (Inr st', w') \<Longrightarrow> stored E path w st \<Longrightarrow> st' = st \<and> w' = w\<lparr>w_now := w_now w + 1\<rparr>"
  by (auto simp: loadState_def run_iff os_ReadFile_def stored_def split: option.splits read_error.splits)

lemma within_step_p: "within (sends {c. tx_open st c}) (step_p E s a i)"
  unfolding step_p_def by (intro within_intros within_ToProduction) simp_all

lemma load_then:
  assumes "fails_tracked E path st (k st)"
  shows "fails_tracked E path st (attempt (loadState E path) k)"
  unfolding fails_tracked_def
proof (intro allI impI, elim conjE)
  fix w e w'
  assume st: "wf_state st" "stored E path w st" and run: "attempt (loadState E path) k w = (Inl e, w')"
  obtain r w1 where r: "loadState E path w = (r, w1)" by (cases "loadState E path w")
  from sends_progressed [OF st withinD [OF within_loadState r]] have p: "progressed E path st w w1 st" .
  show "\<exists>st'. progressed E path st w w' st'"
  proof (cases r)
    case (Inl e')
    with run r p show ?thesis by (auto simp: comp_defs)
  next
    case (Inr x)
    with loadState_stored r st have "x = st" by blast
    with run r Inr have "k st w1 = (Inl e, w')" by (simp add: comp_defs)
    from fails_trackedD [OF assms _ _ this] progressed_stored [OF p] p show ?thesis
      by (blast intro: progressed_trans)
  qed
qed

lemma remove_tracked: "fails_tracked E path st (os_Remove E path)"
  by (simp add: fails_tracked_def os_Remove_def)

lemma RegisterNode_failed:
  assumes "reliable_store E path"
  shows "fails_tracked E path st (RegisterNode E s a path)"
proof -
  note steps = step_r_progressed [OF assms] step_R_progressed [OF assms] step_a_progressed [OF assms]
  have "fails_tracked E path st (attempt (loadState E path) (\<lambda>state.
     attempt (step_r E s a path teeID proxyID state) (\<lambda>(attestID, state).
     attempt (step_R E s a path teeID attestID state) (\<lambda>(attestID, state).
     attempt (step_a E s a path teeID attestID state) (\<lambda>(instructionID, state).
     attempt (step_p E s a instructionID) (\<lambda>_. os_Remove E path))))))" for teeID proxyID
    by (intro load_then tracked_then steps sends_then within_step_p remove_tracked)
  then show ?thesis unfolding RegisterNode_def
    by (intro sends_then within_TeeProxyId) auto
qed

text \<open>Any number of registrations that end in an error, with whatever commands and supports.\<close>

inductive failed_runs :: "node_env \<Rightarrow> string \<Rightarrow> world \<Rightarrow> world \<Rightarrow> bool" for E path w where
  no_run: "failed_runs E path w w"
| run_again: "failed_runs E path w w' \<Longrightarrow> RegisterNode E s a path w' = (Inl e, w'') \<Longrightarrow> failed_runs E path w w''"

text \<open>A failed registration can be resumed. Over any number of failed runs on a state file that can be
  written and read back, the file keeps the steps completed so far, in order and without repetition, with
  the instruction ids they returned, and no run sends a transaction for a step that was completed before.\<close>

theorem registration_resumes:
  assumes "failed_runs E path w w'" and "reliable_store E path" and "wf_state st" and "stored E path w st"
  shows "\<exists>st'. stored E path w' st' \<and> wf_state st' \<and> state_le st st' \<and>
     (\<exists>new. w_sent w' = w_sent w @ new \<and> (\<forall>(opts, c) \<in> set new. tx_open st c))"
proof -
  from assms(1) have "\<exists>st'. progressed E path st w w' st'"
  proof (induction rule: failed_runs.induct)
    case no_run
    from idle_progressed [OF assms(3,4)] show ?case ..
  next
    case (run_again w' s a e w'')
    then obtain st' where p: "progressed E path st w w' st'" by blast
    from fails_trackedD [OF RegisterNode_failed [OF assms(2)] _ _ run_again.hyps(2)] progressed_stored [OF p] p
    show ?case by (blast intro: progressed_trans)
  qed
  then show ?thesis by (auto simp: progressed_def)
qed

section \<open>A complete registration\<close>

definition sender :: "node_env \<Rightarrow> Support \<Rightarrow> address" where
  "sender E s = te_PubkeyToAddress E (sp_Prv s)"

lemma save_progress_sent: "save_progress E path st w = (r, w') \<Longrightarrow> r = Inr () \<and> w_sent w' = w_sent w"
  by (auto simp: save_progress_def saveState_def os_WriteFile_def comp_defs split: option.splits prod.splits sum.splits)

lemma step_r_new:
  assumes "step_r E s a path teeID proxyID st w = (Inr (i, st'), w')"
    and "CHR ''r'' \<in> set (ra_command a)" and "CHR ''r'' \<notin> set (rs_CompletedSteps st)"
  shows "rs_CompletedSteps st' = rs_CompletedSteps st @ ''r'' \<and>
     (\<exists>opts c. w_sent w' = w_sent w @ [(opts, c)] \<and> fee_opts E s opts \<and> announced E opts c i \<and>
        (c = RequestTeeAttestationTx teeID (sender E s) \<or>
         (\<exists>sig. c = MachineRegister (machine_data (ra_teeInfo a)) sig proxyID (ra_hostURL a) (sender E s))))"
  using assms
  by (fastforce simp: step_r_def register_step_def Let_def run_iff sent_one_def sender_def split: if_splits
      dest: RequestTeeAttestation_Inr PreRegistration_Inr save_progress_sent)

lemma step_R_new:
  assumes "step_R E s a path teeID att st w = (Inr (i, st'), w')"
    and "CHR ''R'' \<in> set (ra_command a)" and "CHR ''R'' \<notin> set (rs_CompletedSteps st)"
  shows "rs_CompletedSteps st' = rs_CompletedSteps st @ ''R'' \<and>
     (\<exists>opts. w_sent w' = w_sent w @ [(opts, RequestTeeAttestationTx teeID (sender E s))] \<and> fee_opts E s opts \<and>
        announced E opts (RequestTeeAttestationTx teeID (sender E s)) i)"
  using assms
  by (fastforce simp: step_R_def Let_def run_iff sent_one_def sender_def dest: RequestTeeAttestation_Inr save_progress_sent)

lemma policy_gate_sent: "CheckFTDCProxyPolicyConsistency E url w = (r, w') \<Longrightarrow> w_sent w' = w_sent w"
  using withinD [OF within_policy [of "{}"]] by (fastforce simp: sends_def)

lemma step_a_new:
  assumes "step_a E s a path teeID att st w = (Inr (i, st'), w')"
    and "CHR ''a'' \<in> set (ra_command a)" and "CHR ''a'' \<notin> set (rs_CompletedSteps st)"
  shows "\<exists>opts. w_sent w' = w_sent w @ [(opts, RequestAvailabilityCheckTx teeID att (ra_ftdcTee a) (sender E s) (sender E s))] \<and>
     fee_opts E s opts \<and> announced E opts (RequestAvailabilityCheckTx teeID att (ra_ftdcTee a) (sender E s) (sender E s)) i"
  using assms
  by (fastforce simp: step_a_def Let_def run_iff sent_one_def sender_def
      dest: RequestFTDCAvailabilityCheck_Inr save_progress_sent policy_gate_sent)

lemma proof_result_sent: "GetFTDCAvailabilityCheckResult E url i w = (r, w') \<Longrightarrow> w_sent w' = w_sent w"
  using withinD [OF within_proof_result [of "{}"]] by (fastforce simp: sends_def)

lemma step_p_new:
  assumes "step_p E s a i w = (Inr u, w')" and "CHR ''p'' \<in> set (ra_command a)"
  shows "\<exists>opts pf t w1 w2. GetFTDCAvailabilityCheckResult E (ra_ftdcTeeURL a) i w1 = (Inr pf, w2) \<and>
     w_sent w' = w_sent w @ [(opts, ToProductionTx pf)] \<and>
     ne_GetTeeMachine E t (ap_RequestTeeId pf) = Inr (ap_RequestTeeId pf)"
  using assms
  by (fastforce simp: step_p_def run_iff sent_one_def dest: ToProduction_Inr proof_result_sent)

lemma quiet_sent:
  "TeeProxyId E teeInfo w = (r, w') \<Longrightarrow> w' = w"
  by (auto simp: TeeProxyId_def comp_defs split: sum.splits prod.splits)

lemma RegisterNode_Inr:
  assumes "RegisterNode E s a path w = (Inr (), w')"
  shows "\<exists>teeID proxyID w0 w1 st i1 st1 w2 i2 st2 w3 i3 st3 w4 w5.
     TeeProxyId E (ra_teeInfo a) w = (Inr (teeID, proxyID), w0) \<and> loadState E path w0 = (Inr st, w1) \<and>
     step_r E s a path teeID proxyID st w1 = (Inr (i1, st1), w2) \<and> step_R E s a path teeID i1 st1 w2 = (Inr (i2, st2), w3) \<and>
     step_a E s a path teeID i2 st2 w3 = (Inr (i3, st3), w4) \<and> step_p E s a i3 w4 = (Inr (), w5) \<and>
     (os_Remove E path :: unit tool) w5 = (Inr (), w')"
  using assms unfolding RegisterNode_def by (simp add: run_iff case_prod_beta) blast

text \<open>A complete registration. If a run of all four steps without a state file succeeds, it sent exactly
  four transactions, in this order: the pre-registration of this machine (or, for a machine already on
  chain, a fresh attestation request), an attestation request, an availability check that carries the id
  announced for that attestation request, and the promotion with the proof fetched for the id announced for
  the availability check; the first three pay the fee from the deployer's account, and the promoted machine
  was found on chain afterwards.\<close>

theorem complete_registration:
  assumes "RegisterNode E s a path w = (Inr (), w')" and "w_files w path = None"
    and "set ''rRap'' \<subseteq> set (ra_command a)"
  shows "\<exists>teeID proxyID o1 c1 o2 att o3 i o4 pf t w1 w2.
     TeeProxyId E (ra_teeInfo a) w = (Inr (teeID, proxyID), w) \<and>
     w_sent w' = w_sent w @ [(o1, c1), (o2, RequestTeeAttestationTx teeID (sender E s)),
       (o3, RequestAvailabilityCheckTx teeID att (ra_ftdcTee a) (sender E s) (sender E s)), (o4, ToProductionTx pf)] \<and>
     (c1 = RequestTeeAttestationTx teeID (sender E s) \<or>
      (\<exists>sig. c1 = MachineRegister (machine_data (ra_teeInfo a)) sig proxyID (ra_hostURL a) (sender E s))) \<and>
     fee_opts E s o1 \<and> fee_opts E s o2 \<and> fee_opts E s o3 \<and>
     announced E o2 (RequestTeeAttestationTx teeID (sender E s)) att \<and>
     announced E o3 (RequestAvailabilityCheckTx teeID att (ra_ftdcTee a) (sender E s) (sender E s)) i \<and>
     GetFTDCAvailabilityCheckResult E (ra_ftdcTeeURL a) i w1 = (Inr pf, w2) \<and>
     ne_GetTeeMachine E t (ap_RequestTeeId pf) = Inr (ap_RequestTeeId pf)"
proof -
  have cmd: "CHR ''r'' \<in> set (ra_command a)" "CHR ''R'' \<in> set (ra_command a)" "CHR ''a'' \<in> set (ra_command a)"
    "CHR ''p'' \<in> set (ra_command a)" using assms(3) by auto
  from assms(1) obtain teeID proxyID w0 w1 st i1 st1 w2 i2 st2 w3 i3 st3 w4 w5 where
    run: "TeeProxyId E (ra_teeInfo a) w = (Inr (teeID, proxyID), w0)" "loadState E path w0 = (Inr st, w1)"
      "step_r E s a path teeID proxyID st w1 = (Inr (i1, st1), w2)" "step_R E s a path teeID i1 st1 w2 = (Inr (i2, st2), w3)"
      "step_a E s a path teeID i2 st2 w3 = (Inr (i3, st3), w4)" "step_p E s a i3 w4 = (Inr (), w5)"
    and rm: "(os_Remove E path :: unit tool) w5 = (Inr (), w')"
    using RegisterNode_Inr [OF assms(1)] by blast
  have w0: "w0 = w" using quiet_sent run(1) .
  have st: "st = empty_state" and w1: "w_sent w1 = w_sent w"
    using loadState_stored [OF run(2), of empty_state] assms(2) by (simp_all add: stored_def w0)
  have "w_sent w' = w_sent w5" using rm by (auto simp: os_Remove_def)
  moreover from step_r_new [OF run(3) cmd(1)] st have r: "rs_CompletedSteps st1 = ''r''" by (simp add: empty_state_def)
  moreover from step_R_new [OF run(4) cmd(2)] r have "rs_CompletedSteps st2 = ''rR''" by simp
  ultimately show ?thesis
    using step_r_new [OF run(3) cmd(1)] step_R_new [OF run(4) cmd(2)] step_a_new [OF run(5) cmd(3)]
      step_p_new [OF run(6) cmd(4)] run(1) w0 w1 st
    by (fastforce simp: empty_state_def)
qed

section \<open>Resuming with the availability check alone\<close>

text \<open>Sending only transactions of a given kind, whatever happens to the files.\<close>

definition appends :: "contract_call set \<Rightarrow> world \<Rightarrow> world \<Rightarrow> bool" where
  "appends T w w' \<longleftrightarrow> (\<exists>new. w_sent w' = w_sent w @ new \<and> snd ` set new \<subseteq> T)"

interpretation appending: world_relation "appends T" for T
  by unfold_locales (force simp: appends_def)+

lemma within_appends: "within (sends T) m \<Longrightarrow> within (appends T) m"
  by (auto simp: within_def sends_def appends_def)

lemma within_appends_save: "within (appends T) (save_progress E path st)"
proof -
  have "w_sent (snd (save_progress E path st w)) = w_sent w" for w
    using save_progress_sent [of E path st w] by (cases "save_progress E path st w") simp
  then show ?thesis by (simp add: within_def appends_def)
qed

lemma within_appends_remove: "within (appends T) (os_Remove E path)"
  by (simp add: within_def appends_def os_Remove_def)

lemma attempt_ret [simp]: "attempt (ret x) k = k x"
  by (rule ext) (simp add: comp_defs)

text \<open>The attestation id is lost when the availability check is resumed on its own. A run whose command
  has neither the pre-registration nor the attestation step sends an availability check that carries the
  zero id, whatever id the state file holds.\<close>

theorem availability_alone_loses_id:
  assumes "RegisterNode E s a path w = (r, w')"
    and "CHR ''r'' \<notin> set (ra_command a)" and "CHR ''R'' \<notin> set (ra_command a)"
  shows "\<exists>new. w_sent w' = w_sent w @ new \<and>
     (\<forall>(opts, c) \<in> set new. (\<exists>t e o1 o2. c = RequestAvailabilityCheckTx t 0 e o1 o2) \<or> (\<exists>p. c = ToProductionTx p))"
proof -
  let ?T = "{c. (\<exists>t e o1 o2. c = RequestAvailabilityCheckTx t 0 e o1 o2) \<or> (\<exists>p. c = ToProductionTx p)}"
  have a: "within (appends ?T) (step_a E s a path teeID 0 st)" for teeID st
    unfolding step_a_def Let_def
    by (intro within_intros within_appends [OF within_policy] within_appends [OF within_RequestFTDCAvailabilityCheck]
        within_appends_save) simp
  have p: "within (appends ?T) (step_p E s a i)" for i
    unfolding step_p_def
    by (intro within_intros within_appends [OF within_proof_result] within_appends [OF within_ToProduction]) simp
  have skip: "step_r E s a path teeID proxyID st = ret (0, st)" "step_R E s a path teeID att st = ret (att, st)" for teeID proxyID st att
    using assms(2,3) by (simp_all add: step_r_def step_R_def)
  have "within (appends ?T) (RegisterNode E s a path)"
    unfolding RegisterNode_def case_prod_beta skip attempt_ret fst_conv snd_conv
    by (intro within_intros within_appends [OF within_TeeProxyId] within_appends [OF within_loadState] a p within_appends_remove)
  from withinD [OF this assms(1)] show ?thesis unfolding appends_def by force
qed

section \<open>A concrete node\<close>

text \<open>A reader for the state files that \<open>saveState\<close> writes.\<close>

definition bytes_string :: "bytes \<Rightarrow> string" where
  "bytes_string d = map (\<lambda>b. char_of (unat b)) d"

definition parse_hash :: "string \<Rightarrow> bytes32" where
  "parse_hash s = (case hex_DecodeString s of Some d \<Rightarrow> bytes32_of_bytes d | None \<Rightarrow> 0)"

definition parse_state :: "bytes \<Rightarrow> string + registrationState" where
  "parse_state d =
     (let s = drop 24 (bytes_string d); steps = takeWhile (\<lambda>c. c \<noteq> CHR 0x22) s;
          rest = drop (length steps + 37) s in
      Inr \<lparr>rs_CompletedSteps = steps, rs_TeeAttestInstructionID = parse_hash (take 64 rest),
           rs_InstructionID = parse_hash (take 64 (drop 90 rest))\<rparr>)"

lemma bytes_string_inverse [simp]: "bytes_string (string_bytes s) = s"
proof -
  have "char_of (unat (of_nat (of_char c) :: byte)) = c" for c :: char
    by (simp add: unat_of_nat take_bit_eq_mod)
  then show ?thesis by (simp add: bytes_string_def string_bytes_def o_def)
qed

lemma parse_hash_Hex: "parse_hash (hex_EncodeToString (bytes_of_bytes32 h)) = h"
  by (simp add: parse_hash_def hex_roundtrip)

lemma state_field_plain:
  "list_all json_plain k \<Longrightarrow> list_all json_plain v \<Longrightarrow>
     state_field k v = ''  '' @ [CHR 0x22] @ k @ [CHR 0x22] @ '': '' @ [CHR 0x22] @ v @ [CHR 0x22]"
  by (simp add: state_field_def json_string_plain)

lemma steps_plain: "set s \<subseteq> set ''rRa'' \<Longrightarrow> list_all json_plain s \<and> CHR 0x22 \<notin> set s"
proof -
  have "json_plain CHR ''r''" "json_plain CHR ''R''" "json_plain CHR ''a''" by code_simp+
  then show "set s \<subseteq> set ''rRa'' \<Longrightarrow> list_all json_plain s \<and> CHR 0x22 \<notin> set s"
    by (auto simp: list_all_iff)
qed

lemma Hash_Hex_plain: "list_all json_plain (Hash_Hex h)"
proof -
  have "json_plain CHR ''0''" "json_plain CHR ''x''" by code_simp+
  then show ?thesis by (simp add: Hash_Hex_def hex_EncodeToString_plain)
qed

lemma field_names_plain:
  "list_all json_plain ''completed_steps''" "list_all json_plain ''tee_attest_instruction_id''"
  "list_all json_plain ''instruction_id''"
  by code_simp+

lemma takeWhile_stop: "c \<notin> set s \<Longrightarrow> takeWhile (\<lambda>x. x \<noteq> c) (s @ c # rest) = s"
  by (induction s) auto

lemma parse_state_roundtrip: "wf_state st \<Longrightarrow> parse_state (registrationState_json st) = Inr st"
proof -
  assume "wf_state st"
  then have p: "list_all json_plain (rs_CompletedSteps st)" "CHR 0x22 \<notin> set (rs_CompletedSteps st)"
    using steps_plain by (auto simp: wf_state_def)
  note json = state_field_plain [OF field_names_plain(1) p(1)] state_field_plain [OF field_names_plain(2) Hash_Hex_plain]
    state_field_plain [OF field_names_plain(3) Hash_Hex_plain]
  show ?thesis
    unfolding parse_state_def registrationState_json_def json bytes_string_inverse Let_def
    by (simp add: takeWhile_stop p(2)) (simp add: Hash_Hex_def parse_hash_Hex)
qed

text \<open>A node and a chain on which everything works from tick 100 on; before that the proxy's policy is
  behind. Instruction ids and transaction hashes are the tick at which the transaction was sent.\<close>

definition demo_receipt :: "bytes32 \<Rightarrow> Receipt" where
  "demo_receipt h = (let l = \<lparr>lg_Address = 0, lg_Topics = [h], lg_Data = []\<rparr> in
     \<lparr>rc_Status = 1, rc_Logs = [l, l], rc_TxHash = h, rc_ContractAddress = 0\<rparr>)"

definition demo_key :: PublicKey where
  "demo_key = \<lparr>pk_X = 1, pk_Y = 2\<rparr>"

definition demo_info :: SignedTeeInfoResponse where
  "demo_info =
     \<lparr>sn_TeeInfo = \<lparr>tn_PublicKey = demo_key, tn_ChainID = 114, tn_LastSigningPolicyID = 5, tn_rest = []\<rparr>,
      sn_Attestation = [],
      sn_MachineData = \<lparr>nm_ExtensionID = 3, nm_InitialOwner = 7, nm_CodeHash = TeeCodeHash, nm_Platform = TestPlatform,
        nm_PublicKey = demo_key, nm_GovernanceHash = 0\<rparr>,
      sn_DataSignature = replicate 65 0, sn_ProxySignature = []\<rparr>"

definition demo_proof :: ProveResponse where
  "demo_proof = \<lparr>pr_ResponseHeader = [1], pr_RequestBody = [2], pr_ResponseBody = [3], pr_DataProviderSignatures = [[4]]\<rparr>"

definition demo_response :: AvailabilityResponse where
  "demo_response = \<lparr>av_Status = 0, av_TeeTimestamp = 1, av_CodeHash = TeeCodeHash, av_Platform = TestPlatform,
     av_InitialSigningPolicyId = 1, av_LastSigningPolicyId = 5, av_State = []\<rparr>"

definition demo_node :: node_env where
  "demo_node =
     \<lparr>te_Transact = \<lambda>t opts c. Inr (of_nat t),
      te_WaitMined = \<lambda>t h. Inr (demo_receipt h),
      te_TransactionByHash = \<lambda>t h. Inl ''not found'',
      te_Sender = \<lambda>tx. Inl ''invalid signature'',
      te_CallContract = \<lambda>t m. Inr [],
      te_ChainID = \<lambda>t. Inr 114,
      te_Dial = \<lambda>t url. Inr (),
      te_Bind = \<lambda>f a. Inr a,
      te_NewKeyedTransactor = \<lambda>k c. Inr 7,
      te_PubkeyToAddress = \<lambda>k. 7,
      te_UnpackRevert = \<lambda>d. None,
      te_Getenv = \<lambda>t v. if v = ''SIMULATED_TEE'' then ''true'' else if v = ''WORKPROOF_TREASURY'' then ''0xd'' else [],
      te_HexToECDSA = \<lambda>h. Inl ''invalid key'',
      te_HexToAddress = \<lambda>h. 13,
      te_HexToHash = \<lambda>h. 0,
      te_ReadFail = \<lambda>t p. None,
      te_WriteFail = \<lambda>t p. None,
      te_RemoveFail = \<lambda>t p. False,
      te_json_Addresses = \<lambda>d. Inr \<lparr>ad_FlareSystemManager = 1, ad_Fdc2Hub = 2, ad_FlareTeeManager = 3\<rparr>,
      te_json_Contracts = \<lambda>d. Inl ''invalid'',
      te_Get = \<lambda>t url. Inr \<lparr>hr_StatusCode = 200, hr_Body = [], hr_ReadErr = None\<rparr>,
      te_Post = \<lambda>t url d. Inr \<lparr>hr_StatusCode = 200, hr_Body = [], hr_ReadErr = None\<rparr>,
      ne_GetTeeMachine = \<lambda>t a. Inr (if t < 110 then 0 else a),
      ne_RewardEpochId = \<lambda>t. Inr (Some (if t < 100 then 9 else 5)),
      ne_json_TeeInfo = \<lambda>r. Inr demo_info,
      ne_json_ActionResponse = \<lambda>r. Inr \<lparr>nr_Status = 1, nr_Log = [], nr_Data = []\<rparr>,
      ne_json_ProveResponse = \<lambda>d. Inr demo_proof,
      ne_json_State = parse_state,
      ne_json_ProxyURL = \<lambda>u. Inr [],
      ne_ParsePubKey = Inr,
      ne_PubkeyToAddress = \<lambda>k. 11,
      ne_TeeInfoHash = \<lambda>i. Inr [],
      ne_BytesToHash = \<lambda>d. 0,
      ne_ProxyTeeInfoHash = \<lambda>c h. Inr 0,
      ne_FromHex = \<lambda>h. [],
      ne_TextHash = \<lambda>d. d,
      ne_SigToPub = \<lambda>h sig. Inr demo_key,
      ne_ParseClaims = \<lambda>a. Inl ''invalid'',
      ne_RSVtoVRS = \<lambda>sig. Inr (27, 0, 0),
      ne_ParseTeeInstructionsSent = \<lambda>l. Inr (lg_Topics l ! 0),
      ne_ParseTeeAttestationRequested = \<lambda>l. Inr 0,
      ne_Abi = \<lambda>f. Inr [],
      ne_Pack = \<lambda>c. Inr [],
      ne_DecodeResponse = Inr,
      ne_DecodeRequestBody = \<lambda>d. Inr (d, 11),
      ne_DecodeResponseBody = \<lambda>d. Inr demo_response\<rparr>"

definition demo_support :: Support where
  "demo_support = \<lparr>sp_Prv = 1, sp_FlareSystemManager = 1, sp_Fdc2Hub = 2, sp_TeeMachineRegistry = 3,
     sp_TeeWalletProjectManager = 3, sp_TeeWalletManager = 3, sp_TeeWalletKeyManager = 3, sp_TeeVerification = 3,
     sp_TeeExtensionRegistry = 3, sp_TeeExtensionGovernance = 3, sp_TeeOwnerAllowlist = 3,
     sp_Addresses = \<lparr>ad_FlareSystemManager = 1, ad_Fdc2Hub = 2, ad_FlareTeeManager = 3\<rparr>, sp_ChainID = 114\<rparr>"

definition demo_args_for :: "string \<Rightarrow> register_args" where
  "demo_args_for command = \<lparr>ra_teeInfo = demo_info, ra_hostURL = ''h'', ra_ftdcTeeURL = ''f'', ra_ftdcTee = 11,
     ra_command = command, ra_instructionID = []\<rparr>"

definition demo_world :: "tick \<Rightarrow> bytes option \<Rightarrow> world" where
  "demo_world t file = \<lparr>w_now = t, w_sent = [], w_files = (\<lambda>_. None)(''a'' := Some [], ''s'' := file), w_slept = 0\<rparr>"

definition demo_resumed :: registrationState where
  "demo_resumed = \<lparr>rs_CompletedSteps = ''rR'', rs_TeeAttestInstructionID = 21, rs_InstructionID = 0\<rparr>"

lemma demo_node_simps [simp]:
  "te_Transact demo_node t opts c = Inr (of_nat t)"
  "te_WaitMined demo_node t h = Inr (demo_receipt h)"
  "te_NewKeyedTransactor demo_node k n = Inr 7"
  "te_PubkeyToAddress demo_node k = 7"
  "te_ReadFail demo_node t p = None"
  "te_WriteFail demo_node t p = None"
  "te_RemoveFail demo_node t p = False"
  "te_Get demo_node t url = Inr \<lparr>hr_StatusCode = 200, hr_Body = [], hr_ReadErr = None\<rparr>"
  "ne_GetTeeMachine demo_node t a = Inr (if t < 110 then 0 else a)"
  "ne_RewardEpochId demo_node t = Inr (Some (if t < 100 then 9 else 5))"
  "ne_json_TeeInfo demo_node r = Inr demo_info"
  "ne_json_ActionResponse demo_node r = Inr \<lparr>nr_Status = 1, nr_Log = [], nr_Data = []\<rparr>"
  "ne_json_ProveResponse demo_node d = Inr demo_proof"
  "ne_json_State demo_node = parse_state"
  "ne_RSVtoVRS demo_node sig = Inr (27, 0, 0)"
  "ne_ParseTeeInstructionsSent demo_node l = Inr (lg_Topics l ! 0)"
  "ne_ParseTeeAttestationRequested demo_node l = Inr 0"
  "ne_DecodeResponse demo_node = Inr"
  "ne_DecodeRequestBody demo_node d = Inr (d, 11)"
  "ne_DecodeResponseBody demo_node d = Inr demo_response"
  "ne_ParsePubKey demo_node = Inr"
  "ne_PubkeyToAddress demo_node pk = 11"
  "ne_TeeInfoHash demo_node i = Inr []"
  "ne_ProxyTeeInfoHash demo_node n h = Inr 0"
  "ne_SigToPub demo_node d sig = Inr demo_key"
  "te_HexToHash demo_node x = 0"
  by (simp_all add: demo_node_def)

lemma demo_info_simps [simp]:
  "tn_LastSigningPolicyID (sn_TeeInfo demo_info) = 5" "length (sn_DataSignature demo_info) = 65"
  by (simp_all add: demo_info_def)

lemma demo_receipt_simps [simp]:
  "rc_Status (demo_receipt h) = 1" "length (rc_Logs (demo_receipt h)) = 2" "rc_Logs (demo_receipt h) \<noteq> []"
  "lg_Topics (rc_Logs (demo_receipt h) ! 0) = [h]"
  by (simp_all add: demo_receipt_def Let_def)

lemma demo_state_simps [simp]:
  "rs_CompletedSteps demo_resumed = ''rR''" "rs_TeeAttestInstructionID demo_resumed = 21"
  "rs_CompletedSteps empty_state = []"
  by (simp_all add: demo_resumed_def empty_state_def)

lemma demo_args_simps [simp]:
  "ra_teeInfo (demo_args_for command) = demo_info" "ra_command (demo_args_for command) = command"
  "ra_instructionID (demo_args_for command) = []"
  by (simp_all add: demo_args_for_def)

lemma demo_world_simps [simp]:
  "w_now (demo_world t file) = t" "w_sent (demo_world t file) = []" "w_files (demo_world t file) ''s'' = file"
  by (simp_all add: demo_world_def)

lemma demo_reliable: "reliable_store demo_node ''s''"
  by (simp add: reliable_store_def state_codec_def parse_state_roundtrip)

lemma demo_wf: "wf_state demo_resumed"
  by (simp add: wf_state_def)

lemma demo_stored: "stored demo_node ''s'' (demo_world t (Some (registrationState_json demo_resumed))) demo_resumed"
  using parse_state_roundtrip [OF demo_wf] by (simp add: stored_def)

lemma demo_ids: "TeeProxyId demo_node demo_info w = (Inr (11, 11), w)"
  by (simp add: TeeProxyId_def comp_defs)

lemma demo_load:
  "loadState demo_node ''s'' (demo_world t (Some (registrationState_json demo_resumed))) =
     (Inr demo_resumed, demo_world (t + 1) (Some (registrationState_json demo_resumed)))"
  using parse_state_roundtrip [OF demo_wf]
  by (simp add: loadState_def os_ReadFile_def comp_defs) (simp add: demo_world_def)

lemma demo_requests:
  "RequestTeeAttestation demo_node demo_support tee w = (Inr (of_nat (w_now w)), w\<lparr>w_now := w_now w + 2,
     w_sent := w_sent w @ [(\<lparr>op_From = 7, op_Value = registration_fee\<rparr>, RequestTeeAttestationTx tee 7)]\<rparr>)"
  "RequestFTDCAvailabilityCheck demo_node demo_support tee ext att w = (Inr (of_nat (w_now w)), w\<lparr>w_now := w_now w + 2,
     w_sent := w_sent w @ [(\<lparr>op_From = 7, op_Value = registration_fee\<rparr>, RequestAvailabilityCheckTx tee att ext 7 7)]\<rparr>)"
  "PreRegistration demo_node demo_support host proxy demo_info w = (Inr (0, of_nat (w_now w)), w\<lparr>w_now := w_now w + 2,
     w_sent := w_sent w @ [(\<lparr>op_From = 7, op_Value = registration_fee\<rparr>, MachineRegister (machine_data demo_info) (27, 0, 0) proxy host 7)]\<rparr>)"
  by (simp_all add: RequestTeeAttestation_def RequestFTDCAvailabilityCheck_def PreRegistration_def NewTransactor_def
      transact_def CheckTx_def comp_defs Let_def)

lemma demo_policy:
  "CheckFTDCProxyPolicyConsistency demo_node url w =
     (if w_now w < 100 then Inl (outOfSyncError 9 5) else Inr (), w\<lparr>w_now := w_now w + 2\<rparr>)"
  by (simp add: CheckFTDCProxyPolicyConsistency_def TeeInfo_def comp_defs policyInSync_def Let_def)

text \<open>Resumed before the policies agree, the registration fails again at the availability check.\<close>

lemma demo_fails:
  "\<exists>e w'. RegisterNode demo_node demo_support (demo_args_for ''rRap'') ''s''
     (demo_world 20 (Some (registrationState_json demo_resumed))) = (Inl e, w')"
  by (simp add: RegisterNode_def attempt_def handle_def demo_ids demo_load step_r_def step_R_def step_a_def ret_def throw_def
      sleep_def demo_policy)

theorem registration_resumes_witness:
  "\<exists>w' st'. stored demo_node ''s'' w' st' \<and> prefix ''rR'' (rs_CompletedSteps st') \<and>
     (\<forall>(opts, c) \<in> set (w_sent w'). \<forall>tee owner. c \<noteq> RequestTeeAttestationTx tee owner)"
proof -
  let ?w = "demo_world 20 (Some (registrationState_json demo_resumed))"
  obtain e w' where run: "RegisterNode demo_node demo_support (demo_args_for ''rRap'') ''s'' ?w = (Inl e, w')"
    using demo_fails by blast
  from registration_resumes [OF run_again [OF no_run run] demo_reliable demo_wf demo_stored] show ?thesis
    by (fastforce simp: state_le_def)
qed

lemma demo_ActionResult: "ActionResult demo_node url i w = (Inr \<lparr>nr_Status = 1, nr_Log = [], nr_Data = []\<rparr>, w\<lparr>w_now := w_now w + 1\<rparr>)"
proof -
  have "poll_loop demo_node u (Suc n) prev w =
      (Inr \<lparr>hr_StatusCode = 200, hr_Body = [], hr_ReadErr = None\<rparr>, w\<lparr>w_now := w_now w + 1\<rparr>)" for u n prev
    by (simp add: poll_ok_def Let_def)
  moreover have "repeats = Suc 14" by (simp add: repeats_def)
  ultimately have "poll_loop demo_node u repeats prev w =
      (Inr \<lparr>hr_StatusCode = 200, hr_Body = [], hr_ReadErr = None\<rparr>, w\<lparr>w_now := w_now w + 1\<rparr>)" for u prev
    by metis
  then show ?thesis by (simp add: ActionResult_def attempt_def handle_def lift_def)
qed

lemma demo_promotion:
  "GetFTDCAvailabilityCheckResult demo_node url i w =
     (Inr \<lparr>ap_SigningPolicySignatures = [[4]], ap_Header = [1], ap_RequestBody = [2], ap_RequestTeeId = 11,
           ap_ResponseBody = demo_response\<rparr>, w\<lparr>w_now := w_now w + 1\<rparr>)"
  "ap_RequestTeeId pf = 11 \<Longrightarrow> w_now w > 110 \<Longrightarrow> ToProduction demo_node demo_support pf w =
     (Inr (), w\<lparr>w_now := w_now w + 3, w_sent := w_sent w @ [(\<lparr>op_From = 7, op_Value = 0\<rparr>, ToProductionTx pf)]\<rparr>)"
  by (simp_all add: GetFTDCAvailabilityCheckResult_def demo_ActionResult comp_defs demo_proof_def
      DecodeFTDCTeeAvailabilityCheckRequest_def DecodeFTDCTeeAvailabilityCheckResponse_def demo_response_def
      ToProduction_def NewTransactor_def transact_def CheckTx_def)

lemma demo_succeeds:
  "\<exists>w'. RegisterNode demo_node demo_support (demo_args_for ''rRap'') ''s'' (demo_world 100 None) = (Inr (), w')"
  by (simp add: RegisterNode_def attempt_def handle_def demo_ids loadState_def os_ReadFile_def step_r_def step_R_def step_a_def
      step_p_def register_step_def ret_def throw_def sleep_def ask_def demo_policy demo_requests demo_promotion
      save_progress_def saveState_def attempt_wrap_def os_WriteFile_def os_Remove_def Let_def)

theorem complete_registration_witness:
  "\<exists>w' o2 o3 att. RegisterNode demo_node demo_support (demo_args_for ''rRap'') ''s'' (demo_world 100 None) = (Inr (), w') \<and>
     length (w_sent w') = 4 \<and> w_sent w' ! 1 = (o2, RequestTeeAttestationTx 11 (sender demo_node demo_support)) \<and>
     announced demo_node o2 (RequestTeeAttestationTx 11 (sender demo_node demo_support)) att \<and>
     (\<exists>e p q. w_sent w' ! 2 = (o3, RequestAvailabilityCheckTx 11 att e p q))"
proof -
  obtain w' where run: "RegisterNode demo_node demo_support (demo_args_for ''rRap'') ''s'' (demo_world 100 None) = (Inr (), w')"
    using demo_succeeds by blast
  from complete_registration [OF run] run show ?thesis by (fastforce simp: demo_ids)
qed

theorem availability_alone_loses_id_witness:
  "\<exists>r w'. RegisterNode demo_node demo_support (demo_args_for ''a'') ''s''
      (demo_world 100 (Some (registrationState_json demo_resumed))) = (r, w') \<and>
     rs_TeeAttestInstructionID demo_resumed = 21 \<and> length (w_sent w') = 1 \<and>
     (\<exists>opts t e p q. w_sent w' ! 0 = (opts, RequestAvailabilityCheckTx t 0 e p q))"
proof -
  let ?w = "demo_world 100 (Some (registrationState_json demo_resumed))"
  obtain r w' where run: "RegisterNode demo_node demo_support (demo_args_for ''a'') ''s'' ?w = (r, w')"
    by (cases "RegisterNode demo_node demo_support (demo_args_for ''a'') ''s'' ?w")
  then have "length (w_sent w') = 1 \<and> (\<forall>p. snd (w_sent w' ! 0) \<noteq> ToProductionTx p)"
    by (auto simp: RegisterNode_def attempt_def handle_def demo_ids demo_load step_r_def step_R_def step_a_def
      step_p_def ret_def throw_def sleep_def demo_policy demo_requests
      save_progress_def saveState_def attempt_wrap_def os_WriteFile_def os_Remove_def Let_def)
  with availability_alone_loses_id [OF run] run show ?thesis
    by (cases "w_sent w'") fastforce+
qed

end
