(* ===== verification/ExtensionSetup.thy ===== *)
theory ExtensionSetup
  imports Tools
begin

text \<open>
  Setting up an extension from the deployer's side: registration and its follow-up transactions
  (\<open>tools/pkg/fccutils/extension.go\<close>), the governance signer set (\<open>governance.go\<close>), and the deployment and
  wiring of the instruction sender and of the WorkProof escrow (\<open>tools/pkg/utils/instructions.go\<close> and
  \<open>workproof.go\<close>). Contract bindings and event decoders are fields of \<open>setup_env\<close>.
\<close>

section \<open>Environment\<close>

record setup_env = tool_env +
  se_IsAllowedTeeMachineOwner :: "tick \<Rightarrow> int \<Rightarrow> address \<Rightarrow> string + bool"
  se_IsAllowedTeeWalletProjectOwner :: "tick \<Rightarrow> int \<Rightarrow> address \<Rightarrow> string + bool"
  se_IsKeyTypeSupported :: "tick \<Rightarrow> int \<Rightarrow> bytes32 \<Rightarrow> string + bool"
  se_ParseTeeExtensionRegistered :: "Log \<Rightarrow> string + int"
  se_ParseTeeExtensionContractsSet :: "Log \<Rightarrow> string + unit"
  se_ParseAllowedTeeMachineOwnersAdded :: "Log \<Rightarrow> string + unit"
  se_ParseAllowedTeeWalletProjectOwnersAdded :: "Log \<Rightarrow> string + unit"
  se_ParseTeeInstructionsSent :: "Log \<Rightarrow> string + bytes32"
  se_EVMType :: bytes32
  se_GovernanceHash :: "address list \<Rightarrow> u64 \<Rightarrow> string + bytes32"
  se_GetLatestTeeGovernanceHash :: "tick \<Rightarrow> int \<Rightarrow> string + bytes32"
  se_BindContract :: "address \<Rightarrow> string + unit"
  se_Pack :: "contract_call \<Rightarrow> string + bytes"
  se_DeployedAddress :: "bytes32 \<Rightarrow> address"

definition deployer :: "'z tool_env_scheme \<Rightarrow> Support \<Rightarrow> address" where
  "deployer E s = te_PubkeyToAddress E (sp_Prv s)"

definition new_opts :: "'z tool_env_scheme \<Rightarrow> privkey \<Rightarrow> int \<Rightarrow> int \<Rightarrow> TransactOpts tool" where
  "new_opts E prv chainID v =
     attempt (lift (te_NewKeyedTransactor E prv chainID)) (\<lambda>from. ret \<lparr>op_From = from, op_Value = v\<rparr>)"

text \<open>Sending a transaction and waiting for it, with the two error texts of the caller.\<close>

definition send_and_check :: "'z tool_env_scheme \<Rightarrow> string \<Rightarrow> string \<Rightarrow> TransactOpts \<Rightarrow> contract_call \<Rightarrow> Receipt tool" where
  "send_and_check E send_msg check_msg opts c =
     attempt (handle (transact E opts c) (\<lambda>err. throw (send_msg @ re_text err)) ret) (\<lambda>tx.
     attempt_wrap check_msg (CheckTx E tx) ret)"

section \<open>Registering an extension\<close>

definition registerExtension :: "setup_env \<Rightarrow> TransactOpts \<Rightarrow> address \<Rightarrow> address \<Rightarrow> int tool" where
  "registerExtension E opts instructionsSenderAddress stateVerifierAddress =
     attempt (send_and_check E ''TeeExtensionRegistry.Register failed: '' ''Register transaction failed: '' opts
                (ExtensionRegister stateVerifierAddress instructionsSenderAddress)) (\<lambda>receipt.
     if length (rc_Logs receipt) < 2 then
       throw (''expected at least 2 logs from Register() transaction, got '' @ dec_nat (length (rc_Logs receipt)) @
         [CHR '' '', CHR 0xE2, CHR 0x80, CHR 0x94] @ '' the registry contract may have changed or be behind a proxy'')
     else
       attempt_wrap ''failed to parse TeeExtensionRegistered event: ''
         (lift (se_ParseTeeExtensionRegistered E (rc_Logs receipt ! 0))) (\<lambda>extensionId.
       attempt_wrap ''failed to parse TeeExtensionContractsSet event: ''
         (lift (se_ParseTeeExtensionContractsSet E (rc_Logs receipt ! 1))) (\<lambda>_.
       ret extensionId)))"

definition allowTeeMachineOwners :: "setup_env \<Rightarrow> TransactOpts \<Rightarrow> int \<Rightarrow> address list \<Rightarrow> unit tool" where
  "allowTeeMachineOwners E opts extensionId owners =
     attempt (send_and_check E ''AddAllowedTeeMachineOwners failed: '' ''AddAllowedTeeMachineOwners transaction failed: '' opts
                (AddAllowedTeeMachineOwnersTx extensionId owners)) (\<lambda>receipt.
     if rc_Logs receipt = [] then
       throw (''no logs in AddAllowedTeeMachineOwners transaction '' @ [CHR 0xE2, CHR 0x80, CHR 0x94] @ '' unexpected'')
     else attempt_wrap ''failed to parse AllowedTeeMachineOwnersAdded event: ''
            (lift (se_ParseAllowedTeeMachineOwnersAdded E (rc_Logs receipt ! 0))) ret)"

definition allowTeeProjectManagerOwners :: "setup_env \<Rightarrow> TransactOpts \<Rightarrow> int \<Rightarrow> address list \<Rightarrow> unit tool" where
  "allowTeeProjectManagerOwners E opts extensionId owners =
     attempt (send_and_check E ''AddAllowedTeeWalletProjectOwners failed: ''
                ''AddAllowedTeeWalletProjectOwners transaction failed: '' opts
                (AddAllowedTeeWalletProjectOwnersTx extensionId owners)) (\<lambda>receipt.
     if rc_Logs receipt = [] then
       throw (''no logs in AddAllowedTeeWalletProjectOwners transaction '' @ [CHR 0xE2, CHR 0x80, CHR 0x94] @ '' unexpected'')
     else attempt_wrap ''failed to parse AllowedTeeWalletProjectOwnersAdded event: ''
            (lift (se_ParseAllowedTeeWalletProjectOwnersAdded E (rc_Logs receipt ! 0))) ret)"

definition addSupportedKeyTypesTx :: "setup_env \<Rightarrow> TransactOpts \<Rightarrow> int \<Rightarrow> bytes32 list \<Rightarrow> unit tool" where
  "addSupportedKeyTypesTx E opts extensionId keyTypes =
     attempt (send_and_check E [] [] opts (AddSupportedKeyTypesTx extensionId keyTypes)) (\<lambda>_. ret ())"

definition AddSupportedKeyTypes :: "setup_env \<Rightarrow> Support \<Rightarrow> int \<Rightarrow> bytes32 list \<Rightarrow> unit tool" where
  "AddSupportedKeyTypes E s extensionId keyTypes =
     attempt (new_opts E (sp_Prv s) (sp_ChainID s) 0) (\<lambda>opts. addSupportedKeyTypesTx E opts extensionId keyTypes)"

definition IsKeyTypeSupported :: "setup_env \<Rightarrow> int \<Rightarrow> bytes32 \<Rightarrow> bool tool" where
  "IsKeyTypeSupported E extensionId keyType = ask (\<lambda>t. se_IsKeyTypeSupported E t extensionId keyType)"

text \<open>A follow-up step: skipped when the chain says it is done.\<close>

definition unless_done :: "bool tool \<Rightarrow> string \<Rightarrow> unit tool \<Rightarrow> string \<Rightarrow> unit tool" where
  "unless_done query query_msg act act_msg =
     attempt_wrap query_msg query (\<lambda>done. if done then ret () else attempt_wrap act_msg act ret)"

definition owners_msg :: "string \<Rightarrow> int \<Rightarrow> string" where
  "owners_msg what extensionID =
     ''failed adding '' @ what @ '' (extension exists as ID '' @ dec_int extensionID @ '' but owners not set): ''"

definition SetupExtension :: "setup_env \<Rightarrow> Support \<Rightarrow> bytes32 \<Rightarrow> address \<Rightarrow> address \<Rightarrow> int tool" where
  "SetupExtension E s governanceHash instructionsSenderAddress stateVerifierAddress =
     attempt (new_opts E (sp_Prv s) (sp_ChainID s) 0) (\<lambda>opts.
     attempt (registerExtension E opts instructionsSenderAddress stateVerifierAddress) (\<lambda>extensionID.
     attempt (unless_done
       (ask (\<lambda>t. se_IsAllowedTeeMachineOwner E t extensionID (deployer E s))) ''failed checking TEE machine owner status: ''
       (allowTeeMachineOwners E opts extensionID [deployer E s]) (owners_msg ''TEE machine owners'' extensionID)) (\<lambda>_.
     attempt (unless_done
       (ask (\<lambda>t. se_IsAllowedTeeWalletProjectOwner E t extensionID (deployer E s))) ''failed checking wallet project owner status: ''
       (allowTeeProjectManagerOwners E opts extensionID [deployer E s]) (owners_msg ''wallet project owners'' extensionID)) (\<lambda>_.
     attempt (unless_done
       (IsKeyTypeSupported E extensionID (se_EVMType E)) []
       (AddSupportedKeyTypes E s extensionID [se_EVMType E]) []) (\<lambda>_.
     ret extensionID)))))"

section \<open>Governance\<close>

definition SetTeeGovernance :: "setup_env \<Rightarrow> Support \<Rightarrow> privkey \<Rightarrow> int \<Rightarrow> address list \<Rightarrow> u64 \<Rightarrow> unit tool" where
  "SetTeeGovernance E s privKey extensionId signers threshold =
     (if signers = [] then throw ''at least one governance signer is required (set GOVERNANCE_SIGNERS)''
      else if threshold = 0 \<or> threshold > of_nat (length signers) then
        throw (''invalid GOVERNANCE_THRESHOLD '' @ dec_nat (unat threshold) @ '' for '' @ dec_nat (length signers) @ '' signer(s)'')
      else
        attempt_wrap ''computing governance hash: '' (lift (se_GovernanceHash E signers threshold)) (\<lambda>desiredHash.
        attempt (handle (ask (\<lambda>t. se_GetLatestTeeGovernanceHash E t extensionId))
                   (\<lambda>_. ret False) (\<lambda>current. ret (current = desiredHash))) (\<lambda>already.
        if already then ret ()
        else
          attempt (new_opts E privKey (sp_ChainID s) 0) (\<lambda>opts.
          attempt (send_and_check E ''SetNewTeeGovernance failed: '' [] opts
                     (SetNewTeeGovernanceTx extensionId signers threshold)) (\<lambda>_. ret ())))))"

section \<open>Instruction sender and escrow\<close>

text \<open>Deployment: the address the binding returns with the transaction, once that is mined successfully.\<close>

definition deploy_contract :: "setup_env \<Rightarrow> Support \<Rightarrow> contract_call \<Rightarrow> address tool" where
  "deploy_contract E s c =
     attempt_wrap ''failed to create transactor: '' (new_opts E (sp_Prv s) (sp_ChainID s) 0) (\<lambda>opts.
     attempt (handle (transact E opts c) (\<lambda>err. throw (''failed to deploy contract: '' @ re_text err)) ret) (\<lambda>tx.
     attempt_wrap (''deployment tx not mined within 2 minutes (tx: '' @ Hash_Hex tx @ ''): '')
       (ask (\<lambda>t. te_WaitMined E t tx)) (\<lambda>receipt.
     if rc_Status receipt \<noteq> 1 then throw ''contract deployment failed'' else ret (se_DeployedAddress E tx))))"

definition DeployInstructionSender :: "setup_env \<Rightarrow> Support \<Rightarrow> address tool" where
  "DeployInstructionSender E s =
     deploy_contract E s (DeployHelloWorldTx (ad_FlareTeeManager (sp_Addresses s)) (ad_FlareTeeManager (sp_Addresses s)))"

definition DeployWorkProofEscrow :: "setup_env \<Rightarrow> Support \<Rightarrow> address \<Rightarrow> u16 \<Rightarrow> address tool" where
  "DeployWorkProofEscrow E s treasury protocolFeeBps =
     deploy_contract E s (DeployEscrowTx (ad_FlareTeeManager (sp_Addresses s)) (ad_FlareTeeManager (sp_Addresses s))
       treasury protocolFeeBps)"

text \<open>The revert reason found by replaying the call, if the call data can be packed.\<close>

definition simulated_reason :: "setup_env \<Rightarrow> Support \<Rightarrow> address \<Rightarrow> int option \<Rightarrow> contract_call \<Rightarrow> ('e, string) comp" where
  "simulated_reason E s to val c =
     (case se_Pack E c of Inl _ \<Rightarrow> ret [] | Inr callData \<Rightarrow> SimulateAndDecodeRevert E (deployer E s) to val callData)"

definition call_reason :: "setup_env \<Rightarrow> Support \<Rightarrow> address \<Rightarrow> int option \<Rightarrow> contract_call \<Rightarrow> rpc_err \<Rightarrow> ('e, string) comp" where
  "call_reason E s to val c err =
     (if DecodeRevertReason E err \<noteq> [] then ret (DecodeRevertReason E err) else simulated_reason E s to val c)"

definition SetExtensionId :: "setup_env \<Rightarrow> Support \<Rightarrow> address \<Rightarrow> unit tool" where
  "SetExtensionId E s instructionSenderAddress =
     (let c = SetExtensionIdTx instructionSenderAddress in
      attempt_wrap ''failed to bind contract: '' (lift (se_BindContract E instructionSenderAddress)) (\<lambda>_.
      attempt_wrap ''failed to create transactor: '' (new_opts E (sp_Prv s) (sp_ChainID s) 0) (\<lambda>opts.
      attempt (handle (transact E opts c)
        (\<lambda>err. attempt (call_reason E s instructionSenderAddress None c err) (\<lambda>reason.
           throw (''failed to call setExtensionId: '' @ re_text err @
             (if reason \<noteq> [] then '' (revert reason: '' @ reason @ '')'' else [])))) ret) (\<lambda>tx.
      attempt_wrap ''failed waiting for transaction: '' (ask (\<lambda>t. te_WaitMined E t tx)) (\<lambda>receipt.
      if rc_Status receipt \<noteq> 1 then
        attempt (simulated_reason E s instructionSenderAddress None c) (\<lambda>reason.
          throw (if reason \<noteq> [] then ''setExtensionId transaction failed (revert reason: '' @ reason @ '')''
                 else ''setExtensionId transaction failed''))
      else ret ())))))"

definition SetWorkProofEscrowExtensionId :: "setup_env \<Rightarrow> Support \<Rightarrow> address \<Rightarrow> unit tool" where
  "SetWorkProofEscrowExtensionId E s escrowAddress =
     (let c = SetExtensionIdTx escrowAddress in
      attempt_wrap ''failed to bind contract: '' (lift (se_BindContract E escrowAddress)) (\<lambda>_.
      attempt_wrap ''failed to create transactor: '' (new_opts E (sp_Prv s) (sp_ChainID s) 0) (\<lambda>opts.
      attempt (handle (transact E opts c)
        (\<lambda>err. attempt (call_reason E s escrowAddress None c err) (\<lambda>reason.
           throw (''failed to call setExtensionId: '' @ re_text err @
             (if reason \<noteq> [] then '' (revert reason: '' @ reason @ '')'' else [])))) ret) (\<lambda>tx.
      attempt_wrap ''failed waiting for transaction: '' (ask (\<lambda>t. te_WaitMined E t tx)) (\<lambda>receipt.
      if rc_Status receipt \<noteq> 1 then
        attempt (simulated_reason E s escrowAddress None c) (\<lambda>reason.
          throw (if reason \<noteq> [] then ''setExtensionId transaction failed (revert reason: '' @ reason @ '')''
                 else ''setExtensionId transaction failed''))
      else ret ())))))"

text \<open>The instruction fee in wei.\<close>

definition instruction_fee :: int where
  "instruction_fee = 1000000"

definition parse_sent :: "setup_env \<Rightarrow> Receipt \<Rightarrow> (bytes32 \<times> bytes32) tool" where
  "parse_sent E receipt =
     (if rc_Logs receipt = [] then throw ''no logs found in receipt''
      else attempt_wrap ''failed to parse TeeInstructionsSent event: ''
             (lift (se_ParseTeeInstructionsSent E (rc_Logs receipt ! 0))) (\<lambda>i. ret (i, rc_TxHash receipt)))"

definition SendSayHello :: "setup_env \<Rightarrow> Support \<Rightarrow> address \<Rightarrow> bytes \<Rightarrow> (bytes32 \<times> bytes32) tool" where
  "SendSayHello E s instructionSenderAddress message =
     (let c = SendSayHelloTx instructionSenderAddress message in
      attempt_wrap ''failed to bind contract: '' (lift (se_BindContract E instructionSenderAddress)) (\<lambda>_.
      attempt_wrap ''failed to create transactor: '' (new_opts E (sp_Prv s) (sp_ChainID s) instruction_fee) (\<lambda>opts.
      attempt (handle (transact E opts c)
        (\<lambda>err. attempt (call_reason E s instructionSenderAddress (Some instruction_fee) c err) (\<lambda>reason.
           throw (''failed to send instruction: '' @ re_text err @
             (if reason \<noteq> [] then '' (revert reason: '' @ reason @ '')'' else [])))) ret) (\<lambda>tx.
      attempt_wrap ''failed waiting for transaction: '' (ask (\<lambda>t. te_WaitMined E t tx)) (\<lambda>receipt.
      if rc_Status receipt \<noteq> 1 then
        attempt (simulated_reason E s instructionSenderAddress (Some instruction_fee) c) (\<lambda>reason.
          throw (if reason \<noteq> [] then ''transaction failed with status '' @ dec_nat (unat (rc_Status receipt)) @
                   '' (revert reason: '' @ reason @ '')''
                 else ''transaction failed with status: '' @ dec_nat (unat (rc_Status receipt))))
      else parse_sent E receipt)))))"

definition SendSayGoodbye :: "setup_env \<Rightarrow> Support \<Rightarrow> address \<Rightarrow> string \<Rightarrow> string \<Rightarrow> (bytes32 \<times> bytes32) tool" where
  "SendSayGoodbye E s instructionSenderAddress name reason =
     attempt_wrap ''failed to bind contract: '' (lift (se_BindContract E instructionSenderAddress)) (\<lambda>_.
     attempt_wrap ''failed to create transactor: '' (new_opts E (sp_Prv s) (sp_ChainID s) instruction_fee) (\<lambda>opts.
     attempt (handle (transact E opts (SendSayGoodbyeTx instructionSenderAddress name reason))
                (\<lambda>err. throw (''failed to send instruction: '' @ re_text err)) ret) (\<lambda>tx.
     attempt_wrap ''failed waiting for transaction: '' (ask (\<lambda>t. te_WaitMined E t tx)) (\<lambda>receipt.
     if rc_Status receipt \<noteq> 1 then
       throw (''transaction failed with status: '' @ dec_nat (unat (rc_Status receipt)))
     else parse_sent E receipt))))"

section \<open>What a setup sends\<close>

lemma new_opts_Inr [run_iff]:
  "new_opts E prv n v w = (Inr opts, w') \<longleftrightarrow>
     te_NewKeyedTransactor E prv n = Inr (op_From opts) \<and> op_Value opts = v \<and> w' = w"
  by (cases opts) (auto simp: new_opts_def run_iff)

lemma send_and_check_Inr [run_iff]:
  "send_and_check E p q opts c w = (Inr r, w') \<longleftrightarrow>
     (\<exists>h. te_Transact E (w_now w) opts c = Inr h \<and> te_WaitMined E (w_now w + 1) h = Inr r \<and> rc_Status r \<noteq> 0 \<and>
        w' = w\<lparr>w_now := w_now w + 2, w_sent := w_sent w @ [(opts, c)]\<rparr>)"
  by (auto simp: send_and_check_def run_iff)

definition zero_value_opts :: "'z tool_env_scheme \<Rightarrow> Support \<Rightarrow> TransactOpts \<Rightarrow> bool" where
  "zero_value_opts E s opts \<longleftrightarrow> te_NewKeyedTransactor E (sp_Prv s) (sp_ChainID s) = Inr (op_From opts) \<and> op_Value opts = 0"

text \<open>The shape of a follow-up step.\<close>

definition follow_up :: "'z tool_env_scheme \<Rightarrow> Support \<Rightarrow> (tick \<Rightarrow> string + bool) \<Rightarrow> contract_call \<Rightarrow> world \<Rightarrow> world \<Rightarrow> bool" where
  "follow_up E s q c w w' \<longleftrightarrow>
     (\<exists>t b opts. q t = Inr b \<and> zero_value_opts E s opts \<and> w_sent w' = w_sent w @ (if b then [] else [(opts, c)]))"

lemma machine_owner_step:
  "unless_done (ask q) m (allowTeeMachineOwners E opts n os) m' w = (Inr u, w') \<Longrightarrow> zero_value_opts E s opts \<Longrightarrow>
     follow_up E s q (AddAllowedTeeMachineOwnersTx n os) w w'"
  by (fastforce simp: unless_done_def allowTeeMachineOwners_def follow_up_def run_iff split: if_splits)

lemma project_owner_step:
  "unless_done (ask q) m (allowTeeProjectManagerOwners E opts n os) m' w = (Inr u, w') \<Longrightarrow> zero_value_opts E s opts \<Longrightarrow>
     follow_up E s q (AddAllowedTeeWalletProjectOwnersTx n os) w w'"
  by (fastforce simp: unless_done_def allowTeeProjectManagerOwners_def follow_up_def run_iff split: if_splits)

lemma key_type_step:
  "unless_done (IsKeyTypeSupported E n k) m (AddSupportedKeyTypes E s n [k]) m' w = (Inr u, w') \<Longrightarrow> zero_value_opts E s opts \<Longrightarrow>
     follow_up E s (\<lambda>t. se_IsKeyTypeSupported E t n k) (AddSupportedKeyTypesTx n [k]) w w'"
  by (fastforce simp: unless_done_def IsKeyTypeSupported_def AddSupportedKeyTypes_def addSupportedKeyTypesTx_def
      follow_up_def zero_value_opts_def run_iff split: if_splits)

lemma registerExtension_Inr:
  assumes "registerExtension E opts i v w = (Inr n, w')"
  shows "w_sent w' = w_sent w @ [(opts, ExtensionRegister v i)] \<and>
     (\<exists>h r. te_Transact E (w_now w) opts (ExtensionRegister v i) = Inr h \<and> te_WaitMined E (w_now w + 1) h = Inr r \<and>
        rc_Status r \<noteq> 0 \<and> se_ParseTeeExtensionRegistered E (rc_Logs r ! 0) = Inr n)"
  using assms by (auto simp: registerExtension_def run_iff split: if_splits)

lemma SetupExtension_steps:
  assumes "SetupExtension E s g i v w = (Inr n, w')"
  shows "\<exists>opts w1 w2 w3. zero_value_opts E s opts \<and> registerExtension E opts i v w = (Inr n, w1) \<and>
     follow_up E s (\<lambda>t. se_IsAllowedTeeMachineOwner E t n (deployer E s)) (AddAllowedTeeMachineOwnersTx n [deployer E s]) w1 w2 \<and>
     follow_up E s (\<lambda>t. se_IsAllowedTeeWalletProjectOwner E t n (deployer E s)) (AddAllowedTeeWalletProjectOwnersTx n [deployer E s]) w2 w3 \<and>
     follow_up E s (\<lambda>t. se_IsKeyTypeSupported E t n (se_EVMType E)) (AddSupportedKeyTypesTx n [se_EVMType E]) w3 w'"
proof -
  from assms obtain opts w0 w1 w2 w3 u1 u2 u3 where o: "new_opts E (sp_Prv s) (sp_ChainID s) 0 w = (Inr opts, w0)"
    and r: "registerExtension E opts i v w0 = (Inr n, w1)"
    and m: "unless_done (ask (\<lambda>t. se_IsAllowedTeeMachineOwner E t n (deployer E s))) ''failed checking TEE machine owner status: ''
       (allowTeeMachineOwners E opts n [deployer E s]) (owners_msg ''TEE machine owners'' n) w1 = (Inr u1, w2)"
    and p: "unless_done (ask (\<lambda>t. se_IsAllowedTeeWalletProjectOwner E t n (deployer E s))) ''failed checking wallet project owner status: ''
       (allowTeeProjectManagerOwners E opts n [deployer E s]) (owners_msg ''wallet project owners'' n) w2 = (Inr u2, w3)"
    and k: "unless_done (IsKeyTypeSupported E n (se_EVMType E)) [] (AddSupportedKeyTypes E s n [se_EVMType E]) [] w3 = (Inr u3, w')"
    unfolding SetupExtension_def by (auto simp only: run_attempt run_ret sum.inject)
  have opts: "zero_value_opts E s opts" "w0 = w" using o by (simp_all add: zero_value_opts_def run_iff)
  from machine_owner_step [OF m opts(1)] project_owner_step [OF p opts(1)] key_type_step [OF k opts(1)] r opts
  show ?thesis by blast
qed

text \<open>A setup registers one new extension and does exactly what is missing for it. On success the
  deployer's transactions are the registration, whose event named the returned id, followed, in order, by
  the machine owner, project owner and key type transactions for that id, each sent exactly when the chain
  answered that it was not done yet, all without value.\<close>

theorem SetupExtension_exact:
  assumes "SetupExtension E s g i v w = (Inr n, w')"
  shows "\<exists>new m p k t1 t2 t3 t h r o1.
     w_sent w' = w_sent w @ new \<and> (\<forall>(opts, c) \<in> set new. zero_value_opts E s opts) \<and>
     map snd new = [ExtensionRegister v i] @
       (if m then [] else [AddAllowedTeeMachineOwnersTx n [deployer E s]]) @
       (if p then [] else [AddAllowedTeeWalletProjectOwnersTx n [deployer E s]]) @
       (if k then [] else [AddSupportedKeyTypesTx n [se_EVMType E]]) \<and>
     te_Transact E t o1 (ExtensionRegister v i) = Inr h \<and> te_WaitMined E (t + 1) h = Inr r \<and> rc_Status r \<noteq> 0 \<and>
     se_ParseTeeExtensionRegistered E (rc_Logs r ! 0) = Inr n \<and>
     se_IsAllowedTeeMachineOwner E t1 n (deployer E s) = Inr m \<and>
     se_IsAllowedTeeWalletProjectOwner E t2 n (deployer E s) = Inr p \<and>
     se_IsKeyTypeSupported E t3 n (se_EVMType E) = Inr k"
proof -
  obtain opts w1 w2 w3 where opts: "zero_value_opts E s opts"
    and reg: "registerExtension E opts i v w = (Inr n, w1)"
    and f1: "follow_up E s (\<lambda>t. se_IsAllowedTeeMachineOwner E t n (deployer E s)) (AddAllowedTeeMachineOwnersTx n [deployer E s]) w1 w2"
    and f2: "follow_up E s (\<lambda>t. se_IsAllowedTeeWalletProjectOwner E t n (deployer E s)) (AddAllowedTeeWalletProjectOwnersTx n [deployer E s]) w2 w3"
    and f3: "follow_up E s (\<lambda>t. se_IsKeyTypeSupported E t n (se_EVMType E)) (AddSupportedKeyTypesTx n [se_EVMType E]) w3 w'"
    using SetupExtension_steps [OF assms] by blast
  from f1 obtain t1 m o1 where 1: "se_IsAllowedTeeMachineOwner E t1 n (deployer E s) = Inr m" "zero_value_opts E s o1"
    "w_sent w2 = w_sent w1 @ (if m then [] else [(o1, AddAllowedTeeMachineOwnersTx n [deployer E s])])"
    unfolding follow_up_def by blast
  from f2 obtain t2 p o2 where 2: "se_IsAllowedTeeWalletProjectOwner E t2 n (deployer E s) = Inr p" "zero_value_opts E s o2"
    "w_sent w3 = w_sent w2 @ (if p then [] else [(o2, AddAllowedTeeWalletProjectOwnersTx n [deployer E s])])"
    unfolding follow_up_def by blast
  from f3 obtain t3 k o3 where 3: "se_IsKeyTypeSupported E t3 n (se_EVMType E) = Inr k" "zero_value_opts E s o3"
    "w_sent w' = w_sent w3 @ (if k then [] else [(o3, AddSupportedKeyTypesTx n [se_EVMType E])])"
    unfolding follow_up_def by blast
  let ?new = "[(opts, ExtensionRegister v i)] @ (if m then [] else [(o1, AddAllowedTeeMachineOwnersTx n [deployer E s])]) @
    (if p then [] else [(o2, AddAllowedTeeWalletProjectOwnersTx n [deployer E s])]) @
    (if k then [] else [(o3, AddSupportedKeyTypesTx n [se_EVMType E])])"
  from registerExtension_Inr [OF reg] obtain h r where reg': "w_sent w1 = w_sent w @ [(opts, ExtensionRegister v i)]"
    "te_Transact E (w_now w) opts (ExtensionRegister v i) = Inr h" "te_WaitMined E (w_now w + 1) h = Inr r"
    "rc_Status r \<noteq> 0" "se_ParseTeeExtensionRegistered E (rc_Logs r ! 0) = Inr n" by blast
  have "w_sent w' = w_sent w @ ?new" by (simp only: 1 2 3 reg' append_assoc)
  moreover have "\<forall>(opts, c) \<in> set ?new. zero_value_opts E s opts" using opts 1(2) 2(2) 3(2) by simp
  moreover have "map snd ?new = [ExtensionRegister v i] @
       (if m then [] else [AddAllowedTeeMachineOwnersTx n [deployer E s]]) @
       (if p then [] else [AddAllowedTeeWalletProjectOwnersTx n [deployer E s]]) @
       (if k then [] else [AddSupportedKeyTypesTx n [se_EVMType E]])" by simp
  ultimately show ?thesis using reg'(2-5) 1(1) 2(1) 3(1)
    by (intro exI [of _ ?new] exI [of _ m] exI [of _ p] exI [of _ k] exI [of _ t1] exI [of _ t2] exI [of _ t3]
        exI [of _ "w_now w"] exI [of _ h] exI [of _ r] exI [of _ opts] conjI)
qed

lemma CheckTx_sent: "CheckTx E tx w = (r, w') \<Longrightarrow> w_sent w' = w_sent w"
  using withinD [OF sending.within_CheckTx [of "{}"]] by (fastforce simp: sends_def)

lemma send_and_check_sent:
  assumes "send_and_check E p q opts c w = (r, w')"
  shows "w_sent w' = w_sent w \<or> w_sent w' = w_sent w @ [(opts, c)]"
proof -
  obtain r1 w1 where t: "transact E opts c w = (r1, w1)" by (cases "transact E opts c w")
  then have "w_sent w1 = w_sent w \<or> w_sent w1 = w_sent w @ [(opts, c)]"
    by (auto simp: transact_def split: sum.splits)
  moreover have "w_sent w' = w_sent w1"
    using assms t by (cases r1) (auto simp: send_and_check_def comp_defs dest: CheckTx_sent split: prod.splits sum.splits)
  ultimately show ?thesis by simp
qed

lemma governance_failed:
  assumes "SetTeeGovernance E s k n signers threshold w = (Inl e, w')"
  shows "w_sent w' = w_sent w \<or> (\<exists>opts. w_sent w' = w_sent w @ [(opts, SetNewTeeGovernanceTx n signers threshold)])"
  using assms
  by (auto simp: SetTeeGovernance_def new_opts_def run_iff split: if_splits dest!: send_and_check_sent)

lemma governance_succeeded:
  assumes "SetTeeGovernance E s k n signers threshold w = (Inr (), w')"
  shows "\<exists>h. se_GovernanceHash E signers threshold = Inr h \<and>
     (if se_GetLatestTeeGovernanceHash E (w_now w) n = Inr h then w_sent w' = w_sent w
      else \<exists>opts. w_sent w' = w_sent w @ [(opts, SetNewTeeGovernanceTx n signers threshold)])"
  using assms by (auto simp: SetTeeGovernance_def run_iff split: if_splits)

text \<open>Setting the governance is idempotent and validated. A successful call had between one and
  \<open>length signers\<close> as threshold, and it sent nothing if the chain already reported the hash of these
  signers and this threshold, and exactly the one governance transaction otherwise; a failed call sent at
  most that transaction, and a call with an invalid threshold does nothing at all.\<close>

theorem SetTeeGovernance_idempotent:
  "case SetTeeGovernance E s k n signers threshold w of (r, w') \<Rightarrow>
     (if r = Inr () then
        0 < unat threshold \<and> unat threshold \<le> length signers \<and>
        (\<exists>h. se_GovernanceHash E signers threshold = Inr h \<and>
           (if se_GetLatestTeeGovernanceHash E (w_now w) n = Inr h then w_sent w' = w_sent w
            else \<exists>opts. w_sent w' = w_sent w @ [(opts, SetNewTeeGovernanceTx n signers threshold)]))
      else w_sent w' = w_sent w \<or> (\<exists>opts. w_sent w' = w_sent w @ [(opts, SetNewTeeGovernanceTx n signers threshold)])) \<and>
     (if signers = [] \<or> threshold = 0 \<or> threshold > of_nat (length signers) then w' = w else True)"
proof (cases "signers = [] \<or> threshold = 0 \<or> threshold > of_nat (length signers)")
  case True
  then show ?thesis by (auto simp: SetTeeGovernance_def comp_defs)
next
  case False
  obtain r w' where run: "SetTeeGovernance E s k n signers threshold w = (r, w')"
    by (cases "SetTeeGovernance E s k n signers threshold w")
  have "unat threshold \<le> unat (of_nat (length signers) :: u64)" using False by (simp add: word_le_nat_alt not_less)
  also have "\<dots> \<le> length signers" by (simp add: unat_of_nat take_bit_eq_mod)
  finally have th: "0 < unat threshold" "unat threshold \<le> length signers" using False by (simp_all add: unat_gt_0)
  show ?thesis
  proof (cases r)
    case (Inr u)
    with run have ok: "SetTeeGovernance E s k n signers threshold w = (Inr (), w')" by simp
    show ?thesis unfolding run prod.case using governance_succeeded [OF ok] False th Inr by simp
  next
    case (Inl e)
    with run have "SetTeeGovernance E s k n signers threshold w = (Inl e, w')" by simp
    from governance_failed [OF this] Inl False show ?thesis unfolding run prod.case by simp
  qed
qed

text \<open>A chain on which the deployer is a machine owner already.\<close>

definition demo_log :: Log where
  "demo_log = \<lparr>lg_Address = 3, lg_Topics = [], lg_Data = []\<rparr>"

definition demo_setup :: setup_env where
  "demo_setup =
     \<lparr>te_Transact = \<lambda>t opts c. Inr (of_nat t),
      te_WaitMined = \<lambda>t h. Inr \<lparr>rc_Status = 1, rc_Logs = [demo_log, demo_log], rc_TxHash = h, rc_ContractAddress = 0\<rparr>,
      te_TransactionByHash = \<lambda>t h. Inl ''not found'', te_Sender = \<lambda>tx. Inl ''invalid signature'',
      te_CallContract = \<lambda>t m. Inr [], te_ChainID = \<lambda>t. Inr 114, te_Dial = \<lambda>t url. Inr (), te_Bind = \<lambda>f a. Inr a,
      te_NewKeyedTransactor = \<lambda>k c. Inr 7, te_PubkeyToAddress = \<lambda>k. 7, te_UnpackRevert = \<lambda>d. None,
      te_Getenv = \<lambda>t v. [], te_HexToECDSA = \<lambda>h. Inl ''invalid key'', te_HexToAddress = \<lambda>h. 0, te_HexToHash = \<lambda>h. 0,
      te_ReadFail = \<lambda>t p. None, te_WriteFail = \<lambda>t p. None, te_RemoveFail = \<lambda>t p. False,
      te_json_Addresses = \<lambda>d. Inl ''invalid'', te_json_Contracts = \<lambda>d. Inl ''invalid'',
      te_Get = \<lambda>t url. Inl ''refused'', te_Post = \<lambda>t url d. Inl ''refused'',
      se_IsAllowedTeeMachineOwner = \<lambda>t n a. Inr True, se_IsAllowedTeeWalletProjectOwner = \<lambda>t n a. Inr False,
      se_IsKeyTypeSupported = \<lambda>t n k. Inr False,
      se_ParseTeeExtensionRegistered = \<lambda>l. Inr 65536, se_ParseTeeExtensionContractsSet = \<lambda>l. Inr (),
      se_ParseAllowedTeeMachineOwnersAdded = \<lambda>l. Inr (), se_ParseAllowedTeeWalletProjectOwnersAdded = \<lambda>l. Inr (),
      se_ParseTeeInstructionsSent = \<lambda>l. Inr 0, se_EVMType = 5,
      se_GovernanceHash = \<lambda>signers n. Inr 9, se_GetLatestTeeGovernanceHash = \<lambda>t n. Inr 9,
      se_BindContract = \<lambda>a. Inr (), se_Pack = \<lambda>c. Inr [], se_DeployedAddress = \<lambda>h. 0\<rparr>"

definition demo_deployer :: Support where
  "demo_deployer = \<lparr>sp_Prv = 1, sp_FlareSystemManager = 1, sp_Fdc2Hub = 2, sp_TeeMachineRegistry = 3,
     sp_TeeWalletProjectManager = 3, sp_TeeWalletManager = 3, sp_TeeWalletKeyManager = 3, sp_TeeVerification = 3,
     sp_TeeExtensionRegistry = 3, sp_TeeExtensionGovernance = 3, sp_TeeOwnerAllowlist = 3,
     sp_Addresses = \<lparr>ad_FlareSystemManager = 1, ad_Fdc2Hub = 2, ad_FlareTeeManager = 3\<rparr>, sp_ChainID = 114\<rparr>"

lemma demo_setup_runs:
  "\<exists>w'. SetupExtension demo_setup demo_deployer 0 8 6 \<lparr>w_now = 0, w_sent = [], w_files = (\<lambda>_. None), w_slept = 0\<rparr> = (Inr 65536, w')"
  by (simp add: SetupExtension_def registerExtension_def unless_done_def allowTeeProjectManagerOwners_def
      AddSupportedKeyTypes_def addSupportedKeyTypesTx_def IsKeyTypeSupported_def send_and_check_def new_opts_def transact_def
      CheckTx_def comp_defs demo_setup_def demo_deployer_def)

theorem SetupExtension_exact_witness:
  "\<exists>w'. SetupExtension demo_setup demo_deployer 0 8 6 \<lparr>w_now = 0, w_sent = [], w_files = (\<lambda>_. None), w_slept = 0\<rparr> = (Inr 65536, w') \<and>
     map snd (w_sent w') = [ExtensionRegister 6 8, AddAllowedTeeWalletProjectOwnersTx 65536 [7], AddSupportedKeyTypesTx 65536 [5]]"
proof -
  let ?w = "\<lparr>w_now = 0, w_sent = [], w_files = (\<lambda>_. None), w_slept = 0\<rparr>"
  obtain w' where run: "SetupExtension demo_setup demo_deployer 0 8 6 ?w = (Inr 65536, w')"
    using demo_setup_runs by blast
  have "deployer demo_setup demo_deployer = 7" by (simp add: deployer_def demo_setup_def)
  moreover have "\<not> (m :: bool) \<longleftrightarrow> m = False" for m by simp
  ultimately show ?thesis using SetupExtension_exact [OF run] run
    by (auto simp: demo_setup_def)
qed

end
