(* ===== verification/Commands.thy ===== *)
theory Commands
  imports Registration ExtensionSetup Checks
begin

text \<open>
  The commands under \<open>tools/cmd\<close> that act on the chain: \<open>register-tee\<close>, \<open>allow-tee-version\<close>,
  \<open>set-governance\<close>, \<open>deploy-contract\<close>, \<open>deploy-workproof-escrow\<close>, \<open>register-extension\<close>,
  \<open>set-workproof-extension-id\<close> and \<open>run-test\<close>, as computations over the modelled library functions. A command
  takes its flags as arguments; \<open>fccutils.FatalWithCause\<close> and \<open>logger.Fatal\<close> are errors of the computation,
  the result is what the command prints on standard output for the scripts, and log lines are left out.
\<close>

section \<open>Environment\<close>

text \<open>The fields of \<open>setup_env\<close> are added to the tools' fields of the node environment, so that both parts of a
  command see one chain. \<open>co_Client\<close> is the RPC client at a moment; \<open>co_check\<close> prints addresses.\<close>

record command_env =
  co_node :: node_env
  co_setup :: "unit setup_env_ext"
  co_check :: check_env
  co_Client :: "tick \<Rightarrow> chain_client"
  co_IsCodeHashPlatformSupported :: "tick \<Rightarrow> int \<Rightarrow> bytes32 \<Rightarrow> bytes32 \<Rightarrow> string + bool"
  co_json_Hello :: "bytes \<Rightarrow> string + string \<times> int"
  co_json_Goodbye :: "bytes \<Rightarrow> string + string \<times> int"

definition setup_of :: "command_env \<Rightarrow> setup_env" where
  "setup_of E = tool_env.extend (tool_env.truncate (co_node E)) (co_setup E)"

definition getenv :: "command_env \<Rightarrow> string \<Rightarrow> string tool" where
  "getenv E name = ask (\<lambda>t. Inr (te_Getenv (co_node E) t name))"

definition account :: "command_env \<Rightarrow> privkey \<Rightarrow> address" where
  "account E key = te_PubkeyToAddress (co_node E) key"

text \<open>A preflight check of \<open>validate.go\<close>: one that only looks at its arguments, and one that asks the chain.\<close>

definition require :: "string option \<Rightarrow> unit tool" where
  "require v = lift (case v of Some e \<Rightarrow> Inl e | None \<Rightarrow> Inr ())"

definition require_chain :: "command_env \<Rightarrow> (chain_client option \<Rightarrow> string option) \<Rightarrow> unit tool" where
  "require_chain E f = ask (\<lambda>t. case f (Some (co_Client E t)) of Some e \<Rightarrow> Inl e | None \<Rightarrow> Inr ())"

text \<open>The optional output file: errors of \<open>os.MkdirAll\<close> and \<open>os.WriteFile\<close> are ignored.\<close>

definition write_address :: "command_env \<Rightarrow> string \<Rightarrow> address \<Rightarrow> unit tool" where
  "write_address E outFile addr =
     (if outFile = [] then ret ()
      else attempt (ask (\<lambda>t. Inr ())) (\<lambda>_.
        handle (os_WriteFile (co_node E) outFile (string_bytes (ce_AddressHex (co_check E) addr))) (\<lambda>_. ret ()) ret))"

text \<open>\<open>strconv.ParseUint\<close> in base ten, for a number of bits.\<close>

definition ParseUint10 :: "string \<Rightarrow> nat \<Rightarrow> nat option" where
  "ParseUint10 s bits =
     (if s = [] \<or> \<not> list_all is_digit s \<or> 2 ^ bits \<le> digits_value s then None else Some (digits_value s))"

section \<open>register-tee\<close>

record register_tee_flags =
  rt_a :: string
  rt_c :: string
  rt_p :: string
  rt_h :: string
  rt_ep :: string
  rt_i :: string
  rt_command :: string
  rt_state :: string
  rt_resume :: bool

definition register_tee_main :: "command_env \<Rightarrow> privkey \<Rightarrow> register_tee_flags \<Rightarrow> unit tool" where
  "register_tee_main E dev fl =
     (let N = co_node E in
      attempt (if rt_resume fl then ret () else os_Remove N (rt_state fl)) (\<lambda>_.
      attempt (DefaultSupport N dev (rt_a fl) (rt_c fl)) (\<lambda>s.
      attempt (TeeInfo N (rt_p fl)) (\<lambda>teeInfo.
      attempt (TeeProxyId N teeInfo) (\<lambda>(teeID, proxyID).
      attempt (GetTeeProxyID N (rt_ep fl)) (\<lambda>(ftdcTeeID, ftdcProxyID).
      attempt (GetCodeHashAndPlatform N teeInfo) (\<lambda>_.
      let hostURL = (if rt_h fl = [] then rt_p fl else rt_h fl) in
      RegisterNode N s
        \<lparr>ra_teeInfo = teeInfo, ra_hostURL = hostURL, ra_ftdcTeeURL = rt_ep fl, ra_ftdcTee = ftdcTeeID,
         ra_command = rt_command fl, ra_instructionID = rt_i fl\<rparr> (rt_state fl))))))))"

section \<open>allow-tee-version\<close>

text \<open>The extension owner's key, with the prefix stripped as each of the two commands does it.\<close>

definition owner_key :: "command_env \<Rightarrow> (string \<Rightarrow> string) \<Rightarrow> Support \<Rightarrow> privkey tool" where
  "owner_key E strip s =
     attempt (getenv E ''EXTENSION_OWNER_KEY'') (\<lambda>k.
       if k = [] then ret (sp_Prv s) else lift (te_HexToECDSA (co_node E) (strip k)))"

definition strip_one :: "string \<Rightarrow> string" where
  "strip_one k = (if HasPrefix k ''0x'' \<or> HasPrefix k ''0X'' then drop 2 k else k)"

definition strip_both :: "string \<Rightarrow> string" where
  "strip_both k = TrimPrefix (TrimPrefix k ''0x'') ''0X''"

definition allow_tee_version_main :: "command_env \<Rightarrow> privkey \<Rightarrow> string \<Rightarrow> string \<Rightarrow> string \<Rightarrow> string \<Rightarrow> unit tool" where
  "allow_tee_version_main E dev af cf pf version =
     (let N = co_node E in
      attempt (DefaultSupport N dev af cf) (\<lambda>s.
      attempt (TeeInfo N pf) (\<lambda>teeInfo.
      attempt (owner_key E strip_one s) (\<lambda>privKey.
      attempt (TeeProxyId N teeInfo) (\<lambda>_.
      let d = sn_MachineData teeInfo in
      attempt (ask (\<lambda>t. co_IsCodeHashPlatformSupported E t (uint (nm_ExtensionID d)) (nm_CodeHash d) (nm_Platform d))) (\<lambda>supported.
      if supported then ret ()
      else handle (AddTeeVersion N s privKey (uint (nm_ExtensionID d)) (nm_CodeHash d) (nm_Platform d) version)
             (\<lambda>err. if Contains err ''VersionAlreadyExists'' then ret () else throw err) ret))))))"

section \<open>set-governance\<close>

definition parseSigners :: "command_env \<Rightarrow> string \<Rightarrow> address \<Rightarrow> address list" where
  "parseSigners E raw fallback =
     (let signers = map (te_HexToAddress (co_node E)) (filter (\<lambda>part. part \<noteq> []) (map TrimSpace (Split raw (CHR '','')))) in
      if signers = [] then [fallback] else signers)"

definition parseThreshold :: "string \<Rightarrow> u64" where
  "parseThreshold raw =
     (case ParseUint10 (TrimSpace raw) 64 of Some v \<Rightarrow> if 0 < v then of_nat v else 1 | None \<Rightarrow> 1)"

definition set_governance_main :: "command_env \<Rightarrow> privkey \<Rightarrow> string \<Rightarrow> string \<Rightarrow> string \<Rightarrow> unit tool" where
  "set_governance_main E dev af cf pf =
     (let N = co_node E in
      attempt (DefaultSupport N dev af cf) (\<lambda>s.
      attempt (owner_key E strip_both s) (\<lambda>privKey.
      attempt (getenv E ''INITIAL_OWNER'') (\<lambda>owner.
      let defaultSigner = (if TrimSpace owner \<noteq> [] then te_HexToAddress N (TrimSpace owner) else account E privKey) in
      attempt (TeeInfo N pf) (\<lambda>teeInfo.
      let extensionID = uint (nm_ExtensionID (sn_MachineData teeInfo)) in
      attempt (getenv E ''GOVERNANCE_SIGNERS'') (\<lambda>rawSigners.
      attempt (getenv E ''GOVERNANCE_THRESHOLD'') (\<lambda>rawThreshold.
      SetTeeGovernance (setup_of E) s privKey extensionID (parseSigners E rawSigners defaultSigner) (parseThreshold rawThreshold))))))))"

section \<open>Deployment\<close>

definition defaultProtocolFeeBps :: u16 where "defaultProtocolFeeBps = 100"

text \<open>A treasury that equals the deployer is only warned about.\<close>

definition resolveTreasury :: "command_env \<Rightarrow> address \<Rightarrow> address tool" where
  "resolveTreasury E deployer_address =
     attempt (getenv E ''WORKPROOF_TREASURY'') (\<lambda>raw.
       if raw = [] then throw (''WORKPROOF_TREASURY is not set -- refusing to default the fee-sink address'')
       else ret (te_HexToAddress (co_node E) raw))"

definition resolveProtocolFeeBps :: "command_env \<Rightarrow> u16 tool" where
  "resolveProtocolFeeBps E =
     attempt (getenv E ''WORKPROOF_PROTOCOL_FEE_BPS'') (\<lambda>raw.
       if raw = [] then ret defaultProtocolFeeBps
       else case ParseUint10 raw 16 of
         None \<Rightarrow> throw (''WORKPROOF_PROTOCOL_FEE_BPS is not a valid uint16: '' @ raw)
       | Some v \<Rightarrow> ret (of_nat v))"

text \<open>The checks that both deployment commands make of the diamond's address and of the deployer's balance.\<close>

definition check_diamond :: "command_env \<Rightarrow> Support \<Rightarrow> unit tool" where
  "check_diamond E s =
     (let d = ad_FlareTeeManager (sp_Addresses s) in
      attempt (require (AddressNotZero (co_check E) d ''FlareTeeManager'')) (\<lambda>_.
      require_chain E (\<lambda>client. AddressHasCode (co_check E) client d ''FlareTeeManager'')))"

definition check_balance :: "command_env \<Rightarrow> Support \<Rightarrow> unit tool" where
  "check_balance E s =
     require_chain E (\<lambda>client. KeyHasFunds (co_check E) client (account E (sp_Prv s)) MinDeployBalance)"

definition deploy_workproof_escrow_main ::
  "command_env \<Rightarrow> privkey \<Rightarrow> string \<Rightarrow> string \<Rightarrow> string \<Rightarrow> bool \<Rightarrow> string option tool" where
  "deploy_workproof_escrow_main E dev af cf outFile preflightOnly =
     attempt (DefaultSupport (co_node E) dev af cf) (\<lambda>s.
     attempt (resolveTreasury E (account E (sp_Prv s))) (\<lambda>treasury.
     attempt (resolveProtocolFeeBps E) (\<lambda>protocolFeeBps.
     attempt (check_diamond E s) (\<lambda>_.
     attempt (require (AddressNotZero (co_check E) treasury ''Treasury'')) (\<lambda>_.
     attempt (check_balance E s) (\<lambda>_.
     if preflightOnly then ret None
     else
       attempt (DeployWorkProofEscrow (setup_of E) s treasury protocolFeeBps) (\<lambda>addr.
       attempt (write_address E outFile addr) (\<lambda>_.
       ret (Some (ce_AddressHex (co_check E) addr))))))))))"

definition deploy_contract_main ::
  "command_env \<Rightarrow> privkey \<Rightarrow> string \<Rightarrow> string \<Rightarrow> string \<Rightarrow> bool \<Rightarrow> string option tool" where
  "deploy_contract_main E dev af cf outFile preflightOnly =
     attempt (DefaultSupport (co_node E) dev af cf) (\<lambda>s.
     attempt (check_diamond E s) (\<lambda>_.
     attempt (check_balance E s) (\<lambda>_.
     if preflightOnly then ret None
     else
       attempt (DeployInstructionSender (setup_of E) s) (\<lambda>addr.
       attempt (write_address E outFile addr) (\<lambda>_.
       ret (Some (ce_AddressHex (co_check E) addr)))))))"

section \<open>register-extension and set-workproof-extension-id\<close>

text \<open>\<open>%064x\<close> of a \<open>big.Int\<close>: at least 64 characters, padded with zeros after the sign.\<close>

fun hex_nat :: "nat \<Rightarrow> string" where
  "hex_nat n = (if n < 16 then [hex_char n] else hex_nat (n div 16) @ [hex_char (n mod 16)])"

declare hex_nat.simps [simp del]

definition pad_zero :: "nat \<Rightarrow> string \<Rightarrow> string" where
  "pad_zero n s = replicate (n - length s) CHR ''0'' @ s"

definition hex064 :: "int \<Rightarrow> string" where
  "hex064 n = (if n < 0 then ''-'' @ pad_zero 63 (hex_nat (nat (- n))) else pad_zero 64 (hex_nat (nat n)))"

definition register_extension_main :: "command_env \<Rightarrow> privkey \<Rightarrow> string \<Rightarrow> string \<Rightarrow> string \<Rightarrow> string \<Rightarrow> string tool" where
  "register_extension_main E dev af cf instructionSender governanceHash =
     (if instructionSender = [] then throw ''--instructionSender flag is required''
      else
        attempt (DefaultSupport (co_node E) dev af cf) (\<lambda>s.
        let hash = te_HexToHash (co_node E) governanceHash; addr = te_HexToAddress (co_node E) instructionSender in
        attempt (require_chain E (\<lambda>client. AddressHasCode (co_check E) client addr ''InstructionSender'')) (\<lambda>_.
        attempt (SetupExtension (setup_of E) s hash addr 0) (\<lambda>extensionID.
        ret (''0x'' @ hex064 extensionID)))))"

definition set_workproof_extension_id_main :: "command_env \<Rightarrow> privkey \<Rightarrow> string \<Rightarrow> string \<Rightarrow> string \<Rightarrow> unit tool" where
  "set_workproof_extension_id_main E dev af cf escrow_flag =
     (if escrow_flag = [] then throw ''--escrow flag is required''
      else
        attempt (DefaultSupport (co_node E) dev af cf) (\<lambda>s.
        let addr = te_HexToAddress (co_node E) escrow_flag in
        attempt (require_chain E (\<lambda>client. AddressHasCode (co_check E) client addr ''WorkProofEscrow'')) (\<lambda>_.
        SetWorkProofEscrowExtensionId (setup_of E) s addr)))"

section \<open>run-test\<close>

definition verifyHelloResult :: "command_env \<Rightarrow> string \<Rightarrow> bytes32 \<Rightarrow> unit tool" where
  "verifyHelloResult E proxyURL instructionId =
     attempt (ActionResult (co_node E) proxyURL instructionId) (\<lambda>r.
     if nr_Status r = 0 then throw (''instruction processing failed: '' @ nr_Log r)
     else if nr_Status r = 2 then throw ''instruction still pending after polling, expected completed''
     else if nr_Data r = [] then throw ''expected response data but got none''
     else case co_json_Hello E (nr_Data r) of
       Inl e \<Rightarrow> throw (''failed to unmarshal response: '' @ e)
     | Inr (greeting, number) \<Rightarrow>
         if greeting = [] then throw ''expected non-empty Greeting''
         else if number < 1 then throw (''expected GreetingNumber >= 1, got '' @ dec_int number)
         else ret ())"

definition verifyGoodbyeResult :: "command_env \<Rightarrow> string \<Rightarrow> bytes32 \<Rightarrow> unit tool" where
  "verifyGoodbyeResult E proxyURL instructionId =
     attempt (ActionResult (co_node E) proxyURL instructionId) (\<lambda>r.
     if nr_Status r = 0 then throw (''instruction processing failed: '' @ nr_Log r)
     else if nr_Status r = 2 then throw ''instruction still pending after polling, expected completed''
     else if nr_Data r = [] then throw ''expected response data but got none''
     else case co_json_Goodbye E (nr_Data r) of
       Inl e \<Rightarrow> throw (''failed to unmarshal response: '' @ e)
     | Inr (farewell, number) \<Rightarrow>
         if farewell = [] then throw ''expected non-empty Farewell''
         else if number < 1 then throw (''expected FarewellNumber >= 1, got '' @ dec_int number)
         else ret ())"

definition hello_payload :: bytes where
  "hello_payload = string_bytes (json_object [(''name'', json_string ''World'')])"

text \<open>Setting the extension id; a contract that has one already is fine.\<close>

definition configure_sender :: "command_env \<Rightarrow> Support \<Rightarrow> address \<Rightarrow> unit tool" where
  "configure_sender E s addr =
     handle (SetExtensionId (setup_of E) s addr)
       (\<lambda>err. if Contains err ''already set'' \<or> Contains err ''Extension ID already set'' then ret ()
              else throw (''setExtensionId failed '' @ [CHR 0xE2, CHR 0x80, CHR 0x94] @
                '' is the extension registered? Check that pre-build.sh completed successfully. Error: '' @ err))
       ret"

definition run_test_main :: "command_env \<Rightarrow> privkey \<Rightarrow> string \<Rightarrow> string \<Rightarrow> string \<Rightarrow> string \<Rightarrow> unit tool" where
  "run_test_main E dev af cf pf instructionSender =
     (let addr = te_HexToAddress (co_node E) instructionSender in
      attempt (DefaultSupport (co_node E) dev af cf) (\<lambda>s.
      attempt (configure_sender E s addr) (\<lambda>_.
      attempt (SendSayHello (setup_of E) s addr hello_payload) (\<lambda>(hello_id, tx).
      attempt (sleep 5) (\<lambda>_.
      attempt (verifyHelloResult E pf hello_id) (\<lambda>_.
      attempt (SendSayGoodbye (setup_of E) s addr ''World'' ''heading out'') (\<lambda>(goodbye_id, tx).
      attempt (sleep 5) (\<lambda>_.
      verifyGoodbyeResult E pf goodbye_id))))))))"

end
