(* ===== verification/CommandsSafety.thy ===== *)
theory CommandsSafety
  imports Commands RegistrationSafety Escrow Extension
begin

text \<open>
  What the commands guarantee: interrupted \<open>register-tee\<close> runs resume, a deployment sends one transaction with
  checked arguments that the contract's constructor accepts, governance is set exactly as configured, and the
  repository's own extension passes \<open>run-test\<close>.
\<close>

section \<open>What only reads\<close>

lemma setup_of_tool [simp]:
  "te_Transact (setup_of E) = te_Transact (co_node E)" "te_WaitMined (setup_of E) = te_WaitMined (co_node E)"
  "te_NewKeyedTransactor (setup_of E) = te_NewKeyedTransactor (co_node E)"
  "te_PubkeyToAddress (setup_of E) = te_PubkeyToAddress (co_node E)"
  by (simp_all add: setup_of_def tool_env.defs)

text \<open>Reading the environment, the chain and the network sends nothing and writes nothing.\<close>

lemma within_case_sum [within_intros]:
  "(\<And>e. within R (f e)) \<Longrightarrow> (\<And>x. within R (g x)) \<Longrightarrow> within R (case r of Inl e \<Rightarrow> f e | Inr x \<Rightarrow> g x)"
  by (cases r) simp_all

lemma reads_getenv [within_intros]: "within (sends T) (getenv E name)"
  unfolding getenv_def by (intro within_intros)

lemma reads_require [within_intros]: "within (sends T) (require v)" "within (sends T) (require_chain E f)"
  unfolding require_def require_chain_def by (intro within_intros)+

lemma reads_DefaultSupport [within_intros]: "within (sends T) (DefaultSupport E dev af cf)"
  unfolding DefaultSupport_def ReadAddresses_def ParseAddresses_def DefaultPrivateKey_def NewSupport_def Let_def
  by (intro within_intros)

lemma reads_GetTeeProxyID [within_intros]: "within (sends T) (GetTeeProxyID E url)"
  unfolding GetTeeProxyID_def by (intro within_intros)

lemma reads_GetCodeHashAndPlatform [within_intros]: "within (sends T) (GetCodeHashAndPlatform E teeInfo)"
  unfolding GetCodeHashAndPlatform_def CodeHashAndPlatform_def case_prod_beta by (intro within_intros)

lemma reads_owner_key [within_intros]: "within (sends T) (owner_key E strip s)"
  unfolding owner_key_def by (intro within_intros)

lemma reads_unchanged:
  "within (sends {}) m \<Longrightarrow> m w = (r, w') \<Longrightarrow> w_sent w' = w_sent w \<and> w_files w' = w_files w"
  by (drule withinD) (auto simp: sends_def)

lemmas read_only =
  reads_unchanged [OF reads_DefaultSupport] reads_unchanged [OF within_TeeInfo] reads_unchanged [OF reads_GetTeeProxyID]
  reads_unchanged [OF reads_GetCodeHashAndPlatform] reads_unchanged [OF reads_owner_key] reads_unchanged [OF reads_getenv]

section \<open>register-tee\<close>

text \<open>Any number of \<open>register-tee -resume\<close> runs on one state file that end in an error, with whatever other flags.\<close>

inductive failed_commands :: "command_env \<Rightarrow> string \<Rightarrow> world \<Rightarrow> world \<Rightarrow> bool" for E path w where
  no_command: "failed_commands E path w w"
| command_again: "failed_commands E path w w' \<Longrightarrow> rt_resume fl \<Longrightarrow> rt_state fl = path \<Longrightarrow>
     register_tee_main E dev fl w' = (Inl e, w'') \<Longrightarrow> failed_commands E path w w''"

lemma register_tee_failed:
  assumes "reliable_store (co_node E) (rt_state fl)" and "rt_resume fl"
  shows "fails_tracked (co_node E) (rt_state fl) st (register_tee_main E dev fl)"
proof -
  have "within (sends T) (if rt_resume fl then ret () else os_Remove (co_node E) (rt_state fl))" for T
    by (simp add: assms(2) within_intros)
  then show ?thesis
    unfolding register_tee_main_def Let_def case_prod_beta
    by (intro sends_then reads_DefaultSupport within_TeeInfo within_TeeProxyId reads_GetTeeProxyID
        reads_GetCodeHashAndPlatform RegisterNode_failed assms(1))
qed

text \<open>C29: An interrupted \<open>register-tee\<close> can be resumed. Over any number of failed commands with \<open>-resume\<close> on a state
  file that can be written and read back, whatever part of the command failed and whatever the other flags
  were, the file keeps the steps completed so far, in order and without repetition, with the instruction ids
  they returned, and no command sends a transaction for a step that was completed before.\<close>

theorem register_tee_resumes:
  assumes "failed_commands E path w w'" and "reliable_store (co_node E) path" and "wf_state st" and "stored (co_node E) path w st"
  shows "\<exists>st'. stored (co_node E) path w' st' \<and> wf_state st' \<and> state_le st st' \<and>
     (\<exists>new. w_sent w' = w_sent w @ new \<and> (\<forall>(opts, c) \<in> set new. tx_open st c))"
proof -
  from assms(1) have "\<exists>st'. progressed (co_node E) path st w w' st'"
  proof (induction rule: failed_commands.induct)
    case no_command
    from idle_progressed [OF assms(3,4)] show ?case ..
  next
    case (command_again w' fl dev e w'')
    then obtain st' where p: "progressed (co_node E) path st w w' st'" by blast
    have "fails_tracked (co_node E) path st' (register_tee_main E dev fl)"
      using register_tee_failed [of E fl] assms(2) command_again.hyps by metis
    from fails_trackedD [OF this _ _ command_again.hyps(4)] progressed_stored [OF p] p
    show ?case by (blast intro: progressed_trans)
  qed
  then show ?thesis by (auto simp: progressed_def)
qed

text \<open>Every step of a run that found nothing completed: sent if the command asks for it.\<close>

lemma step_r_fresh:
  assumes "step_r N s a path teeID proxyID st w = (Inr (att, st'), w')" and "rs_CompletedSteps st = []"
  shows "set (rs_CompletedSteps st') \<subseteq> {CHR ''r''} \<and>
     (\<exists>o1 c1. w_sent w' = w_sent w @ (if CHR ''r'' \<in> set (ra_command a) then [(o1, c1)] else []) \<and>
        (if CHR ''r'' \<in> set (ra_command a) then fee_opts N s o1 \<and> announced N o1 c1 att \<and>
           (c1 = RequestTeeAttestationTx teeID (sender N s) \<or>
            (\<exists>sig. c1 = MachineRegister (machine_data (ra_teeInfo a)) sig proxyID (ra_hostURL a) (sender N s)))
         else att = 0))"
proof (cases "CHR ''r'' \<in> set (ra_command a)")
  case True
  from step_r_new [OF assms(1) True] assms(2) True show ?thesis by auto
next
  case False
  with assms show ?thesis by (simp add: step_r_def run_iff)
qed

lemma step_R_fresh:
  assumes "step_R N s a path teeID att st w = (Inr (att', st'), w')" and "set (rs_CompletedSteps st) \<subseteq> {CHR ''r''}"
  shows "set (rs_CompletedSteps st') \<subseteq> set ''rR'' \<and>
     (\<exists>o2. w_sent w' = w_sent w @
          (if CHR ''R'' \<in> set (ra_command a) then [(o2, RequestTeeAttestationTx teeID (sender N s))] else []) \<and>
        (if CHR ''R'' \<in> set (ra_command a)
         then fee_opts N s o2 \<and> announced N o2 (RequestTeeAttestationTx teeID (sender N s)) att' else att' = att))"
proof (cases "CHR ''R'' \<in> set (ra_command a)")
  case True
  have "CHR ''R'' \<notin> set (rs_CompletedSteps st)" using assms(2) by auto
  from step_R_new [OF assms(1) True this] assms(2) True show ?thesis by auto
next
  case False
  with assms show ?thesis by (auto simp: step_R_def run_iff)
qed

lemma step_a_fresh:
  assumes "step_a N s a path teeID att st w = (Inr (i, st'), w')" and "set (rs_CompletedSteps st) \<subseteq> set ''rR''"
  shows "\<exists>o3. w_sent w' = w_sent w @ (if CHR ''a'' \<in> set (ra_command a)
        then [(o3, RequestAvailabilityCheckTx teeID att (ra_ftdcTee a) (sender N s) (sender N s))] else []) \<and>
     (if CHR ''a'' \<in> set (ra_command a) then fee_opts N s o3 \<and>
        announced N o3 (RequestAvailabilityCheckTx teeID att (ra_ftdcTee a) (sender N s) (sender N s)) i
      else i = (if ra_instructionID a = [] then 0 else te_HexToHash N (ra_instructionID a)))"
proof (cases "CHR ''a'' \<in> set (ra_command a)")
  case True
  have "CHR ''a'' \<notin> set (rs_CompletedSteps st)" using assms(2) by auto
  from step_a_new [OF assms(1) True this] True show ?thesis by simp
next
  case False
  with assms show ?thesis by (auto simp: step_a_def run_iff savedAvailabilityInstructionID_def)
qed

lemma step_p_fresh:
  assumes "step_p N s a i w = (Inr u, w')"
  shows "\<exists>o4 pf. w_sent w' = w_sent w @ (if CHR ''p'' \<in> set (ra_command a) then [(o4, ToProductionTx pf)] else []) \<and>
     (CHR ''p'' \<in> set (ra_command a) \<longrightarrow>
        (\<exists>t x1 x2. GetFTDCAvailabilityCheckResult N (ra_ftdcTeeURL a) i x1 = (Inr pf, x2) \<and>
           ne_GetTeeMachine N t (ap_RequestTeeId pf) = Inr (ap_RequestTeeId pf)))"
proof (cases "CHR ''p'' \<in> set (ra_command a)")
  case True
  from step_p_new [OF assms True] True show ?thesis by fastforce
next
  case False
  with assms show ?thesis by (simp add: step_p_def run_iff)
qed

text \<open>What a successful registration that found nothing completed has sent for a command, to the end.\<close>

definition registration_sent ::
  "node_env \<Rightarrow> Support \<Rightarrow> register_args \<Rightarrow> address \<Rightarrow> address \<Rightarrow> (TransactOpts \<times> contract_call) list \<Rightarrow> bool" where
  "registration_sent N s a teeID proxyID sent \<longleftrightarrow>
     (let cmd = set (ra_command a); attest = RequestTeeAttestationTx teeID (sender N s) in
      \<exists>o1 c1 id1 o2 att o3 i o4 pf t x1 x2.
        let check = RequestAvailabilityCheckTx teeID att (ra_ftdcTee a) (sender N s) (sender N s) in
        sent = (if CHR ''r'' \<in> cmd then [(o1, c1)] else []) @ (if CHR ''R'' \<in> cmd then [(o2, attest)] else []) @
          (if CHR ''a'' \<in> cmd then [(o3, check)] else []) @ (if CHR ''p'' \<in> cmd then [(o4, ToProductionTx pf)] else []) \<and>
        (if CHR ''r'' \<in> cmd then fee_opts N s o1 \<and> announced N o1 c1 id1 \<and>
           (c1 = attest \<or> (\<exists>sig. c1 = MachineRegister (machine_data (ra_teeInfo a)) sig proxyID (ra_hostURL a) (sender N s)))
         else id1 = 0) \<and>
        (if CHR ''R'' \<in> cmd then fee_opts N s o2 \<and> announced N o2 attest att else att = id1) \<and>
        (if CHR ''a'' \<in> cmd then fee_opts N s o3 \<and> announced N o3 check i
         else i = (if ra_instructionID a = [] then 0 else te_HexToHash N (ra_instructionID a))) \<and>
        (CHR ''p'' \<in> cmd \<longrightarrow> GetFTDCAvailabilityCheckResult N (ra_ftdcTeeURL a) i x1 = (Inr pf, x2) \<and>
           ne_GetTeeMachine N t (ap_RequestTeeId pf) = Inr (ap_RequestTeeId pf)))"

lemma fresh_registration:
  assumes "RegisterNode N s a path w = (Inr (), w')" and "w_files w path = None"
  shows "\<exists>teeID proxyID sent. TeeProxyId N (ra_teeInfo a) w = (Inr (teeID, proxyID), w) \<and>
     w_sent w' = w_sent w @ sent \<and> registration_sent N s a teeID proxyID sent"
proof -
  from RegisterNode_Inr [OF assms(1)] obtain teeID proxyID w0 w1 st i1 st1 w2 i2 st2 w3 i3 st3 w4 w5 where
    run: "TeeProxyId N (ra_teeInfo a) w = (Inr (teeID, proxyID), w0)" "loadState N path w0 = (Inr st, w1)"
      "step_r N s a path teeID proxyID st w1 = (Inr (i1, st1), w2)" "step_R N s a path teeID i1 st1 w2 = (Inr (i2, st2), w3)"
      "step_a N s a path teeID i2 st2 w3 = (Inr (i3, st3), w4)" "step_p N s a i3 w4 = (Inr (), w5)"
    and rm: "(os_Remove N path :: unit tool) w5 = (Inr (), w')" by blast
  have w0: "w0 = w" using quiet_sent run(1) .
  have st: "st = empty_state" and w1: "w_sent w1 = w_sent w"
    using loadState_stored [OF run(2), of empty_state] assms(2) by (simp_all add: stored_def w0)
  have "rs_CompletedSteps st = []" by (simp add: st empty_state_def)
  note r = step_r_fresh [OF run(3) this]
  note R = step_R_fresh [OF run(4) conjunct1 [OF r]]
  note A = step_a_fresh [OF run(5) conjunct1 [OF R]]
  have w': "w_sent w' = w_sent w5" using rm by (auto simp: os_Remove_def)
  from conjunct2 [OF r] obtain o1 c1 where
    1: "w_sent w2 = w_sent w @ (if CHR ''r'' \<in> set (ra_command a) then [(o1, c1)] else [])"
      "if CHR ''r'' \<in> set (ra_command a) then fee_opts N s o1 \<and> announced N o1 c1 i1 \<and>
        (c1 = RequestTeeAttestationTx teeID (sender N s) \<or>
         (\<exists>sig. c1 = MachineRegister (machine_data (ra_teeInfo a)) sig proxyID (ra_hostURL a) (sender N s))) else i1 = 0"
    unfolding w1 by blast
  from conjunct2 [OF R] obtain o2 where
    2: "w_sent w3 = w_sent w2 @ (if CHR ''R'' \<in> set (ra_command a) then [(o2, RequestTeeAttestationTx teeID (sender N s))] else [])"
      "if CHR ''R'' \<in> set (ra_command a)
       then fee_opts N s o2 \<and> announced N o2 (RequestTeeAttestationTx teeID (sender N s)) i2 else i2 = i1" by blast
  from A obtain o3 where
    3: "w_sent w4 = w_sent w3 @ (if CHR ''a'' \<in> set (ra_command a)
        then [(o3, RequestAvailabilityCheckTx teeID i2 (ra_ftdcTee a) (sender N s) (sender N s))] else [])"
      "if CHR ''a'' \<in> set (ra_command a) then fee_opts N s o3 \<and>
         announced N o3 (RequestAvailabilityCheckTx teeID i2 (ra_ftdcTee a) (sender N s) (sender N s)) i3
       else i3 = (if ra_instructionID a = [] then 0 else te_HexToHash N (ra_instructionID a))" by blast
  from step_p_fresh [OF run(6)] obtain o4 pf t x1 x2 where
    4: "w_sent w5 = w_sent w4 @ (if CHR ''p'' \<in> set (ra_command a) then [(o4, ToProductionTx pf)] else [])"
      "CHR ''p'' \<in> set (ra_command a) \<longrightarrow> GetFTDCAvailabilityCheckResult N (ra_ftdcTeeURL a) i3 x1 = (Inr pf, x2) \<and>
         ne_GetTeeMachine N t (ap_RequestTeeId pf) = Inr (ap_RequestTeeId pf)" by blast
  have "\<exists>sent. w_sent w' = w_sent w @ sent \<and> registration_sent N s a teeID proxyID sent"
    unfolding registration_sent_def Let_def w' 4(1) 3(1) 2(1) 1(1) append_assoc
    by (rule exI, rule conjI, rule refl)
      (intro exI [of _ o1] exI [of _ c1] exI [of _ i1] exI [of _ o2] exI [of _ i2] exI [of _ o3] exI [of _ i3] exI [of _ o4]
        exI [of _ pf] exI [of _ t] exI [of _ x1] exI [of _ x2] conjI refl 1(2) 2(2) 3(2) 4(2))
  then show ?thesis using run(1) w0 by blast
qed

text \<open>C30: A complete \<open>register-tee\<close>, for every command, the default \<open>rap\<close> and the \<open>rRap\<close> of the deployments among
  them. If a fresh run succeeds and an old state file could be removed, the command sent one transaction for each
  of its steps, in the order \<open>r\<close>, \<open>R\<close>, \<open>a\<close>, \<open>p\<close>, and no other: the pre-registration of the machine the proxy reports,
  under the host URL given or else the proxy's (or an attestation request, for a machine already on chain); an
  attestation request; an availability check of that machine by the external proxy's machine, with the id
  announced for the last request before it (zero if there was none); and the promotion with the proof fetched for
  the id announced for the check, or for the \<open>-i\<close> given when the command has no check.\<close>

theorem register_tee_complete:
  assumes "register_tee_main E dev fl w = (Inr (), w')"
    and "\<not> rt_resume fl" and "\<not> te_RemoveFail (co_node E) (w_now w) (rt_state fl)"
  defines "N \<equiv> co_node E" and "host \<equiv> (if rt_h fl = [] then rt_p fl else rt_h fl)"
  shows "\<exists>s teeInfo v1 v2 teeID proxyID ftdc fp v3 v4 sent.
     DefaultSupport N dev (rt_a fl) (rt_c fl) v1 = (Inr s, v2) \<and> TeeInfo N (rt_p fl) v2 = (Inr teeInfo, v3) \<and>
     TeeProxyId N teeInfo v3 = (Inr (teeID, proxyID), v3) \<and> GetTeeProxyID N (rt_ep fl) v3 = (Inr (ftdc, fp), v4) \<and>
     w_sent w' = w_sent w @ sent \<and>
     registration_sent N s \<lparr>ra_teeInfo = teeInfo, ra_hostURL = host, ra_ftdcTeeURL = rt_ep fl, ra_ftdcTee = ftdc,
         ra_command = rt_command fl, ra_instructionID = rt_i fl\<rparr> teeID proxyID sent"
proof -
  from assms(1) obtain v1 s v2 teeInfo v3 ids v4 ftdc fp v5 hp v6 where
    rm: "(os_Remove N (rt_state fl) :: unit tool) w = (Inr (), v1)" and
    p: "DefaultSupport N dev (rt_a fl) (rt_c fl) v1 = (Inr s, v2)" "TeeInfo N (rt_p fl) v2 = (Inr teeInfo, v3)"
      "TeeProxyId N teeInfo v3 = (Inr ids, v4)" "GetTeeProxyID N (rt_ep fl) v4 = (Inr (ftdc, fp), v5)"
      "GetCodeHashAndPlatform N teeInfo v5 = (Inr hp, v6)" and
    reg: "RegisterNode N s \<lparr>ra_teeInfo = teeInfo, ra_hostURL = host, ra_ftdcTeeURL = rt_ep fl, ra_ftdcTee = ftdc,
         ra_command = rt_command fl, ra_instructionID = rt_i fl\<rparr> (rt_state fl) v6 = (Inr (), w')" (is "RegisterNode N s ?a _ _ = _")
    using assms(2) unfolding register_tee_main_def Let_def case_prod_beta N_def [symmetric] host_def [symmetric]
    by (auto simp: run_iff)
  have v1: "w_sent v1 = w_sent w" "w_files v1 (rt_state fl) = None"
    using rm assms(3) by (auto simp: os_Remove_def N_def)
  have v4: "v4 = v3" using quiet_sent(1) [OF p(3)] .
  have "w_sent v6 = w_sent v1 \<and> w_files v6 = w_files v1"
    using read_only(1) [OF p(1)] read_only(2) [OF p(2)] read_only(3) [OF p(4)] read_only(4) [OF p(5)] v4 by simp
  with v1 have v6: "w_sent v6 = w_sent w" "w_files v6 (rt_state fl) = None" by simp_all
  have ids: "TeeProxyId N teeInfo v6 = (Inr ids, v6)"
    using p(3) by (auto simp: TeeProxyId_def comp_defs split: sum.splits prod.splits)
  from fresh_registration [OF reg v6(2)] obtain teeID proxyID sent where
    "TeeProxyId N teeInfo v6 = (Inr (teeID, proxyID), v6)" and sent: "w_sent w' = w_sent w @ sent" "registration_sent N s ?a teeID proxyID sent"
    by (auto simp: v6(1))
  from this(1) ids have "TeeProxyId N teeInfo v3 = (Inr (teeID, proxyID), v3)" using p(3) v4 by simp
  with sent show ?thesis using p(1,2) p(4) [unfolded v4] by blast
qed

section \<open>deploy-workproof-escrow\<close>

lemma run_getenv [run_iff]: "getenv E name w = (Inr v, w') \<longleftrightarrow> v = te_Getenv (co_node E) (w_now w) name \<and> w' = w\<lparr>w_now := w_now w + 1\<rparr>"
  by (auto simp: getenv_def run_iff)

lemma run_require [run_iff]:
  "require v w = (Inr u, w') \<longleftrightarrow> v = None \<and> w' = w"
  "require_chain E f w = (Inr u, w') \<longleftrightarrow> f (Some (co_Client E (w_now w))) = None \<and> w' = w\<lparr>w_now := w_now w + 1\<rparr>"
  by (auto simp: require_def require_chain_def run_iff split: option.splits)

lemma AddressHasCode_None: "AddressHasCode C (Some cl) a l = None \<longleftrightarrow> (\<exists>code. cl_CodeAt cl a = Inr code \<and> code \<noteq> [])"
  by (auto simp: AddressHasCode_def split: sum.splits)

lemma KeyHasFunds_None: "KeyHasFunds C (Some cl) a m = None \<longleftrightarrow> (\<exists>n. cl_BalanceAt cl a = Inr n \<and> m \<le> n)"
  by (auto simp: KeyHasFunds_def split: sum.splits)

text \<open>A call signed with a key and without value that was sent and mined, with a status that passes a test.\<close>

definition sent_and_mined ::
  "'z tool_env_scheme \<Rightarrow> Support \<Rightarrow> privkey \<Rightarrow> TransactOpts \<Rightarrow> contract_call \<Rightarrow> bytes32 \<Rightarrow> (u64 \<Rightarrow> bool) \<Rightarrow> bool" where
  "sent_and_mined F s key opts c h ok \<longleftrightarrow>
     te_NewKeyedTransactor F key (sp_ChainID s) = Inr (op_From opts) \<and> op_Value opts = 0 \<and>
     (\<exists>t rc. te_Transact F t opts c = Inr h \<and> te_WaitMined F (t + 1) h = Inr rc \<and> ok (rc_Status rc))"

lemma deploy_contract_sent:
  "deploy_contract F s c w = (Inr a, w') \<Longrightarrow>
     \<exists>opts h. sent_and_mined F s (sp_Prv s) opts c h (\<lambda>st. st = 1) \<and> a = se_DeployedAddress F h \<and>
       w_sent w' = w_sent w @ [(opts, c)]"
  unfolding deploy_contract_def sent_and_mined_def by (auto simp: run_iff split: if_splits)

lemma write_address_sent: "write_address E out a w = (Inr u, w') \<Longrightarrow> w_sent w' = w_sent w"
  by (auto simp: write_address_def run_iff os_WriteFile_def split: if_splits option.splits)

lemma resolve_fee_Inr:
  "resolveProtocolFeeBps E w = (Inr bps, w') \<Longrightarrow>
     w' = w\<lparr>w_now := w_now w + 1\<rparr> \<and> (let raw = te_Getenv (co_node E) (w_now w) ''WORKPROOF_PROTOCOL_FEE_BPS'' in
       if raw = [] then bps = 100 else list_all is_digit raw \<and> unat bps = digits_value raw)"
  by (auto simp: resolveProtocolFeeBps_def run_iff ParseUint10_def defaultProtocolFeeBps_def unat_of_nat Let_def
      split: if_splits option.splits)

text \<open>What the chain must have for the contract's constructor beyond the arguments that the command checks: the
  three contracts that the registry resolves, none of them zero, and a treasury that is neither the token nor the
  new contract itself.\<close>

definition chain_ready :: "call_env \<Rightarrow> address option \<Rightarrow> address option \<Rightarrow> address option \<Rightarrow> address \<Rightarrow> bool" where
  "chain_ready c token relay random treasury \<longleftrightarrow>
     {token, relay, random} \<inter> {None, Some 0} = {} \<and> treasury \<noteq> bk_this (cv_block c) \<and> Some treasury \<noteq> token"

lemma constructor_after_checks:
  assumes "d \<noteq> 0" and "treasury \<noteq> 0" and "cv_codeLength c d \<noteq> 0"
  shows "case escrow_constructor c token relay random d d treasury bps of
       Inr (im, s0) \<Rightarrow> bps \<le> MAX_PROTOCOL_FEE_BPS \<and> chain_ready c token relay random treasury \<and>
         Some (im_token im) = token \<and> im_treasury im = treasury \<and> es_protocolFeeBps s0 = bps \<and> es_owner s0 = cv_sender c
     | Inl e \<Rightarrow> if MAX_PROTOCOL_FEE_BPS < bps then e = FeeTooHigh
         else \<not> chain_ready c token relay random treasury \<and> e \<in> {ZeroAddress, CallReverted}"
  using assms by (auto simp: escrow_constructor_def chain_ready_def not_le)

text \<open>What a successful run has established before it deploys.\<close>

lemma deploy_checks:
  assumes "deploy_workproof_escrow_main E dev af cf out only w = (Inr r, w')"
  shows "\<exists>s raw treasury bps d t1 t2 t3 t4 t5 t6 w6 code balance.
     DefaultSupport (co_node E) dev af cf w = (Inr s, t1) \<and> d = ad_FlareTeeManager (sp_Addresses s) \<and> d \<noteq> 0 \<and>
     cl_CodeAt (co_Client E t2) d = Inr code \<and> code \<noteq> [] \<and>
     raw = te_Getenv (co_node E) t3 ''WORKPROOF_TREASURY'' \<and> raw \<noteq> [] \<and> treasury = te_HexToAddress (co_node E) raw \<and>
     treasury \<noteq> 0 \<and> cl_BalanceAt (co_Client E t4) (account E (sp_Prv s)) = Inr balance \<and> MinDeployBalance \<le> balance \<and>
     resolveProtocolFeeBps E t5 = (Inr bps, t6) \<and> w_sent w6 = w_sent w \<and>
     (if only then ret None else
       attempt (DeployWorkProofEscrow (setup_of E) s treasury bps) (\<lambda>addr.
       attempt (write_address E out addr) (\<lambda>_. ret (Some (ce_AddressHex (co_check E) addr))))) w6 = (Inr r, w')"
proof -
  from assms obtain s w1 treasury w2 bps w3 w4 w5 where
    p: "DefaultSupport (co_node E) dev af cf w = (Inr s, w1)" "resolveTreasury E (account E (sp_Prv s)) w1 = (Inr treasury, w2)"
      "resolveProtocolFeeBps E w2 = (Inr bps, w3)" "check_diamond E s w3 = (Inr (), w4)"
      "require (AddressNotZero (co_check E) treasury ''Treasury'') w4 = (Inr (), w4)" "check_balance E s w4 = (Inr (), w5)" and
    rest: "(if only then ret None else
       attempt (DeployWorkProofEscrow (setup_of E) s treasury bps) (\<lambda>addr.
       attempt (write_address E out addr) (\<lambda>_. ret (Some (ce_AddressHex (co_check E) addr))))) w5 = (Inr r, w')"
    unfolding deploy_workproof_escrow_main_def by (auto simp: run_attempt run_require(1))
  let ?d = "ad_FlareTeeManager (sp_Addresses s)" and ?raw = "te_Getenv (co_node E) (w_now w1) ''WORKPROOF_TREASURY''"
  have raw: "?raw = ?raw" "?raw \<noteq> []" "treasury = te_HexToAddress (co_node E) ?raw" and w2: "w2 = w1\<lparr>w_now := w_now w1 + 1\<rparr>"
    using p(2) by (auto simp: resolveTreasury_def run_iff split: if_splits)
  obtain code where d: "?d = ?d" "?d \<noteq> 0" "cl_CodeAt (co_Client E (w_now w3)) ?d = Inr code" "code \<noteq> []"
    and w4: "w4 = w3\<lparr>w_now := w_now w3 + 1\<rparr>"
    using p(4) by (auto simp: check_diamond_def run_iff AddressNotZero_def AddressHasCode_None Let_def split: if_splits)
  have z: "treasury \<noteq> 0" using p(5) by (auto simp: run_iff AddressNotZero_def)
  obtain n where b: "cl_BalanceAt (co_Client E (w_now w4)) (account E (sp_Prv s)) = Inr n" "MinDeployBalance \<le> n"
    and w5: "w_sent w5 = w_sent w4"
    using p(6) by (auto simp: check_balance_def run_iff KeyHasFunds_None)
  have "w_sent w5 = w_sent w"
    using read_only(1) [OF p(1)] w2 resolve_fee_Inr [OF p(3)] w4 w5 by simp
  then show ?thesis using p(1,3) raw d z b rest
    by - ((rule exI)+, (rule conjI, assumption)+, assumption)
qed

lemma deploy_run:
  assumes "(if only then ret None else
       attempt (DeployWorkProofEscrow (setup_of E) s treasury bps) (\<lambda>addr.
       attempt (write_address E out addr) (\<lambda>_. ret (Some (ce_AddressHex (co_check E) addr))))) w = (Inr r, w')"
  defines "d \<equiv> ad_FlareTeeManager (sp_Addresses s)"
  shows "if only then r = None \<and> w_sent w' = w_sent w
     else \<exists>opts h. w_sent w' = w_sent w @ [(opts, DeployEscrowTx d d treasury bps)] \<and>
       sent_and_mined (setup_of E) s (sp_Prv s) opts (DeployEscrowTx d d treasury bps) h (\<lambda>st. st = 1) \<and>
       r = Some (ce_AddressHex (co_check E) (se_DeployedAddress (setup_of E) h))"
proof (cases only)
  case True
  with assms(1) show ?thesis by (simp add: run_iff)
next
  case False
  with assms(1) obtain a w1 where a: "DeployWorkProofEscrow (setup_of E) s treasury bps w = (Inr a, w1)"
    "w_sent w' = w_sent w1" "r = Some (ce_AddressHex (co_check E) a)"
    by (auto simp: run_iff dest!: write_address_sent)
  from deploy_contract_sent [OF a(1) [unfolded DeployWorkProofEscrow_def]] a(2,3) False show ?thesis
    unfolding d_def by auto
qed

text \<open>C31: \<open>deploy-workproof-escrow\<close> deploys once, with checked arguments. A successful run has found the diamond of the
  address file not zero and with code, a treasury in the environment that is not zero, a valid fee there (or the
  default) and the minimum balance on the account of its key. With \<open>-preflight-only\<close> it sends nothing. Otherwise it
  sends exactly one transaction, the deployment with these arguments, without value and signed with its key, which
  was mined with status one, and prints the address of the contract. What the constructor makes of such arguments,
  where the diamond still has code: a fee above the cap, which neither the command nor its preflight checks, is
  refused as such; below the cap it succeeds, with this treasury and fee and the deployer as owner, exactly when
  the registry's three contracts resolve and the treasury is neither the token nor the escrow itself.\<close>

theorem deploy_escrow_exact:
  assumes "deploy_workproof_escrow_main E dev af cf out only w = (Inr r, w')"
  shows "\<exists>s raw treasury bps d t1 t2 t3 t4 t5 t6 code balance.
     DefaultSupport (co_node E) dev af cf w = (Inr s, t1) \<and> d = ad_FlareTeeManager (sp_Addresses s) \<and> d \<noteq> 0 \<and>
     cl_CodeAt (co_Client E t2) d = Inr code \<and> code \<noteq> [] \<and>
     raw = te_Getenv (co_node E) t3 ''WORKPROOF_TREASURY'' \<and> raw \<noteq> [] \<and> treasury = te_HexToAddress (co_node E) raw \<and>
     treasury \<noteq> 0 \<and> cl_BalanceAt (co_Client E t4) (account E (sp_Prv s)) = Inr balance \<and> MinDeployBalance \<le> balance \<and>
     resolveProtocolFeeBps E t5 = (Inr bps, t6) \<and>
     (if only then r = None \<and> w_sent w' = w_sent w
      else \<exists>opts h. w_sent w' = w_sent w @ [(opts, DeployEscrowTx d d treasury bps)] \<and>
        sent_and_mined (setup_of E) s (sp_Prv s) opts (DeployEscrowTx d d treasury bps) h (\<lambda>st. st = 1) \<and>
        r = Some (ce_AddressHex (co_check E) (se_DeployedAddress (setup_of E) h))) \<and>
     (\<forall>c token relay random. cv_codeLength c d \<noteq> 0 \<longrightarrow>
        (case escrow_constructor c token relay random d d treasury bps of
           Inr (im, s0) \<Rightarrow> bps \<le> MAX_PROTOCOL_FEE_BPS \<and> chain_ready c token relay random treasury \<and>
             Some (im_token im) = token \<and> im_treasury im = treasury \<and> es_protocolFeeBps s0 = bps \<and> es_owner s0 = cv_sender c
         | Inl e \<Rightarrow> if MAX_PROTOCOL_FEE_BPS < bps then e = FeeTooHigh
             else \<not> chain_ready c token relay random treasury \<and> e \<in> {ZeroAddress, CallReverted}))"
proof -
  from deploy_checks [OF assms] obtain s raw treasury bps d t1 t2 t3 t4 t5 t6 w6 code balance where
    p: "DefaultSupport (co_node E) dev af cf w = (Inr s, t1)" and d: "d = ad_FlareTeeManager (sp_Addresses s)" "d \<noteq> 0" and
    checks: "cl_CodeAt (co_Client E t2) d = Inr code" "code \<noteq> []" "raw = te_Getenv (co_node E) t3 ''WORKPROOF_TREASURY''"
      "raw \<noteq> []" "treasury = te_HexToAddress (co_node E) raw" and z: "treasury \<noteq> 0" and
    b: "cl_BalanceAt (co_Client E t4) (account E (sp_Prv s)) = Inr balance" "MinDeployBalance \<le> balance"
      "resolveProtocolFeeBps E t5 = (Inr bps, t6)" and w6: "w_sent w6 = w_sent w" and
    rest: "(if only then ret None else
       attempt (DeployWorkProofEscrow (setup_of E) s treasury bps) (\<lambda>addr.
       attempt (write_address E out addr) (\<lambda>_. ret (Some (ce_AddressHex (co_check E) addr))))) w6 = (Inr r, w')"
    by blast
  from p d checks z b deploy_run [OF rest, folded d(1), unfolded w6] show ?thesis
    by - ((rule exI)+, (rule conjI, assumption)+, intro allI impI, rule constructor_after_checks)
qed

section \<open>set-governance\<close>

text \<open>A threshold that is a positive decimal number of 64 bits, and every other one.\<close>

definition usable_threshold :: "string \<Rightarrow> bool" where
  "usable_threshold raw \<longleftrightarrow> list_all is_digit (TrimSpace raw) \<and> 0 < digits_value (TrimSpace raw) \<and> digits_value (TrimSpace raw) < 2 ^ 64"

lemma digits_value_Nil [simp]: "digits_value [] = 0"
  by (simp add: digits_value_def)

lemma parseThreshold_value:
  "unat (parseThreshold raw) = (if usable_threshold raw then digits_value (TrimSpace raw) else 1)"
  by (auto simp: parseThreshold_def ParseUint10_def usable_threshold_def unat_of_nat not_le)

lemma parseSigners_nonempty: "parseSigners E raw fallback \<noteq> []"
  by (simp add: parseSigners_def Let_def)

lemma governance_sent:
  assumes "SetTeeGovernance F s key n signers threshold w = (Inr (), w')"
  defines "c \<equiv> SetNewTeeGovernanceTx n signers threshold"
  shows "\<exists>h. se_GovernanceHash F signers threshold = Inr h \<and>
     (if se_GetLatestTeeGovernanceHash F (w_now w) n = Inr h then w_sent w' = w_sent w
      else \<exists>opts tx. w_sent w' = w_sent w @ [(opts, c)] \<and> sent_and_mined F s key opts c tx (\<lambda>st. st \<noteq> 0))"
  using assms(1)
  unfolding SetTeeGovernance_def sent_and_mined_def c_def by (auto simp: run_iff split: if_splits) blast+

lemma owner_key_Inr:
  "owner_key E strip s w = (Inr key, w') \<Longrightarrow>
     let k = te_Getenv (co_node E) (w_now w) ''EXTENSION_OWNER_KEY'' in
     if k = [] then key = sp_Prv s else te_HexToECDSA (co_node E) (strip k) = Inr key"
  by (auto simp: owner_key_def run_iff Let_def split: if_splits)

text \<open>C32: \<open>set-governance\<close> puts in force what is configured, or less. After a successful run the extension the
  proxy reports is governed by the configured signers, with a threshold between one and their number: the chain
  reported their hash already and nothing was sent, or the one governance transaction was sent, signed with the
  extension owner's key (the deployer's if none is given), and mined without failing. Without configured signers the
  signer is the configured initial owner or else the account of that key. The threshold is the configured
  number; but a value that is not a positive decimal number is not reported: it counts as one, so that a single one of
  the signers can act.\<close>

theorem set_governance_exact:
  assumes "set_governance_main E dev af cf pf w = (Inr u, w')"
  defines "N \<equiv> co_node E"
  shows "\<exists>s w1 t0 k key t1 owner default_signer w2 info w3 n t2 rawSigners signers t3 rawThreshold threshold h t4.
     DefaultSupport N dev af cf w = (Inr s, w1) \<and>
     k = te_Getenv N t0 ''EXTENSION_OWNER_KEY'' \<and> (if k = [] then key = sp_Prv s else te_HexToECDSA N (strip_both k) = Inr key) \<and>
     owner = TrimSpace (te_Getenv N t1 ''INITIAL_OWNER'') \<and>
     default_signer = (if owner = [] then account E key else te_HexToAddress N owner) \<and>
     TeeInfo N pf w2 = (Inr info, w3) \<and> n = uint (nm_ExtensionID (sn_MachineData info)) \<and>
     rawSigners = te_Getenv N t2 ''GOVERNANCE_SIGNERS'' \<and> signers = parseSigners E rawSigners default_signer \<and>
     rawThreshold = te_Getenv N t3 ''GOVERNANCE_THRESHOLD'' \<and>
     unat threshold = (if usable_threshold rawThreshold then digits_value (TrimSpace rawThreshold) else 1) \<and>
     1 \<le> unat threshold \<and> unat threshold \<le> length signers \<and> se_GovernanceHash (setup_of E) signers threshold = Inr h \<and>
     (if se_GetLatestTeeGovernanceHash (setup_of E) t4 n = Inr h then w_sent w' = w_sent w
      else \<exists>opts tx. w_sent w' = w_sent w @ [(opts, SetNewTeeGovernanceTx n signers threshold)] \<and>
        sent_and_mined (setup_of E) s key opts (SetNewTeeGovernanceTx n signers threshold) tx (\<lambda>st. st \<noteq> 0))"
proof -
  from assms(1) obtain s w1 key w2 owner w3 info w4 w5 w6 where
    p: "DefaultSupport N dev af cf w = (Inr s, w1)" "owner_key E strip_both s w1 = (Inr key, w2)"
      "getenv E ''INITIAL_OWNER'' w2 = (Inr owner, w3)" "TeeInfo N pf w3 = (Inr info, w4)"
      "getenv E ''GOVERNANCE_SIGNERS'' w4 = (Inr (te_Getenv N (w_now w4) ''GOVERNANCE_SIGNERS''), w5)"
      "getenv E ''GOVERNANCE_THRESHOLD'' w5 = (Inr (te_Getenv N (w_now w5) ''GOVERNANCE_THRESHOLD''), w6)" and
    g: "SetTeeGovernance (setup_of E) s key (uint (nm_ExtensionID (sn_MachineData info)))
      (parseSigners E (te_Getenv N (w_now w4) ''GOVERNANCE_SIGNERS'')
        (if TrimSpace owner \<noteq> [] then te_HexToAddress N (TrimSpace owner) else account E key))
      (parseThreshold (te_Getenv N (w_now w5) ''GOVERNANCE_THRESHOLD'')) w6 = (Inr (), w')"
    (is "SetTeeGovernance ?F s key ?n ?signers ?threshold w6 = _")
    unfolding set_governance_main_def Let_def N_def by (auto simp: run_attempt run_getenv)
  have w6: "w_sent w6 = w_sent w"
    using read_only(1) [OF p(1)] read_only(5) [OF p(2)] read_only(6) [OF p(3)] read_only(2) [OF p(4)]
      read_only(6) [OF p(5)] read_only(6) [OF p(6)] by simp
  let ?k = "te_Getenv N (w_now w1) ''EXTENSION_OWNER_KEY''" and ?owner = "TrimSpace (te_Getenv N (w_now w2) ''INITIAL_OWNER'')"
  let ?default = "if ?owner = [] then account E key else te_HexToAddress N ?owner"
  have key: "?k = ?k" "if ?k = [] then key = sp_Prv s else te_HexToECDSA N (strip_both ?k) = Inr key"
    using owner_key_Inr [OF p(2)] by (simp_all add: N_def Let_def)
  have "owner = te_Getenv N (w_now w2) ''INITIAL_OWNER''" using p(3) by (simp add: run_getenv N_def)
  then have signers: "?signers = parseSigners E (te_Getenv N (w_now w4) ''GOVERNANCE_SIGNERS'') ?default" by simp
  have th: "1 \<le> unat ?threshold" "unat ?threshold \<le> length ?signers"
    using SetTeeGovernance_idempotent [where E = ?F and s = s and k = key and n = ?n and signers = ?signers and threshold = ?threshold and w = w6] g
    by simp_all
  from governance_sent [OF g] obtain h where h: "se_GovernanceHash ?F ?signers ?threshold = Inr h"
    "if se_GetLatestTeeGovernanceHash ?F (w_now w6) ?n = Inr h then w_sent w' = w_sent w
     else \<exists>opts tx. w_sent w' = w_sent w @ [(opts, SetNewTeeGovernanceTx ?n ?signers ?threshold)] \<and>
       sent_and_mined ?F s key opts (SetNewTeeGovernanceTx ?n ?signers ?threshold) tx (\<lambda>st. st \<noteq> 0)"
    unfolding w6 by blast
  show ?thesis using p(1) key refl [of ?owner] refl [of ?default] p(4) refl [of ?n]
      refl [of "te_Getenv N (w_now w4) ''GOVERNANCE_SIGNERS''"] signers refl [of "te_Getenv N (w_now w5) ''GOVERNANCE_THRESHOLD''"]
      parseThreshold_value [of "te_Getenv N (w_now w5) ''GOVERNANCE_THRESHOLD''"] th h
    by - ((rule exI)+, (rule conjI, assumption)+, assumption)
qed

section \<open>run-test\<close>

text \<open>Documented behaviour of the JSON package: the two response objects of the extension are read back.\<close>

definition greeting_json :: "string \<Rightarrow> int \<Rightarrow> bytes" where
  "greeting_json g n = string_bytes (json_object [(''greeting'', json_string g), (''greetingNumber'', dec_int n)])"

definition farewell_json :: "string \<Rightarrow> int \<Rightarrow> bytes" where
  "farewell_json g n = string_bytes (json_object [(''farewell'', json_string g), (''farewellNumber'', dec_int n)])"

definition reads_back :: "(bytes \<Rightarrow> string + string \<times> int) \<Rightarrow> (string \<Rightarrow> int \<Rightarrow> bytes) \<Rightarrow> string \<Rightarrow> int \<Rightarrow> bool" where
  "reads_back unmarshal marshal g n \<longleftrightarrow> unmarshal (marshal g n) = Inr (g, n)"

text \<open>What the command polls is the result of an action.\<close>

definition delivers :: "command_env \<Rightarrow> string \<Rightarrow> bytes32 \<Rightarrow> world \<Rightarrow> ActionResult \<Rightarrow> world \<Rightarrow> bool" where
  "delivers E url i w ar w' \<longleftrightarrow>
     ActionResult (co_node E) url i w = (Inr \<lparr>nr_Status = ar_Status ar, nr_Log = ar_Log ar, nr_Data = ar_Data ar\<rparr>, w')"

lemma json_nonempty: "string_bytes (json_object kvs) \<noteq> []"
  by (simp add: string_bytes_def json_object_def)

lemma sint_Suc: "sint (c + 1) = sint c + 1" if "sint c < 2 ^ 63 - 1" for c :: u64
proof -
  have "sint (c + 1) = signed_take_bit 63 (sint c + 1)" by (simp add: sint_word_ariths)
  moreover have "- (2 ^ 63) \<le> sint c" using sint_ge [of c] by simp
  ultimately show ?thesis using that by (simp add: signed_take_bit_int_eq_self)
qed

text \<open>The extension passes \<open>run-test\<close>. If the proxy delivers what the extension's handlers made of the two
  instructions the command sends, the JSON package reads back the objects they wrote, and the counters are not
  negative and not about to wrap, each check of the command succeeds exactly when the request could be decoded and names somebody.\<close>

theorem extension_passes_run_test:
  assumes "0 \<le> sint (e_greetingCount e) \<and> sint (e_greetingCount e) < 2 ^ 63 - 1"
    and "0 \<le> sint (e_farewellCount e) \<and> sint (e_farewellCount e) < 2 ^ 63 - 1"
    and "processSayHello X a df e = (hello, e1)" and "processSayGoodbye X a' df' e1 = (goodbye, e2)"
    and "delivers E url i w hello w'" and "delivers E url i' v goodbye v'"
    and "reads_back (co_json_Hello E) greeting_json (e_lastGreeting e1) (sint (e_greetingCount e1))"
    and "reads_back (co_json_Goodbye E) farewell_json (e_lastFarewell e2) (sint (e_farewellCount e2))"
  shows "(verifyHelloResult E url i w = (Inr (), w') \<longleftrightarrow>
       (\<exists>name. xe_DecodeHello X (df_OriginalMessage df) = Inr name \<and> name \<noteq> [])) \<and>
     (verifyGoodbyeResult E url i' v = (Inr (), v') \<longleftrightarrow>
       (\<exists>name reason. xe_DecodeGoodbye X (df_OriginalMessage df') = Inr (name, reason) \<and> name \<noteq> []))"
proof
  show "verifyHelloResult E url i w = (Inr (), w') \<longleftrightarrow>
       (\<exists>name. xe_DecodeHello X (df_OriginalMessage df) = Inr name \<and> name \<noteq> [])"
    using assms(1,3,5,7)
    by (auto simp: processSayHello_def buildResult_def verifyHelloResult_def delivers_def reads_back_def
        greeting_json_def json_nonempty comp_defs Let_def sint_Suc split: sum.splits if_splits)
  have "e_farewellCount e1 = e_farewellCount e"
    using processSayHello_effect [OF assms(3)] by auto
  then show "verifyGoodbyeResult E url i' v = (Inr (), v') \<longleftrightarrow>
       (\<exists>name reason. xe_DecodeGoodbye X (df_OriginalMessage df') = Inr (name, reason) \<and> name \<noteq> [])"
    using assms(2,4,6,8)
    by (auto simp: processSayGoodbye_def buildResult_def verifyGoodbyeResult_def delivers_def reads_back_def
        farewell_json_def json_nonempty comp_defs Let_def sint_Suc split: sum.splits if_splits prod.splits)
qed

section \<open>Concrete runs\<close>

text \<open>The chain and the node of the registration examples, on which the deployer has code and funds enough; the
  governance hash on chain is the one the library computes.\<close>

definition demo_command :: command_env where
  "demo_command = \<lparr>co_node = demo_node, co_setup = tool_env.more demo_setup, co_check = demo_check_env,
     co_Client = (\<lambda>t. \<lparr>cl_CodeAt = \<lambda>a. Inr [1], cl_BalanceAt = \<lambda>a. Inr MinDeployBalance, cl_ChainID = Inr 114\<rparr>),
     co_IsCodeHashPlatformSupported = (\<lambda>t n c p. Inr False),
     co_json_Hello = (\<lambda>d. Inr (''Hello, Ada! Welcome to Flare Confidential Compute.'', 1)),
     co_json_Goodbye = (\<lambda>d. Inr (''Goodbye, Ada! Reason: tea'', 1))\<rparr>"

lemma demo_command_simps [simp]:
  "co_node demo_command = demo_node" "co_check demo_command = demo_check_env"
  "co_Client demo_command t = \<lparr>cl_CodeAt = \<lambda>a. Inr [1], cl_BalanceAt = \<lambda>a. Inr MinDeployBalance, cl_ChainID = Inr 114\<rparr>"
  "se_GovernanceHash (setup_of demo_command) signers n = Inr 9"
  "se_GetLatestTeeGovernanceHash (setup_of demo_command) t i = Inr 9"
  "se_Pack (setup_of demo_command) c = Inr []"
  by (simp_all add: demo_command_def setup_of_def demo_setup_def tool_env.defs)

lemma demo_env_simps [simp]:
  "te_Getenv demo_node t v = (if v = ''SIMULATED_TEE'' then ''true'' else if v = ''WORKPROOF_TREASURY'' then ''0xd'' else [])"
  "te_Dial demo_node t url = Inr ()" "te_Bind demo_node f a = Inr a" "te_ChainID demo_node t = Inr 114"
  "te_HexToAddress demo_node h = 13"
  "te_json_Addresses demo_node d = Inr \<lparr>ad_FlareSystemManager = 1, ad_Fdc2Hub = 2, ad_FlareTeeManager = 3\<rparr>"
  by (simp_all add: demo_node_def)

lemma demo_world_update [simp]:
  "(demo_world t file)\<lparr>w_now := t'\<rparr> = demo_world t' file"
  "(demo_world t' file)\<lparr>w_files := (w_files (demo_world t file))(''s'' := None)\<rparr> = demo_world t' None"
  "w_files (demo_world t file) ''a'' = Some []"
  by (auto simp: demo_world_def)

lemma demo_DefaultSupport:
  "DefaultSupport demo_node 1 ''a'' cf (demo_world t file) = (Inr demo_support, demo_world (t + 4) file)"
  by (simp add: DefaultSupport_def ReadAddresses_def os_ReadFile_def DefaultPrivateKey_def NewSupport_def comp_defs Let_def
      demo_support_def eval_nat_numeral)

lemma demo_infos:
  "TeeInfo demo_node url w = (Inr demo_info, w\<lparr>w_now := w_now w + 1\<rparr>)"
  "GetCodeHashAndPlatform demo_node demo_info w = (Inr (TeeCodeHash, TestPlatform), w\<lparr>w_now := w_now w + 1\<rparr>)"
  by (simp_all add: TeeInfo_def GetCodeHashAndPlatform_def comp_defs demo_info_def)

lemma demo_proxy: "GetTeeProxyID demo_node url w = (Inr (11, 11), w\<lparr>w_now := w_now w + 1\<rparr>)"
  by (simp add: GetTeeProxyID_def attempt_def handle_def demo_infos demo_ids)

definition demo_flags :: "bool \<Rightarrow> register_tee_flags" where
  "demo_flags resume = \<lparr>rt_a = ''a'', rt_c = ''c'', rt_p = ''p'', rt_h = ''h'', rt_ep = ''f'', rt_i = [], rt_command = ''rRap'',
     rt_state = ''s'', rt_resume = resume\<rparr>"

lemma demo_command_run:
  "register_tee_main demo_command 1 (demo_flags True) (demo_world t file) =
     RegisterNode demo_node demo_support (demo_args_for ''rRap'') ''s'' (demo_world (t + 7) file)"
  "register_tee_main demo_command 1 (demo_flags False) (demo_world t file) =
     RegisterNode demo_node demo_support (demo_args_for ''rRap'') ''s'' (demo_world (t + 8) None)"
  by (simp_all add: register_tee_main_def demo_flags_def attempt_def handle_def ret_def os_Remove_def demo_DefaultSupport
      demo_infos demo_proxy demo_ids demo_args_for_def add.commute)

theorem register_tee_resumes_witness:
  "\<exists>w' st'. stored demo_node ''s'' w' st' \<and> prefix ''rR'' (rs_CompletedSteps st') \<and>
     (\<forall>(opts, c) \<in> set (w_sent w'). \<forall>tee owner. c \<noteq> RequestTeeAttestationTx tee owner)"
proof -
  let ?w = "demo_world 13 (Some (registrationState_json demo_resumed))"
  obtain e w' where "register_tee_main demo_command 1 (demo_flags True) ?w = (Inl e, w')"
    using demo_fails by (auto simp: demo_command_run)
  from command_again [OF no_command _ _ this] have run: "failed_commands demo_command ''s'' ?w w'"
    by (simp add: demo_flags_def)
  from register_tee_resumes [OF run _ demo_wf] demo_reliable demo_stored show ?thesis
    by (fastforce simp: state_le_def)
qed

theorem register_tee_complete_witness:
  "\<exists>w' o2 o3 att. register_tee_main demo_command 1 (demo_flags False) (demo_world 92 None) = (Inr (), w') \<and>
     length (w_sent w') = 4 \<and> w_sent w' ! 1 = (o2, RequestTeeAttestationTx 11 (sender demo_node demo_support)) \<and>
     announced demo_node o2 (RequestTeeAttestationTx 11 (sender demo_node demo_support)) att \<and>
     (\<exists>e p q. w_sent w' ! 2 = (o3, RequestAvailabilityCheckTx 11 att e p q))"
proof -
  obtain w' where run: "register_tee_main demo_command 1 (demo_flags False) (demo_world 92 None) = (Inr (), w')"
    using demo_succeeds by (auto simp: demo_command_run)
  from register_tee_complete [OF run] obtain s teeInfo v2 v3 teeID proxyID ftdc v1 where
    s: "DefaultSupport demo_node 1 ''a'' ''c'' v1 = (Inr s, v2)" and i: "TeeInfo demo_node ''p'' v2 = (Inr teeInfo, v3)"
      "TeeProxyId demo_node teeInfo v3 = (Inr (teeID, proxyID), v3)" and
    reg: "registration_sent demo_node s \<lparr>ra_teeInfo = teeInfo, ra_hostURL = ''h'', ra_ftdcTeeURL = ''f'', ra_ftdcTee = ftdc,
       ra_command = ''rRap'', ra_instructionID = []\<rparr> teeID proxyID (w_sent w')"
    by (auto simp: demo_flags_def)
  from reg obtain o1 c1 o2 att o3 o4 pf where
    rest: "w_sent w' = [(o1, c1), (o2, RequestTeeAttestationTx teeID (sender demo_node s)),
       (o3, RequestAvailabilityCheckTx teeID att ftdc (sender demo_node s) (sender demo_node s)), (o4, ToProductionTx pf)]"
    "announced demo_node o2 (RequestTeeAttestationTx teeID (sender demo_node s)) att"
    unfolding registration_sent_def Let_def by auto
  have "teeID = 11" using i by (simp add: demo_infos demo_ids)
  moreover have "sender demo_node s = sender demo_node demo_support" by (simp add: sender_def)
  ultimately show ?thesis using run rest by auto
qed

theorem deploy_escrow_exact_witness:
  "\<exists>r w' opts d treasury bps.
     deploy_workproof_escrow_main demo_command 1 ''a'' ''c'' [] False (demo_world 0 None) = (Inr (Some r), w') \<and>
     w_sent w' = [(opts, DeployEscrowTx d d treasury bps)] \<and> treasury = 13 \<and> op_From opts = 7 \<and>
     (\<exists>balance. cl_BalanceAt (co_Client demo_command 0) 7 = Inr balance \<and> MinDeployBalance \<le> balance)"
proof -
  obtain r w' where run: "deploy_workproof_escrow_main demo_command 1 ''a'' ''c'' [] False (demo_world 0 None) = (Inr r, w')"
    by (simp add: deploy_workproof_escrow_main_def resolveTreasury_def resolveProtocolFeeBps_def check_diamond_def check_balance_def
        attempt_def handle_def ret_def demo_DefaultSupport getenv_def ask_def require_def require_chain_def lift_def
        AddressNotZero_def AddressHasCode_def KeyHasFunds_def Let_def demo_support_def DeployWorkProofEscrow_def
        deploy_contract_def new_opts_def attempt_wrap_def transact_def write_address_def)
  have "te_NewKeyedTransactor (setup_of demo_command) k c = Inr 7" for k c by simp
  with deploy_escrow_exact [OF run] run show ?thesis by (auto simp: sent_and_mined_def)
qed

text \<open>A chain that still has another governance.\<close>

definition demo_governance :: command_env where
  "demo_governance = demo_command\<lparr>co_setup := tool_env.more (demo_setup\<lparr>se_GetLatestTeeGovernanceHash := \<lambda>t i. Inr 8\<rparr>)\<rparr>"

lemma demo_governance_simps [simp]:
  "co_node demo_governance = demo_node" "se_GovernanceHash (setup_of demo_governance) signers n = Inr 9"
  "se_GetLatestTeeGovernanceHash (setup_of demo_governance) t i = Inr 8"
  by (simp_all add: demo_governance_def demo_command_def setup_of_def demo_setup_def tool_env.defs)

theorem set_governance_exact_witness:
  "\<exists>w' opts n signers threshold. set_governance_main demo_governance 1 ''a'' ''c'' ''p'' (demo_world 0 None) = (Inr (), w') \<and>
     w_sent w' = [(opts, SetNewTeeGovernanceTx n signers threshold)] \<and> op_From opts = 7 \<and> 1 \<le> unat threshold"
proof -
  have empty: "TrimSpace [] = []" "Split [] c = [[]]" for c
    by (simp_all add: TrimSpace_def)
  obtain w' where run: "set_governance_main demo_governance 1 ''a'' ''c'' ''p'' (demo_world 0 None) = (Inr (), w')"
    by (simp add: empty attempt_wrap_def set_governance_main_def owner_key_def SetTeeGovernance_def parseSigners_def
        parseThreshold_def ParseUint10_def attempt_def handle_def ret_def demo_DefaultSupport demo_infos getenv_def ask_def lift_def Let_def throw_def
        new_opts_def send_and_check_def transact_def CheckTx_def)
  have "te_NewKeyedTransactor (setup_of demo_governance) k c = Inr 7" for k c by simp
  with set_governance_exact [OF run] run show ?thesis by (auto simp: sent_and_mined_def)
qed

text \<open>A proxy that answers the first poll with the greeting and every later one with the farewell.\<close>

definition demo_polled :: command_env where
  "demo_polled = demo_command\<lparr>co_node := demo_node
     \<lparr>te_Get := \<lambda>t url. Inr \<lparr>hr_StatusCode = 200, hr_Body = [if t = 0 then 0 else 1], hr_ReadErr = None\<rparr>,
      ne_json_ActionResponse := \<lambda>r. Inr \<lparr>nr_Status = 1, nr_Log = ''ok'', nr_Data =
        (if hr_Body r = [0] then greeting_json ''Hello, Ada! Welcome to Flare Confidential Compute.'' 1
         else farewell_json ''Goodbye, Ada! Reason: tea'' 1)\<rparr>\<rparr>\<rparr>"

definition demo_greeter :: ext_env where
  "demo_greeter = demo_ext\<lparr>xe_DecodeGoodbye := \<lambda>d. Inr (''Ada'', ''tea'')\<rparr>"

theorem extension_passes_run_test_witness:
  "\<exists>w' v'. verifyHelloResult demo_polled ''p'' 1 (demo_world 0 None) = (Inr (), w') \<and>
     verifyGoodbyeResult demo_polled ''p'' 2 (demo_world 5 None) = (Inr (), v')"
proof -
  let ?a = "\<lparr>ac_ID = 1, ac_SubmissionTag = ''threshold'', ac_Message = []\<rparr>"
  let ?df = "\<lparr>df_OPType = 1, df_OPCommand = 2, df_OriginalMessage = []\<rparr>"
  obtain hello e1 where h: "processSayHello demo_greeter ?a ?df empty_extension = (hello, e1)" by fastforce
  obtain goodbye e2 where g: "processSayGoodbye demo_greeter ?a ?df e1 = (goodbye, e2)" by fastforce
  have first: "repeats = Suc 14" by (simp add: repeats_def)
  have poll: "poll_ok (te_Get N (w_now v) u) \<Longrightarrow> poll_loop N u repeats prev v = (te_Get N (w_now v) u, v\<lparr>w_now := w_now v + 1\<rparr>)"
    for N u prev v unfolding first by (simp only: poll_loop.simps Let_def if_True)
  have e1: "e1 = empty_extension\<lparr>e_greetingCount := 1, e_lastGreeting := ''Hello, Ada! Welcome to Flare Confidential Compute.''\<rparr>"
    "nr_of = (\<lambda>ar. \<lparr>nr_Status = ar_Status ar, nr_Log = ar_Log ar, nr_Data = ar_Data ar\<rparr>) \<Longrightarrow>
       nr_of hello = \<lparr>nr_Status = 1, nr_Log = ''ok'', nr_Data = greeting_json ''Hello, Ada! Welcome to Flare Confidential Compute.'' 1\<rparr>" for nr_of
    using h by (auto simp: processSayHello_def demo_greeter_def demo_ext_def empty_extension_def buildResult_def greeting_json_def Let_def)
  have e2: "e2 = e1\<lparr>e_farewellCount := 1, e_lastFarewell := ''Goodbye, Ada! Reason: tea''\<rparr>"
    "\<lparr>nr_Status = ar_Status goodbye, nr_Log = ar_Log goodbye, nr_Data = ar_Data goodbye\<rparr> =
       \<lparr>nr_Status = 1, nr_Log = ''ok'', nr_Data = farewell_json ''Goodbye, Ada! Reason: tea'' 1\<rparr>"
    using g by (auto simp: processSayGoodbye_def demo_greeter_def e1(1) empty_extension_def buildResult_def farewell_json_def Let_def)
  have "\<exists>w'. delivers demo_polled ''p'' 1 (demo_world 0 None) hello w'"
    by (simp add: delivers_def ActionResult_def demo_polled_def poll poll_ok_def comp_defs e1(2) [OF refl])
  moreover have "\<exists>v'. delivers demo_polled ''p'' 2 (demo_world 5 None) goodbye v'"
    by (simp add: delivers_def ActionResult_def demo_polled_def poll poll_ok_def comp_defs e2(2))
  ultimately obtain w' v' where d: "delivers demo_polled ''p'' 1 (demo_world 0 None) hello w'"
    "delivers demo_polled ''p'' 2 (demo_world 5 None) goodbye v'" by blast
  from extension_passes_run_test [OF _ _ h g d] show ?thesis
    by (auto simp: e1(1) e2(1) empty_extension_def reads_back_def demo_polled_def demo_command_def demo_greeter_def demo_ext_def)
qed

end
