(* ===== verification/Phase5.thy ===== *)
theory Phase5
  imports Escrow Extension Tools
begin

text \<open>
  The command that drives a job through its whole life, \<open>go/cmd/workproof-phase5/main.go\<close>: it builds and
  encrypts a one-vector bundle, creates a job, and then either waits for the refund or accepts, submits,
  locks the randomness, dispatches, polls for the signed result and settles. Its transactions run on the
  contract of theory \<open>Escrow\<close>. Between any two interactions other parties' calls may be mined and time
  passes; the node may refuse a transaction, lose track of one, or mine it in any block. Reads see the
  contract as it is at that moment. \<open>bind.WaitMined\<close>, the HTTP client and the RPC client return; \<open>fatalf\<close> is
  an error of the computation, and printing is left out. Times are nanoseconds.
\<close>

section \<open>World and environment\<close>

text \<open>The driver's transactions. \<open>BadCalldata\<close> is a call whose arguments the contract's ABI decoder rejects.\<close>

datatype driver_tx =
    ApproveTx address address int
  | EscrowTx escrow_call
  | BadCalldata

record sent_tx =
  st_tx :: driver_tx
  st_value :: "int option"
  st_success :: bool

text \<open>\<open>dw_moves\<close> and \<open>dw_sent\<close> are ghosts: the token movements of all calls, and the driver's own transactions
  that were mined, with their status.\<close>

record driver_world =
  dw_now :: tick
  dw_time :: int
  dw_escrow :: escrow
  dw_moves :: "move list"
  dw_sent :: "sent_tx list"
  dw_files :: "string \<Rightarrow> bytes option"

type_synonym 'a driver = "(driver_world, string, 'a) computation"

text \<open>What becomes of a transaction: the node refuses it; it is sent and waiting for it fails, though it may
  have been mined; or it is mined, in the given block and environment.\<close>

datatype tx_fate =
    Refused string
  | Lost "call_env option" string
  | Mined call_env

record ActionResponse =
  rp_Result :: ActionResult
  rp_Signature :: bytes

record driver_env =
  dx_im :: immutables
  dx_cl :: contract_lib
  dx_others :: "tick \<Rightarrow> (call_env \<times> escrow_call) list"
  dx_elapsed :: "tick \<Rightarrow> nat"
  dx_Fate :: "tick \<Rightarrow> address \<Rightarrow> driver_tx \<Rightarrow> int option \<Rightarrow> tx_fate"
  dx_ApproveOk :: "tick \<Rightarrow> address \<Rightarrow> int \<Rightarrow> bool"
  dx_TxHash :: "tick \<Rightarrow> string"
  dx_CallFail :: "tick \<Rightarrow> string \<Rightarrow> string option"
  dx_BalanceOf :: "tick \<Rightarrow> address \<Rightarrow> address \<Rightarrow> string + int"
  dx_Dial :: "tick \<Rightarrow> string \<Rightarrow> string + unit"
  dx_ChainID :: "tick \<Rightarrow> string + int"
  dx_NewKeyedTransactor :: "privkey \<Rightarrow> int \<Rightarrow> string + address"
  dx_PendingNonceAt :: "tick \<Rightarrow> address \<Rightarrow> string + u64"
  dx_Getenv :: "string \<Rightarrow> string"
  dx_HexToECDSA :: "string \<Rightarrow> string + privkey"
  dx_PubkeyToAddress :: "privkey \<Rightarrow> address"
  dx_IsHexAddress :: "string \<Rightarrow> bool"
  dx_IsOnCurve :: "int \<Rightarrow> int \<Rightarrow> bool"
  dx_PointToAddress :: "int \<Rightarrow> int \<Rightarrow> address"
  dx_Encrypt :: "tick \<Rightarrow> bytes \<Rightarrow> int \<times> int \<Rightarrow> string + bytes"
  dx_IsDir :: "tick \<Rightarrow> string \<Rightarrow> bool"
  dx_WriteFail :: "tick \<Rightarrow> string \<Rightarrow> (string \<times> bytes option) option"
  dx_Get :: "tick \<Rightarrow> string \<Rightarrow> string + http_resp"
  dx_DecodeResponse :: "http_resp \<Rightarrow> string + ActionResponse"

abbreviation dx_lib :: "driver_env \<Rightarrow> ext_lib" where
  "dx_lib X \<equiv> cl_lib (dx_cl X)"

section \<open>Interactions\<close>

text \<open>Calls of other parties; one that reverts changes nothing.\<close>

definition exec_other ::
  "immutables \<Rightarrow> contract_lib \<Rightarrow> call_env \<times> escrow_call \<Rightarrow> escrow \<times> move list \<Rightarrow> escrow \<times> move list" where
  "exec_other im cl cc sm =
     (case exec_call im cl (fst cc) (snd cc) (fst sm) of
        Inl e \<Rightarrow> sm
      | Inr (s', mv') \<Rightarrow> (s', snd sm @ mv'))"

text \<open>What happens up to the next interaction.\<close>

definition elapse :: "driver_env \<Rightarrow> driver_world \<Rightarrow> driver_world" where
  "elapse X w =
     (let (s, mv) = fold (exec_other (dx_im X) (dx_cl X)) (dx_others X (dw_now w)) (dw_escrow w, dw_moves w) in
      w\<lparr>dw_now := dw_now w + 1, dw_time := dw_time w + int (dx_elapsed X (dw_now w)), dw_escrow := s, dw_moves := mv\<rparr>)"

definition observe :: "driver_env \<Rightarrow> (tick \<Rightarrow> escrow \<Rightarrow> string + 'a) \<Rightarrow> 'a driver" where
  "observe X f w = (f (dw_now w) (dw_escrow (elapse X w)), elapse X w)"

definition time_Now :: "int driver" where
  "time_Now w = (Inr (dw_time w), w)"

definition time_Sleep :: "int \<Rightarrow> unit driver" where
  "time_Sleep d w = (Inr (), w\<lparr>dw_time := dw_time w + max 0 d\<rparr>)"

text \<open>Executing a mined transaction of the driver.\<close>

definition mined :: "driver_env \<Rightarrow> tick \<Rightarrow> address \<Rightarrow> driver_tx \<Rightarrow> int option \<Rightarrow> call_env \<Rightarrow> driver_world \<Rightarrow> bool \<times> driver_world" where
  "mined X t from tx v c w =
     (case tx of
        ApproveTx token spender amount \<Rightarrow>
          (let ok = dx_ApproveOk X t spender amount in
           (ok, w\<lparr>dw_sent := dw_sent w @ [\<lparr>st_tx = tx, st_value = v, st_success = ok\<rparr>]\<rparr>))
      | EscrowTx call \<Rightarrow>
          (case exec_call (dx_im X) (dx_cl X) (c\<lparr>cv_sender := from\<rparr>) call (dw_escrow w) of
             Inl e \<Rightarrow> (False, w\<lparr>dw_sent := dw_sent w @ [\<lparr>st_tx = tx, st_value = v, st_success = False\<rparr>]\<rparr>)
           | Inr (s', mv) \<Rightarrow>
             (True, w\<lparr>dw_escrow := s', dw_moves := dw_moves w @ mv,
                      dw_sent := dw_sent w @ [\<lparr>st_tx = tx, st_value = v, st_success = True\<rparr>]\<rparr>))
      | BadCalldata \<Rightarrow> (False, w\<lparr>dw_sent := dw_sent w @ [\<lparr>st_tx = tx, st_value = v, st_success = False\<rparr>]\<rparr>))"

text \<open>\<open>Transact\<close> followed by \<open>WaitMined\<close>: the error says which of the two failed, the value is the status of
  the receipt.\<close>

datatype send_error = SendError string | WaitError string

definition submit ::
  "driver_env \<Rightarrow> address \<Rightarrow> driver_tx \<Rightarrow> int option \<Rightarrow> (driver_world, send_error, bool) computation" where
  "submit X from tx v w =
     (let t = dw_now w; w1 = elapse X w in
      case dx_Fate X t from tx v of
        Refused e \<Rightarrow> (Inl (SendError e), w1)
      | Lost None e \<Rightarrow> (Inl (WaitError e), w1)
      | Lost (Some c) e \<Rightarrow> (Inl (WaitError e), snd (mined X t from tx v c w1))
      | Mined c \<Rightarrow> (case mined X t from tx v c w1 of (ok, w2) \<Rightarrow> (Inr ok, w2)))"

text \<open>\<open>check\<close>: an error is fatal, with a label.\<close>

abbreviation check :: "string \<Rightarrow> 'a driver \<Rightarrow> ('a \<Rightarrow> 'b driver) \<Rightarrow> 'b driver" where
  "check label m k \<equiv> attempt_wrap (label @ '': '') m k"

definition authFor :: "driver_env \<Rightarrow> privkey \<Rightarrow> int \<Rightarrow> address driver" where
  "authFor X key chainID =
     check ''transactor'' (lift (dx_NewKeyedTransactor X key chainID)) (\<lambda>from.
     check ''nonce'' (observe X (\<lambda>t s. dx_PendingNonceAt X t from)) (\<lambda>nonce. ret from))"

definition transact_tx :: "driver_env \<Rightarrow> address \<Rightarrow> string \<Rightarrow> driver_tx \<Rightarrow> int option \<Rightarrow> unit driver" where
  "transact_tx X from method tx v w =
     (case submit X from tx v w of
        (Inl (SendError m), w1) \<Rightarrow> (Inl (method @ '': '' @ m), w1)
      | (Inl (WaitError m), w1) \<Rightarrow> (Inl (''wait '' @ method @ '': '' @ m), w1)
      | (Inr ok, w1) \<Rightarrow> (if ok then Inr () else Inl (method @ '' reverted: '' @ dx_TxHash X (dw_now w)), w1))"

text \<open>\<open>auth = authFor(...); tx = transact(...)\<close>\<close>

definition send_as :: "driver_env \<Rightarrow> privkey \<Rightarrow> int \<Rightarrow> string \<Rightarrow> driver_tx \<Rightarrow> int option \<Rightarrow> unit driver" where
  "send_as X key chainID method tx v = attempt (authFor X key chainID) (\<lambda>from. transact_tx X from method tx v)"

text \<open>\<open>callAddress\<close>, \<open>callBig\<close>, \<open>callUint16\<close> and \<open>getJob\<close> on the escrow: a view of its state, or an error.\<close>

definition call_view :: "driver_env \<Rightarrow> string \<Rightarrow> (escrow \<Rightarrow> 'a) \<Rightarrow> 'a driver" where
  "call_view X method f =
     check method (observe X (\<lambda>t s. case dx_CallFail X t method of Some e \<Rightarrow> Inl e | None \<Rightarrow> Inr (f s))) ret"

definition callAddress_token :: "driver_env \<Rightarrow> address driver" where
  "callAddress_token X = call_view X ''token'' (\<lambda>s. im_token (dx_im X))"

definition callUint16_protocolFeeBps :: "driver_env \<Rightarrow> u16 driver" where
  "callUint16_protocolFeeBps X = call_view X ''protocolFeeBps'' es_protocolFeeBps"

definition callBig_nextJobId :: "driver_env \<Rightarrow> int driver" where
  "callBig_nextJobId X = call_view X ''nextJobId'' es_nextJobId"

definition callBig_balanceOf :: "driver_env \<Rightarrow> address \<Rightarrow> address \<Rightarrow> int driver" where
  "callBig_balanceOf X token account = check ''balanceOf'' (observe X (\<lambda>t s. dx_BalanceOf X t token account)) ret"

text \<open>The struct \<open>getJob\<close> decodes into has the fields of the contract's \<open>Job\<close>.\<close>

type_synonym jobView = EscrowJob

definition getJob :: "driver_env \<Rightarrow> int \<Rightarrow> jobView driver" where
  "getJob X i = call_view X ''getJob'' (\<lambda>s. es_jobs s i)"

section \<open>Configuration\<close>

definition defaultPrincipalWei :: int where "defaultPrincipalWei = 1000"
definition feeWei :: int where "feeWei = 1000000000"

text \<open>\<open>time.Second\<close> and \<open>time.Minute\<close>.\<close>

definition second :: int where "second = 1000000000"
definition minute :: int where "minute = 60 * second"

record configValues =
  cf_rpcURL :: string
  cf_proxyURL :: string
  cf_escrow :: address
  cf_privKey :: string
  cf_contractor :: address
  cf_artifact :: address
  cf_teePublicX :: string
  cf_teePublicY :: string
  cf_principal :: int
  cf_engineHash :: bytes32
  cf_settleTag :: string
  cf_storeCipher :: string
  cf_failVector :: bool
  cf_refundOnly :: bool
  cf_pollTimeout :: int
  cf_acceptDelay :: int
  cf_submitDelay :: int
  cf_graceDelay :: int
  cf_verifyTimeout :: int
  cf_resumeJobID :: "int option"

text \<open>The command line as package \<open>flag\<close> reads it: what was given for each flag, if it was given. The values
  of the address and hash flags are still text, which their \<open>Set\<close> methods parse.\<close>

record flags =
  fg_rpc :: "string option"
  fg_proxy :: "string option"
  fg_escrow :: "string option"
  fg_privKey :: "string option"
  fg_contractor :: "string option"
  fg_artifact :: "string option"
  fg_teeX :: "string option"
  fg_teeY :: "string option"
  fg_tag :: "string option"
  fg_engineHash :: "string option"
  fg_storeCipher :: "string option"
  fg_fail :: "bool option"
  fg_refundOnly :: "bool option"
  fg_pollTimeout :: "int option"
  fg_acceptDelay :: "int option"
  fg_submitDelay :: "int option"
  fg_graceDelay :: "int option"
  fg_verifyTimeout :: "int option"
  fg_resumeJob :: "int option"
  fg_principal :: "int option"

definition given :: "'a option \<Rightarrow> 'a \<Rightarrow> 'a" where
  "given v d = (case v of None \<Rightarrow> d | Some x \<Rightarrow> x)"

fun firstEnv :: "driver_env \<Rightarrow> string list \<Rightarrow> string" where
  "firstEnv X [] = []"
| "firstEnv X (name # names) = (if dx_Getenv X name \<noteq> [] then dx_Getenv X name else firstEnv X names)"

definition addressValue_Set :: "driver_env \<Rightarrow> string \<Rightarrow> string + address" where
  "addressValue_Set X raw =
     (if \<not> dx_IsHexAddress X raw then Inl (''invalid address '' @ go_quote raw)
      else Inr (HexToAddress (dx_lib X) raw))"

definition hashValue_Set :: "driver_env \<Rightarrow> string \<Rightarrow> string + bytes32" where
  "hashValue_Set X raw =
     (case hexutil_Decode (dx_lib X) raw of
        None \<Rightarrow> Inl (''invalid bytes32 '' @ go_quote raw)
      | Some decoded \<Rightarrow>
        if length decoded \<noteq> 32 then Inl (''invalid bytes32 '' @ go_quote raw)
        else Inr (BytesToHash (dx_lib X) decoded))"

text \<open>A flag whose \<open>Set\<close> fails ends the program inside \<open>flag.Parse\<close>; one that is not given leaves zero. (Of
  several malformed flags the first in the order of their declaration is reported, not the first typed.)\<close>

definition flag_Var :: "(string \<Rightarrow> string + 'a :: zero) \<Rightarrow> string \<Rightarrow> string option \<Rightarrow> 'a driver" where
  "flag_Var Set name v =
     (case v of
        None \<Rightarrow> ret 0
      | Some raw \<Rightarrow>
        attempt_wrap (''invalid value '' @ go_quote raw @ '' for flag -'' @ name @ '': '') (lift (Set raw)) ret)"

definition parsePrivateKey :: "driver_env \<Rightarrow> string \<Rightarrow> string + privkey" where
  "parsePrivateKey X raw = dx_HexToECDSA X (TrimPrefix raw ''0x'')"

text \<open>The contractor defaults to the account of the private key, when there is one.\<close>

definition default_contractor :: "driver_env \<Rightarrow> address \<Rightarrow> string \<Rightarrow> address driver" where
  "default_contractor X contractor privKey =
     (if contractor \<noteq> 0 \<or> privKey = [] then ret contractor
      else check ''derive default contractor'' (lift (parsePrivateKey X privKey)) (\<lambda>key. ret (dx_PubkeyToAddress X key)))"

text \<open>The checks at the end of \<open>parseFlags\<close>.\<close>

definition config_error :: "configValues \<Rightarrow> string option" where
  "config_error cfg =
     first_err
       [(cf_acceptDelay cfg \<le> 0 \<or> cf_submitDelay cfg \<le> cf_acceptDelay cfg \<or> cf_graceDelay cfg \<le> cf_submitDelay cfg \<or>
           cf_verifyTimeout cfg \<le> 0,
         ''invalid deadlines: require 0 < accept-delay < submit-delay < grace-delay and verification-timeout > 0''),
        (cf_rpcURL cfg = [], ''missing rpc''), (cf_proxyURL cfg = [], ''missing proxy''),
        (cf_privKey cfg = [], ''missing private-key''), (cf_teePublicX cfg = [], ''missing tee-x''),
        (cf_teePublicY cfg = [], ''missing tee-y''), (cf_escrow cfg = 0, ''missing escrow address''),
        (cf_contractor cfg = 0, ''missing contractor address''), (cf_artifact cfg = 0, ''missing artifact address'')]"

definition parseFlags :: "driver_env \<Rightarrow> flags \<Rightarrow> configValues driver" where
  "parseFlags X fl =
     attempt (flag_Var (addressValue_Set X) ''escrow'' (fg_escrow fl)) (\<lambda>escrow_flag.
     attempt (flag_Var (addressValue_Set X) ''contractor'' (fg_contractor fl)) (\<lambda>contractor_flag.
     attempt (flag_Var (addressValue_Set X) ''artifact'' (fg_artifact fl)) (\<lambda>artifact_flag.
     attempt (flag_Var (hashValue_Set X) ''engine-hash'' (fg_engineHash fl)) (\<lambda>engineHash.
     let privKey = given (fg_privKey fl) (dx_Getenv X ''DEPLOYMENT_PRIVATE_KEY'');
         escrow = (if escrow_flag = 0 then HexToAddress (dx_lib X) (firstEnv X [''WORKPROOF_ESCROW_ADDRESS'']) else escrow_flag) in
     attempt (default_contractor X contractor_flag privKey) (\<lambda>contractor.
     let cfg =
       \<lparr>cf_rpcURL = given (fg_rpc fl) (firstEnv X [''CHAIN_URL'', ''WORKPROOF_RPC_URL'']),
        cf_proxyURL = given (fg_proxy fl) (firstEnv X [''EXT_PROXY_URL'', ''http://localhost:6674'']),
        cf_escrow = escrow, cf_privKey = privKey, cf_contractor = contractor,
        cf_artifact = (if artifact_flag = 0 then escrow else artifact_flag),
        cf_teePublicX = given (fg_teeX fl) [], cf_teePublicY = given (fg_teeY fl) [],
        cf_principal = given (fg_principal fl) defaultPrincipalWei, cf_engineHash = engineHash,
        cf_settleTag = given (fg_tag fl) ''threshold'', cf_storeCipher = given (fg_storeCipher fl) [],
        cf_failVector = given (fg_fail fl) False, cf_refundOnly = given (fg_refundOnly fl) False,
        cf_pollTimeout = given (fg_pollTimeout fl) (10 * minute), cf_acceptDelay = given (fg_acceptDelay fl) (10 * minute),
        cf_submitDelay = given (fg_submitDelay fl) (60 * minute), cf_graceDelay = given (fg_graceDelay fl) (120 * minute),
        cf_verifyTimeout = given (fg_verifyTimeout fl) (20 * minute),
        cf_resumeJobID = (let n = given (fg_resumeJob fl) (- 1) in if 0 \<le> n then Some n else None)\<rparr> in
     case config_error cfg of Some e \<Rightarrow> throw e | None \<Rightarrow> ret cfg)))))"

section \<open>The bundle and the enclave's key\<close>

definition phase5_vector :: "bool \<Rightarrow> Vector" where
  "phase5_vector failVector =
     \<lparr>vec_ID = ''artifact-has-expected-code-size'', vec_Type = VectorCodeSizeRange, vec_Calldata = [], vec_Caller = [],
      vec_Value = [], vec_ExpectedReturn = [], vec_ExpectedRevertSelector = [], vec_ExpectedRevertPattern = [],
      vec_InterfaceID = [], vec_Expected = None, vec_MinBytes = 1,
      vec_MaxBytes = (if failVector then 1 else 100000), vec_Slot = [], vec_ExpectedValue = []\<rparr>"

definition phase5_bundle :: "bytes32 \<Rightarrow> bool \<Rightarrow> WorkProofBundle" where
  "phase5_bundle specHash failVector =
     \<lparr>b_FormatVersion = 1, b_TemplateID = ''phase5-code-size'', b_TemplateVersion = ''v1.0.0'', b_TargetChainID = 114,
      b_PublicSpecHash = Hash_Hex specHash, b_VectorCount = 1, b_SelectionCount = 1, b_GasLimitPerCall = 100000,
      b_TimeoutMsPerCall = 1000, b_MaxResponseBytes = 1024, b_Vectors = [phase5_vector failVector]\<rparr>"

definition buildBundle :: "ext_lib \<Rightarrow> bytes32 \<Rightarrow> bool \<Rightarrow> string + (bytes \<times> bytes32)" where
  "buildBundle L specHash failVector =
     (let b = phase5_bundle specHash failVector in
      case Validate b of
        Some e \<Rightarrow> Inl (bundle_error_text e)
      | None \<Rightarrow>
        (case jcs_Transform L (string_bytes (bundle_json b)) of
           Inl e \<Rightarrow> Inl e
         | Inr canonical \<Rightarrow> Inr (canonical, keccak256 L canonical)))"

text \<open>\<open>SetString(s, 16)\<close> of \<open>big.Int\<close>: an optional sign and at least one digit.\<close>

definition big_SetString16 :: "string \<Rightarrow> int option" where
  "big_SetString16 s =
     (let negative = HasPrefix s ''-'';
          digits = (if negative \<or> HasPrefix s ''+'' then drop 1 s else s);
          value = int (fold (\<lambda>c n. 16 * n + hex_value c) digits 0) in
      if digits = [] \<or> \<not> list_all is_hex_digit digits then None
      else Some (if negative then - value else value))"

definition parseTEEPublicKey :: "driver_env \<Rightarrow> string \<Rightarrow> string \<Rightarrow> string + ((int \<times> int) \<times> address)" where
  "parseTEEPublicKey X xHex yHex =
     (case big_SetString16 (TrimPrefix xHex ''0x'') of
        None \<Rightarrow> Inl ''invalid tee public x''
      | Some x \<Rightarrow>
        (case big_SetString16 (TrimPrefix yHex ''0x'') of
           None \<Rightarrow> Inl ''invalid tee public y''
         | Some y \<Rightarrow>
           if \<not> dx_IsOnCurve X x y then Inl ''tee public key is not on secp256k1''
           else Inr ((x, y), dx_PointToAddress X x y)))"

definition encryptForTEE :: "driver_env \<Rightarrow> bytes \<Rightarrow> int \<times> int \<Rightarrow> bytes driver" where
  "encryptForTEE X plaintext pub = observe X (\<lambda>t s. dx_Encrypt X t plaintext pub)"

text \<open>\<open>strings.TrimRight\<close> for one character, and \<open>os.WriteFile\<close>.\<close>

definition TrimRight :: "string \<Rightarrow> char \<Rightarrow> string" where
  "TrimRight s c = rev (dropWhile (\<lambda>x. x = c) (rev s))"

definition WriteFile :: "driver_env \<Rightarrow> string \<Rightarrow> bytes \<Rightarrow> unit driver" where
  "WriteFile X path d w =
     (let w1 = elapse X w in
      case dx_WriteFail X (dw_now w) path of
        None \<Rightarrow> (Inr (), w1\<lparr>dw_files := (dw_files w1)(path \<mapsto> d)\<rparr>)
      | Some (e, left) \<Rightarrow> (Inl e, w1\<lparr>dw_files := (dw_files w1)(path := left)\<rparr>))"

text \<open>With \<open>-store-cipher\<close>: into the file, or into a directory under the name of the hash.\<close>

definition store_ciphertext :: "driver_env \<Rightarrow> string \<Rightarrow> bytes \<Rightarrow> bytes32 \<Rightarrow> unit driver" where
  "store_ciphertext X path ciphertext ciphertextHash =
     (if path = [] then ret ()
      else attempt (observe X (\<lambda>t s. Inr (dx_IsDir X t path))) (\<lambda>is_dir.
        let cipherPath = (if is_dir then TrimRight path CHR ''/'' @ ''/'' @ hex_EncodeToString (bytes_of_bytes32 ciphertextHash)
                          else path) in
        check ''write ciphertext'' (WriteFile X cipherPath ciphertext) ret))"

section \<open>Deadlines and waiting\<close>

text \<open>\<open>uint64(d.Seconds())\<close> of a positive duration. \<open>Seconds\<close> is the \<open>float64\<close> sum of the whole seconds and of the
  fraction. It rounds to the nearest value, so that a fraction close to one is rounded up to the next second once
  the whole seconds leave too few of the 53 bits: from \<open>2 ^ k\<close> seconds on, the last value below a whole number is
  \<open>2 ^ (k - 52)\<close> away from it, and a fraction at least half as near goes up (a tie does, for the whole number is even
  in that unit). The rounding of the fraction itself makes no difference: for the \<open>k\<close> below 34 that a duration
  reaches, a fraction of whole nanoseconds that is not beyond the half is short of it by more than \<open>2 ^ (- 51)\<close>.\<close>

definition seconds_round_up :: "int \<Rightarrow> bool" where
  "seconds_round_up d \<longleftrightarrow>
     list_ex (\<lambda>k. 2 ^ k \<le> d div second \<and> (second - d mod second) * 2 ^ 53 \<le> second * 2 ^ k) [0..<34]"

definition duration_secs :: "int \<Rightarrow> u64" where
  "duration_secs d = of_int (d div second + of_bool (seconds_round_up d))"

text \<open>Below \<open>2 ^ 24\<close> seconds, half a year, only the whole seconds count.\<close>

lemma duration_secs_short:
  assumes "d < 2 ^ 24 * second"
  shows "duration_secs d = of_int (d div second)"
proof -
  have "\<not> (2 ^ k \<le> d div second \<and> (second - d mod second) * 2 ^ 53 \<le> second * 2 ^ k)" for k :: nat
  proof
    assume k: "2 ^ k \<le> d div second \<and> (second - d mod second) * 2 ^ 53 \<le> second * 2 ^ k"
    have "d div second < 2 ^ 24" using assms by (simp add: second_def)
    with k have "(2 :: int) ^ k < 2 ^ 24" by (blast intro: le_less_trans)
    then have "k < 24" by (rule power_less_imp_less_exp [rotated]) simp
    then have "k \<le> 23" by simp
    then have "(2 :: int) ^ k \<le> 2 ^ 23" by (rule power_increasing) simp
    then have "second * 2 ^ k \<le> second * 2 ^ 23" by (simp add: second_def)
    moreover have "1 \<le> second - d mod second" by (simp add: second_def)
    ultimately show False using k by (simp add: second_def)
  qed
  then show ?thesis by (simp add: duration_secs_def seconds_round_up_def list_ex_iff)
qed

definition deadlines :: "u64 \<Rightarrow> configValues \<Rightarrow> u64 \<times> u64 \<times> u64" where
  "deadlines now cfg =
     (now + duration_secs (cf_acceptDelay cfg), now + duration_secs (cf_submitDelay cfg), now + duration_secs (cf_graceDelay cfg))"

text \<open>\<open>time.Until\<close> saturates at the bounds of a 64-bit duration.\<close>

definition saturate64 :: "int \<Rightarrow> int" where
  "saturate64 d = max (- (2 ^ 63)) (min (2 ^ 63 - 1) d)"

definition waitForGrace :: "u64 \<Rightarrow> unit driver" where
  "waitForGrace graceEnds =
     attempt time_Now (\<lambda>now.
       let d = saturate64 (sint (graceEnds + 15) * second - now) in if 0 < d then time_Sleep d else ret ())"

text \<open>A preorder of driver worlds that the passing of time, writing a file and every mined transaction of a
  permitted kind respect. A part of the driver that sends only permitted transactions stays within it.\<close>

locale driver_relation = run_relation R for R :: "driver_world \<Rightarrow> driver_world \<Rightarrow> bool" +
  fixes X :: driver_env and permitted :: "driver_tx \<Rightarrow> bool"
  assumes elapses: "R w (elapse X w)"
    and sleeps: "R w (w\<lparr>dw_time := dw_time w + max 0 d\<rparr>)"
    and writes: "R w (w\<lparr>dw_files := fs\<rparr>)"
    and mines: "permitted tx \<Longrightarrow> dx_Fate X t from tx v = Mined c \<or> dx_Fate X t from tx v = Lost (Some c) e \<Longrightarrow>
      R w (snd (mined X t from tx v c w))"
begin

lemma within_observe [within_intros]: "within R (observe X f)"
  by (simp add: within_def observe_def elapses)

lemma within_time_Now [within_intros]: "within R time_Now"
  by (simp add: within_def time_Now_def refl)

lemma within_time_Sleep [within_intros]: "within R (time_Sleep d)"
  by (simp add: within_def time_Sleep_def sleeps)

lemma within_WriteFile [within_intros]: "within R (WriteFile X path d)"
  using comp [OF elapses writes] by (auto simp: within_def WriteFile_def Let_def split: option.split)

lemma within_submit [within_intros]:
  assumes "permitted tx"
  shows "within R (submit X from tx v)"
proof -
  have "R w (snd (mined X t from tx v c (elapse X w)))"
    if "dx_Fate X t from tx v = Mined c \<or> dx_Fate X t from tx v = Lost (Some c) e" for w t c e
    using comp [OF elapses mines [OF assms that]] .
  then have "R w (snd (submit X from tx v w))" for w
    by (auto simp: submit_def Let_def elapses split: tx_fate.split option.split prod.split) (metis snd_conv)
  then show ?thesis by (simp add: within_def)
qed

lemma within_authFor [within_intros]: "within R (authFor X key chainID)"
  unfolding authFor_def by (intro within_intros)

lemma within_transact_tx [within_intros]:
  assumes "permitted tx"
  shows "within R (transact_tx X from method tx v)"
proof -
  have "snd (transact_tx X from method tx v w) = snd (submit X from tx v w)" for w
    by (auto simp: transact_tx_def split: prod.split sum.split send_error.split)
  with within_submit [OF assms] show ?thesis by (simp add: within_def)
qed

lemma within_send_as [within_intros]: "permitted tx \<Longrightarrow> within R (send_as X key chainID method tx v)"
  unfolding send_as_def by (intro within_intros)

lemma within_call_view [within_intros]: "within R (call_view X method f)"
  unfolding call_view_def by (intro within_intros)

end

text \<open>Time does not run backwards, whatever the driver does.\<close>

definition later :: "driver_world \<Rightarrow> driver_world \<Rightarrow> bool" where
  "later w w' \<longleftrightarrow> dw_time w \<le> dw_time w'"

lemma dw_time_elapse: "dw_time (elapse X w) = dw_time w + int (dx_elapsed X (dw_now w))"
  by (simp add: elapse_def split: prod.split)

lemma dw_time_mined: "dw_time (snd (mined X t from tx v c w)) = dw_time w"
  by (simp add: mined_def Let_def split: driver_tx.split sum.split)

interpretation later: driver_relation later X "\<lambda>_. True" for X
  by unfold_locales (auto simp: later_def dw_time_elapse dw_time_mined)

text \<open>One round of \<open>waitForRandomness\<close>: whether the randomness was locked. A refused transaction or a reverted
  one means not yet.\<close>

definition lock_once :: "driver_env \<Rightarrow> privkey \<Rightarrow> int \<Rightarrow> int \<Rightarrow> bool driver" where
  "lock_once X key chainID i =
     attempt (authFor X key chainID) (\<lambda>from.
       handle (submit X from (EscrowTx (JobCall i LockRandomness)) None)
         (\<lambda>e. case e of SendError m \<Rightarrow> ret False | WaitError m \<Rightarrow> throw (''wait lockRandomness: '' @ m))
         ret)"

context driver_relation
begin

lemma within_lock_once [within_intros]:
  assumes "permitted (EscrowTx (JobCall i LockRandomness))"
  shows "within R (lock_once X key chainID i)"
proof -
  have "within R (case e of SendError m \<Rightarrow> ret False | WaitError m \<Rightarrow> throw (''wait lockRandomness: '' @ m))" for e
    by (cases e) (simp_all add: within_ret within_throw)
  then show ?thesis unfolding lock_once_def by (intro within_intros assms)
qed

end

function lock_loop :: "driver_env \<Rightarrow> privkey \<Rightarrow> int \<Rightarrow> int \<Rightarrow> int \<Rightarrow> unit driver" where
  "lock_loop X key chainID i deadline w =
     (case lock_once X key chainID i w of
        (Inl e, w1) \<Rightarrow> (Inl e, w1)
      | (Inr locked, w1) \<Rightarrow>
        if locked then (Inr (), w1)
        else if deadline < dw_time w1 then (Inl ''randomness was not ready before timeout'', w1)
        else lock_loop X key chainID i deadline (snd (time_Sleep (20 * second) w1)))"
  by pat_completeness auto

termination
proof (relation "measure (\<lambda>(X, key, chainID, i, deadline, w). nat (deadline + 1 - dw_time w))", goal_cases)
  case (2 X key chainID i deadline w r w1 locked)
  then have "dw_time w \<le> dw_time w1"
    using withinD [OF later.within_lock_once, of X key chainID i w r w1] by (simp add: later_def)
  with 2 show ?case by (auto simp: time_Sleep_def second_def)
qed simp

declare lock_loop.simps [simp del]

definition waitForRandomness :: "driver_env \<Rightarrow> privkey \<Rightarrow> int \<Rightarrow> int \<Rightarrow> unit driver" where
  "waitForRandomness X key chainID i =
     attempt time_Now (\<lambda>now. lock_loop X key chainID i (now + 12 * minute))"

text \<open>One request for the action result: the response, if it is there.\<close>

definition poll_result :: "driver_env \<Rightarrow> string \<Rightarrow> ActionResponse option driver" where
  "poll_result X url =
     handle (observe X (\<lambda>t s. dx_Get X t url)) (\<lambda>e. ret None)
       (\<lambda>resp. if hr_StatusCode resp = 200
               then attempt (lift (dx_DecodeResponse X resp)) (\<lambda>response. ret (Some response)) else ret None)"

context driver_relation
begin

lemma within_poll_result [within_intros]: "within R (poll_result X url)"
  unfolding poll_result_def by (intro within_intros)

end

function result_loop :: "driver_env \<Rightarrow> string \<Rightarrow> string \<Rightarrow> int \<Rightarrow> ActionResponse driver" where
  "result_loop X url timeout_msg deadline w =
     (case poll_result X url w of
        (Inl e, w1) \<Rightarrow> (Inl e, w1)
      | (Inr (Some response), w1) \<Rightarrow> (Inr response, w1)
      | (Inr None, w1) \<Rightarrow>
        if deadline < dw_time w1 then (Inl timeout_msg, w1)
        else result_loop X url timeout_msg deadline (snd (time_Sleep (5 * second) w1)))"
  by pat_completeness auto

termination
proof (relation "measure (\<lambda>(X, url, timeout_msg, deadline, w). nat (deadline + 1 - dw_time w))", goal_cases)
  case (2 X url timeout_msg deadline w r w1 o1)
  then have "dw_time w \<le> dw_time w1"
    using withinD [OF later.within_poll_result, of X url w r w1] by (simp add: later_def)
  with 2 show ?case by (auto simp: time_Sleep_def second_def)
qed simp

declare result_loop.simps [simp del]

definition result_url :: "string \<Rightarrow> bytes32 \<Rightarrow> string \<Rightarrow> string" where
  "result_url proxyURL instructionID tag =
     TrimRight proxyURL CHR ''/'' @ ''/action/result/'' @ Hash_Hex instructionID @ ''?submissionTag='' @ tag"

definition pollActionResult :: "driver_env \<Rightarrow> string \<Rightarrow> bytes32 \<Rightarrow> string \<Rightarrow> int \<Rightarrow> ActionResponse driver" where
  "pollActionResult X proxyURL instructionID tag timeout =
     attempt time_Now (\<lambda>now. result_loop X (result_url proxyURL instructionID tag)
       (''timed out waiting for '' @ Hash_Hex instructionID @ '' tag '' @ tag) (now + timeout))"

section \<open>The life of a job\<close>

text \<open>The arguments \<open>settleAttempt\<close> is called with.\<close>

definition result_args :: "ActionResponse \<Rightarrow> settle_args" where
  "result_args response =
     \<lparr>sa_data = ar_Data (rp_Result response), sa_opType = ar_OPType (rp_Result response),
      sa_opCommand = ar_OPCommand (rp_Result response), sa_submissionTag = ar_SubmissionTag (rp_Result response),
      sa_status = ar_Status (rp_Result response), sa_signature = rp_Signature response\<rparr>"

text \<open>From a job that is ready: dispatch, wait for the result and settle. \<open>main\<close> ends with it and
  \<open>resumeFromReady\<close> repeats it.\<close>

definition dispatch_and_settle :: "driver_env \<Rightarrow> privkey \<Rightarrow> int \<Rightarrow> configValues \<Rightarrow> int \<Rightarrow> unit driver" where
  "dispatch_and_settle X key chainID cfg i =
     attempt (send_as X key chainID ''dispatchVerification'' (EscrowTx (JobCall i DispatchVerification)) (Some feeWei)) (\<lambda>_.
     attempt (getJob X i) (\<lambda>job.
     check ''poll action result''
       (pollActionResult X (cf_proxyURL cfg) (at_instructionId (ej_current job)) (cf_settleTag cfg) (cf_pollTimeout cfg)) (\<lambda>response.
     if ar_Status (rp_Result response) \<noteq> 1
     then throw (''TEE returned status='' @ dec_nat (unat (ar_Status (rp_Result response))) @
                 ''; not settling an unsuccessful action result'')
     else attempt (send_as X key chainID ''settleAttempt'' (EscrowTx (JobCall i (SettleAttempt (result_args response)))) None) (\<lambda>_.
          attempt (getJob X i) (\<lambda>job. ret ())))))"

definition resumeFromReady :: "driver_env \<Rightarrow> privkey \<Rightarrow> int \<Rightarrow> configValues \<Rightarrow> int \<Rightarrow> unit driver" where
  "resumeFromReady X key chainID cfg i =
     attempt (getJob X i) (\<lambda>job.
     if ej_state job \<noteq> 3
     then throw (''resume-job '' @ dec_int i @ '' is in state '' @ dec_nat (unat (ej_state job)) @
                 '', expected ReadyToVerify state 3'')
     else dispatch_and_settle X key chainID cfg i)"

text \<open>The token and the amount, after the check that the runner can pay it. \<open>Div\<close> of \<open>big.Int\<close> rounds towards
  minus infinity for a positive divisor, as \<open>div\<close> does.\<close>

definition required_funds :: "driver_env \<Rightarrow> address \<Rightarrow> configValues \<Rightarrow> (address \<times> int) driver" where
  "required_funds X from cfg =
     attempt (callAddress_token X) (\<lambda>token.
     attempt (callUint16_protocolFeeBps X) (\<lambda>feeBps.
     let fee = cf_principal cfg * uint feeBps div 10000; amount = cf_principal cfg + fee in
     attempt (callBig_balanceOf X token from) (\<lambda>balance.
     if balance < amount
     then throw (''runner account token balance '' @ dec_int balance @ '' is below required '' @ dec_int amount)
     else ret (token, amount))))"

text \<open>What the job commits to: specification, bundle, enclave and ciphertext.\<close>

record commitment =
  cm_specHash :: bytes32
  cm_privateBundleHash :: bytes32
  cm_expectedTee :: address
  cm_ciphertextHash :: bytes32

definition phase5_specHash :: "ext_lib \<Rightarrow> bytes32" where
  "phase5_specHash L = keccak256 L (string_bytes ''workproof-phase5-code-size-v1'')"

definition commit_bundle :: "driver_env \<Rightarrow> configValues \<Rightarrow> commitment driver" where
  "commit_bundle X cfg =
     (let L = dx_lib X; specHash = phase5_specHash L in
      check ''build bundle'' (lift (buildBundle L specHash (cf_failVector cfg))) (\<lambda>(bundle, privateBundleHash).
      check ''parse tee public key'' (lift (parseTEEPublicKey X (cf_teePublicX cfg) (cf_teePublicY cfg))) (\<lambda>(pub, expectedTee).
      check ''encrypt bundle'' (encryptForTEE X bundle pub) (\<lambda>ciphertext.
      let ciphertextHash = keccak256 L ciphertext in
      attempt (store_ciphertext X (cf_storeCipher cfg) ciphertext ciphertextHash) (\<lambda>_.
      ret \<lparr>cm_specHash = specHash, cm_privateBundleHash = privateBundleHash, cm_expectedTee = expectedTee,
           cm_ciphertextHash = ciphertextHash\<rparr>)))))"

definition engine_hash :: "ext_lib \<Rightarrow> configValues \<Rightarrow> bytes32" where
  "engine_hash L cfg =
     (if cf_engineHash cfg = 0 then keccak256 L (string_bytes WorkProofEngineVersion) else cf_engineHash cfg)"

text \<open>The \<open>createJob\<close> transaction. The contract rejects the calldata of a principal that is not a \<open>uint128\<close>.\<close>

definition create_args_of :: "ext_lib \<Rightarrow> configValues \<Rightarrow> commitment \<Rightarrow> u64 \<Rightarrow> create_args" where
  "create_args_of L cfg cm now =
     (case deadlines now cfg of (acceptBy, submitBy, graceEnds) \<Rightarrow>
        \<lparr>ca_contractor = cf_contractor cfg, ca_expectedTee = cm_expectedTee cm, ca_principal = of_int (cf_principal cfg),
         ca_acceptBy = acceptBy, ca_submitBy = submitBy, ca_graceEnds = graceEnds,
         ca_verificationTimeout = duration_secs (cf_verifyTimeout cfg), ca_specHash = cm_specHash cm,
         ca_privateBundleHash = cm_privateBundleHash cm, ca_engineVersionHash = engine_hash L cfg,
         ca_ciphertextHash = cm_ciphertextHash cm\<rparr>)"

definition create_tx :: "ext_lib \<Rightarrow> configValues \<Rightarrow> commitment \<Rightarrow> u64 \<Rightarrow> driver_tx" where
  "create_tx L cfg cm now =
     (if cf_principal cfg < 0 \<or> 2 ^ 128 \<le> cf_principal cfg then BadCalldata
      else EscrowTx (CreateJob (create_args_of L cfg cm now)))"

text \<open>Approve the token, read the next job id and the clock, create the job. The result is the id and the end
  of the grace period.\<close>

definition create_job :: "driver_env \<Rightarrow> privkey \<Rightarrow> int \<Rightarrow> configValues \<Rightarrow> address \<Rightarrow> int \<Rightarrow> commitment \<Rightarrow> (int \<times> u64) driver" where
  "create_job X key chainID cfg token amount cm =
     attempt (send_as X key chainID ''approve'' (ApproveTx token (cf_escrow cfg) amount) None) (\<lambda>_.
     attempt (callBig_nextJobId X) (\<lambda>nextJobID.
     attempt time_Now (\<lambda>nanos.
     let now = of_int (nanos div second) in
     attempt (send_as X key chainID ''createJob'' (create_tx (dx_lib X) cfg cm now) None) (\<lambda>_.
     ret (nextJobID, snd (snd (deadlines now cfg)))))))"

definition refund_job :: "driver_env \<Rightarrow> privkey \<Rightarrow> int \<Rightarrow> address \<Rightarrow> address \<Rightarrow> int \<Rightarrow> u64 \<Rightarrow> unit driver" where
  "refund_job X key chainID from token i graceEnds =
     attempt (waitForGrace graceEnds) (\<lambda>_.
     attempt (callBig_balanceOf X token from) (\<lambda>before.
     attempt (send_as X key chainID ''refundExpired'' (EscrowTx (JobCall i RefundExpired)) None) (\<lambda>_.
     attempt (callBig_balanceOf X token from) (\<lambda>after.
     attempt (getJob X i) (\<lambda>job. ret ())))))"

definition run_job :: "driver_env \<Rightarrow> privkey \<Rightarrow> int \<Rightarrow> configValues \<Rightarrow> int \<Rightarrow> unit driver" where
  "run_job X key chainID cfg i =
     attempt (send_as X key chainID ''acceptJob'' (EscrowTx (JobCall i AcceptJob)) None) (\<lambda>_.
     attempt (send_as X key chainID ''submitAttempt'' (EscrowTx (JobCall i (SubmitAttempt (cf_artifact cfg)))) None) (\<lambda>_.
     attempt (waitForRandomness X key chainID i) (\<lambda>_.
     attempt (getJob X i) (\<lambda>job.
     dispatch_and_settle X key chainID cfg i))))"

definition new_job :: "driver_env \<Rightarrow> privkey \<Rightarrow> int \<Rightarrow> configValues \<Rightarrow> unit driver" where
  "new_job X key chainID cfg =
     (let from = dx_PubkeyToAddress X key in
      attempt (required_funds X from cfg) (\<lambda>(token, amount).
      attempt (commit_bundle X cfg) (\<lambda>cm.
      attempt (create_job X key chainID cfg token amount cm) (\<lambda>(i, graceEnds).
      if cf_refundOnly cfg then refund_job X key chainID from token i graceEnds
      else run_job X key chainID cfg i))))"

definition phase5_main :: "driver_env \<Rightarrow> flags \<Rightarrow> unit driver" where
  "phase5_main X fl =
     attempt (parseFlags X fl) (\<lambda>cfg.
     check ''dial chain'' (observe X (\<lambda>t s. dx_Dial X t (cf_rpcURL cfg))) (\<lambda>_.
     check ''chain id'' (observe X (\<lambda>t s. dx_ChainID X t)) (\<lambda>chainID.
     check ''private key'' (lift (parsePrivateKey X (cf_privKey cfg))) (\<lambda>key.
     case cf_resumeJobID cfg of
       Some i \<Rightarrow> resumeFromReady X key chainID cfg i
     | None \<Rightarrow> new_job X key chainID cfg))))"

section \<open>What holds for the parts holds for the whole\<close>

context driver_relation
begin

lemma within_lock_loop:
  assumes "permitted (EscrowTx (JobCall i LockRandomness))"
  shows "R w (snd (lock_loop X key chainID i deadline w))"
proof (induction "nat (deadline + 1 - dw_time w)" arbitrary: w rule: less_induct)
  case less
  obtain r w1 where one: "lock_once X key chainID i w = (r, w1)" by (cases "lock_once X key chainID i w")
  with withinD [OF within_lock_once [OF assms]] have w1: "R w w1" by blast
  show ?case
  proof (cases "r = Inr False \<and> \<not> deadline < dw_time w1")
    case True
    let ?w2 = "snd (time_Sleep (20 * second) w1)"
    have "dw_time w \<le> dw_time w1"
      using withinD [OF later.within_lock_once one] by (simp add: later_def)
    with True have "R ?w2 (snd (lock_loop X key chainID i deadline ?w2))"
      by (intro less) (auto simp: time_Sleep_def second_def)
    moreover have "R w1 ?w2" by (simp add: time_Sleep_def sleeps)
    moreover have "lock_loop X key chainID i deadline w = lock_loop X key chainID i deadline ?w2"
      by (subst lock_loop.simps) (simp add: one True)
    ultimately show ?thesis using comp [OF comp [OF w1]] by simp
  next
    case False
    then have "snd (lock_loop X key chainID i deadline w) = w1"
      by (subst lock_loop.simps) (auto simp: one split: sum.split)
    with w1 show ?thesis by simp
  qed
qed

lemma within_waitForRandomness [within_intros]:
  "permitted (EscrowTx (JobCall i LockRandomness)) \<Longrightarrow> within R (waitForRandomness X key chainID i)"
  unfolding waitForRandomness_def by (intro within_intros) (simp add: within_def within_lock_loop)

lemma within_result_loop: "R w (snd (result_loop X url msg deadline w))"
proof (induction "nat (deadline + 1 - dw_time w)" arbitrary: w rule: less_induct)
  case less
  obtain r w1 where one: "poll_result X url w = (r, w1)" by (cases "poll_result X url w")
  with withinD [OF within_poll_result] have w1: "R w w1" by blast
  show ?case
  proof (cases "r = Inr None \<and> \<not> deadline < dw_time w1")
    case True
    let ?w2 = "snd (time_Sleep (5 * second) w1)"
    have "dw_time w \<le> dw_time w1"
      using withinD [OF later.within_poll_result one] by (simp add: later_def)
    with True have "R ?w2 (snd (result_loop X url msg deadline ?w2))"
      by (intro less) (auto simp: time_Sleep_def second_def)
    moreover have "R w1 ?w2" by (simp add: time_Sleep_def sleeps)
    moreover have "result_loop X url msg deadline w = result_loop X url msg deadline ?w2"
      by (subst result_loop.simps) (simp add: one True)
    ultimately show ?thesis using comp [OF comp [OF w1]] by simp
  next
    case False
    then have "snd (result_loop X url msg deadline w) = w1"
      by (subst result_loop.simps) (auto simp: one split: sum.split option.split)
    with w1 show ?thesis by simp
  qed
qed

lemma within_pollActionResult [within_intros]: "within R (pollActionResult X url i tag timeout)"
  unfolding pollActionResult_def by (intro within_intros) (simp add: within_def within_result_loop)

lemma within_prod [within_intros]: "(\<And>a b. within R (f a b)) \<Longrightarrow> within R (case p of (a, b) \<Rightarrow> f a b)"
  by (cases p) simp

lemma within_waitForGrace [within_intros]: "within R (waitForGrace g)"
  unfolding waitForGrace_def Let_def by (intro within_intros)

lemma within_required_funds [within_intros]: "within R (required_funds X from cfg)"
  unfolding required_funds_def callAddress_token_def callUint16_protocolFeeBps_def callBig_balanceOf_def Let_def
  by (intro within_intros)

lemma within_flag_Var [within_intros]: "within R (flag_Var Set name v)"
  by (cases v) (simp_all add: flag_Var_def within_intros)

lemma within_parseFlags [within_intros]: "within R (parseFlags X fl)"
proof -
  have "within R (case config_error cfg of Some e \<Rightarrow> throw e | None \<Rightarrow> ret cfg)" for cfg
    by (cases "config_error cfg") (simp_all add: within_ret within_throw)
  then show ?thesis
    unfolding parseFlags_def default_contractor_def Let_def by (intro within_intros)
qed

lemma within_commit_bundle [within_intros]: "within R (commit_bundle X cfg)"
  unfolding commit_bundle_def encryptForTEE_def store_ciphertext_def Let_def by (intro within_intros)

end

text \<open>Of \<open>settleAttempt\<close> only calls with a result of status 1 need to be permitted.\<close>

locale driver_contract = driver_relation +
  assumes permits: "(\<And>i args. tx = EscrowTx (JobCall i (SettleAttempt args)) \<Longrightarrow> sa_status args = 1) \<Longrightarrow> permitted tx"
begin

lemma within_dispatch_and_settle [within_intros]: "within R (dispatch_and_settle X key chainID cfg i)"
  unfolding dispatch_and_settle_def getJob_def
  by (intro within_intros permits) (simp_all add: result_args_def)

lemma within_resumeFromReady [within_intros]: "within R (resumeFromReady X key chainID cfg i)"
  unfolding resumeFromReady_def getJob_def by (intro within_intros)

lemma within_run_job [within_intros]: "within R (run_job X key chainID cfg i)"
  unfolding run_job_def getJob_def by (intro within_intros permits) simp_all

lemma within_refund_job [within_intros]: "within R (refund_job X key chainID from token i g)"
  unfolding refund_job_def getJob_def callBig_balanceOf_def by (intro within_intros permits) simp_all

lemma within_create_job [within_intros]: "within R (create_job X key chainID cfg token amount cm)"
  unfolding create_job_def callBig_nextJobId_def Let_def
  by (intro within_intros permits) (simp_all add: create_tx_def split: if_splits)

lemma within_new_job [within_intros]: "within R (new_job X key chainID cfg)"
  unfolding new_job_def Let_def by (intro within_intros)

lemma within_phase5_main: "within R (phase5_main X fl)"
proof -
  have "within R (case cf_resumeJobID cfg of Some i \<Rightarrow> resumeFromReady X key chainID cfg i | None \<Rightarrow> new_job X key chainID cfg)"
    for cfg key chainID
    by (cases "cf_resumeJobID cfg") (simp_all add: within_resumeFromReady within_new_job)
  then show ?thesis unfolding phase5_main_def by (intro within_intros)
qed

end

end
