(* ===== verification/Phase5Safety.thy ===== *)
theory Phase5Safety
  imports Phase5 EscrowSafety
begin

text \<open>
  What the phase 5 driver guarantees and where it goes wrong: every run is a history of the contract, its
  transactions and their order, the bundle it commits to, the bounds of its waits, and the situations in
  which it does not do what it means to.
\<close>

section \<open>Runs are histories of the contract\<close>

text \<open>Facts of the chain: every mined call satisfies them, the driver's own included.\<close>

definition chain_facts :: "driver_env \<Rightarrow> bool" where
  "chain_facts X \<longleftrightarrow>
     (\<forall>t. \<forall>cc \<in> set (dx_others X t). evm_call (fst cc)) \<and>
     (\<forall>t from tx v c e. dx_Fate X t from tx v = Mined c \<or> dx_Fate X t from tx v = Lost (Some c) e \<longrightarrow>
        evm_call (c\<lparr>cv_sender := from\<rparr>))"

definition history :: "driver_env \<Rightarrow> driver_world \<Rightarrow> driver_world \<Rightarrow> bool" where
  "history X w w' \<longleftrightarrow> (chain_facts X \<longrightarrow>
     (\<exists>mv. escrow_run (dx_im X) (dx_cl X) (dw_escrow w) mv (dw_escrow w') \<and> dw_moves w' = dw_moves w @ mv))"

lemma historyI:
  "(chain_facts X \<Longrightarrow> escrow_run (dx_im X) (dx_cl X) (dw_escrow w) mv (dw_escrow w') \<and> dw_moves w' = dw_moves w @ mv) \<Longrightarrow>
   history X w w'"
  unfolding history_def by blast

lemma escrow_run_trans:
  assumes "escrow_run im cl s2 mv' s3" and "escrow_run im cl s1 mv s2"
  shows "escrow_run im cl s1 (mv @ mv') s3"
  using assms
proof (induction rule: escrow_run.induct)
  case (run_call mv1 s' c call s'' mv2)
  then show ?case using escrow_run.run_call [of im cl s1 "mv @ mv1" s' c call s'' mv2] by simp
qed simp

lemma escrow_run_one:
  "evm_call c \<Longrightarrow> exec_call im cl c call s = Inr (s', mv) \<Longrightarrow> escrow_run im cl s mv s'"
  using run_call [OF run_start, of c im cl call s s' mv] by simp

lemma exec_others_run:
  "\<forall>cc \<in> set calls. evm_call (fst cc) \<Longrightarrow>
   \<exists>m. escrow_run im cl s m (fst (fold (exec_other im cl) calls (s, mv))) \<and>
       snd (fold (exec_other im cl) calls (s, mv)) = mv @ m"
proof (induction calls arbitrary: s mv)
  case Nil
  then show ?case by (auto intro: run_start)
next
  case (Cons cc calls)
  obtain m1 where one: "escrow_run im cl s m1 (fst (exec_other im cl cc (s, mv)))" "snd (exec_other im cl cc (s, mv)) = mv @ m1"
    using Cons.prems escrow_run_one [of "fst cc" im cl "snd cc" s] run_start [of im cl s]
    by (cases "exec_call im cl (fst cc) (snd cc) s") (auto simp: exec_other_def)
  obtain s1 where s1: "exec_other im cl cc (s, mv) = (s1, mv @ m1)"
    using one(2) by (cases "exec_other im cl cc (s, mv)") simp
  from Cons obtain m2 where "escrow_run im cl s1 m2 (fst (fold (exec_other im cl) calls (s1, mv @ m1)))"
    "snd (fold (exec_other im cl) calls (s1, mv @ m1)) = (mv @ m1) @ m2" by fastforce
  with one(1) show ?case by (auto simp: s1 intro: escrow_run_trans)
qed

lemma history_elapse: "history X w (elapse X w)"
proof -
  let ?sm = "fold (exec_other (dx_im X) (dx_cl X)) (dx_others X (dw_now w)) (dw_escrow w, dw_moves w)"
  have "\<exists>m. escrow_run (dx_im X) (dx_cl X) (dw_escrow w) m (fst ?sm) \<and> snd ?sm = dw_moves w @ m" if "chain_facts X"
    using that exec_others_run [of "dx_others X (dw_now w)"] by (simp add: chain_facts_def)
  moreover have "dw_escrow (elapse X w) = fst ?sm" "dw_moves (elapse X w) = snd ?sm"
    by (simp_all add: elapse_def split: prod.split)
  ultimately show ?thesis unfolding history_def by simp
qed

lemma history_mined:
  assumes "evm_call (c\<lparr>cv_sender := from\<rparr>)"
  shows "history X w (snd (mined X t from tx v c w))"
proof (cases "\<exists>call sm. tx = EscrowTx call \<and> exec_call (dx_im X) (dx_cl X) (c\<lparr>cv_sender := from\<rparr>) call (dw_escrow w) = Inr sm")
  case True
  then obtain call s mv where "tx = EscrowTx call"
    "exec_call (dx_im X) (dx_cl X) (c\<lparr>cv_sender := from\<rparr>) call (dw_escrow w) = Inr (s, mv)" by auto
  then show ?thesis
    using escrow_run_one [OF assms] by (intro historyI [of _ _ mv]) (simp add: mined_def)
next
  case False
  then have "dw_escrow (snd (mined X t from tx v c w)) = dw_escrow w \<and> dw_moves (snd (mined X t from tx v c w)) = dw_moves w"
    by (auto simp: mined_def Let_def split: driver_tx.split sum.split)
  then show ?thesis by (intro historyI [of _ _ "[]"]) (simp add: run_start)
qed

lemma history_trans: "history X w w' \<Longrightarrow> history X w' w'' \<Longrightarrow> history X w w''"
proof (cases "chain_facts X")
  case True
  assume "history X w w'" and "history X w' w''"
  with True obtain m1 m2 where "escrow_run (dx_im X) (dx_cl X) (dw_escrow w) m1 (dw_escrow w')" "dw_moves w' = dw_moves w @ m1"
    "escrow_run (dx_im X) (dx_cl X) (dw_escrow w') m2 (dw_escrow w'')" "dw_moves w'' = dw_moves w' @ m2"
    unfolding history_def by blast
  then show ?thesis using escrow_run_trans by (intro historyI [of _ _ "m1 @ m2"]) simp
qed (simp add: history_def)

interpretation history: driver_contract "history X" X "\<lambda>_. True" for X
proof
  show "history X w w" for w by (rule historyI [of _ _ "[]"]) (simp add: run_start)
  show "history X w w' \<Longrightarrow> history X w' w'' \<Longrightarrow> history X w w''" for w w' w'' by (rule history_trans)
  show "history X w (elapse X w)" for w by (rule history_elapse)
  show "history X w (w\<lparr>dw_time := dw_time w + max 0 d\<rparr>)" for w d
    by (rule historyI [of _ _ "[]"]) (simp add: run_start)
  show "history X w (w\<lparr>dw_files := fs\<rparr>)" for w fs by (rule historyI [of _ _ "[]"]) (simp add: run_start)
  show "history X w (snd (mined X t a tx v c w))"
    if "dx_Fate X t a tx v = Mined c \<or> dx_Fate X t a tx v = Lost (Some c) e" for t a tx v c e w
  proof (cases "chain_facts X")
    case True
    with that have "evm_call (c\<lparr>cv_sender := a\<rparr>)" unfolding chain_facts_def by blast
    then show ?thesis by (rule history_mined)
  qed (simp add: history_def)
qed simp_all

lemma history_reachable:
  assumes "history X w w'" and "reachable (dx_im X) (dx_cl X) (dw_moves w) (dw_escrow w)" and "chain_facts X"
  shows "reachable (dx_im X) (dx_cl X) (dw_moves w') (dw_escrow w')" and "escrow_le (dw_escrow w) (dw_escrow w')"
proof -
  from assms(1,3) obtain mv where mv: "escrow_run (dx_im X) (dx_cl X) (dw_escrow w) mv (dw_escrow w')" "dw_moves w' = dw_moves w @ mv"
    unfolding history_def by blast
  with assms(2) show "reachable (dx_im X) (dx_cl X) (dw_moves w') (dw_escrow w')"
    unfolding reachable_def using escrow_run_trans by (metis (no_types, lifting))
  show "escrow_le (dw_escrow w) (dw_escrow w')"
    using escrow_run_ok [OF mv(1)] reachable_inv [OF assms(2)] by blast
qed

text \<open>Whatever the driver does, the contract keeps its guarantees. From any reachable state of the escrow,
  every run of the command, successful or broken off anywhere, with other parties' calls mined in between and
  transactions refused, lost or reverted, leaves the escrow in a reachable state; in particular it holds
  exactly the principals and fees of its unsettled jobs.\<close>

theorem phase5_keeps_solvency:
  assumes "reachable (dx_im X) (dx_cl X) (dw_moves w) (dw_escrow w)" and "chain_facts X"
    and "phase5_main X fl w = (r, w')"
  shows "reachable (dx_im X) (dx_cl X) (dw_moves w') (dw_escrow w') \<and> net (dw_moves w') = held (dw_escrow w') \<and>
     escrow_le (dw_escrow w) (dw_escrow w')"
  using history_reachable [OF withinD [OF history.within_phase5_main assms(3)] assms(1,2)] reachable_inv by metis

section \<open>The transactions of a run\<close>

lemma run_observe [run_iff]: "observe X f w = (r, w') \<longleftrightarrow> f (dw_now w) (dw_escrow (elapse X w)) = r \<and> w' = elapse X w"
  by (auto simp: observe_def)

lemma run_time_Now [run_iff]: "time_Now w = (r, w') \<longleftrightarrow> Inr (dw_time w) = r \<and> w' = w"
  by (auto simp: time_Now_def)

lemma run_call_view [run_iff]:
  "call_view X method f w = (Inr x, w') \<longleftrightarrow>
     dx_CallFail X (dw_now w) method = None \<and> x = f (dw_escrow (elapse X w)) \<and> w' = elapse X w"
  by (auto simp: call_view_def run_iff split: option.splits)

lemma run_balance [run_iff]:
  "callBig_balanceOf X token a w = (Inr n, w') \<longleftrightarrow> dx_BalanceOf X (dw_now w) token a = Inr n \<and> w' = elapse X w"
  by (auto simp: callBig_balanceOf_def run_iff)

text \<open>Everything but a mined transaction leaves the list of own transactions alone and, when nobody else is
  using the contract, the contract too.\<close>

definition alone :: "driver_env \<Rightarrow> bool" where
  "alone X \<longleftrightarrow> (\<forall>t. dx_others X t = [])"

definition idle :: "driver_env \<Rightarrow> driver_world \<Rightarrow> driver_world \<Rightarrow> bool" where
  "idle X w w' \<longleftrightarrow> dw_sent w' = dw_sent w \<and> (alone X \<longrightarrow> dw_escrow w' = dw_escrow w \<and> dw_moves w' = dw_moves w)"

lemma dw_sent_elapse [simp]: "dw_sent (elapse X w) = dw_sent w"
  by (simp add: elapse_def split: prod.split)

lemma elapse_alone: "alone X \<Longrightarrow> dw_escrow (elapse X w) = dw_escrow w \<and> dw_moves (elapse X w) = dw_moves w"
  by (simp add: elapse_def alone_def)

interpretation idle: driver_relation "idle X" X "\<lambda>_. False" for X
  by unfold_locales (auto simp: idle_def elapse_alone)

lemma idleD:
  assumes "within (idle X) m" and "m w = (r, w')"
  shows "dw_sent w' = dw_sent w" and "alone X \<Longrightarrow> dw_escrow w' = dw_escrow w \<and> dw_moves w' = dw_moves w"
  using withinD [OF assms] by (simp_all add: idle_def)

abbreviation mined_tx :: "driver_tx \<Rightarrow> int option \<Rightarrow> bool \<Rightarrow> sent_tx" where
  "mined_tx tx v ok \<equiv> \<lparr>st_tx = tx, st_value = v, st_success = ok\<rparr>"

lemma mined_sent: "mined X t from tx v c w = (ok, w') \<Longrightarrow> dw_sent w' = dw_sent w @ [mined_tx tx v ok]"
  by (auto simp: mined_def Let_def split: driver_tx.splits sum.splits)

lemma submit_Inr:
  "submit X a tx v w = (Inr ok, w') \<longleftrightarrow>
     (\<exists>c. dx_Fate X (dw_now w) a tx v = Mined c \<and> mined X (dw_now w) a tx v c (elapse X w) = (ok, w'))"
  by (cases "dx_Fate X (dw_now w) a tx v") (auto simp: submit_def Let_def split: option.splits prod.splits)

lemma submit_sent:
  "submit X a tx v w = (Inr ok, w') \<Longrightarrow> dw_sent w' = dw_sent w @ [mined_tx tx v ok]"
  "submit X a tx v w = (Inl (SendError e), w') \<Longrightarrow> dw_sent w' = dw_sent w"
proof -
  show "submit X a tx v w = (Inr ok, w') \<Longrightarrow> dw_sent w' = dw_sent w @ [mined_tx tx v ok]"
    by (auto simp: submit_Inr dest: mined_sent)
  show "submit X a tx v w = (Inl (SendError e), w') \<Longrightarrow> dw_sent w' = dw_sent w"
    by (cases "dx_Fate X (dw_now w) a tx v") (auto simp: submit_def Let_def split: option.splits prod.splits)
qed

lemma transact_tx_Inr: "transact_tx X from method tx v w = (Inr u, w') \<Longrightarrow> submit X from tx v w = (Inr True, w')"
  by (auto simp: transact_tx_def split: prod.splits sum.splits send_error.splits if_splits)

lemma send_as_Inr:
  "send_as X key chainID method tx v w = (Inr u, w') \<longleftrightarrow>
     (\<exists>a n. dx_NewKeyedTransactor X key chainID = Inr a \<and> dx_PendingNonceAt X (dw_now w) a = Inr n \<and>
        submit X a tx v (elapse X w) = (Inr True, w'))"
proof -
  have "transact_tx X a method tx v w1 = (Inr u, w') \<longleftrightarrow> submit X a tx v w1 = (Inr True, w')" for a w1
    using transact_tx_Inr [of X a _ tx v w1 u w'] by (auto simp: transact_tx_def)
  then show ?thesis by (auto simp: send_as_def authFor_def run_iff)
qed

lemma send_as_sent:
  "send_as X key chainID method tx v w = (Inr u, w') \<Longrightarrow> dw_sent w' = dw_sent w @ [mined_tx tx v True]"
  by (auto simp: send_as_Inr dest: submit_sent(1))

abbreviation lock_tx :: "int \<Rightarrow> bool \<Rightarrow> sent_tx" where
  "lock_tx i ok \<equiv> mined_tx (EscrowTx (JobCall i LockRandomness)) None ok"

lemma lock_once_cases:
  assumes "lock_once X key chainID i w = (Inr locked, w')"
  obtains a where "dx_NewKeyedTransactor X key chainID = Inr a"
    "submit X a (EscrowTx (JobCall i LockRandomness)) None (elapse X w) = (Inr locked, w') \<or>
     \<not> locked \<and> (\<exists>e. submit X a (EscrowTx (JobCall i LockRandomness)) None (elapse X w) = (Inl (SendError e), w'))"
proof -
  from assms obtain a w1 where auth: "authFor X key chainID w = (Inr a, w1)" and
    s: "handle (submit X a (EscrowTx (JobCall i LockRandomness)) None)
      (\<lambda>e. case e of SendError m \<Rightarrow> ret False | WaitError m \<Rightarrow> throw (''wait lockRandomness: '' @ m)) ret w1 = (Inr locked, w')"
    unfolding lock_once_def run_attempt by blast
  from auth have a: "dx_NewKeyedTransactor X key chainID = Inr a" "w1 = elapse X w"
    by (auto simp: authFor_def run_iff)
  from s obtain r w2 where r: "submit X a (EscrowTx (JobCall i LockRandomness)) None w1 = (r, w2)" and
    "(case r of Inl (SendError m) \<Rightarrow> \<not> locked \<and> w' = w2 | Inl (WaitError m) \<Rightarrow> False | Inr ok \<Rightarrow> locked = ok \<and> w' = w2)"
    unfolding run_handle by (auto simp: run_ret run_throw split: send_error.splits sum.splits) (metis send_error.exhaust)
  with r that a show ?thesis by (cases r) (auto split: send_error.splits)
qed

lemma lock_once_Inr:
  assumes "lock_once X key chainID i w = (Inr locked, w')"
  shows "dw_sent w' = dw_sent w @ [lock_tx i locked] \<or> \<not> locked \<and> dw_sent w' = dw_sent w"
  using assms by (rule lock_once_cases) (use submit_sent dw_sent_elapse in metis)

lemma lock_loop_sent:
  "lock_loop X key chainID i deadline w = (Inr u, w') \<Longrightarrow>
     \<exists>k. dw_sent w' = dw_sent w @ replicate k (lock_tx i False) @ [lock_tx i True]"
proof (induction X key chainID i deadline w rule: lock_loop.induct)
  case (1 X key chainID i deadline w)
  obtain r w1 where one: "lock_once X key chainID i w = (r, w1)" by (cases "lock_once X key chainID i w")
  with 1 obtain locked where r: "r = Inr locked" by (subst (asm) (2) lock_loop.simps) (auto split: sum.splits)
  show ?case
  proof (cases locked)
    case True
    with 1 one r have "w' = w1" by (subst (asm) (2) lock_loop.simps) simp
    with lock_once_Inr [of X key chainID i w locked w1] one r True
    have "dw_sent w' = dw_sent w @ replicate 0 (lock_tx i False) @ [lock_tx i True]" by auto
    then show ?thesis by blast
  next
    case False
    with 1(2) one r have next_round: "\<not> deadline < dw_time w1"
      "lock_loop X key chainID i deadline (snd (time_Sleep (20 * second) w1)) = (Inr u, w')"
      by (subst (asm) lock_loop.simps, auto split: if_splits)+
    from 1(1) [OF one [symmetric] r False next_round] obtain k where
      k: "dw_sent w' = dw_sent w1 @ replicate k (lock_tx i False) @ [lock_tx i True]" by (auto simp: time_Sleep_def)
    from lock_once_Inr [of X key chainID i w locked w1] one r False
    have "dw_sent w1 = dw_sent w @ [lock_tx i False] \<or> dw_sent w1 = dw_sent w" by auto
    then have "dw_sent w' = dw_sent w @ replicate (Suc k) (lock_tx i False) @ [lock_tx i True] \<or>
        dw_sent w' = dw_sent w @ replicate k (lock_tx i False) @ [lock_tx i True]"
      using k by (auto simp: replicate_append_same)
    then show ?thesis by blast
  qed
qed

lemma waitForRandomness_sent:
  assumes "waitForRandomness X key chainID i w = (Inr u, w')"
  shows "\<exists>k. dw_sent w' = dw_sent w @ replicate k (lock_tx i False) @ [lock_tx i True]"
  using assms lock_loop_sent by (auto simp: waitForRandomness_def run_iff)

lemma result_loop_sent: "result_loop X url msg deadline w = (r, w') \<Longrightarrow> dw_sent w' = dw_sent w"
  using idle.within_result_loop [of X w url msg deadline] by (simp add: idle_def)

lemma dispatch_and_settle_sent:
  assumes "dispatch_and_settle X key chainID cfg i w = (Inr u, w')"
  shows "\<exists>response. ar_Status (rp_Result response) = 1 \<and>
     dw_sent w' = dw_sent w @ [mined_tx (EscrowTx (JobCall i DispatchVerification)) (Some feeWei) True,
                               mined_tx (EscrowTx (JobCall i (SettleAttempt (result_args response)))) None True]"
proof -
  from assms obtain w1 w2 response w3 w4 where
    d: "send_as X key chainID ''dispatchVerification'' (EscrowTx (JobCall i DispatchVerification)) (Some feeWei) w = (Inr (), w1)"
    "w2 = elapse X w1"
    "pollActionResult X (cf_proxyURL cfg) (at_instructionId (ej_current (es_jobs (dw_escrow w2) i))) (cf_settleTag cfg)
       (cf_pollTimeout cfg) w2 = (Inr response, w3)"
    and st: "ar_Status (rp_Result response) = 1"
    and s: "send_as X key chainID ''settleAttempt'' (EscrowTx (JobCall i (SettleAttempt (result_args response)))) None w3 = (Inr (), w4)"
    "w' = elapse X w4"
    by (auto simp: dispatch_and_settle_def getJob_def run_iff split: if_splits)
  have "dw_sent w3 = dw_sent w2"
    using idleD(1) [OF idle.within_pollActionResult d(3)] .
  with send_as_sent [OF d(1)] send_as_sent [OF s(1)] d(2) s(2) st show ?thesis by auto
qed

lemma run_job_sent:
  assumes "run_job X key chainID cfg i w = (Inr u, w')"
  shows "\<exists>k response. ar_Status (rp_Result response) = 1 \<and>
     dw_sent w' = dw_sent w @
       [mined_tx (EscrowTx (JobCall i AcceptJob)) None True,
        mined_tx (EscrowTx (JobCall i (SubmitAttempt (cf_artifact cfg)))) None True] @
       replicate k (lock_tx i False) @ [lock_tx i True,
        mined_tx (EscrowTx (JobCall i DispatchVerification)) (Some feeWei) True,
        mined_tx (EscrowTx (JobCall i (SettleAttempt (result_args response)))) None True]"
proof -
  from assms obtain w1 w2 w3 where
    a: "send_as X key chainID ''acceptJob'' (EscrowTx (JobCall i AcceptJob)) None w = (Inr (), w1)"
    "send_as X key chainID ''submitAttempt'' (EscrowTx (JobCall i (SubmitAttempt (cf_artifact cfg)))) None w1 = (Inr (), w2)"
    "waitForRandomness X key chainID i w2 = (Inr (), w3)"
    "dispatch_and_settle X key chainID cfg i (elapse X w3) = (Inr u, w')"
    by (auto simp: run_job_def getJob_def run_iff)
  from send_as_sent [OF a(1)] send_as_sent [OF a(2)] waitForRandomness_sent [OF a(3)] dispatch_and_settle_sent [OF a(4)]
  show ?thesis by fastforce
qed

lemma refund_job_sent:
  assumes "refund_job X key chainID from token i g w = (Inr u, w')"
  shows "dw_sent w' = dw_sent w @ [mined_tx (EscrowTx (JobCall i RefundExpired)) None True]"
proof -
  have w: "dw_sent w1 = dw_sent w" if "waitForGrace g w = (Inr (), w1)" for w1
    using that by (auto simp: waitForGrace_def Let_def run_iff time_Sleep_def split: if_splits)
  from assms show ?thesis
    by (auto simp: refund_job_def getJob_def run_iff dest!: w send_as_sent)
qed

lemma create_tx_sent_ok:
  assumes "send_as X key chainID method (create_tx L cfg cm now) v w = (Inr u, w')"
  shows "create_tx L cfg cm now = EscrowTx (CreateJob (create_args_of L cfg cm now)) \<and> 0 \<le> cf_principal cfg \<and>
     cf_principal cfg < 2 ^ 128"
proof (rule ccontr)
  assume "\<not> ?thesis"
  then have "create_tx L cfg cm now = BadCalldata" by (auto simp: create_tx_def split: if_splits)
  with assms obtain a where "submit X a BadCalldata v (elapse X w) = (Inr True, w')" by (auto simp: send_as_Inr)
  then show False by (simp add: submit_Inr mined_def)
qed

text \<open>What \<open>create_job\<close> sends; the id is the one it read.\<close>

lemma create_job_parts:
  assumes "create_job X key chainID cfg token amount cm w = (Inr (i, g), w')"
  shows "\<exists>w1 w2 now. send_as X key chainID ''approve'' (ApproveTx token (cf_escrow cfg) amount) None w = (Inr (), w1) \<and>
     w2 = elapse X w1 \<and> i = es_nextJobId (dw_escrow w2) \<and> now = of_int (dw_time w2 div second) \<and>
     send_as X key chainID ''createJob'' (EscrowTx (CreateJob (create_args_of (dx_lib X) cfg cm now))) None w2 = (Inr (), w') \<and>
     g = snd (snd (deadlines now cfg)) \<and> 0 \<le> cf_principal cfg \<and> cf_principal cfg < 2 ^ 128 \<and>
     dw_sent w' = dw_sent w @ [mined_tx (ApproveTx token (cf_escrow cfg) amount) None True,
                               mined_tx (EscrowTx (CreateJob (create_args_of (dx_lib X) cfg cm now))) None True]"
proof -
  from assms obtain w1 where a: "send_as X key chainID ''approve'' (ApproveTx token (cf_escrow cfg) amount) None w = (Inr (), w1)"
    and i: "i = es_nextJobId (dw_escrow (elapse X w1))"
    and c: "send_as X key chainID ''createJob'' (create_tx (dx_lib X) cfg cm (of_int (dw_time (elapse X w1) div second))) None
              (elapse X w1) = (Inr (), w')"
    and g: "g = snd (snd (deadlines (of_int (dw_time (elapse X w1) div second)) cfg))"
    by (auto simp: create_job_def callBig_nextJobId_def Let_def run_iff)
  note ok = create_tx_sent_ok [OF c]
  from c ok have "send_as X key chainID ''createJob''
      (EscrowTx (CreateJob (create_args_of (dx_lib X) cfg cm (of_int (dw_time (elapse X w1) div second))))) None
      (elapse X w1) = (Inr (), w')" by simp
  with a i g ok send_as_sent [OF a] send_as_sent [OF this] show ?thesis by fastforce
qed

text \<open>The transactions of a run that creates a job, in order, when everything succeeds.\<close>

definition life_of_job :: "configValues \<Rightarrow> int \<Rightarrow> nat \<Rightarrow> ActionResponse \<Rightarrow> sent_tx list" where
  "life_of_job cfg i k response =
     (if cf_refundOnly cfg then [mined_tx (EscrowTx (JobCall i RefundExpired)) None True]
      else [mined_tx (EscrowTx (JobCall i AcceptJob)) None True,
            mined_tx (EscrowTx (JobCall i (SubmitAttempt (cf_artifact cfg)))) None True] @
           replicate k (lock_tx i False) @ [lock_tx i True,
            mined_tx (EscrowTx (JobCall i DispatchVerification)) (Some feeWei) True,
            mined_tx (EscrowTx (JobCall i (SettleAttempt (result_args response)))) None True])"

text \<open>What a commitment is made of.\<close>

definition commits_to :: "driver_env \<Rightarrow> configValues \<Rightarrow> commitment \<Rightarrow> bool" where
  "commits_to X cfg cm \<longleftrightarrow>
     (\<exists>bundle pub t ciphertext.
        cm_specHash cm = phase5_specHash (dx_lib X) \<and>
        buildBundle (dx_lib X) (cm_specHash cm) (cf_failVector cfg) = Inr (bundle, cm_privateBundleHash cm) \<and>
        parseTEEPublicKey X (cf_teePublicX cfg) (cf_teePublicY cfg) = Inr (pub, cm_expectedTee cm) \<and>
        dx_Encrypt X t bundle pub = Inr ciphertext \<and> cm_ciphertextHash cm = keccak256 (dx_lib X) ciphertext)"

lemma commit_bundle_Inr:
  "commit_bundle X cfg w = (Inr cm, w') \<Longrightarrow> commits_to X cfg cm"
  by (fastforce simp: commit_bundle_def commits_to_def encryptForTEE_def Let_def run_iff split: prod.splits)

lemma new_job_parts:
  assumes "new_job X key chainID cfg w = (Inr u, w')"
  obtains token amount cm i g w1 w2 w3 where
    "required_funds X (dx_PubkeyToAddress X key) cfg w = (Inr (token, amount), w1)"
    "commit_bundle X cfg w1 = (Inr cm, w2)" "create_job X key chainID cfg token amount cm w2 = (Inr (i, g), w3)"
    "(if cf_refundOnly cfg then refund_job X key chainID (dx_PubkeyToAddress X key) token i g w3
      else run_job X key chainID cfg i w3) = (Inr u, w')"
  using assms by (auto simp: new_job_def Let_def run_iff split: prod.splits if_splits)

lemma flag_Var_world: "flag_Var Set name v w = (r, w') \<Longrightarrow> w' = w"
  by (cases v; cases r) (auto simp: flag_Var_def run_iff)

lemma default_contractor_world: "default_contractor X c k w = (r, w') \<Longrightarrow> w' = w"
  by (cases r) (auto simp: default_contractor_def run_iff split: if_splits)

text \<open>A configuration that \<open>parseFlags\<close> returns has passed its checks.\<close>

lemma parseFlags_Inr:
  "parseFlags X fl w = (Inr cfg, w') \<Longrightarrow> w' = w \<and> config_error cfg = None \<and>
     cf_resumeJobID cfg = (let n = given (fg_resumeJob fl) (- 1) in if 0 \<le> n then Some n else None)"
  by (auto simp: parseFlags_def Let_def run_iff dest!: flag_Var_world default_contractor_world split: option.splits)

text \<open>C11: The life of a job. When the command ends successfully without \<open>-resume-job\<close>, its transactions on the
  chain were exactly these, in this order: the approval, the creation of the job with the hashes of the bundle
  it built, encrypted and committed to and the address of the enclave's key, and then either one refund or the
  acceptance, the submission of the artifact, any number of reverted randomness locks and one that was mined
  successfully, the dispatch with its fee, and one settlement with a result of status 1. All name the id read
  before the job was created.\<close>

theorem phase5_lifecycle:
  assumes "phase5_main X fl w = (Inr u, w')" and "given (fg_resumeJob fl) (- 1) < 0"
  shows "\<exists>cfg token amount cm now i k response.
     parseFlags X fl w = (Inr cfg, w) \<and> commits_to X cfg cm \<and> ar_Status (rp_Result response) = 1 \<and>
     dw_sent w' = dw_sent w @
       [mined_tx (ApproveTx token (cf_escrow cfg) amount) None True,
        mined_tx (EscrowTx (CreateJob (create_args_of (dx_lib X) cfg cm now))) None True] @ life_of_job cfg i k response"
proof -
  from assms(1) obtain cfg w0 key chainID where
    p0: "parseFlags X fl w = (Inr cfg, w0)" and
    m: "(case cf_resumeJobID cfg of Some i \<Rightarrow> resumeFromReady X key chainID cfg i | None \<Rightarrow> new_job X key chainID cfg)
         (elapse X (elapse X w0)) = (Inr u, w')"
    by (auto simp: phase5_main_def run_iff)
  note cfg = parseFlags_Inr [OF p0]
  define w1 where "w1 = elapse X (elapse X w)"
  have w1: "dw_sent w1 = dw_sent w" and n: "new_job X key chainID cfg w1 = (Inr u, w')"
    using m cfg assms(2) by (simp_all add: w1_def)
  from n obtain token amount cm i g w2 w3 w4 where
    p: "required_funds X (dx_PubkeyToAddress X key) cfg w1 = (Inr (token, amount), w2)"
    "commit_bundle X cfg w2 = (Inr cm, w3)" "create_job X key chainID cfg token amount cm w3 = (Inr (i, g), w4)" and
    rest: "(if cf_refundOnly cfg then refund_job X key chainID (dx_PubkeyToAddress X key) token i g w4
      else run_job X key chainID cfg i w4) = (Inr u, w')" by (rule new_job_parts)
  have "dw_sent w3 = dw_sent w"
    using idleD(1) [OF idle.within_required_funds p(1)] idleD(1) [OF idle.within_commit_bundle p(2)] w1 by simp
  then obtain now where w4: "dw_sent w4 = dw_sent w @ [mined_tx (ApproveTx token (cf_escrow cfg) amount) None True,
      mined_tx (EscrowTx (CreateJob (create_args_of (dx_lib X) cfg cm now))) None True]"
    using create_job_parts [OF p(3)] by auto
  have "\<exists>k response. ar_Status (rp_Result response) = 1 \<and> dw_sent w' = dw_sent w4 @ life_of_job cfg i k response"
  proof (cases "cf_refundOnly cfg")
    case True
    obtain response :: ActionResponse where "ar_Status (rp_Result response) = 1"
      by (rule that [of "\<lparr>rp_Result = undefined\<lparr>ar_Status := 1\<rparr>, rp_Signature = []\<rparr>"]) simp
    moreover have "refund_job X key chainID (dx_PubkeyToAddress X key) token i g w4 = (Inr u, w')" using rest True by simp
    ultimately show ?thesis using refund_job_sent True by (auto simp: life_of_job_def)
  next
    case False
    with rest have "run_job X key chainID cfg i w4 = (Inr u, w')" by simp
    from run_job_sent [OF this] False show ?thesis by (auto simp: life_of_job_def)
  qed
  with p0 cfg commit_bundle_Inr [OF p(2)] w4 show ?thesis by (metis append.assoc)
qed

section \<open>The runner's own job\<close>

text \<open>A successful call of account \<open>a\<close> between two worlds, and one on job \<open>i\<close>.\<close>

definition called :: "driver_env \<Rightarrow> address \<Rightarrow> escrow_call \<Rightarrow> driver_world \<Rightarrow> driver_world \<Rightarrow> bool" where
  "called X a call w w' \<longleftrightarrow>
     (\<exists>c mv. exec_call (dx_im X) (dx_cl X) (c\<lparr>cv_sender := a\<rparr>) call (dw_escrow w) = Inr (dw_escrow w', mv) \<and>
        dw_moves w' = dw_moves w @ mv)"

definition job_called :: "driver_env \<Rightarrow> address \<Rightarrow> int \<Rightarrow> job_call \<Rightarrow> driver_world \<Rightarrow> driver_world \<Rightarrow> bool" where
  "job_called X a i jc w w' \<longleftrightarrow>
     (\<exists>c j' mv. exec_job_call (dx_im X) (dx_cl X) (c\<lparr>cv_sender := a\<rparr>) (es_paused (dw_escrow w)) i jc (es_jobs (dw_escrow w) i) = Inr (j', mv) \<and>
        dw_escrow w' = (dw_escrow w)\<lparr>es_jobs := (es_jobs (dw_escrow w))(i := j')\<rparr> \<and> dw_moves w' = dw_moves w @ mv)"

lemma called_job: "called X a (JobCall i jc) w w' \<Longrightarrow> job_called X a i jc w w'"
proof -
  assume "called X a (JobCall i jc) w w'"
  then obtain c mv where e: "exec_call (dx_im X) (dx_cl X) (c\<lparr>cv_sender := a\<rparr>) (JobCall i jc) (dw_escrow w) = Inr (dw_escrow w', mv)"
    and m: "dw_moves w' = dw_moves w @ mv" unfolding called_def by blast
  from e obtain j' where
    "exec_job_call (dx_im X) (dx_cl X) (c\<lparr>cv_sender := a\<rparr>) (es_paused (dw_escrow w)) i jc (es_jobs (dw_escrow w) i) = Inr (j', mv)"
    "dw_escrow w' = (dw_escrow w)\<lparr>es_jobs := (es_jobs (dw_escrow w))(i := j')\<rparr>"
    by (auto split: sum.splits)
  with m show ?thesis unfolding job_called_def by blast
qed

lemma called_cong:
  "dw_escrow w1 = dw_escrow w \<Longrightarrow> dw_moves w1 = dw_moves w \<Longrightarrow> called X a call w1 w' \<longleftrightarrow> called X a call w w'"
  by (simp add: called_def)

lemma submit_called:
  assumes "alone X" and "submit X a (EscrowTx call) v w = (Inr ok, w')"
  shows "if ok then called X a call w w' else dw_escrow w' = dw_escrow w \<and> dw_moves w' = dw_moves w"
proof -
  note w1 = elapse_alone [OF assms(1), of w]
  from assms(2) obtain c where m: "mined X (dw_now w) a (EscrowTx call) v c (elapse X w) = (ok, w')" by (auto simp: submit_Inr)
  show ?thesis
  proof (cases "exec_call (dx_im X) (dx_cl X) (c\<lparr>cv_sender := a\<rparr>) call (dw_escrow w)")
    case (Inl e)
    with m w1 show ?thesis by (auto simp: mined_def)
  next
    case (Inr r)
    obtain s' mv where r: "r = (s', mv)" by (cases r)
    with m w1 Inr have "ok" "dw_escrow w' = s'" "dw_moves w' = dw_moves w @ mv" by (auto simp: mined_def)
    with Inr r show ?thesis unfolding called_def by auto
  qed
qed

lemma send_as_called:
  assumes "alone X" and "send_as X key chainID method (EscrowTx call) v w = (Inr u, w')"
    and "dx_NewKeyedTransactor X key chainID = Inr a"
  shows "called X a call w w'"
proof -
  from assms(2) have "submit X a (EscrowTx call) v (elapse X w) = (Inr True, w')"
    unfolding send_as_Inr assms(3) by blast
  from submit_called [OF assms(1) this] have "called X a call (elapse X w) w'" by (simp only: if_True)
  moreover have "dw_escrow (elapse X w) = dw_escrow w" "dw_moves (elapse X w) = dw_moves w"
    using elapse_alone [OF assms(1)] by simp_all
  ultimately show ?thesis by (simp only: called_def)
qed

lemma lock_once_called:
  assumes "alone X" and "lock_once X key chainID i w = (Inr locked, w')" and "dx_NewKeyedTransactor X key chainID = Inr a"
  shows "if locked then called X a (JobCall i LockRandomness) w w' else dw_escrow w' = dw_escrow w \<and> dw_moves w' = dw_moves w"
proof -
  let ?tx = "EscrowTx (JobCall i LockRandomness)"
  have w1: "dw_escrow (elapse X w) = dw_escrow w" "dw_moves (elapse X w) = dw_moves w"
    using elapse_alone [OF assms(1)] by simp_all
  from assms(2) have "submit X a ?tx None (elapse X w) = (Inr locked, w') \<or>
      \<not> locked \<and> (\<exists>e. submit X a ?tx None (elapse X w) = (Inl (SendError e), w'))"
    by (rule lock_once_cases) (metis assms(3) sum.inject(2))
  then show ?thesis
  proof
    assume "submit X a ?tx None (elapse X w) = (Inr locked, w')"
    from submit_called [OF assms(1) this] show ?thesis by (simp only: called_cong [OF w1] w1)
  next
    assume f: "\<not> locked \<and> (\<exists>e. submit X a ?tx None (elapse X w) = (Inl (SendError e), w'))"
    then have "w' = elapse X (elapse X w)"
      by (cases "dx_Fate X (dw_now (elapse X w)) a ?tx None") (auto simp: submit_def Let_def split: option.splits prod.splits)
    with f w1 elapse_alone [OF assms(1), of "elapse X w"] show ?thesis by simp
  qed
qed

lemma lock_loop_called:
  assumes "alone X" and "dx_NewKeyedTransactor X key chainID = Inr a"
  shows "lock_loop X key chainID i deadline w = (Inr u, w') \<Longrightarrow> called X a (JobCall i LockRandomness) w w'"
  using assms
proof (induction X key chainID i deadline w rule: lock_loop.induct)
  case (1 X key chainID i deadline w)
  obtain r w1 where one: "lock_once X key chainID i w = (r, w1)" by (cases "lock_once X key chainID i w")
  with 1 obtain locked where r: "r = Inr locked" by (subst (asm) (2) lock_loop.simps) (auto split: sum.splits)
  note step = lock_once_called [OF 1(3) one [unfolded r] 1(4)]
  show ?case
  proof (cases locked)
    case True
    with 1 one r have "w' = w1" by (subst (asm) (2) lock_loop.simps) simp
    with step True show ?thesis by simp
  next
    case False
    with 1(2) one r have next_round: "\<not> deadline < dw_time w1"
      "lock_loop X key chainID i deadline (snd (time_Sleep (20 * second) w1)) = (Inr u, w')"
      by (subst (asm) lock_loop.simps, auto split: if_splits)+
    from 1(1) [OF one [symmetric] r False next_round 1(3,4)] step False show ?thesis
      by (simp add: called_def time_Sleep_def)
  qed
qed

lemma approve_alone:
  assumes "alone X" and "send_as X key chainID method (ApproveTx token spender n) v w = (Inr u, w')"
  shows "dw_escrow w' = dw_escrow w \<and> dw_moves w' = dw_moves w"
  using assms(2) elapse_alone [OF assms(1)] by (auto simp: send_as_Inr submit_Inr mined_def Let_def)

lemma created_job:
  assumes "called X a (CreateJob args) w w'"
  defines "i \<equiv> es_nextJobId (dw_escrow w)" and "fee \<equiv> protocol_fee (ca_principal args) (es_protocolFeeBps (dw_escrow w))"
  shows "\<exists>c. dw_escrow w' = (dw_escrow w)\<lparr>es_nextJobId := i + 1,
       es_jobs := (es_jobs (dw_escrow w))(i := (es_jobs (dw_escrow w) i)
         \<lparr>ej_terms := created_terms (c\<lparr>cv_sender := a\<rparr>) args fee, ej_state := StateCreated\<rparr>)\<rparr> \<and>
     dw_moves w' = dw_moves w @ [Pull a (uint (ca_principal args) + fee)]"
proof -
  from assms(1) obtain c mv where
    "createJob (c\<lparr>cv_sender := a\<rparr>) args (dw_escrow w) = Inr (dw_escrow w', mv)" "dw_moves w' = dw_moves w @ mv"
    unfolding called_def by auto
  then show ?thesis
    by (intro exI [of _ c]) (auto simp: createJob_def Let_def i_def fee_def split: option.splits if_splits)
qed

text \<open>What calls on job \<open>i\<close> leave as it was, and the tokens they move.\<close>

definition job_moved :: "int \<Rightarrow> move list \<Rightarrow> driver_world \<Rightarrow> driver_world \<Rightarrow> bool" where
  "job_moved i mv w w' \<longleftrightarrow>
     es_nextJobId (dw_escrow w') = es_nextJobId (dw_escrow w) \<and>
     (\<forall>k. k \<noteq> i \<longrightarrow> es_jobs (dw_escrow w') k = es_jobs (dw_escrow w) k) \<and>
     ej_terms (es_jobs (dw_escrow w') i) = ej_terms (es_jobs (dw_escrow w) i) \<and> dw_moves w' = dw_moves w @ mv"

lemma job_moved_trans: "job_moved i mv w w' \<Longrightarrow> job_moved i mv' w' w'' \<Longrightarrow> job_moved i (mv @ mv') w w''"
  by (simp add: job_moved_def)

lemma exec_job_call_quiet:
  assumes "exec_job_call im cl c p i jc j = Inr (j', mv)"
    and "jc \<in> {AcceptJob, SubmitAttempt art, LockRandomness, DispatchVerification}"
  shows "ej_terms j' = ej_terms j \<and> mv = []"
  using assms
  by (auto simp: acceptJob_def submitAttempt_def lockRandomness_def dispatchVerification_def Let_def
      split: if_splits option.splits)

lemma quiet_call_moved:
  assumes "called X a (JobCall i jc) w w'"
    and "jc \<in> {AcceptJob, SubmitAttempt art, LockRandomness, DispatchVerification}"
  shows "job_moved i [] w w'"
  using called_job [OF assms(1)] exec_job_call_quiet [OF _ assms(2)]
  by (fastforce simp: job_called_def job_moved_def)

definition settled_moves :: "immutables \<Rightarrow> EscrowJob \<Rightarrow> move list" where
  "settled_moves im j =
     (if ej_state j = StatePaid
      then [Push (jt_contractor (ej_terms j)) (jt_principal (ej_terms j)), Push (im_treasury im) (jt_fee (ej_terms j))] else [])"

lemma settle_call_moved:
  assumes "called X a (JobCall i (SettleAttempt args)) w w'"
  shows "job_moved i (settled_moves (dx_im X) (es_jobs (dw_escrow w') i)) w w' \<and>
     ej_state (es_jobs (dw_escrow w') i) \<in> {StatePaid, StateAwaitingResubmission, StateRetryable, StateRefundPending}"
proof -
  from called_job [OF assms] obtain c j' mv where
    s: "settle_job (dx_im X) (dx_cl X) (c\<lparr>cv_sender := a\<rparr>) i args (es_jobs (dw_escrow w) i) = Inr (j', mv)" and
    w': "dw_escrow w' = (dw_escrow w)\<lparr>es_jobs := (es_jobs (dw_escrow w))(i := j')\<rparr>" "dw_moves w' = dw_moves w @ mv"
    unfolding job_called_def by auto
  from s show ?thesis
    by (rule settle_job_Inr)
      (simp add: w' job_moved_def settled_moves_def settled_state_def settled_transfers_def escrow_states)
qed

lemma refund_call_moved:
  assumes "called X a (JobCall i RefundExpired) w w'"
  defines "t \<equiv> ej_terms (es_jobs (dw_escrow w) i)"
  shows "job_moved i [Push (jt_client t) (jt_principal t + jt_fee t)] w w' \<and> ej_state (es_jobs (dw_escrow w') i) = StateRefunded"
  using called_job [OF assms(1)]
  by (auto simp: job_called_def job_moved_def refundExpired_def t_def Let_def split: if_splits)

lemma new_job_account:
  "send_as X key chainID method tx v w = (Inr u, w') \<Longrightarrow> \<exists>a. dx_NewKeyedTransactor X key chainID = Inr a"
  by (auto simp: send_as_Inr)

lemma idle_call_view: "alone X \<Longrightarrow> dw_escrow (elapse X w) = dw_escrow w" "alone X \<Longrightarrow> dw_moves (elapse X w) = dw_moves w"
  by (simp_all add: elapse_alone)

lemma run_job_moved:
  assumes "alone X" and "run_job X key chainID cfg i w = (Inr u, w')" and "dx_NewKeyedTransactor X key chainID = Inr a"
  shows "job_moved i (settled_moves (dx_im X) (es_jobs (dw_escrow w') i)) w w' \<and>
     ej_state (es_jobs (dw_escrow w') i) \<in> {StatePaid, StateAwaitingResubmission, StateRetryable, StateRefundPending}"
proof -
  from assms(2) obtain w1 w2 w3 w4 w5 w6 response where
    s: "send_as X key chainID ''acceptJob'' (EscrowTx (JobCall i AcceptJob)) None w = (Inr (), w1)"
    "send_as X key chainID ''submitAttempt'' (EscrowTx (JobCall i (SubmitAttempt (cf_artifact cfg)))) None w1 = (Inr (), w2)"
    "lock_loop X key chainID i (dw_time w2 + 12 * minute) w2 = (Inr (), w3)"
    "send_as X key chainID ''dispatchVerification'' (EscrowTx (JobCall i DispatchVerification)) (Some feeWei) (elapse X w3) = (Inr (), w4)"
    "pollActionResult X (cf_proxyURL cfg) (at_instructionId (ej_current (es_jobs (dw_escrow (elapse X w4)) i))) (cf_settleTag cfg)
       (cf_pollTimeout cfg) (elapse X w4) = (Inr response, w5)"
    "send_as X key chainID ''settleAttempt'' (EscrowTx (JobCall i (SettleAttempt (result_args response)))) None w5 = (Inr (), w6)"
    "w' = elapse X w6"
    by (auto simp: run_job_def dispatch_and_settle_def waitForRandomness_def getJob_def run_iff split: if_splits)
  note call = send_as_called [OF assms(1) _ assms(3)]
  have w5: "dw_escrow w5 = dw_escrow w4" "dw_moves w5 = dw_moves w4"
    using idleD(2) [OF idle.within_pollActionResult s(5) assms(1)] idle_call_view [OF assms(1)] by simp_all
  have "job_moved i [] w w1" "job_moved i [] w1 w2" "job_moved i [] w2 w3" "job_moved i [] (elapse X w3) w4"
    using quiet_call_moved [OF call [OF s(1)]] quiet_call_moved [OF call [OF s(2)]]
      quiet_call_moved [OF lock_loop_called [OF assms(1,3) s(3)]] quiet_call_moved [OF call [OF s(4)]] by simp_all
  then have "job_moved i [] w w5"
    by (simp add: job_moved_def w5 idle_call_view [OF assms(1)])
  moreover have "dw_escrow w' = dw_escrow w6" "dw_moves w' = dw_moves w6"
    by (simp_all add: s(7) idle_call_view [OF assms(1)])
  ultimately show ?thesis
    using settle_call_moved [OF call [OF s(6)]] by (auto simp: job_moved_def)
qed

lemma refund_job_moved:
  assumes "alone X" and "refund_job X key chainID acc token i g w = (Inr u, w')" and "dx_NewKeyedTransactor X key chainID = Inr a"
  defines "t \<equiv> ej_terms (es_jobs (dw_escrow w) i)"
  shows "job_moved i [Push (jt_client t) (jt_principal t + jt_fee t)] w w' \<and> ej_state (es_jobs (dw_escrow w') i) = StateRefunded"
proof -
  from assms(2) obtain w1 w2 where
    g: "waitForGrace g w = (Inr (), w1)" and
    s: "send_as X key chainID ''refundExpired'' (EscrowTx (JobCall i RefundExpired)) None (elapse X w1) = (Inr (), w2)"
    "w' = elapse X (elapse X w2)"
    by (auto simp: refund_job_def getJob_def run_iff)
  have "dw_escrow (elapse X w1) = dw_escrow w" "dw_moves (elapse X w1) = dw_moves w"
    using idleD(2) [OF idle.within_waitForGrace g assms(1)] idle_call_view [OF assms(1)] by simp_all
  with refund_call_moved [OF send_as_called [OF assms(1) s(1) assms(3)]] s(2) show ?thesis
    by (simp add: job_moved_def t_def idle_call_view [OF assms(1)])
qed

interpretation onward: driver_contract later X "\<lambda>_. True" for X
  by unfold_locales (rule TrueI)

text \<open>The terms a configuration asks for, for the account that signs, the fee rate in force, the clock in seconds and
  the block's time.\<close>

definition configured_terms ::
  "driver_env \<Rightarrow> configValues \<Rightarrow> commitment \<Rightarrow> address \<Rightarrow> u16 \<Rightarrow> u64 \<Rightarrow> u64 \<Rightarrow> JobTerms" where
  "configured_terms X cfg cm account bps now createdAt =
     \<lparr>jt_client = account, jt_contractor = cf_contractor cfg, jt_expectedTee = cm_expectedTee cm,
      jt_principal = cf_principal cfg, jt_fee = cf_principal cfg * uint bps div 10000 mod 2 ^ 128, jt_createdAt = createdAt,
      jt_acceptBy = now + duration_secs (cf_acceptDelay cfg), jt_submitBy = now + duration_secs (cf_submitDelay cfg),
      jt_graceEnds = now + duration_secs (cf_graceDelay cfg),
      jt_verificationTimeout = duration_secs (cf_verifyTimeout cfg), jt_specHash = cm_specHash cm,
      jt_privateBundleHash = cm_privateBundleHash cm,
      jt_engineVersionHash =
        (if cf_engineHash cfg = 0 then keccak256 (dx_lib X) (string_bytes WorkProofEngineVersion) else cf_engineHash cfg),
      jt_ciphertextHash = cm_ciphertextHash cm\<rparr>"

lemma create_job_alone:
  assumes "alone X" and "create_job X key chainID cfg token amount cm w = (Inr (i, g), w')"
  defines "t \<equiv> ej_terms (es_jobs (dw_escrow w') i)"
  shows "\<exists>account nanos. dx_NewKeyedTransactor X key chainID = Inr account \<and> dw_time w \<le> nanos \<and> nanos \<le> dw_time w' \<and>
     i = es_nextJobId (dw_escrow w) \<and> es_nextJobId (dw_escrow w') = i + 1 \<and>
     (\<forall>k. k \<noteq> i \<longrightarrow> es_jobs (dw_escrow w') k = es_jobs (dw_escrow w) k) \<and>
     dw_moves w' = dw_moves w @ [Pull account (jt_principal t + jt_fee t)] \<and>
     t = configured_terms X cfg cm account (es_protocolFeeBps (dw_escrow w)) (of_int (nanos div second)) (jt_createdAt t)"
proof -
  from create_job_parts [OF assms(2)] obtain w1 w2 now where
    c: "send_as X key chainID ''approve'' (ApproveTx token (cf_escrow cfg) amount) None w = (Inr (), w1)" "w2 = elapse X w1"
    "i = es_nextJobId (dw_escrow w2)" "now = of_int (dw_time w2 div second)"
    "send_as X key chainID ''createJob'' (EscrowTx (CreateJob (create_args_of (dx_lib X) cfg cm now))) None w2 = (Inr (), w')"
    "0 \<le> cf_principal cfg" "cf_principal cfg < 2 ^ 128" by blast
  have w2: "dw_escrow w2 = dw_escrow w" "dw_moves w2 = dw_moves w"
    using approve_alone [OF assms(1) c(1)] by (simp_all add: c(2) idle_call_view [OF assms(1)])
  have "dw_time w \<le> dw_time w1" "dw_time w2 \<le> dw_time w'"
    using withinD [OF later.within_send_as c(1)] withinD [OF later.within_send_as c(5)] by (simp_all add: later_def)
  then have time: "dw_time w \<le> dw_time w2" "dw_time w2 \<le> dw_time w'" by (simp_all add: c(2) dw_time_elapse)
  obtain a where a: "dx_NewKeyedTransactor X key chainID = Inr a" using new_job_account [OF c(1)] by blast
  have principal: "uint (word_of_int (cf_principal cfg) :: 128 word) = cf_principal cfg"
    using c(6,7) by (simp add: uint_word_of_int)
  show ?thesis
    using created_job [OF send_as_called [OF assms(1) c(5) a]] a time
    by (intro exI [of _ a] exI [of _ "dw_time w2"])
      (auto simp: w2 c(3,4) t_def created_terms_def create_args_of_def deadlines_def engine_hash_def protocol_fee_def
        configured_terms_def principal)
qed

text \<open>C10: The runner's own job. When nobody else uses the contract while the command runs and it succeeds, exactly
  one job was created, under the next free id, and all its terms are pinned but the block's time: its client is the
  account of the configured key on the node's chain; contractor and principal are the configured ones and the fee is
  the contract's rate on the principal; the enclave and the hashes of specification, bundle and ciphertext are those
  of the commitment; the engine version is the configured hash, or else that of the repository's version; the
  verification timeout is the configured one, and the three deadlines are the configured delays after one
  reading of the clock during the run. No other job changed, and the tokens moved are the runner's stake into the
  escrow and then: the stake back, for a refund; the principal to the contractor and the fee to the treasury, if
  the job ended paid; nothing, if it ended to be resubmitted, retried or refunded later.\<close>

theorem phase5_own_job:
  assumes "phase5_main X fl w = (Inr u, w')" and "given (fg_resumeJob fl) (- 1) < 0" and "alone X"
  shows "\<exists>cfg cm key t0 chainID account nanos createdAt.
     (let i = es_nextJobId (dw_escrow w); j = es_jobs (dw_escrow w') i; t = ej_terms j;
          stake = jt_principal t + jt_fee t in
      parseFlags X fl w = (Inr cfg, w) \<and> commits_to X cfg cm \<and> parsePrivateKey X (cf_privKey cfg) = Inr key \<and>
      dx_ChainID X t0 = Inr chainID \<and> dx_NewKeyedTransactor X key chainID = Inr account \<and>
      dw_time w \<le> nanos \<and> nanos \<le> dw_time w' \<and>
      es_nextJobId (dw_escrow w') = i + 1 \<and> (\<forall>k. k \<noteq> i \<longrightarrow> es_jobs (dw_escrow w') k = es_jobs (dw_escrow w) k) \<and>
      t = configured_terms X cfg cm account (es_protocolFeeBps (dw_escrow w)) (of_int (nanos div second)) createdAt \<and>
      (if cf_refundOnly cfg
       then ej_state j = StateRefunded \<and> dw_moves w' = dw_moves w @ [Pull account stake, Push account stake]
       else ej_state j \<in> {StatePaid, StateAwaitingResubmission, StateRetryable, StateRefundPending} \<and>
         dw_moves w' = dw_moves w @ [Pull account stake] @ settled_moves (dx_im X) j))"
proof -
  from assms(1) obtain cfg w0 key chainID where p0: "parseFlags X fl w = (Inr cfg, w0)" and
    k: "parsePrivateKey X (cf_privKey cfg) = Inr key" "dx_ChainID X (dw_now (elapse X w0)) = Inr chainID" and
    m: "(case cf_resumeJobID cfg of Some i \<Rightarrow> resumeFromReady X key chainID cfg i | None \<Rightarrow> new_job X key chainID cfg)
         (elapse X (elapse X w0)) = (Inr u, w')"
    by (auto simp: phase5_main_def run_iff)
  note cfg = parseFlags_Inr [OF p0]
  define w1 where "w1 = elapse X (elapse X w)"
  have "new_job X key chainID cfg w1 = (Inr u, w')" using m cfg assms(2) by (simp add: w1_def)
  then obtain token amount cm i g w2 w3 w4 where
    p: "required_funds X (dx_PubkeyToAddress X key) cfg w1 = (Inr (token, amount), w2)"
    "commit_bundle X cfg w2 = (Inr cm, w3)" "create_job X key chainID cfg token amount cm w3 = (Inr (i, g), w4)" and
    rest: "(if cf_refundOnly cfg then refund_job X key chainID (dx_PubkeyToAddress X key) token i g w4
      else run_job X key chainID cfg i w4) = (Inr u, w')" by (rule new_job_parts)
  have w3: "dw_escrow w3 = dw_escrow w" "dw_moves w3 = dw_moves w"
    using idleD(2) [OF idle.within_required_funds p(1) assms(3)] idleD(2) [OF idle.within_commit_bundle p(2) assms(3)]
      idle_call_view [OF assms(3)] by (simp_all add: w1_def)
  from create_job_alone [OF assms(3) p(3)] obtain a nanos where a: "dx_NewKeyedTransactor X key chainID = Inr a" and
    made: "dw_time w3 \<le> nanos" "nanos \<le> dw_time w4" "i = es_nextJobId (dw_escrow w)" "es_nextJobId (dw_escrow w4) = i + 1"
      "\<forall>k. k \<noteq> i \<longrightarrow> es_jobs (dw_escrow w4) k = es_jobs (dw_escrow w) k" and
    t: "dw_moves w4 = dw_moves w @ [Pull a (jt_principal (ej_terms (es_jobs (dw_escrow w4) i)) + jt_fee (ej_terms (es_jobs (dw_escrow w4) i)))]"
      "ej_terms (es_jobs (dw_escrow w4) i) = configured_terms X cfg cm a (es_protocolFeeBps (dw_escrow w)) (of_int (nanos div second))
         (jt_createdAt (ej_terms (es_jobs (dw_escrow w4) i)))" (is "?t = _")
    by (auto simp: w3)
  have "dw_time w1 \<le> dw_time w2" "dw_time w2 \<le> dw_time w3" "dw_time w4 \<le> dw_time w'"
    using withinD [OF later.within_required_funds p(1)] withinD [OF later.within_commit_bundle p(2)] rest
      withinD [OF onward.within_run_job, of X key chainID cfg i w4 "Inr u" w']
      withinD [OF onward.within_refund_job, of X key chainID _ token i g w4 "Inr u" w']
    by (auto simp: later_def split: if_splits)
  then have time: "dw_time w \<le> nanos" "nanos \<le> dw_time w'" using made(1,2) by (auto simp: w1_def dw_time_elapse)
  have client: "jt_client ?t = a" by (subst t(2)) (simp add: configured_terms_def)
  have "job_moved i (if cf_refundOnly cfg then [Push a (jt_principal ?t + jt_fee ?t)]
            else settled_moves (dx_im X) (es_jobs (dw_escrow w') i)) w4 w' \<and>
      (if cf_refundOnly cfg then ej_state (es_jobs (dw_escrow w') i) = StateRefunded
       else ej_state (es_jobs (dw_escrow w') i) \<in> {StatePaid, StateAwaitingResubmission, StateRetryable, StateRefundPending})"
    using refund_job_moved [OF assms(3) _ a] run_job_moved [OF assms(3) _ a] rest client by (auto split: if_splits)
  then show ?thesis
    using made(3-5) t p0 cfg commit_bundle_Inr [OF p(2)] k a time unfolding Let_def job_moved_def
    by (intro exI [of _ cfg] exI [of _ cm] exI [of _ key] exI [of _ "dw_now (elapse X w0)"] exI [of _ chainID] exI [of _ a]
        exI [of _ nanos] exI [of _ "jt_createdAt ?t"]) auto
qed

section \<open>Waiting\<close>

text \<open>Interactions of one round, and the bound on a loop of rounds.\<close>

lemma dw_now_elapse [simp]: "dw_now (elapse X w) = dw_now w + 1"
  by (simp add: elapse_def split: prod.split)

lemma dw_now_mined [simp]: "dw_now (snd (mined X t a tx v c w)) = dw_now w"
  by (simp add: mined_def Let_def split: driver_tx.split sum.split)

lemma dw_now_submit:
  assumes "submit X a tx v w = (r, w')"
  shows "dw_now w' = dw_now w + 1"
proof (cases "dx_Fate X (dw_now w) a tx v")
  case (Refused e)
  with assms show ?thesis by (auto simp: submit_def Let_def)
next
  case (Lost c e)
  with assms show ?thesis by (cases c) (auto simp: submit_def Let_def)
next
  case (Mined c)
  with assms have "w' = snd (mined X (dw_now w) a tx v c (elapse X w))"
    by (auto simp: submit_def Let_def split: prod.splits)
  then show ?thesis by simp
qed

lemma dw_now_authFor:
  assumes "authFor X key chainID w = (r, w')"
  shows "dw_now w' \<le> dw_now w + 1"
  using assms
  by (auto simp: authFor_def attempt_wrap_def handle_def lift_def throw_def ret_def observe_def split: sum.splits)

lemma dw_now_lock_once:
  assumes "lock_once X key chainID i w = (r, w')"
  shows "dw_now w' \<le> dw_now w + 2"
proof -
  obtain r1 w1 where a: "authFor X key chainID w = (r1, w1)" by (cases "authFor X key chainID w")
  show ?thesis
  proof (cases r1)
    case (Inl e)
    with assms a dw_now_authFor [OF a] show ?thesis by (simp add: lock_once_def attempt_def handle_def throw_def)
  next
    case (Inr acc)
    obtain r2 w2 where s: "submit X acc (EscrowTx (JobCall i LockRandomness)) None w1 = (r2, w2)"
      by (cases "submit X acc (EscrowTx (JobCall i LockRandomness)) None w1")
    with assms a Inr have "w' = w2"
      by (auto simp: lock_once_def attempt_def handle_def throw_def ret_def split: sum.splits send_error.splits)
    with dw_now_authFor [OF a] dw_now_submit [OF s] show ?thesis by simp
  qed
qed

lemma dw_now_poll_result: "poll_result X url w = (r, w') \<Longrightarrow> dw_now w' = dw_now w + 1"
  by (auto simp: poll_result_def handle_def attempt_def observe_def ret_def throw_def lift_def split: sum.splits if_splits)

text \<open>The seconds left until the deadline, in rounds of the given length.\<close>

definition rounds_left :: "int \<Rightarrow> int \<Rightarrow> driver_world \<Rightarrow> nat" where
  "rounds_left len deadline w = nat ((deadline - dw_time w) div len + 2)"

lemma rounds_left_next:
  assumes "0 < len" and "later w w1" and "dw_time w1 \<le> deadline"
  shows "1 + rounds_left len deadline (snd (time_Sleep len w1)) \<le> rounds_left len deadline w"
proof -
  have "(deadline - (dw_time w1 + len)) div len = (deadline - dw_time w1) div len - 1"
    using assms(1) div_mult_self1 [of len "deadline - dw_time w1" "- 1"] by (simp add: algebra_simps)
  moreover have "(deadline - dw_time w1) div len \<le> (deadline - dw_time w) div len"
    using assms(1,2) by (simp add: later_def zdiv_mono1)
  moreover have "0 \<le> (deadline - dw_time w1) div len"
    using assms(1,3) by (simp add: pos_imp_zdiv_nonneg_iff)
  ultimately show ?thesis using assms(1) by (simp add: rounds_left_def time_Sleep_def)
qed

lemma rounds_left_pos:
  assumes "0 < len" and "dw_time w \<le> deadline + len"
  shows "1 \<le> rounds_left len deadline w"
proof -
  have "- 1 \<le> (deadline - dw_time w) div len"
    using assms zdiv_mono1 [of "- len" "deadline - dw_time w" len] by (simp add: zdiv_zminus1_eq_if)
  then show ?thesis by (simp add: rounds_left_def)
qed

lemma lock_loop_now:
  "lock_loop X key chainID i deadline w = (r, w') \<Longrightarrow> dw_time w \<le> deadline + 20 * second \<Longrightarrow>
   dw_now w' \<le> dw_now w + 2 * rounds_left (20 * second) deadline w"
proof (induction X key chainID i deadline w rule: lock_loop.induct)
  case (1 X key chainID i deadline w)
  obtain r1 w1 where one: "lock_once X key chainID i w = (r1, w1)" by (cases "lock_once X key chainID i w")
  note now1 = dw_now_lock_once [OF one]
  have l: "later w w1" using withinD [OF later.within_lock_once one] by simp
  show ?case
  proof (cases "r1 = Inr False \<and> \<not> deadline < dw_time w1")
    case True
    then have r1: "r1 = Inr False" and nd: "\<not> deadline < dw_time w1" by simp_all
    let ?w2 = "snd (time_Sleep (20 * second) w1)"
    have "lock_loop X key chainID i deadline ?w2 = (r, w')"
      using 1(2) True one by (subst (asm) lock_loop.simps) simp
    from 1(1) [OF one [symmetric] r1 _ nd this]
    have "dw_now w' \<le> dw_now ?w2 + 2 * rounds_left (20 * second) deadline ?w2"
      using nd by (simp add: time_Sleep_def second_def)
    moreover have "1 + rounds_left (20 * second) deadline ?w2 \<le> rounds_left (20 * second) deadline w"
      using rounds_left_next [OF _ l] nd by (simp add: second_def)
    ultimately show ?thesis using now1 by (simp add: time_Sleep_def)
  next
    case False
    then have "w' = w1" using 1(2) one by (subst (asm) lock_loop.simps) (auto split: sum.splits if_splits)
    moreover have "1 \<le> rounds_left (20 * second) deadline w" using 1(3) by (intro rounds_left_pos) (simp_all add: second_def)
    ultimately show ?thesis using now1 by simp
  qed
qed

lemma result_loop_now:
  "result_loop X url msg deadline w = (r, w') \<Longrightarrow> dw_time w \<le> deadline + 5 * second \<Longrightarrow>
   dw_now w' \<le> dw_now w + rounds_left (5 * second) deadline w"
proof (induction X url msg deadline w rule: result_loop.induct)
  case (1 X url msg deadline w)
  obtain r1 w1 where one: "poll_result X url w = (r1, w1)" by (cases "poll_result X url w")
  note now1 = dw_now_poll_result [OF one]
  have l: "later w w1" using withinD [OF later.within_poll_result one] by simp
  show ?case
  proof (cases "r1 = Inr None \<and> \<not> deadline < dw_time w1")
    case True
    then have r1: "r1 = Inr None" and nd: "\<not> deadline < dw_time w1" by simp_all
    let ?w2 = "snd (time_Sleep (5 * second) w1)"
    have "result_loop X url msg deadline ?w2 = (r, w')"
      using 1(2) True one by (subst (asm) result_loop.simps) simp
    from 1(1) [OF one [symmetric] r1 refl nd this]
    have "dw_now w' \<le> dw_now ?w2 + rounds_left (5 * second) deadline ?w2"
      using nd by (simp add: time_Sleep_def second_def)
    moreover have "1 + rounds_left (5 * second) deadline ?w2 \<le> rounds_left (5 * second) deadline w"
      using rounds_left_next [OF _ l] nd by (simp add: second_def)
    ultimately show ?thesis using now1 by (simp add: time_Sleep_def)
  next
    case False
    then have "w' = w1" using 1(2) one by (subst (asm) result_loop.simps) (auto split: sum.splits option.splits if_splits)
    moreover have "1 \<le> rounds_left (5 * second) deadline w" using 1(3) by (intro rounds_left_pos) (simp_all add: second_def)
    ultimately show ?thesis using now1 by simp
  qed
qed

text \<open>Waiting is bounded. However the chain and the clock behave, waiting for the randomness ends after at
  most 76 requests to the node (38 rounds of a nonce and a transaction), and polling for the result after at
  most one request for every five seconds of the timeout and two more, whatever the proxy answers.\<close>

theorem phase5_waits_bounded:
  "dw_now (snd (waitForRandomness X key chainID i w)) \<le> dw_now w + 76 \<and>
   dw_now (snd (pollActionResult X url iid tag timeout w)) \<le> dw_now w + nat (timeout div (5 * second)) + 2"
proof -
  have "dw_now (snd (lock_loop X key chainID i (dw_time w + 12 * minute) w)) \<le> dw_now w + 2 * 38"
    using lock_loop_now [of X key chainID i "dw_time w + 12 * minute" w]
    by (cases "lock_loop X key chainID i (dw_time w + 12 * minute) w") (simp add: rounds_left_def minute_def second_def)
  moreover have "dw_now (snd (result_loop X u m (dw_time w + timeout) w)) \<le> dw_now w + nat (timeout div (5 * second)) + 2" for u m
  proof (cases "0 \<le> timeout")
    case True
    then show ?thesis
      using result_loop_now [of X u m "dw_time w + timeout" w] pos_imp_zdiv_nonneg_iff [of "5 * second" timeout]
      by (cases "result_loop X u m (dw_time w + timeout) w") (simp add: rounds_left_def second_def nat_add_distrib)
  next
    case False
    obtain r1 w1 where one: "poll_result X u w = (r1, w1)" by (cases "poll_result X u w")
    with False withinD [OF later.within_poll_result one] have "dw_time w + timeout < dw_time w1" by (simp add: later_def)
    then have "snd (result_loop X u m (dw_time w + timeout) w) = w1"
      by (subst result_loop.simps) (auto simp: one split: sum.split option.split)
    with dw_now_poll_result [OF one] show ?thesis by simp
  qed
  ultimately show ?thesis
    by (simp add: waitForRandomness_def pollActionResult_def attempt_def handle_def time_Now_def)
qed

section \<open>Where the driver goes wrong\<close>


text \<open>C13: The job that is created need not be the one the driver goes on with. After \<open>create_job\<close> the runner's
  new job is the last of the contract, with the commitment's hashes; its id is the one returned when nobody
  else uses the contract, but in general only not below it: the id was read before the job was made.\<close>

theorem phase5_created_job_id:
  assumes "create_job X key chainID cfg token amount cm w = (Inr (i, g), w')"
    and "reachable (dx_im X) (dx_cl X) (dw_moves w) (dw_escrow w)" and "chain_facts X"
  shows "\<exists>account k. dx_NewKeyedTransactor X key chainID = Inr account \<and> es_nextJobId (dw_escrow w') = k + 1 \<and> i \<le> k \<and>
     (alone X \<longrightarrow> i = k) \<and>
     (let j = es_jobs (dw_escrow w') k in
      ej_state j = StateCreated \<and> jt_client (ej_terms j) = account \<and> jt_expectedTee (ej_terms j) = cm_expectedTee cm \<and>
      jt_privateBundleHash (ej_terms j) = cm_privateBundleHash cm \<and> jt_ciphertextHash (ej_terms j) = cm_ciphertextHash cm)"
proof -
  from create_job_parts [OF assms(1)] obtain w1 w2 now where
    p: "send_as X key chainID ''approve'' (ApproveTx token (cf_escrow cfg) amount) None w = (Inr (), w1)" "w2 = elapse X w1"
    "i = es_nextJobId (dw_escrow w2)"
    "send_as X key chainID ''createJob'' (EscrowTx (CreateJob (create_args_of (dx_lib X) cfg cm now))) None w2 = (Inr (), w')"
    by blast
  let ?call = "CreateJob (create_args_of (dx_lib X) cfg cm now)" and ?w3 = "elapse X (elapse X w2)"
  have "history X w w2"
    using history_trans [OF withinD [OF history.within_send_as p(1)] history_elapse] p(2) by simp
  from history_reachable [OF this assms(2,3)] have r2: "reachable (dx_im X) (dx_cl X) (dw_moves w2) (dw_escrow w2)" by simp
  have i: "i \<le> es_nextJobId (dw_escrow ?w3)"
    using history_reachable(2) [OF history_trans [OF history_elapse history_elapse] r2 assms(3)] p(3) by (simp add: escrow_le_def)
  from p(4) obtain a c where a: "dx_NewKeyedTransactor X key chainID = Inr a"
    and m: "mined X (dw_now (elapse X w2)) a (EscrowTx ?call) None c ?w3 = (True, w')"
    by (auto simp: send_as_Inr submit_Inr)
  from m have "called X a ?call ?w3 w'"
    unfolding called_def by (intro exI [of _ c]) (auto simp: mined_def split: sum.splits prod.splits)
  from created_job [OF this] show ?thesis
    using a i p(3) by (auto simp: created_terms_def create_args_of_def deadlines_def elapse_alone Let_def)
qed

section \<open>The bundle\<close>

lemma hex_digits: "list_all is_hex_digit (hex_EncodeToString bs)"
  by (induction bs) (simp_all add: hex_EncodeToString_def hex_encode_byte_def hex_char_props unat_byte_nibbles del: unat_div)

lemma bytes32Pattern_Hash_Hex: "bytes32Pattern (Hash_Hex h)"
  using hex_digits [of "bytes_of_bytes32 h"] by (simp add: bytes32Pattern_def hex_prefixed_def Hash_Hex_def HasPrefix_def)

lemma Validate_phase5_bundle: "Validate (phase5_bundle specHash failVector) = None"
proof -
  have "templateVersionPattern ''v1.0.0''" by code_simp
  moreover have "vector_validate (phase5_vector failVector) = None"
    by (simp add: vector_validate_def phase5_vector_def vector_types_distinct)
  ultimately show ?thesis
    by (simp add: Validate_def phase5_bundle_def bytes32Pattern_Hash_Hex MaxVectorCount_def MaxSelectionCount_def
        CallGasCap_def MaxResponseBytes_def)
qed

lemma buildBundle_canonical:
  "buildBundle L specHash failVector =
     (case jcs_Transform L (string_bytes (bundle_json (phase5_bundle specHash failVector))) of
        Inl e \<Rightarrow> Inl e | Inr canonical \<Rightarrow> Inr (canonical, keccak256 L canonical))"
  by (simp add: buildBundle_def Validate_phase5_bundle Let_def)

lemma execute_phase5_vector:
  assumes "eth_CodeAt eth t ctx artifact block = Inr code"
  shows "ExecuteVector L eth t ctx artifact block gasCap maxResponse (phase5_vector failVector) =
     Ok (decided (phase5_vector failVector) (1 \<le> length code \<and> length code \<le> (if failVector then 1 else 100000)))"
  using assms
  by (auto simp: ExecuteVector_def executeCodeSizeRange_def phase5_vector_def vector_types_distinct)

text \<open>C12: The bundle the driver commits to is one the verifier accepts, and its verdict measures the artifact.
  \<open>buildBundle\<close> never fails validation; if decoding its canonical JSON gives the bundle back and the hash's
  hexadecimal form decodes, the enclave's checks accept the plaintext for the job's hashes; and a decided
  verdict on it is PASS exactly when the artifact has between one byte of code and 100000, or exactly one with
  \<open>-fail\<close>.\<close>

theorem phase5_bundle_measures_size:
  fixes failVector :: bool and instr :: WorkProofInstruction
  defines "bundle \<equiv> phase5_bundle (wi_SpecHash instr) failVector"
  assumes "buildBundle (ve_lib E) (wi_SpecHash instr) failVector = Inr (canonical, wi_PrivateBundleHash instr)"
    and "ve_Unmarshal E canonical = Some bundle"
    and "hexutil_Decode (ve_lib E) (Hash_Hex (wi_SpecHash instr)) = Some (bytes_of_bytes32 (wi_SpecHash instr))"
    and "length canonical \<le> MaxBundleBytes"
    and "eth_CodeAt (ve_eth E) (t + 8) (1000 # ctx) (wi_ArtifactAddress instr) (wi_ArtifactBlock instr) = Inr code"
    and "verify_run E t ctx instr identity rn now bundle = Ok v" and "vo_Outcome (v1_Result v) \<noteq> OutcomeInconclusive"
  shows "check_plaintext E instr canonical = Inr bundle \<and>
     (vo_Outcome (v1_Result v) = OutcomePass \<longleftrightarrow> 1 \<le> length code \<and> length code \<le> (if failVector then 1 else 100000))"
proof
  obtain h where "CanonicalizeAndHash (ve_lib E) bundle = Inr (canonical, wi_PrivateBundleHash instr)"
    using assms(2) by (auto simp: bundle_def CanonicalizeAndHash_def buildBundle_canonical split: sum.splits)
  moreover have "b_PublicSpecHash bundle = Hash_Hex (wi_SpecHash instr)" by (simp add: bundle_def phase5_bundle_def)
  ultimately show "check_plaintext E instr canonical = Inr bundle"
    using assms(3,4,5) Validate_phase5_bundle [of "wi_SpecHash instr" failVector]
    by (simp add: check_plaintext_def checkBundleSize_def checkPublicSpecHash_def bundle_def)
  have vs: "b_Vectors bundle = [phase5_vector failVector]" "b_SelectionCount bundle = 1" "b_TimeoutMsPerCall bundle = 1000"
    by (simp_all add: bundle_def phase5_bundle_def)
  from assms(7) show "vo_Outcome (v1_Result v) = OutcomePass \<longleftrightarrow> 1 \<le> length code \<and> length code \<le> (if failVector then 1 else 100000)"
  proof (cases rule: verify_run_cases)
    case (run sel os h)
    have "sel = [0]"
      using run(1) SelectVectors_Ok [of 1 1 "keccak256 (ve_lib E)"]
      by (auto simp: executed_run_def vs sel_loop_def sel_step_def swap_def)
    with run(1) have "os = [decided (phase5_vector failVector) (1 \<le> length code \<and> length code \<le> (if failVector then 1 else 100000))]"
      by (simp add: executed_run_def vs execute_phase5_vector [OF assms(6)])
    with run(2) show ?thesis by (simp add: demo_outcome)
  next
    case (inconclusive d)
    then show ?thesis using assms(8) by (auto simp: inconclusiveVerdict_def split: sum.splits)
  qed
qed

section \<open>Flags that do not do what they say\<close>

lemma parseFlags_proxy:
  "parseFlags X fl w = (Inr cfg, w') \<Longrightarrow>
     cf_proxyURL cfg = given (fg_proxy fl) (firstEnv X [''EXT_PROXY_URL'', ''http://localhost:6674''])"
  by (auto simp: parseFlags_def Let_def run_iff simp del: firstEnv.simps split: option.splits)

text \<open>The default URL of \<open>-proxy\<close> is taken for the name of an environment variable: without the flag and without
  \<open>EXT_PROXY_URL\<close> the program stops.\<close>

lemma default_proxy_never_used:
  assumes "fg_proxy fl = None" and "dx_Getenv X ''EXT_PROXY_URL'' = []" and "dx_Getenv X ''http://localhost:6674'' = []"
  shows "phase5_main X fl w \<noteq> (Inr u, w')"
proof
  assume "phase5_main X fl w = (Inr u, w')"
  then obtain cfg w1 where cfg: "parseFlags X fl w = (Inr cfg, w1)"
    unfolding phase5_main_def run_attempt by blast
  have "cf_proxyURL cfg = []" using parseFlags_proxy [OF cfg] assms by (simp add: given_def)
  moreover have "config_error cfg = None" using parseFlags_Inr [OF cfg] by simp
  ultimately show False by (auto simp: config_error_def split: if_splits)
qed

text \<open>Delays are compared in nanoseconds but sent in whole seconds: an accepted configuration can be one whose
  job the contract never creates.\<close>

lemma sub_second_delays_never_created:
  assumes "duration_secs (cf_submitDelay cfg) = duration_secs (cf_acceptDelay cfg)"
  shows "\<exists>e. createJob c (create_args_of L cfg cm now) s = Inl e"
  using assms by (simp add: createJob_def create_args_of_def deadlines_def)

lemma sub_second_delays_accepted:
  "config_error cfg = None \<Longrightarrow> second < cf_graceDelay cfg - 1 \<Longrightarrow>
   config_error (cfg\<lparr>cf_acceptDelay := second, cf_submitDelay := second + 1\<rparr>) = None"
  "duration_secs (second + 1) = duration_secs second"
  by (auto simp: config_error_def duration_secs_short second_def split: if_splits)

text \<open>The principal is not checked: a negative one passes the balance check and is approved before the contract
  rejects the job.\<close>

lemma negative_principal_unchecked: "config_error (cfg\<lparr>cf_principal := n\<rparr>) = config_error cfg"
  by (simp add: config_error_def)

lemma negative_principal_never_created:
  "cf_principal cfg < 0 \<Longrightarrow> create_job X key chainID cfg token amount cm w \<noteq> (Inr r, w')"
  using create_job_parts [of X key chainID cfg token amount cm w "fst r" "snd r" w'] by auto

end
