(* ===== verification/Phase5Runs.thy ===== *)
theory Phase5Runs
  imports Phase5Safety
begin

text \<open>
  Concrete runs of the phase 5 driver: a refund, a job that is paid, a postponed random round, and the run in
  which another party takes the job id that the driver has read. They are the witnesses of its properties.
\<close>

section \<open>A runner\<close>

text \<open>Account 1 is client and contractor. Every interaction takes a second; transactions are mined at once, in a
  block whose time the clock gives, and account 0, of which nobody has the key, sends none.\<close>

definition runner_verdict :: VerdictV1 where
  "runner_verdict =
     \<lparr>v1_Id = \<lparr>vi_SchemaVersion = 1, vi_EscrowAddress = 11, vi_ChainId = Some 114, vi_JobId = Some 0, vi_Attempt = 1,
        vi_InstructionId = 77, vi_SpecHash = 7, vi_PrivateBundleHash = 7, vi_ArtifactAddress = 17,
        vi_ArtifactBlock = Some 99\<rparr>,
      v1_Result = \<lparr>vo_ArtifactCodeHash = 7, vo_RandomRound = Some 3, vo_RandomValueHash = 7, vo_EngineVersionHash = 7,
        vo_Outcome = OutcomePass, vo_PassedCount = 1, vo_ExecutedCount = 1, vo_ReportHash = 7, vo_IssuedAt = 20,
        vo_ExpiresAt = 7209\<rparr>\<rparr>"

definition runner_contract :: contract_lib where
  "runner_contract = demo_contract\<lparr>cl_decode := (\<lambda>_. Some runner_verdict)\<rparr>"

definition runner_response :: ActionResponse where
  "runner_response =
     \<lparr>rp_Result = \<lparr>ar_ID = 77, ar_SubmissionTag = ''threshold'', ar_Version = [], ar_OPType = OP_TYPE,
        ar_OPCommand = OP_COMMAND, ar_Data = [], ar_Status = 1, ar_Log = []\<rparr>,
      rp_Signature = replicate 65 0\<rparr>"

definition runner_env :: "(tick \<Rightarrow> (call_env \<times> escrow_call) list) \<Rightarrow> (tick \<Rightarrow> int) \<Rightarrow> driver_env" where
  "runner_env others clock =
     \<lparr>dx_im = demo_im, dx_cl = runner_contract, dx_others = others, dx_elapsed = (\<lambda>_. 1000000000),
      dx_Fate = (\<lambda>t a tx v. if a = 0 then Refused [] else Mined (demo_call (clock t) a)), dx_ApproveOk = (\<lambda>_ _ _. True), dx_TxHash = (\<lambda>_. ''0xhash''),
      dx_CallFail = (\<lambda>_ _. None), dx_BalanceOf = (\<lambda>_ _ _. Inr 100000), dx_Dial = (\<lambda>_ _. Inr ()), dx_ChainID = (\<lambda>_. Inr 114),
      dx_NewKeyedTransactor = (\<lambda>_ _. Inr 1), dx_PendingNonceAt = (\<lambda>_ _. Inr 0), dx_Getenv = (\<lambda>_. []),
      dx_HexToECDSA = (\<lambda>_. Inr 1), dx_PubkeyToAddress = (\<lambda>_. 1), dx_IsHexAddress = (\<lambda>_. True),
      dx_IsOnCurve = (\<lambda>_ _. True), dx_PointToAddress = (\<lambda>_ _. 3), dx_Encrypt = (\<lambda>_ _ _. Inr [1]), dx_IsDir = (\<lambda>_ _. False),
      dx_WriteFail = (\<lambda>_ _. None), dx_Get = (\<lambda>_ _. Inr \<lparr>hr_StatusCode = 200, hr_Body = [], hr_ReadErr = None\<rparr>),
      dx_DecodeResponse = (\<lambda>_. Inr runner_response)\<rparr>"

definition runner_flags :: "bool \<Rightarrow> flags" where
  "runner_flags refund =
     \<lparr>fg_rpc = Some ''http://node'', fg_proxy = Some ''http://proxy'', fg_escrow = Some ''0x11'', fg_privKey = Some ''0x01'',
      fg_contractor = None, fg_artifact = None, fg_teeX = Some ''1'', fg_teeY = Some ''1'', fg_tag = None,
      fg_engineHash = None, fg_storeCipher = None, fg_fail = None, fg_refundOnly = Some refund, fg_pollTimeout = None,
      fg_acceptDelay = None, fg_submitDelay = None, fg_graceDelay = None, fg_verifyTimeout = None,
      fg_resumeJob = None, fg_principal = None\<rparr>"

definition runner_config :: "bool \<Rightarrow> configValues" where
  "runner_config refund =
     \<lparr>cf_rpcURL = ''http://node'', cf_proxyURL = ''http://proxy'', cf_escrow = 17, cf_privKey = ''0x01'', cf_contractor = 1,
      cf_artifact = 17, cf_teePublicX = ''1'', cf_teePublicY = ''1'', cf_principal = 1000, cf_engineHash = 0,
      cf_settleTag = ''threshold'', cf_storeCipher = [], cf_failVector = False, cf_refundOnly = refund,
      cf_pollTimeout = 10 * minute, cf_acceptDelay = 10 * minute, cf_submitDelay = 60 * minute,
      cf_graceDelay = 120 * minute, cf_verifyTimeout = 20 * minute, cf_resumeJobID = None\<rparr>"

lemma runner_lib: "dx_lib (runner_env others clock) = demo_lib"
  by (simp add: runner_env_def runner_contract_def demo_contract_def)

lemma runner_keccak [simp]: "keccak256 demo_lib bs = 7" "jcs_Transform demo_lib = Inr"
  by (simp_all add: keccak256_def demo_lib_def ref_lib_def)

lemma runner_parse: "parseFlags (runner_env others clock) (runner_flags refund) w = (Inr (runner_config refund), w)"
proof -
  have "HexToAddress demo_lib ''0x11'' = 17" by (simp add: demo_lib_def ref_lib_def ref_hex_number_def hex_value_def is_digit_def char_in_def)
  moreover have "config_error (runner_config refund) = None"
    by (simp add: config_error_def runner_config_def minute_def second_def)
  ultimately show ?thesis
    by (simp add: parseFlags_def flag_Var_def default_contractor_def runner_flags_def addressValue_Set_def runner_lib
        attempt_def attempt_wrap_def handle_def ret_def lift_def given_def parsePrivateKey_def Let_def
        runner_config_def [symmetric] defaultPrincipalWei_def)
      (simp add: runner_env_def runner_config_def ret_def)
qed

section \<open>Steps of the runner\<close>

abbreviation lone_runner :: "(tick \<Rightarrow> int) \<Rightarrow> driver_env" where
  "lone_runner clock \<equiv> runner_env (\<lambda>_. []) clock"

lemma lone_alone: "alone (lone_runner clock)"
  by (simp add: alone_def runner_env_def)

lemma runner_elapse [simp]:
  "elapse (lone_runner clock) w = w\<lparr>dw_now := dw_now w + 1, dw_time := dw_time w + second\<rparr>"
  by (simp add: elapse_def runner_env_def second_def)

lemma runner_fields [simp]:
  "dx_im (runner_env others clock) = demo_im" "dx_cl (runner_env others clock) = runner_contract"
  "a \<noteq> 0 \<Longrightarrow> dx_Fate (runner_env others clock) t a tx v = Mined (demo_call (clock t) a)"
  "dx_ApproveOk (runner_env others clock) t b n" "dx_NewKeyedTransactor (runner_env others clock) key chainID = Inr 1"
  "dx_PendingNonceAt (runner_env others clock) t b = Inr 0" "dx_CallFail (runner_env others clock) t m = None"
  "dx_BalanceOf (runner_env others clock) t tk b = Inr 100000" "dx_PubkeyToAddress (runner_env others clock) key = 1"
  "dx_others (runner_env others clock) = others"
  by (simp_all add: runner_env_def)

lemma demo_call_sender [simp]: "(demo_call t a)\<lparr>cv_sender := b\<rparr> = demo_call t b"
  by (simp add: demo_call_def)

lemma runner_send:
  assumes "exec_call demo_im runner_contract (demo_call (clock (dw_now w + 1)) 1) call (dw_escrow w) = Inr (s', mv)"
  shows "send_as (lone_runner clock) key chainID method (EscrowTx call) v w =
     (Inr (), w\<lparr>dw_now := dw_now w + 2, dw_time := dw_time w + 2 * second, dw_escrow := s', dw_moves := dw_moves w @ mv,
       dw_sent := dw_sent w @ [mined_tx (EscrowTx call) v True]\<rparr>)"
  using assms by (simp add: send_as_Inr submit_Inr mined_def)

lemma runner_approve:
  "send_as (lone_runner clock) key chainID method (ApproveTx token spender n) v w =
     (Inr (), w\<lparr>dw_now := dw_now w + 2, dw_time := dw_time w + 2 * second,
       dw_sent := dw_sent w @ [mined_tx (ApproveTx token spender n) v True]\<rparr>)"
  by (simp add: send_as_Inr submit_Inr mined_def Let_def)

lemma runner_view:
  "call_view (lone_runner clock) method f w = (Inr (f (dw_escrow w)), w\<lparr>dw_now := dw_now w + 1, dw_time := dw_time w + second\<rparr>)"
  "callBig_balanceOf (lone_runner clock) token a w = (Inr 100000, w\<lparr>dw_now := dw_now w + 1, dw_time := dw_time w + second\<rparr>)"
  by (simp_all add: run_call_view run_balance)

text \<open>The job the runner creates, and its way to payment.\<close>

definition runner_start :: escrow where
  "runner_start = demo_state0\<lparr>es_extensionId := 0x10000\<rparr>"

definition runner_commitment :: commitment where
  "runner_commitment = \<lparr>cm_specHash = 7, cm_privateBundleHash = 7, cm_expectedTee = 3, cm_ciphertextHash = 7\<rparr>"

definition runner_terms :: JobTerms where
  "runner_terms = \<lparr>jt_client = 1, jt_contractor = 1, jt_expectedTee = 3, jt_principal = 1000, jt_fee = 10, jt_createdAt = 10,
     jt_acceptBy = 609, jt_submitBy = 3609, jt_graceEnds = 7209, jt_verificationTimeout = 1200, jt_specHash = 7,
     jt_privateBundleHash = 7, jt_engineVersionHash = 7, jt_ciphertextHash = 7\<rparr>"

definition runner_attempt :: AttemptState where
  "runner_attempt = zero_attempt\<lparr>at_attempt := 1, at_artifactAddress := 17, at_artifactBlock := 99, at_artifactCodeHash := 7,
     at_targetRound := 3\<rparr>"

definition runner_locked :: AttemptState where
  "runner_locked = runner_attempt\<lparr>at_randomRound := 3, at_randomValueHash := 7, at_randomLocked := True\<rparr>"

definition runner_dispatched :: AttemptState where
  "runner_dispatched = runner_locked\<lparr>at_instructionId := 77, at_dispatchedAt := 19, at_timeoutAt := 1219\<rparr>"

definition runner_job :: "AttemptState \<Rightarrow> u8 \<Rightarrow> bool \<Rightarrow> EscrowJob" where
  "runner_job cur st settled = \<lparr>ej_terms = runner_terms, ej_current = cur, ej_state = st, ej_settled = settled\<rparr>"

definition runner_escrow :: "EscrowJob \<Rightarrow> escrow" where
  "runner_escrow j = runner_start\<lparr>es_nextJobId := 1, es_jobs := (\<lambda>_. zero_job)(0 := j)\<rparr>"

lemma runner_create:
  "createJob (demo_call 10 1) (create_args_of demo_lib (runner_config refund) runner_commitment 9) runner_start =
     Inr (runner_escrow (runner_job zero_attempt StateCreated False), [Pull 1 1010])"
  by (simp add: createJob_def create_args_of_def deadlines_def duration_secs_short runner_config_def runner_commitment_def
      engine_hash_def runner_start_def demo_state0_def demo_call_def confirmProductionTee_def TEE_STATUS_PRODUCTION_def
      MIN_VERIFICATION_TIMEOUT_def MAX_VERIFICATION_TIMEOUT_def protocol_fee_def add256_def created_terms_def
      runner_escrow_def runner_job_def runner_terms_def zero_job_def minute_def second_def Let_def)

lemma runner_steps:
  "acceptJob (demo_call 12 1) (runner_job zero_attempt StateCreated False) = Inr (runner_job zero_attempt StateAccepted False, [])"
  "submitAttempt (demo_call 14 1) False 17 (runner_job zero_attempt StateAccepted False) =
     Inr (runner_job runner_attempt StateRandomnessPending False, [])"
  "lockRandomness runner_contract (demo_call 16 1) (runner_job runner_attempt StateRandomnessPending False) =
     Inr (runner_job runner_locked StateReadyToVerify False, [])"
  "dispatchVerification runner_contract (demo_call 19 1) 0 (runner_job runner_locked StateReadyToVerify False) =
     Inr (runner_job runner_dispatched StateVerifying False, [])"
  "refundExpired (demo_call 8000 1) (runner_job zero_attempt StateCreated False) =
     Inr (runner_job zero_attempt StateRefunded True, [Push 1 1010])"
  by (simp_all add: job_ops demo_call_def runner_job_def runner_terms_def runner_attempt_def runner_locked_def
      runner_dispatched_def runner_contract_def demo_contract_def zero_attempt_def add256_def confirmProductionTee_def
      TEE_STATUS_PRODUCTION_def escrow_states demo_lib_def Let_def)

lemma runner_binding:
  "checkBinding (cv_block (demo_call 23 1)) (runner_job runner_dispatched StateVerifying False) runner_verdict 0 = None"
  by (simp add: checkBinding_def checkIdentity_def checkOutcomeBinding_def runner_verdict_def runner_job_def runner_terms_def
      runner_dispatched_def runner_locked_def runner_attempt_def zero_attempt_def demo_call_def OutcomePass_def)

lemma runner_settle:
  "settle_job demo_im runner_contract (demo_call 23 1) 0 (result_args runner_response) (runner_job runner_dispatched StateVerifying False) =
     Inr (runner_job runner_dispatched StatePaid True, [Push 1 1000, Push 50 10])"
proof -
  let ?j = "runner_job runner_dispatched StateVerifying False"
  have lib: "cl_lib runner_contract = demo_lib" "cl_decode runner_contract = (\<lambda>_. Some runner_verdict)"
    "cl_ecrecover runner_contract = (\<lambda>_ _ _ _. 3)" by (simp_all add: runner_contract_def demo_contract_def)
  have j: "ej_state ?j = StateVerifying" "at_timeoutAt (ej_current ?j) = 1219" "jt_graceEnds (ej_terms ?j) = 7209"
    "at_instructionId (ej_current ?j) = 77" "jt_expectedTee (ej_terms ?j) = 3"
    by (simp_all add: runner_job_def runner_terms_def runner_dispatched_def)
  have ok: "settle_call_ok demo_lib (\<lambda>_. Some runner_verdict) (\<lambda>_ _ _ _. 3) (cv_block (demo_call 23 1)) (result_args runner_response) ?j runner_verdict"
    by (simp add: settle_call_ok_def j result_args_def runner_response_def demo_signer) (simp add: demo_call_def)
  have "vo_Outcome (v1_Result runner_verdict) = OutcomePass" by (simp add: runner_verdict_def)
  then have "settleAttempt demo_lib (\<lambda>_. Some runner_verdict) (\<lambda>_ _ _ _. 3) 50 (cv_block (demo_call 23 1)) 0
      (result_args runner_response) ?j = Inr (runner_job runner_dispatched StatePaid True, [(1, 1000), (50, 10)])"
    unfolding settleAttempt_Inr_iff
    by (intro exI [of _ runner_verdict]) (simp add: ok runner_binding Let_def settled_state_def settled_transfers_def, simp add: runner_job_def runner_terms_def)
  then show ?thesis by (simp add: settle_job_def lib demo_im_def) (simp add: demo_call_def)
qed

section \<open>Whole runs\<close>

lemma attempt_step: "m w = (Inr x, w1) \<Longrightarrow> attempt m k w = k x w1"
  "m w = (Inr x, w1) \<Longrightarrow> attempt_wrap p m k w = k x w1"
  by (simp_all add: attempt_def attempt_wrap_def handle_def)

lemma runner_contract_lib [simp]: "cl_lib runner_contract = demo_lib"
  by (simp add: runner_contract_def demo_contract_def)

text \<open>The worlds of a run: \<open>n\<close> interactions and as many seconds since the start.\<close>

definition at_tick :: "nat \<Rightarrow> escrow \<Rightarrow> move list \<Rightarrow> sent_tx list \<Rightarrow> driver_world" where
  "at_tick n s mv sent = \<lparr>dw_now = n, dw_time = int n * second, dw_escrow = s, dw_moves = mv, dw_sent = sent, dw_files = (\<lambda>_. None)\<rparr>"

lemma at_tick_fields [simp]:
  "dw_now (at_tick n s mv sent) = n" "dw_time (at_tick n s mv sent) = int n * second" "dw_escrow (at_tick n s mv sent) = s"
  by (simp_all add: at_tick_def)

lemma tick_elapse: "elapse (lone_runner clock) (at_tick n s mv sent) = at_tick (Suc n) s mv sent"
  by (simp add: at_tick_def algebra_simps)

lemma tick_send:
  assumes "exec_call demo_im runner_contract (demo_call (clock (n + 1)) 1) call s = Inr (s', mv')"
  shows "send_as (lone_runner clock) key chainID method (EscrowTx call) v (at_tick n s mv sent) =
     (Inr (), at_tick (n + 2) s' (mv @ mv') (sent @ [mined_tx (EscrowTx call) v True]))"
  using runner_send [of clock "at_tick n s mv sent" call s' mv' key chainID _ v] assms by (simp add: at_tick_def algebra_simps)

lemma tick_job:
  assumes "exec_job_call demo_im runner_contract (demo_call (clock (n + 1)) 1) (es_paused (runner_escrow j)) 0 jc j = Inr (j', mv')"
  shows "send_as (lone_runner clock) key chainID method (EscrowTx (JobCall 0 jc)) v (at_tick n (runner_escrow j) mv sent) =
     (Inr (), at_tick (n + 2) (runner_escrow j') (mv @ mv') (sent @ [mined_tx (EscrowTx (JobCall 0 jc)) v True]))"
proof (rule tick_send)
  have "es_jobs (runner_escrow j) 0 = j" "(runner_escrow j)\<lparr>es_jobs := (es_jobs (runner_escrow j))(0 := j')\<rparr> = runner_escrow j'"
    by (simp_all add: runner_escrow_def)
  with assms show "exec_call demo_im runner_contract (demo_call (clock (n + 1)) 1) (JobCall 0 jc) (runner_escrow j) =
      Inr (runner_escrow j', mv')" by simp
qed

lemma tick_approve:
  "send_as (lone_runner clock) key chainID method (ApproveTx token spender k) v (at_tick n s mv sent) =
     (Inr (), at_tick (n + 2) s mv (sent @ [mined_tx (ApproveTx token spender k) v True]))"
  by (simp add: runner_approve at_tick_def algebra_simps)

lemma tick_view:
  "call_view (lone_runner clock) method f (at_tick n s mv sent) = (Inr (f s), at_tick (n + 1) s mv sent)"
  "callBig_balanceOf (lone_runner clock) token a (at_tick n s mv sent) = (Inr 100000, at_tick (n + 1) s mv sent)"
  "observe (lone_runner clock) g (at_tick n s mv sent) = (g n s, at_tick (n + 1) s mv sent)"
  by (simp_all add: runner_view observe_def at_tick_def algebra_simps)

lemma runner_commits:
  "commit_bundle (lone_runner clock) (runner_config refund) (at_tick n s mv sent) = (Inr runner_commitment, at_tick (n + 1) s mv sent)"
proof -
  have "big_SetString16 (TrimPrefix ''1'' ''0x'') = Some 1"
    by (simp add: big_SetString16_def TrimPrefix_def HasPrefix_def is_hex_digit_def is_digit_def char_in_def hex_value_def)
  then have tee: "parseTEEPublicKey (lone_runner clock) (cf_teePublicX (runner_config refund)) (cf_teePublicY (runner_config refund)) =
      Inr ((1, 1), 3)"
    by (simp add: parseTEEPublicKey_def runner_env_def runner_config_def)
  have built: "\<exists>b. buildBundle demo_lib 7 (cf_failVector (runner_config refund)) = Inr (b, 7)"
    by (simp add: buildBundle_canonical)
  have "dx_Encrypt (lone_runner clock) t b pub = Inr [1]" for t b pub by (simp add: runner_env_def)
  moreover have "cf_storeCipher (runner_config refund) = []" by (simp add: runner_config_def)
  ultimately show ?thesis
    using built tee
    by (auto simp: commit_bundle_def phase5_specHash_def runner_commitment_def run_iff encryptForTEE_def store_ciphertext_def
        tick_view Let_def)
qed

declare runner_elapse [simp del] tick_elapse [simp]

lemma tick_lock:
  assumes "lockRandomness runner_contract (demo_call (clock (n + 1)) 1) j = Inr (j', [])"
  shows "waitForRandomness (lone_runner clock) key chainID 0 (at_tick n (runner_escrow j) mv sent) =
     (Inr (), at_tick (n + 2) (runner_escrow j') mv (sent @ [lock_tx 0 True]))"
proof -
  have e: "es_jobs (runner_escrow j) 0 = j" "(runner_escrow j)\<lparr>es_jobs := (es_jobs (runner_escrow j))(0 := j')\<rparr> = runner_escrow j'"
    by (simp_all add: runner_escrow_def)
  have "submit (lone_runner clock) 1 (EscrowTx (JobCall 0 LockRandomness)) None (at_tick (n + 1) (runner_escrow j) mv sent) =
      (Inr True, at_tick (n + 2) (runner_escrow j') mv (sent @ [lock_tx 0 True]))"
    using assms e by (simp add: submit_Inr mined_def) (simp add: at_tick_def algebra_simps)
  then have "lock_once (lone_runner clock) key chainID 0 (at_tick n (runner_escrow j) mv sent) =
      (Inr True, at_tick (n + 2) (runner_escrow j') mv (sent @ [lock_tx 0 True]))"
    by (auto simp: lock_once_def authFor_def run_iff tick_view)
  then show ?thesis
    by (simp add: waitForRandomness_def run_iff lock_loop.simps)
qed

lemma tick_poll:
  "pollActionResult (lone_runner clock) url i tag timeout (at_tick n s mv sent) = (Inr runner_response, at_tick (n + 1) s mv sent)"
proof -
  have "poll_result (lone_runner clock) u (at_tick n s mv sent) = (Inr (Some runner_response), at_tick (n + 1) s mv sent)" for u
    by (simp add: poll_result_def handle_def tick_view) (simp add: runner_env_def attempt_def handle_def lift_def ret_def)
  then show ?thesis
    by (simp add: pollActionResult_def run_iff result_loop.simps)
qed

lemma runner_setup:
  assumes "clock 10 = 10"
  shows "required_funds (lone_runner clock) 1 (runner_config refund) (at_tick 2 runner_start [] []) =
      (Inr (60, 1010), at_tick 5 runner_start [] [])"
    and "create_job (lone_runner clock) key chainID (runner_config refund) 60 1010 runner_commitment (at_tick 6 runner_start [] []) =
      (Inr (0, 7209), at_tick 11 (runner_escrow (runner_job zero_attempt StateCreated False)) [Pull 1 1010]
         [mined_tx (ApproveTx 60 17 1010) None True,
          mined_tx (EscrowTx (CreateJob (create_args_of demo_lib (runner_config refund) runner_commitment 9))) None True])"
proof -
  have s: "es_protocolFeeBps runner_start = 100" "es_nextJobId runner_start = 0" by (simp_all add: runner_start_def demo_state0_def)
  have c: "cf_principal (runner_config refund) = 1000" "cf_escrow (runner_config refund) = 17" by (simp_all add: runner_config_def)
  show "required_funds (lone_runner clock) 1 (runner_config refund) (at_tick 2 runner_start [] []) =
      (Inr (60, 1010), at_tick 5 runner_start [] [])"
    by (simp add: required_funds_def callAddress_token_def callUint16_protocolFeeBps_def attempt_def handle_def
        tick_view ret_def Let_def c s demo_im_def)
  have tx: "create_tx demo_lib (runner_config refund) runner_commitment 9 =
      EscrowTx (CreateJob (create_args_of demo_lib (runner_config refund) runner_commitment 9))"
    "snd (snd (deadlines 9 (runner_config refund))) = 7209"
    by (simp_all add: create_tx_def runner_config_def deadlines_def duration_secs_short minute_def second_def)
  have "send_as (lone_runner clock) key chainID ''createJob''
      (EscrowTx (CreateJob (create_args_of demo_lib (runner_config refund) runner_commitment 9))) None
      (at_tick 9 runner_start [] [mined_tx (ApproveTx 60 17 1010) None True]) =
    (Inr (), at_tick 11 (runner_escrow (runner_job zero_attempt StateCreated False)) [Pull 1 1010]
       [mined_tx (ApproveTx 60 17 1010) None True,
        mined_tx (EscrowTx (CreateJob (create_args_of demo_lib (runner_config refund) runner_commitment 9))) None True])"
    using tick_send [of clock 9 "CreateJob (create_args_of demo_lib (runner_config refund) runner_commitment 9)" runner_start _ _ key chainID]
      assms by (simp add: runner_create)
  then show "create_job (lone_runner clock) key chainID (runner_config refund) 60 1010 runner_commitment (at_tick 6 runner_start [] []) =
      (Inr (0, 7209), at_tick 11 (runner_escrow (runner_job zero_attempt StateCreated False)) [Pull 1 1010]
         [mined_tx (ApproveTx 60 17 1010) None True,
          mined_tx (EscrowTx (CreateJob (create_args_of demo_lib (runner_config refund) runner_commitment 9))) None True])"
    by (simp add: create_job_def callBig_nextJobId_def attempt_def handle_def tick_approve tick_view ret_def time_Now_def Let_def c s tx second_def)
qed

lemma runner_escrow_open [simp]: "\<not> es_paused (runner_escrow j)" "es_jobs (runner_escrow j) 0 = j"
  by (simp_all add: runner_escrow_def runner_start_def demo_state0_def)

definition setup_sent :: "bool \<Rightarrow> sent_tx list" where
  "setup_sent refund =
     [mined_tx (ApproveTx 60 17 1010) None True,
      mined_tx (EscrowTx (CreateJob (create_args_of demo_lib (runner_config refund) runner_commitment 9))) None True]"

lemma runner_main:
  assumes "clock 10 = 10"
  shows "phase5_main (lone_runner clock) (runner_flags refund) (at_tick 0 runner_start [] []) =
    (if refund then refund_job (lone_runner clock) 1 114 1 60 0 7209 else run_job (lone_runner clock) 1 114 (runner_config refund) 0)
      (at_tick 11 (runner_escrow (runner_job zero_attempt StateCreated False)) [Pull 1 1010] (setup_sent refund))"
proof -
  have c: "cf_resumeJobID (runner_config refund) = None" "cf_refundOnly (runner_config refund) = refund"
    by (simp_all add: runner_config_def)
  have k: "parsePrivateKey (lone_runner clock) s = Inr 1" "dx_Dial (lone_runner clock) t s = Inr ()"
    "dx_ChainID (lone_runner clock) t = Inr 114" for s t
    by (simp_all add: parsePrivateKey_def runner_env_def)
  have new: "new_job (lone_runner clock) 1 114 (runner_config refund) (at_tick 2 runner_start [] []) =
    (if refund then refund_job (lone_runner clock) 1 114 1 60 0 7209 else run_job (lone_runner clock) 1 114 (runner_config refund) 0)
      (at_tick 11 (runner_escrow (runner_job zero_attempt StateCreated False)) [Pull 1 1010] (setup_sent refund))"
    by (simp add: new_job_def Let_def attempt_def handle_def runner_setup [where clock = clock, OF assms] runner_commits c setup_sent_def)
  have "phase5_main (lone_runner clock) (runner_flags refund) (at_tick 0 runner_start [] []) =
      new_job (lone_runner clock) 1 114 (runner_config refund) (at_tick 2 runner_start [] [])"
    by (simp add: phase5_main_def attempt_step [OF runner_parse] attempt_wrap_def handle_def tick_view lift_def k c numeral_2_eq_2)
  with new show ?thesis by (simp only:)
qed

text \<open>A job that is paid.\<close>

lemma runner_paid:
  "\<exists>sent. phase5_main (lone_runner int) (runner_flags False) (at_tick 0 runner_start [] []) =
    (Inr (), at_tick 25 (runner_escrow (runner_job runner_dispatched StatePaid True)) [Pull 1 1010, Push 1 1000, Push 50 10] sent)"
proof -
  let ?W = "\<lambda>n cur st. at_tick n (runner_escrow (runner_job cur st False)) [Pull 1 1010]"
  have art: "cf_artifact (runner_config False) = 17" by (simp add: runner_config_def)
  have 1: "send_as (lone_runner int) 1 114 ''acceptJob'' (EscrowTx (JobCall 0 AcceptJob)) None
      (?W 11 zero_attempt StateCreated sent) = (Inr (), ?W 13 zero_attempt StateAccepted (sent @ [mined_tx (EscrowTx (JobCall 0 AcceptJob)) None True]))" for sent
    using tick_job [of int 11 "runner_job zero_attempt StateCreated False" AcceptJob] runner_steps(1) by simp
  have 2: "send_as (lone_runner int) 1 114 ''submitAttempt'' (EscrowTx (JobCall 0 (SubmitAttempt 17))) None
      (?W 13 zero_attempt StateAccepted sent) =
      (Inr (), ?W 15 runner_attempt StateRandomnessPending (sent @ [mined_tx (EscrowTx (JobCall 0 (SubmitAttempt 17))) None True]))" for sent
    using tick_job [of int 13 "runner_job zero_attempt StateAccepted False" "SubmitAttempt 17"] runner_steps(2) by simp
  have 3: "waitForRandomness (lone_runner int) 1 114 0 (?W 15 runner_attempt StateRandomnessPending sent) =
      (Inr (), ?W 17 runner_locked StateReadyToVerify (sent @ [lock_tx 0 True]))" for sent
    using tick_lock [of int 15 "runner_job runner_attempt StateRandomnessPending False"] runner_steps(3) by simp
  have 4: "send_as (lone_runner int) 1 114 ''dispatchVerification'' (EscrowTx (JobCall 0 DispatchVerification)) (Some feeWei)
      (?W 18 runner_locked StateReadyToVerify sent) =
      (Inr (), ?W 20 runner_dispatched StateVerifying (sent @ [mined_tx (EscrowTx (JobCall 0 DispatchVerification)) (Some feeWei) True]))" for sent
    using tick_job [of int 18 "runner_job runner_locked StateReadyToVerify False" DispatchVerification] runner_steps(4) by simp
  have 5: "send_as (lone_runner int) 1 114 ''settleAttempt'' (EscrowTx (JobCall 0 (SettleAttempt (result_args runner_response)))) None
      (?W 22 runner_dispatched StateVerifying sent) =
      (Inr (), at_tick 24 (runner_escrow (runner_job runner_dispatched StatePaid True)) [Pull 1 1010, Push 1 1000, Push 50 10]
        (sent @ [mined_tx (EscrowTx (JobCall 0 (SettleAttempt (result_args runner_response)))) None True]))" for sent
    using tick_job [of int 22 "runner_job runner_dispatched StateVerifying False" "SettleAttempt (result_args runner_response)"] runner_settle by simp
  have st: "ar_Status (rp_Result runner_response) = 1" by (simp add: runner_response_def)
  have "run_job (lone_runner int) 1 114 (runner_config False) 0 (?W 11 zero_attempt StateCreated (setup_sent False)) =
    (Inr (), at_tick 25 (runner_escrow (runner_job runner_dispatched StatePaid True)) [Pull 1 1010, Push 1 1000, Push 50 10]
       (setup_sent False @ [mined_tx (EscrowTx (JobCall 0 AcceptJob)) None True, mined_tx (EscrowTx (JobCall 0 (SubmitAttempt 17))) None True,
          lock_tx 0 True, mined_tx (EscrowTx (JobCall 0 DispatchVerification)) (Some feeWei) True,
          mined_tx (EscrowTx (JobCall 0 (SettleAttempt (result_args runner_response)))) None True]))"
    by (simp add: run_job_def dispatch_and_settle_def getJob_def attempt_def attempt_wrap_def handle_def ret_def
        art tick_view tick_poll 1 2 3 4 5 st)
  then show ?thesis using runner_main [of int False] by auto
qed

text \<open>A refund, in a block after the grace period.\<close>

definition late_clock :: "tick \<Rightarrow> int" where
  "late_clock t = (if t < 12 then int t else 8000)"

lemma runner_refunded:
  "\<exists>w'. phase5_main (lone_runner late_clock) (runner_flags True) (at_tick 0 runner_start [] []) = (Inr (), w')"
proof -
  let ?w = "at_tick 11 (runner_escrow (runner_job zero_attempt StateCreated False)) [Pull 1 1010] (setup_sent True)"
  have "sint (7209 + 15 :: u64) = 7224" by simp
  then have "saturate64 (sint (7209 + 15 :: u64) * second - 11 * second) = 7213 * second"
    by (simp add: saturate64_def second_def)
  then obtain w1 where g: "waitForGrace 7209 ?w = (Inr (), w1)" and w1: "dw_now w1 = 11"
      "dw_escrow w1 = runner_escrow (runner_job zero_attempt StateCreated False)"
    by (simp add: waitForGrace_def attempt_def handle_def time_Now_def time_Sleep_def Let_def second_def)
  let ?w2 = "elapse (lone_runner late_clock) w1"
  have "dw_now ?w2 = 12" "dw_escrow ?w2 = runner_escrow (runner_job zero_attempt StateCreated False)"
    using w1 by (simp_all add: idle_call_view [OF lone_alone])
  moreover from this have "exec_call demo_im runner_contract (demo_call (late_clock (dw_now ?w2 + 1)) 1) (JobCall 0 RefundExpired) (dw_escrow ?w2) =
      Inr (runner_escrow (runner_job zero_attempt StateRefunded True), [Push 1 1010])"
    by (simp add: late_clock_def runner_steps) (simp add: runner_escrow_def)
  ultimately obtain w3 where "send_as (lone_runner late_clock) 1 114 ''refundExpired'' (EscrowTx (JobCall 0 RefundExpired)) None ?w2 = (Inr (), w3)"
    using runner_send [of late_clock ?w2] by blast
  with g have "\<exists>w'. refund_job (lone_runner late_clock) 1 114 1 60 0 7209 ?w = (Inr (), w')"
    by (simp add: refund_job_def getJob_def attempt_def handle_def ret_def runner_view runner_elapse)
  then show ?thesis using runner_main [of late_clock True] by (simp add: late_clock_def)
qed

section \<open>Witnesses\<close>

lemma runner_start_reachable: "reachable demo_im runner_contract [] runner_start"
proof -
  have "exec_call demo_im runner_contract (demo_call 5 9) SetExtensionId demo_state0 = Inr (runner_start, [])"
    by (simp add: admin_def demo_extension runner_start_def)
  then have "escrow_run demo_im runner_contract demo_state0 [] runner_start"
    by (rule escrow_run_one [OF demo_call_evm, rotated 2]) simp_all
  then show ?thesis unfolding reachable_def using demo_deployed unfolding demo_deploy_def by blast
qed

lemma runner_chain: "(\<And>t. 0 \<le> clock t) \<Longrightarrow> chain_facts (lone_runner clock)"
  unfolding chain_facts_def by (auto simp: runner_env_def demo_call_evm split: if_splits)

lemma at_tick_start:
  "dw_escrow (at_tick n s mv sent) = s" "dw_moves (at_tick n s mv sent) = mv" "dw_sent (at_tick n s mv sent) = sent"
  "dw_now (at_tick n s mv sent) = n"
  by (simp_all add: at_tick_def)

theorem phase5_keeps_solvency_witness:
  "\<exists>w'. phase5_main (lone_runner int) (runner_flags False) (at_tick 0 runner_start [] []) = (Inr (), w') \<and>
     reachable demo_im runner_contract [Pull 1 1010, Push 1 1000, Push 50 10] (dw_escrow w') \<and> held (dw_escrow w') = 0"
proof -
  obtain sent where run: "phase5_main (lone_runner int) (runner_flags False) (at_tick 0 runner_start [] []) =
    (Inr (), at_tick 25 (runner_escrow (runner_job runner_dispatched StatePaid True)) [Pull 1 1010, Push 1 1000, Push 50 10] sent)"
    using runner_paid by blast
  from phase5_keeps_solvency [OF _ _ run] runner_start_reachable runner_chain [of int] run
  show ?thesis by (auto simp: at_tick_start)
qed

theorem phase5_lifecycle_witness:
  "\<exists>w' i k cfg response. phase5_main (lone_runner int) (runner_flags False) (at_tick 0 runner_start [] []) = (Inr (), w') \<and>
     parseFlags (lone_runner int) (runner_flags False) (at_tick 0 runner_start [] []) = (Inr cfg, at_tick 0 runner_start [] []) \<and>
     drop 2 (dw_sent w') = life_of_job cfg i k response"
proof -
  obtain w' where run: "phase5_main (lone_runner int) (runner_flags False) (at_tick 0 runner_start [] []) = (Inr (), w')"
    using runner_paid by blast
  have "given (fg_resumeJob (runner_flags False)) (- 1) < 0" by (simp add: runner_flags_def given_def)
  from phase5_lifecycle [OF run this] run show ?thesis by (fastforce simp: at_tick_start)
qed

theorem phase5_own_job_witness:
  "\<exists>w'. phase5_main (lone_runner late_clock) (runner_flags True) (at_tick 0 runner_start [] []) = (Inr (), w') \<and>
     ej_state (es_jobs (dw_escrow w') 0) = StateRefunded \<and> es_nextJobId (dw_escrow w') = 1"
proof -
  obtain w' where run: "phase5_main (lone_runner late_clock) (runner_flags True) (at_tick 0 runner_start [] []) = (Inr (), w')"
    using runner_refunded by blast
  have "given (fg_resumeJob (runner_flags True)) (- 1) < 0" by (simp add: runner_flags_def given_def)
  moreover have "es_nextJobId runner_start = 0" "cf_refundOnly (runner_config True)" by (simp_all add: runner_start_def demo_state0_def runner_config_def)
  ultimately show ?thesis
    using phase5_own_job [OF run _ lone_alone] run by (auto simp: runner_parse at_tick_start Let_def)
qed

text \<open>The awaited round is announced, but not as secure.\<close>

definition insecure_runner :: driver_env where
  "insecure_runner = (lone_runner int)\<lparr>dx_Fate := (\<lambda>t a tx v.
     Mined ((demo_call (int t) a)\<lparr>cv_randomNumber := (\<lambda>_. Some (9, False))\<rparr>))\<rparr>"


text \<open>Another client's job is created just after the driver has read the next id.\<close>

definition race_runner :: driver_env where
  "race_runner = runner_env (\<lambda>t. if t = 9 then [(demo_call 10 6, CreateJob demo_create)] else []) int"

definition race_escrow :: "EscrowJob list \<Rightarrow> escrow" where
  "race_escrow js = runner_start\<lparr>es_nextJobId := int (length js), es_jobs := (\<lambda>i. if 0 \<le> i \<and> i < int (length js) then js ! nat i else zero_job)\<rparr>"

definition race_job :: EscrowJob where
  "race_job = zero_job\<lparr>ej_terms := (ej_terms demo_job)\<lparr>jt_client := 6\<rparr>\<rparr>"

lemma race_create:
  "createJob (demo_call 10 6) demo_create runner_start = Inr (race_escrow [race_job], [Pull 6 101])"
  "createJob (demo_call 10 1) (create_args_of demo_lib (runner_config False) runner_commitment 9) (race_escrow [race_job]) =
     Inr (race_escrow [race_job, runner_job zero_attempt StateCreated False], [Pull 1 1010])"
  by (simp_all add: createJob_def create_args_of_def deadlines_def duration_secs_short runner_config_def runner_commitment_def
      engine_hash_def runner_start_def demo_state0_def demo_call_def confirmProductionTee_def TEE_STATUS_PRODUCTION_def
      MIN_VERIFICATION_TIMEOUT_def MAX_VERIFICATION_TIMEOUT_def protocol_fee_def add256_def created_terms_def
      race_escrow_def race_job_def demo_create_def demo_job_def runner_job_def runner_terms_def zero_job_def minute_def second_def
      Let_def fun_eq_iff)

lemma race_elapse [simp]:
  "n \<noteq> 9 \<Longrightarrow> elapse race_runner (at_tick n s mv sent) = at_tick (Suc n) s mv sent"
  "elapse race_runner (at_tick 9 runner_start mv sent) = at_tick 10 (race_escrow [race_job]) (mv @ [Pull 6 101]) sent"
  by (simp_all add: race_runner_def elapse_def exec_other_def race_create) (simp_all add: runner_env_def at_tick_def second_def)

lemma race_created:
  "create_job race_runner 1 114 (runner_config False) 60 1010 runner_commitment (at_tick 6 runner_start [] []) =
     (Inr (0, 7209), at_tick 11 (race_escrow [race_job, runner_job zero_attempt StateCreated False]) [Pull 6 101, Pull 1 1010] (setup_sent False))"
proof -
  have tx: "create_tx demo_lib (runner_config False) runner_commitment 9 =
      EscrowTx (CreateJob (create_args_of demo_lib (runner_config False) runner_commitment 9))"
    "snd (snd (deadlines 9 (runner_config False))) = 7209"
    by (simp_all add: create_tx_def runner_config_def deadlines_def duration_secs_short minute_def second_def)
  have X: "dx_im race_runner = demo_im" "dx_cl race_runner = runner_contract" "dx_NewKeyedTransactor race_runner 1 114 = Inr 1"
    "dx_PendingNonceAt race_runner t b = Inr 0" "dx_CallFail race_runner t m = None" "dx_ApproveOk race_runner t b n"
    "dx_Fate race_runner t 1 dt v = Mined (demo_call (int t) 1)" for t b m n dt v
    by (simp_all add: race_runner_def)
  have "send_as race_runner 1 114 ''approve'' (ApproveTx 60 17 1010) None (at_tick 6 runner_start [] []) =
      (Inr (), at_tick 8 runner_start [] [mined_tx (ApproveTx 60 17 1010) None True])"
    by (simp add: send_as_Inr submit_Inr X mined_def Let_def) (simp add: at_tick_def)
  moreover have "send_as race_runner 1 114 ''createJob''
      (EscrowTx (CreateJob (create_args_of demo_lib (runner_config False) runner_commitment 9))) None
      (at_tick 9 runner_start [] [mined_tx (ApproveTx 60 17 1010) None True]) =
    (Inr (), at_tick 11 (race_escrow [race_job, runner_job zero_attempt StateCreated False]) [Pull 6 101, Pull 1 1010] (setup_sent False))"
    by (simp add: send_as_Inr submit_Inr X mined_def race_create) (simp add: at_tick_def setup_sent_def)
  moreover have "es_nextJobId runner_start = 0" "cf_escrow (runner_config False) = 17"
    by (simp_all add: runner_start_def demo_state0_def runner_config_def)
  ultimately show ?thesis
    by (simp add: create_job_def callBig_nextJobId_def call_view_def observe_def attempt_def attempt_wrap_def handle_def lift_def
        ret_def time_Now_def Let_def X tx) (simp add: second_def)
qed

lemma race_chain: "chain_facts race_runner"
proof -
  have "evm_call (demo_call 10 6)" by (rule demo_call_evm) simp_all
  then show ?thesis
    unfolding chain_facts_def by (auto simp: race_runner_def runner_env_def demo_call_evm split: if_splits)
qed

lemma race_jobs:
  "es_nextJobId (race_escrow js) = int (length js)" "es_jobs (race_escrow [j0, j1]) 0 = j0"
  by (simp_all add: race_escrow_def)

lemma race_accept:
  assumes "es_jobs (dw_escrow (elapse X (elapse X w))) 0 = race_job" and "dx_NewKeyedTransactor X key chainID = Inr 1"
  shows "send_as X key chainID method (EscrowTx (JobCall 0 AcceptJob)) v w \<noteq> (Inr u, w'')"
proof
  have "acceptJob (c\<lparr>cv_sender := 1\<rparr>) race_job = Inr r \<Longrightarrow> False" for c r
    by (simp add: acceptJob_def race_job_def demo_job_def split: if_splits)
  moreover assume "send_as X key chainID method (EscrowTx (JobCall 0 AcceptJob)) v w = (Inr u, w'')"
  ultimately show False
    using assms by (auto simp: send_as_Inr submit_Inr mined_def split: sum.splits)
qed

theorem phase5_created_job_id_witness:
  "\<exists>w' e w''. create_job race_runner 1 114 (runner_config False) 60 1010 runner_commitment (at_tick 6 runner_start [] []) = (Inr (0, 7209), w') \<and>
     es_nextJobId (dw_escrow w') = 2 \<and> jt_client (ej_terms (es_jobs (dw_escrow w') 1)) = 1 \<and>
     jt_client (ej_terms (es_jobs (dw_escrow w') 0)) = 6 \<and> run_job race_runner 1 114 (runner_config False) 0 w' = (Inl e, w'')"
proof -
  define w where "w = at_tick 11 (race_escrow [race_job, runner_job zero_attempt StateCreated False]) [Pull 6 101, Pull 1 1010] (setup_sent False)"
  note made = race_created [folded w_def]
  have key: "dx_NewKeyedTransactor race_runner 1 114 = Inr 1" by (simp add: race_runner_def)
  have "dx_im race_runner = demo_im" "dx_cl race_runner = runner_contract" by (simp_all add: race_runner_def)
  then have r: "reachable (dx_im race_runner) (dx_cl race_runner) (dw_moves (at_tick 6 runner_start [] [])) (dw_escrow (at_tick 6 runner_start [] []))"
    using runner_start_reachable by (simp only: at_tick_start)
  from phase5_created_job_id [OF made r race_chain] obtain account k where a: "dx_NewKeyedTransactor race_runner 1 114 = Inr account"
    and k: "es_nextJobId (dw_escrow w) = k + 1" and c: "jt_client (ej_terms (es_jobs (dw_escrow w) k)) = account"
    unfolding Let_def by blast
  have "account = 1" using a key by simp
  with c have "jt_client (ej_terms (es_jobs (dw_escrow w) k)) = 1" by simp
  moreover have n: "es_nextJobId (dw_escrow w) = 2" by (simp add: w_def race_jobs)
  ultimately have own: "jt_client (ej_terms (es_jobs (dw_escrow w) 1)) = 1" using k by simp
  have other: "es_jobs (dw_escrow w) 0 = race_job" by (simp add: w_def race_jobs)
  have "es_jobs (dw_escrow (elapse race_runner (elapse race_runner w))) 0 = race_job" by (simp add: w_def race_jobs)
  then obtain e w'' where "send_as race_runner 1 114 ''acceptJob'' (EscrowTx (JobCall 0 AcceptJob)) None w = (Inl e, w'')"
    using race_accept [OF _ key] by (cases "send_as race_runner 1 114 ''acceptJob'' (EscrowTx (JobCall 0 AcceptJob)) None w") (metis sum.exhaust)
  then have "run_job race_runner 1 114 (runner_config False) 0 w = (Inl e, w'')"
    by (simp add: run_job_def attempt_def handle_def throw_def)
  moreover have "jt_client (ej_terms race_job) = 6" by (simp add: race_job_def)
  ultimately show ?thesis using made own n other by metis
qed

text \<open>A verifier that receives the driver's bundle and finds one byte of code.\<close>

definition size_env :: verify_env where
  "size_env = (demo_env 42)\<lparr>ve_Unmarshal := (\<lambda>_. Some (phase5_bundle 0 False))\<rparr>"

lemma zero_hash: "bytes_of_bytes32 0 = replicate 32 0" "Hash_Hex 0 = ''0x'' @ replicate 64 CHR ''0''"
proof -
  have "be_bytes n 0 = replicate n 0" for n
    by (induction n) (simp_all add: replicate_append_same)
  then show z: "bytes_of_bytes32 0 = replicate 32 0" by (simp add: bytes_of_bytes32_def)
  have "hex_encode_byte 0 = replicate 2 CHR ''0''" by code_simp
  moreover have "concat (replicate n (replicate 2 c)) = replicate (n * 2) c" for n and c :: char
    by (induction n) (simp_all add: numeral_2_eq_2)
  ultimately have "concat (replicate 32 (hex_encode_byte 0)) = replicate 64 CHR ''0''"
    by simp
  then show "Hash_Hex 0 = ''0x'' @ replicate 64 CHR ''0''"
    by (simp add: Hash_Hex_def hex_EncodeToString_def z)
qed

text \<open>Its environment.\<close>

lemma size_env_fields:
  "ve_lib size_env = demo_lib" "ve_eth size_env = demo_chain 42" "ve_Unmarshal size_env c = Some (phase5_bundle 0 False)"
  by (simp_all add: size_env_def demo_env_def)

lemma size_code: "eth_CodeAt (demo_chain 42) t c a k = Inr [1, 2, 3]"
  by (simp add: demo_chain_def demo_node_def)

lemma size_vectors:
  "b_Vectors (phase5_bundle h f) = [phase5_vector f]" "b_SelectionCount (phase5_bundle h f) = 1"
  "b_TimeoutMsPerCall (phase5_bundle h f) = 1000"
  by (simp_all add: phase5_bundle_def)

lemma size_executed:
  "executed_run size_env 0 [] demo_instr (Some 9) (phase5_bundle 0 False) [0] [decided (phase5_vector False) True] 7"
  unfolding executed_run_def
proof (intro conjI exI)
  show "TestSeed (ve_lib size_env) (Some 9) (wi_EscrowAddress demo_instr) (wi_JobId demo_instr) (wi_Attempt demo_instr)
     (wi_SpecHash demo_instr) (wi_ArtifactCodeHash demo_instr) = Ok 7" using demo_seed by (simp add: size_env_fields)
  show "SelectVectors (keccak256 (ve_lib size_env)) 7 (int (length (b_Vectors (phase5_bundle 0 False))))
     (b_SelectionCount (phase5_bundle 0 False)) = Ok [0]"
    by (simp add: SelectVectors_def size_vectors sel_step_def swap_def size_env_fields)
  show "reportHashFor (ve_lib size_env) [decided (phase5_vector False) True] = Inr 7"
    by (simp add: reportHashFor_def size_env_fields demo_engine)
qed (simp add: size_env_fields size_code size_vectors execute_phase5_vector)

lemma size_hash_decodes: "hexutil_Decode demo_lib (Hash_Hex 0) = Some (bytes_of_bytes32 0)"
  unfolding zero_hash by code_simp

lemma size_bundle_small: "length (string_bytes (bundle_json (phase5_bundle 0 False))) \<le> MaxBundleBytes"
proof -
  have c: "char_of (48 :: nat) = CHR ''0''" "char_of (49 :: nat) = CHR ''1''" "char_of (50 :: nat) = CHR ''2''" "char_of (52 :: nat) = CHR ''4''"
    by code_simp+
  have dec: "dec_int 100000 = ''100000''" "dec_int 1000 = ''1000''" "dec_int 1024 = ''1024''" "dec_int 114 = ''114''" "dec_int 1 = ''1''"
    by (simp_all add: dec_int_def dec_nat.simps digit_char_def c)
  have vector: "vector_json (phase5_vector False) = json_object [(''id'', json_string ''artifact-has-expected-code-size''),
      (''type'', json_string VectorCodeSizeRange), (''minBytes'', ''1''), (''maxBytes'', ''100000'')]"
    by (simp add: vector_json_def phase5_vector_def opt_field_def opt_int_field_def dec)
  have "length (bundle_json (phase5_bundle 0 False)) \<le> 900"
    unfolding phase5_bundle_def zero_hash bundle_json_def WorkProofBundle.simps dec list.map vector by code_simp
  then show ?thesis by (simp add: MaxBundleBytes_def string_bytes_def)
qed

theorem phase5_bundle_measures_size_witness:
  "\<exists>canonical v. buildBundle demo_lib 0 False = Inr (canonical, 7) \<and>
     check_plaintext size_env demo_instr canonical = Inr (phase5_bundle 0 False) \<and>
     verify_run size_env 0 [] demo_instr (verdictIdentityFrom demo_instr 77) (Some 9) 1000 (phase5_bundle 0 False) = Ok v \<and>
     vo_Outcome (v1_Result v) = OutcomePass"
proof -
  have instr: "wi_SpecHash demo_instr = 0" "wi_PrivateBundleHash demo_instr = 7" by (simp_all add: demo_instr_def)
  define canonical where "canonical = string_bytes (bundle_json (phase5_bundle 0 False))"
  have built: "buildBundle demo_lib 0 False = Inr (canonical, 7)" by (simp add: buildBundle_canonical canonical_def)
  define v where "v = run_verdict size_env demo_instr (verdictIdentityFrom demo_instr 77) 1000 [decided (phase5_vector False) True] 7"
  have run: "verify_run size_env 0 [] demo_instr (verdictIdentityFrom demo_instr 77) (Some 9) 1000 (phase5_bundle 0 False) = Ok v"
    unfolding v_def by (rule verify_run_executed [OF size_executed])
  have out: "vo_Outcome (v1_Result v) = OutcomePass" unfolding v_def demo_outcome by simp
  have "check_plaintext size_env demo_instr canonical = Inr (phase5_bundle 0 False)"
    using phase5_bundle_measures_size [of size_env demo_instr False canonical 0 "[]" "[1, 2, 3]" "verdictIdentityFrom demo_instr 77" "Some 9" 1000 v,
        unfolded size_env_fields instr] built size_hash_decodes size_bundle_small size_code run out
    unfolding canonical_def [symmetric] by (simp add: OutcomePass_def OutcomeInconclusive_def)
  with built run out show ?thesis by blast
qed

end
