(* ===== verification/Spike.thy ===== *)
theory Spike
  imports Extension Tools Settlement
begin

text \<open>
  Signing a result: \<open>go/internal/workproof/action_result_digest.go\<close> and \<open>go/cmd/fcc-spike\<close>, which builds the
  signature fixture of \<open>test/FccSignatureSpike.t.sol\<close>. What the enclave signs is what the contract recovers, for
  the signed result only, and a result so signed settles its job.
\<close>

section \<open>The digest\<close>

text \<open>The packages of the node and of go-ethereum that the code calls: \<open>(*ActionResult).Hash\<close>, the hash of a
  \<open>TEE_ACTION_RESULT\<close> payload, \<open>accounts.TextHash\<close>, the \<open>crypto\<close> package and \<open>json.MarshalIndent\<close>.\<close>

record spike_result =
  sr_ID :: string
  sr_SubmissionTag :: string
  sr_Status :: u8
  sr_DataHex :: string

record spike_vector =
  sv_PrivateKeyTestOnly :: string
  sv_ExpectedTeeAddress :: string
  sv_ChainID :: u64
  sv_ActionResult :: spike_result
  sv_ActionResultHash :: string
  sv_PayloadHash :: string
  sv_EthSignedHash :: string
  sv_Signature :: string
  sv_SignatureR :: string
  sv_SignatureS :: string
  sv_SignatureV :: u8

datatype doc_value = DocText string | DocVector spike_vector

record signing_lib =
  sg_ActionHash :: "ActionResult \<Rightarrow> bytes"
  sg_BytesToHash :: "bytes \<Rightarrow> bytes32"
  sg_PayloadHash :: "u64 \<Rightarrow> bytes32 \<Rightarrow> string + bytes32"
  sg_TextHash :: "bytes \<Rightarrow> bytes"
  sg_Sign :: "bytes \<Rightarrow> privkey \<Rightarrow> string + bytes"
  sg_PubkeyToAddress :: "privkey \<Rightarrow> address"
  sg_AddressHex :: "address \<Rightarrow> string"
  sg_FromECDSA :: "privkey \<Rightarrow> bytes"
  sg_Submit :: string
  sg_MarshalIndent :: "(string \<times> doc_value) list \<Rightarrow> string + bytes"

definition ActionResultSigningDigest :: "signing_lib \<Rightarrow> ActionResult \<Rightarrow> u64 \<Rightarrow> string + bytes32" where
  "ActionResultSigningDigest S result chainID =
     (let inner = sg_BytesToHash S (sg_ActionHash S result) in sg_PayloadHash S chainID inner)"

section \<open>The fixture\<close>

text \<open>An \<open>ActionResult\<close> literal that sets four of its fields.\<close>

definition bare_result :: "bytes32 \<Rightarrow> string \<Rightarrow> u8 \<Rightarrow> bytes \<Rightarrow> ActionResult" where
  "bare_result actionID tag status data =
     \<lparr>ar_ID = actionID, ar_SubmissionTag = tag, ar_Version = [], ar_OPType = 0, ar_OPCommand = 0, ar_Data = data,
      ar_Status = status, ar_Log = []\<rparr>"

definition buildVector ::
  "signing_lib \<Rightarrow> privkey \<Rightarrow> u64 \<Rightarrow> bytes32 \<Rightarrow> string \<Rightarrow> u8 \<Rightarrow> bytes \<Rightarrow> (string, spike_vector) res" where
  "buildVector S privKey chainID actionID tag status data =
     (let ar = bare_result actionID tag status data;
          arHash = sg_BytesToHash S (sg_ActionHash S ar) in
      case sg_PayloadHash S chainID arHash of
        Inl err \<Rightarrow> Err (''payload hash: '' @ err)
      | Inr plHash \<Rightarrow>
        let signed = sg_TextHash S (bytes_of_bytes32 plHash) in
        case sg_Sign S signed privKey of
          Inl err \<Rightarrow> Err (''sign: '' @ err)
        | Inr sig \<Rightarrow>
          if length sig < 65 then Panic
          else Ok
            \<lparr>sv_PrivateKeyTestOnly = hex_EncodeToString (sg_FromECDSA S privKey),
             sv_ExpectedTeeAddress = sg_AddressHex S (sg_PubkeyToAddress S privKey),
             sv_ChainID = chainID,
             sv_ActionResult = \<lparr>sr_ID = Hash_Hex actionID, sr_SubmissionTag = tag, sr_Status = status,
                                sr_DataHex = ''0x'' @ hex_EncodeToString data\<rparr>,
             sv_ActionResultHash = Hash_Hex arHash,
             sv_PayloadHash = Hash_Hex plHash,
             sv_EthSignedHash = ''0x'' @ hex_EncodeToString signed,
             sv_Signature = ''0x'' @ hex_EncodeToString sig,
             sv_SignatureR = ''0x'' @ hex_EncodeToString (take 32 sig),
             sv_SignatureS = ''0x'' @ hex_EncodeToString (take 32 (drop 32 sig)),
             sv_SignatureV = sig ! 64 + 27\<rparr>)"

definition quoted :: "string \<Rightarrow> string" where
  "quoted s = [CHR 0x27] @ s @ [CHR 0x27]"

definition spike_doc :: "spike_vector \<Rightarrow> spike_vector \<Rightarrow> (string \<times> doc_value) list" where
  "spike_doc primary crossChain =
     [(''protocol'', DocText ''TEE_ACTION_RESULT''),
      (''actionResultHashMethod'', DocText ''keccak256(keccak256(data) || id || keccak256(submissionTag) || status)''),
      (''payloadHashMethod'', DocText (''keccak256(abi.encode(bytes32('' @ quoted ''TEE_ACTION_RESULT'' @
         ''), uint256(chainId), actionResultHash))'')),
      (''signingMethod'', DocText
         ''secp256k1(crypto.Sign(accounts.TextHash(payloadHash), key)) -- EIP-191 personal-sign wrap over payloadHash''),
      (''source'', DocText (''tee-node v0.0.24 pkg/types/actions.go Hash(), internal/router/utils.go SignResult, '' @
         ''pkg/utils/crypto.go Sign; go-flare-common v1.2.2-...-09a10067e6a4 pkg/signing/hash.go Payload.Hash()'')),
      (''note'', DocText (''router.SignResult is an internal tee-node package and cannot be imported cross-module; '' @
         ''this reproduces its exact 3-line body using only the same real exported primitives (ActionResult.Hash, '' @
         ''signing.Payload.Hash, accounts.TextHash, crypto.Sign), not a reimplementation of any cryptography.'')),
      (''coston2'', DocVector primary),
      (''crossChainReplayCheck'', DocVector crossChain)]"

text \<open>The command: what it prints, or the error it exits with. A panic ends the process, too.\<close>

definition or_exit :: "(string, 'a) res \<Rightarrow> 'a tool" where
  "or_exit r = (case r of Ok x \<Rightarrow> ret x | Err e \<Rightarrow> throw e | Panic \<Rightarrow> throw ''panic'')"

definition spike_key_hex :: string where
  "spike_key_hex = ''ac0974bec39a17e36ba4a6b4d238ff944bacb478cbed5efcae784d7bf4f2ff80''"

definition fcc_spike_main :: "signing_lib \<Rightarrow> 'z tool_env_scheme \<Rightarrow> string \<Rightarrow> bytes tool" where
  "fcc_spike_main S E out =
     attempt (lift (te_HexToECDSA E spike_key_hex)) (\<lambda>privKey.
     let actionID = te_HexToHash E ''0x1111''; q = [CHR 0x22];
         data = string_bytes (''{'' @ q @ ''outcome'' @ q @ '':'' @ q @ ''PASS'' @ q @ '','' @ q @ ''attempt'' @ q @ '':1}'') in
     attempt (or_exit (buildVector S privKey 114 actionID (sg_Submit S) 1 data)) (\<lambda>primary.
     attempt (or_exit (buildVector S privKey 16 actionID (sg_Submit S) 1 data)) (\<lambda>crossChain.
     attempt (lift (sg_MarshalIndent S (spike_doc primary crossChain))) (\<lambda>buf.
     if out = [] then ret (buf @ [0x0A])
     else attempt (os_WriteFile E out (buf @ [0x0A])) (\<lambda>_. ret [])))))"

section \<open>The contract recovers what was signed\<close>

text \<open>Documented behaviour of the packages, as the fixture describes it and in bytes: the hash of an action result
  is \<open>keccak256(keccak256(data) || id || keccak256(submissionTag) || status)\<close>; a payload is hashed as its prefix,
  padded to 32 bytes on the right, the chain id as a 32-byte number and the inner hash; \<open>accounts.TextHash\<close> puts the
  personal-message header with the length in decimal before the message; and the canonical 65-byte signature of
  \<open>crypto.Sign\<close> recovers to the signer's address.\<close>

type_synonym recovery = "bytes32 \<Rightarrow> u8 \<Rightarrow> bytes32 \<Rightarrow> bytes32 \<Rightarrow> address"

definition hash_laws :: "ext_lib \<Rightarrow> signing_lib \<Rightarrow> bool" where
  "hash_laws L S \<longleftrightarrow>
     (\<forall>ar. sg_ActionHash S ar = bytes_of_bytes32 (Keccak256 L
        (bytes_of_bytes32 (Keccak256 L (ar_Data ar)) @ bytes_of_bytes32 (ar_ID ar) @
         bytes_of_bytes32 (Keccak256 L (string_bytes (ar_SubmissionTag ar))) @ [ar_Status ar]))) \<and>
     (\<forall>h. sg_BytesToHash S (bytes_of_bytes32 h) = h) \<and>
     (\<forall>c h. sg_PayloadHash S c h = Inr (Keccak256 L
        (string_bytes ''TEE_ACTION_RESULT'' @ replicate 15 0 @ be_bytes 32 (unat c) @ bytes_of_bytes32 h))) \<and>
     (\<forall>m. sg_TextHash S m = bytes_of_bytes32 (Keccak256 L
        (0x19 # string_bytes ''Ethereum Signed Message:'' @ 0x0A # string_bytes (dec_nat (length m)) @ m)))"

text \<open>The formulas of the contract's library are these.\<close>

lemma contract_prefix: "bytes_of_bytes32 (bytes32_literal ''TEE_ACTION_RESULT'') = string_bytes ''TEE_ACTION_RESULT'' @ replicate 15 0"
proof -
  have "take 32 (string_bytes ''TEE_ACTION_RESULT'' @ replicate 32 0) = string_bytes ''TEE_ACTION_RESULT'' @ replicate 15 0"
    by (simp add: string_bytes_def)
  then show ?thesis unfolding bytes32_literal_def by (simp add: bytes32_of_bytes_inverse string_bytes_def)
qed

lemma contract_hashes:
  assumes "hash_laws L S"
  shows "sg_ActionHash S ar = bytes_of_bytes32 (actionResultHash L (ar_Data ar) (ar_ID ar) (ar_SubmissionTag ar) (ar_Status ar))"
    and "sg_BytesToHash S (bytes_of_bytes32 h) = h"
    and "sg_PayloadHash S c h = Inr (payloadHash L (uint c) h)"
    and "sg_TextHash S (bytes_of_bytes32 h) = bytes_of_bytes32 (ethSignedHash L h)"
proof -
  have len: "dec_nat 32 = ''32''" by code_simp
  show "sg_ActionHash S ar = bytes_of_bytes32 (actionResultHash L (ar_Data ar) (ar_ID ar) (ar_SubmissionTag ar) (ar_Status ar))"
    and "sg_BytesToHash S (bytes_of_bytes32 h) = h"
    using assms by (simp_all add: hash_laws_def actionResultHash_def)
  have "sg_PayloadHash S c h = Inr (Keccak256 L
      (string_bytes ''TEE_ACTION_RESULT'' @ replicate 15 0 @ be_bytes 32 (unat c) @ bytes_of_bytes32 h))"
    using assms unfolding hash_laws_def by blast
  then show "sg_PayloadHash S c h = Inr (payloadHash L (uint c) h)"
    by (simp only: payloadHash_def contract_prefix append_assoc unat_eq_nat_uint)
  have "sg_TextHash S (bytes_of_bytes32 h) = bytes_of_bytes32 (Keccak256 L (0x19 # string_bytes ''Ethereum Signed Message:'' @
      0x0A # string_bytes (dec_nat (length (bytes_of_bytes32 h))) @ bytes_of_bytes32 h))"
    using assms unfolding hash_laws_def by blast
  then show "sg_TextHash S (bytes_of_bytes32 h) = bytes_of_bytes32 (ethSignedHash L h)"
    by (simp add: ethSignedHash_def len)
qed

definition recover_signature :: "recovery \<Rightarrow> bytes32 \<Rightarrow> bytes \<Rightarrow> address" where
  "recover_signature ecrecover h sig =
     ecrecover h (sig ! 64 + 27) (bytes32_of_bytes (take 32 sig)) (bytes32_of_bytes (take 32 (drop 32 sig)))"

definition sign_law :: "signing_lib \<Rightarrow> recovery \<Rightarrow> privkey \<Rightarrow> bool" where
  "sign_law S ecrecover key \<longleftrightarrow>
     (\<forall>h sig. sg_Sign S (bytes_of_bytes32 h) key = Inr sig \<longrightarrow>
        length sig = 65 \<and> sig ! 64 \<in> {0, 1} \<and> bytes32_of_bytes (take 32 (drop 32 sig)) \<le> SECP256K1_HALF_N \<and>
        recover_signature ecrecover h sig = sg_PubkeyToAddress S key)"

text \<open>What the contract recovers from a canonical signature, and the message it recovers it for.\<close>

lemma recoverCanonical_signature:
  assumes "length sig = 65" and "sig ! 64 \<in> {0, 1}" and "bytes32_of_bytes (take 32 (drop 32 sig)) \<le> SECP256K1_HALF_N"
  shows "recoverCanonical ecrecover h sig = recover_signature ecrecover h sig"
  using assms by (auto simp: recoverCanonical_def recover_signature_def Let_def)

lemma digest_agrees:
  assumes "hash_laws L S"
  shows "ActionResultSigningDigest S ar c =
     Inr (payloadHash L (uint c) (actionResultHash L (ar_Data ar) (ar_ID ar) (ar_SubmissionTag ar) (ar_Status ar)))"
  by (simp add: ActionResultSigningDigest_def contract_hashes [OF assms])

lemma signed_result_recovers:
  assumes "hash_laws L S" and "sign_law S ecrecover key"
    and "ActionResultSigningDigest S ar c = Inr d" and "sg_Sign S (sg_TextHash S (bytes_of_bytes32 d)) key = Inr sig"
  shows "recoverVerdictSigner L ecrecover (ar_Data ar) (ar_ID ar) (ar_SubmissionTag ar) (ar_Status ar) (uint c) sig =
     sg_PubkeyToAddress S key"
proof -
  have "sg_Sign S (bytes_of_bytes32 (ethSignedHash L d)) key = Inr sig"
    using assms(4) by (simp add: contract_hashes [OF assms(1)])
  with assms(2) have "length sig = 65" "sig ! 64 \<in> {0, 1}" "bytes32_of_bytes (take 32 (drop 32 sig)) \<le> SECP256K1_HALF_N"
    "recover_signature ecrecover (ethSignedHash L d) sig = sg_PubkeyToAddress S key"
    unfolding sign_law_def by blast+
  with assms(3) digest_agrees [OF assms(1)] show ?thesis
    by (simp add: recoverVerdictSigner_def recoverCanonical_signature)
qed

text \<open>The byte strings that are hashed on the way from a result to the signed digest.\<close>

definition hashed_messages :: "ext_lib \<Rightarrow> bytes \<Rightarrow> bytes32 \<Rightarrow> string \<Rightarrow> u8 \<Rightarrow> int \<Rightarrow> bytes set" where
  "hashed_messages L data iid tag status c =
     {data, string_bytes tag,
      bytes_of_bytes32 (Keccak256 L data) @ bytes_of_bytes32 iid @ bytes_of_bytes32 (Keccak256 L (string_bytes tag)) @ [status],
      bytes_of_bytes32 (bytes32_literal ''TEE_ACTION_RESULT'') @ be_bytes 32 (nat c) @
        bytes_of_bytes32 (actionResultHash L data iid tag status),
      0x19 # string_bytes ''Ethereum Signed Message:'' @ [0x0A] @ string_bytes ''32'' @
        bytes_of_bytes32 (payloadHash L c (actionResultHash L data iid tag status))}"

lemma be_bytes_32_inject:
  assumes "be_bytes 32 (nat c) = be_bytes 32 (nat c')" and "0 \<le> c" "c < 2 ^ 256" "0 \<le> c'" "c' < 2 ^ 256"
  shows "c = c'"
proof -
  have lt: "nat n < 256 ^ 32" if "n < 2 ^ 256" for n :: int
    using that by (cases "0 \<le> n") (simp_all add: nat_less_iff)
  have "nat c mod 256 ^ 32 = nat c' mod 256 ^ 32"
    using arg_cong [OF assms(1), of be_nat] by (simp only: be_nat_be_bytes)
  then have "nat c = nat c'" using lt assms(3,5) by (simp only: mod_less)
  with assms(2,4) show ?thesis by (simp only: eq_nat_nat_iff)
qed

lemma signed_message_unique:
  assumes inj: "inj_on (Keccak256 L) (hashed_messages L data iid tag status c \<union> hashed_messages L data' iid' tag' status' c')"
    and range: "0 \<le> c" "c < 2 ^ 256" "0 \<le> c'" "c' < 2 ^ 256"
    and eq: "ethSignedHash L (payloadHash L c (actionResultHash L data iid tag status)) =
      ethSignedHash L (payloadHash L c' (actionResultHash L data' iid' tag' status'))"
  shows "data' = data \<and> iid' = iid \<and> tag' = tag \<and> status' = status \<and> c' = c"
proof -
  have k: "x = y" if "Keccak256 L x = Keccak256 L y" "x \<in> hashed_messages L data iid tag status c"
    "y \<in> hashed_messages L data' iid' tag' status' c'" for x y
    using inj_onD [OF inj that(1)] that(2,3) by blast
  have p: "payloadHash L c (actionResultHash L data iid tag status) = payloadHash L c' (actionResultHash L data' iid' tag' status')"
    using k [OF eq [unfolded ethSignedHash_def]] by (simp add: hashed_messages_def)
  have ap: "be_bytes 32 (nat c) = be_bytes 32 (nat c') \<and> actionResultHash L data iid tag status = actionResultHash L data' iid' tag' status'"
    using k [OF p [unfolded payloadHash_def]] by (simp add: hashed_messages_def)
  then have "Keccak256 L data = Keccak256 L data' \<and> iid = iid' \<and> Keccak256 L (string_bytes tag) = Keccak256 L (string_bytes tag') \<and>
      status = status'"
    using k [OF ap [THEN conjunct2, unfolded actionResultHash_def]] by (simp add: hashed_messages_def)
  moreover from this have "data = data'" "string_bytes tag = string_bytes tag'"
    using k [of data data'] k [of "string_bytes tag" "string_bytes tag'"] by (simp_all add: hashed_messages_def)
  ultimately show ?thesis using ap be_bytes_32_inject [OF _ range] by auto
qed

text \<open>The signature of a fixture, and the digest it is over.\<close>

lemma buildVector_Ok:
  assumes "hash_laws L S" and "sign_law S ecrecover key" and "buildVector S key c iid tag status data = Ok v"
  obtains sig where
    "sg_Sign S (bytes_of_bytes32 (ethSignedHash L (payloadHash L (uint c) (actionResultHash L data iid tag status)))) key = Inr sig"
    "length sig = 65" "sig ! 64 \<in> {0, 1}" "bytes32_of_bytes (take 32 (drop 32 sig)) \<le> SECP256K1_HALF_N"
    "sv_Signature v = ''0x'' @ hex_EncodeToString sig" "sv_SignatureR v = ''0x'' @ hex_EncodeToString (take 32 sig)"
    "sv_SignatureS v = ''0x'' @ hex_EncodeToString (take 32 (drop 32 sig))" "sv_SignatureV v = sig ! 64 + 27"
    "sv_EthSignedHash v = Hash_Hex (ethSignedHash L (payloadHash L (uint c) (actionResultHash L data iid tag status)))"
    "sv_PayloadHash v = Hash_Hex (payloadHash L (uint c) (actionResultHash L data iid tag status))"
    "sv_ActionResultHash v = Hash_Hex (actionResultHash L data iid tag status)"
    "sv_ExpectedTeeAddress v = sg_AddressHex S (sg_PubkeyToAddress S key)"
    "recover_signature ecrecover (ethSignedHash L (payloadHash L (uint c) (actionResultHash L data iid tag status))) sig =
       sg_PubkeyToAddress S key"
proof -
  let ?h = "ethSignedHash L (payloadHash L (uint c) (actionResultHash L data iid tag status))"
  from assms(1,3) obtain sig where sig: "sg_Sign S (bytes_of_bytes32 ?h) key = Inr sig"
    and v: "sv_Signature v = ''0x'' @ hex_EncodeToString sig" "sv_SignatureR v = ''0x'' @ hex_EncodeToString (take 32 sig)"
      "sv_SignatureS v = ''0x'' @ hex_EncodeToString (take 32 (drop 32 sig))" "sv_SignatureV v = sig ! 64 + 27"
      "sv_EthSignedHash v = Hash_Hex ?h" "sv_PayloadHash v = Hash_Hex (payloadHash L (uint c) (actionResultHash L data iid tag status))"
      "sv_ActionResultHash v = Hash_Hex (actionResultHash L data iid tag status)"
      "sv_ExpectedTeeAddress v = sg_AddressHex S (sg_PubkeyToAddress S key)"
    by (auto simp: buildVector_def contract_hashes [OF assms(1)] bare_result_def Hash_Hex_def Let_def split: sum.splits if_splits)
  from assms(2) sig have "length sig = 65 \<and> sig ! 64 \<in> {0, 1} \<and> bytes32_of_bytes (take 32 (drop 32 sig)) \<le> SECP256K1_HALF_N \<and>
      recover_signature ecrecover ?h sig = sg_PubkeyToAddress S key"
    unfolding sign_law_def by blast
  with sig v that show thesis by blast
qed

text \<open>C22: The fixture is what the Solidity test takes it for, provided that the packages hash by their documented
  byte formulas. The hashes in it are those the contract's library computes, its signature recovers to the expected
  address there, and the three parts \<open>r\<close>, \<open>s\<close>, \<open>v\<close> are that signature with the recovery id in Ethereum's form.
  Presented with other data, or another id, tag, status or chain, the contract recovers the signer of another digest,
  provided that keccak256 does not collide on the ten byte strings that are hashed on the two ways to the digests.\<close>

theorem spike_vector_recovers:
  assumes "hash_laws L S" and "sign_law S ecrecover key" and "buildVector S key c iid tag status data = Ok v"
    and "inj_on (Keccak256 L) (hashed_messages L data iid tag status (uint c) \<union> hashed_messages L data' iid' tag' status' c')"
    and "0 \<le> c'" and "c' < 2 ^ 256"
  shows "\<exists>sig r s h h'. sv_Signature v = ''0x'' @ hex_EncodeToString sig \<and> sig = r @ s @ [sv_SignatureV v - 27] \<and>
     sv_SignatureR v = ''0x'' @ hex_EncodeToString r \<and> sv_SignatureS v = ''0x'' @ hex_EncodeToString s \<and>
     length r = 32 \<and> length s = 32 \<and> sv_SignatureV v \<in> {27, 28} \<and>
     sv_ActionResultHash v = Hash_Hex (actionResultHash L data iid tag status) \<and>
     sv_PayloadHash v = Hash_Hex (payloadHash L (uint c) (actionResultHash L data iid tag status)) \<and>
     sv_EthSignedHash v = Hash_Hex h \<and> sv_ExpectedTeeAddress v = sg_AddressHex S (sg_PubkeyToAddress S key) \<and>
     recoverVerdictSigner L ecrecover data iid tag status (uint c) sig = sg_PubkeyToAddress S key \<and>
     recoverVerdictSigner L ecrecover data' iid' tag' status' c' sig = recover_signature ecrecover h' sig \<and>
     (h' = h \<longleftrightarrow> data' = data \<and> iid' = iid \<and> tag' = tag \<and> status' = status \<and> c' = uint c)"
proof -
  let ?h = "ethSignedHash L (payloadHash L (uint c) (actionResultHash L data iid tag status))"
  let ?h' = "ethSignedHash L (payloadHash L c' (actionResultHash L data' iid' tag' status'))"
  from buildVector_Ok [OF assms(1-3)] obtain sig where sig: "length sig = 65" "sig ! 64 \<in> {0, 1}"
      "bytes32_of_bytes (take 32 (drop 32 sig)) \<le> SECP256K1_HALF_N" and
    v: "sv_Signature v = ''0x'' @ hex_EncodeToString sig" "sv_SignatureR v = ''0x'' @ hex_EncodeToString (take 32 sig)"
      "sv_SignatureS v = ''0x'' @ hex_EncodeToString (take 32 (drop 32 sig))" "sv_SignatureV v = sig ! 64 + 27"
      "sv_EthSignedHash v = Hash_Hex ?h" "sv_PayloadHash v = Hash_Hex (payloadHash L (uint c) (actionResultHash L data iid tag status))"
      "sv_ActionResultHash v = Hash_Hex (actionResultHash L data iid tag status)"
      "sv_ExpectedTeeAddress v = sg_AddressHex S (sg_PubkeyToAddress S key)" and
    r: "recover_signature ecrecover ?h sig = sg_PubkeyToAddress S key"
    by blast
  have "drop 64 sig = [sig ! 64]" using sig(1) by (simp add: Cons_nth_drop_Suc [symmetric])
  then have parts: "sig = take 32 sig @ take 32 (drop 32 sig) @ [sv_SignatureV v - 27]"
    using append_take_drop_id [of 32 sig] append_take_drop_id [of 32 "drop 32 sig"] by (simp add: v(4))
  have "uint c < 2 ^ 256" using uint_lt2p [of c] by simp
  then have "?h' = ?h \<longleftrightarrow> data' = data \<and> iid' = iid \<and> tag' = tag \<and> status' = status \<and> c' = uint c"
    using signed_message_unique [OF assms(4) _ _ assms(5,6)] by auto
  moreover have "recoverVerdictSigner L ecrecover data iid tag status (uint c) sig = sg_PubkeyToAddress S key"
    "recoverVerdictSigner L ecrecover data' iid' tag' status' c' sig = recover_signature ecrecover ?h' sig"
    using sig r by (simp_all add: recoverVerdictSigner_def recoverCanonical_signature)
  moreover have "length (take 32 sig) = 32" "length (take 32 (drop 32 sig)) = 32" "sv_SignatureV v \<in> {27, 28}"
    using sig(1,2) v(4) by auto
  ultimately show ?thesis using v parts by blast
qed

text \<open>What a relayer passes to \<open>settleAttempt\<close>.\<close>

definition relayed :: "ActionResult \<Rightarrow> bytes \<Rightarrow> settle_args" where
  "relayed ar sig = \<lparr>sa_data = ar_Data ar, sa_opType = ar_OPType ar, sa_opCommand = ar_OPCommand ar,
     sa_submissionTag = ar_SubmissionTag ar, sa_status = ar_Status ar, sa_signature = sig\<rparr>"

text \<open>C5: A signed verdict settles, end to end. Suppose a VERIFY request was answered with status 1, the
  enclave signed the result's digest with the key whose address the job expects, and the result is relayed as it
  is, in time, while the job is as the verifier read it and the artifact's code unchanged. Then \<open>settleAttempt\<close>
  accepts it and does with the money what the verdict says.\<close>

theorem signed_verdict_settles:
  assumes "processVerify X t a df e = (Ok ar, e')" and "produced_verdict X t a df e v (ar_Data ar)"
    and "hash_laws L S" and "sign_law S ecrecover key"
    and "ActionResultSigningDigest S ar c = Inr d" and "sg_Sign S (sg_TextHash S (bytes_of_bytes32 d)) key = Inr sig"
    and "df_OPType df = OP_TYPE" and "df_OPCommand df = OP_COMMAND" and "ac_SubmissionTag a = ''threshold''"
    and "decode (ar_Data ar) = Some v" and "vi_JobId (v1_Id v) = Some jid" and "ve_GetJob (xe_ve X) t jid = Inr j"
    and "vi_EscrowAddress (v1_Id v) = bk_this B" and "bk_chainid B = uint c" and "vi_ChainId (v1_Id v) = Some (uint c)"
    and "bk_codehash B (at_artifactAddress (ej_current j)) = at_artifactCodeHash (ej_current j)"
    and "vo_ReportHash (v1_Result v) \<noteq> 0" and "at_dispatchedAt (ej_current j) \<le> vo_IssuedAt (v1_Result v)"
    and "uint (vo_IssuedAt (v1_Result v)) \<le> bk_timestamp B" and "bk_timestamp B \<le> uint (at_timeoutAt (ej_current j))"
    and "bk_timestamp B \<le> uint (jt_graceEnds (ej_terms j))"
    and "ac_ID a \<noteq> 0" and "sg_PubkeyToAddress S key = jt_expectedTee (ej_terms j)" and "jt_expectedTee (ej_terms j) \<noteq> 0"
  shows "\<exists>j'. settleAttempt L decode ecrecover treasury B jid (relayed ar sig) j =
       Inr (j', settled_transfers treasury j (vo_Outcome (v1_Result v))) \<and>
     ej_state j' = settled_state B j (vo_Outcome (v1_Result v)) \<and>
     (ej_settled j' \<longleftrightarrow> vo_Outcome (v1_Result v) = OutcomePass) \<and> ej_terms j' = ej_terms j"
proof -
  from assms(2) obtain cfg f instr f' where p: "e_verifier e = Some (cfg, f)"
    "xe_DecodeInstruction X (df_OriginalMessage df) = Inr instr" "Verify cfg (xe_ve X) t [] (ac_ID a) instr f = (Ok v, f')"
    "xe_EncodeVerdict X v = Inr (ar_Data ar)"
    unfolding produced_verdict_def by blast
  then have r: "ar = buildResult a df (ar_Data ar) 1 []"
    using assms(1) by (simp add: processVerify_def Let_def)
  have ar: "ar_Status ar = 1" "ar_OPType ar = OP_TYPE" "ar_OPCommand ar = OP_COMMAND" "ar_SubmissionTag ar = ''threshold''"
    "ar_ID ar = ac_ID a"
    by (subst r, simp add: buildResult_def assms(7-9))+
  have ident: "v1_Id v = verdictIdentityFrom instr (ac_ID a)" using Verify_verdict_fields [OF p(3)] by simp
  from Verify_verdict_bound [OF p(3)] have b: "verdict_bound cfg jid j v" "ej_state j = StateVerifying"
    using assms(11,12) ident by (auto simp: verdictIdentityFrom_def)
  then have cfg: "vc_EscrowAddress cfg = bk_this B" "uint (vc_ChainID cfg) = bk_chainid B"
    using assms(13-15) by (simp_all add: verdict_bound_def)
  have iid: "vi_InstructionId (v1_Id v) = ac_ID a" "at_instructionId (ej_current j) = ac_ID a"
    using b(1) ident by (simp_all add: verdict_bound_def verdictIdentityFrom_def)
  have "recoverVerdictSigner L ecrecover (ar_Data ar) (ac_ID a) (ar_SubmissionTag ar) (ar_Status ar) (uint c) sig =
      jt_expectedTee (ej_terms j)"
    using signed_result_recovers [OF assms(3-6)] assms(23) ar(5) by simp
  with assms(10,14,20-22,24) ar b(2) iid have "settle_call_ok L decode ecrecover B (relayed ar sig) j v"
    by (simp add: settle_call_ok_def relayed_def)
  moreover have "wi_JobId instr = Some jid" using assms(11) ident by (simp add: verdictIdentityFrom_def)
  ultimately show ?thesis
    using verdict_settles [OF p(3) _ assms(12)] cfg assms(16-19) by simp
qed

section \<open>Concrete signatures\<close>

text \<open>A signer whose every signature is zero, and the address it recovers to.\<close>

definition demo_signing :: "ext_lib \<Rightarrow> signing_lib" where
  "demo_signing L =
     \<lparr>sg_ActionHash = (\<lambda>ar. bytes_of_bytes32 (Keccak256 L (bytes_of_bytes32 (Keccak256 L (ar_Data ar)) @ bytes_of_bytes32 (ar_ID ar) @
         bytes_of_bytes32 (Keccak256 L (string_bytes (ar_SubmissionTag ar))) @ [ar_Status ar]))),
      sg_BytesToHash = bytes32_of_bytes,
      sg_PayloadHash = (\<lambda>c h. Inr (Keccak256 L (string_bytes ''TEE_ACTION_RESULT'' @ replicate 15 0 @ be_bytes 32 (unat c) @ bytes_of_bytes32 h))),
      sg_TextHash = (\<lambda>m. bytes_of_bytes32 (Keccak256 L
         (0x19 # string_bytes ''Ethereum Signed Message:'' @ 0x0A # string_bytes (dec_nat (length m)) @ m))),
      sg_Sign = (\<lambda>h k. Inr (replicate 65 0)), sg_PubkeyToAddress = (\<lambda>k. 3), sg_AddressHex = (\<lambda>a. ''0x3''),
      sg_FromECDSA = bytes_of_bytes32, sg_Submit = ''submit'', sg_MarshalIndent = (\<lambda>d. Inr [])\<rparr>"

lemma demo_hash_laws: "hash_laws L (demo_signing L)"
  unfolding hash_laws_def demo_signing_def by simp

lemma demo_sign_law: "sign_law (demo_signing L) (\<lambda>_ _ _ _. 3) key"
proof -
  have "bytes32_of_bytes (replicate 32 0) = 0" by code_simp
  then show ?thesis by (simp add: sign_law_def demo_signing_def recover_signature_def min_def)
qed

theorem signed_verdict_settles_witness:
  "\<exists>ar e' sig j'. processVerify demo_ext 0 \<lparr>ac_ID = 77, ac_SubmissionTag = ''threshold'', ac_Message = [1]\<rparr>
       \<lparr>df_OPType = OP_TYPE, df_OPCommand = OP_COMMAND, df_OriginalMessage = [1]\<rparr> (New demo_ext demo_vars 8080 9000) = (Ok ar, e') \<and>
     settleAttempt demo_lib (\<lambda>_. Some demo_verdict) (\<lambda>_ _ _ _. 3) 50 demo_block 1 (relayed ar sig) demo_job =
       Inr (j', [(2, 100), (50, 1)]) \<and> ej_settled j'"
proof -
  let ?a = "\<lparr>ac_ID = 77, ac_SubmissionTag = ''threshold'', ac_Message = [1]\<rparr>"
  let ?df = "\<lparr>df_OPType = OP_TYPE, df_OPCommand = OP_COMMAND, df_OriginalMessage = [1]\<rparr>"
  let ?e = "New demo_ext demo_vars 8080 9000"
  obtain f' where v: "Verify demo_cfg (demo_env 42) 0 [] 77 demo_instr demo_fetcher = (Ok demo_verdict, f')"
    using demo_verdict_issued by blast
  have X: "xe_ve demo_ext = demo_env 42" "xe_DecodeInstruction demo_ext b = Inr demo_instr"
    "xe_EncodeVerdict demo_ext w = Inr [9]" for b w
    by (simp_all add: demo_ext_def)
  from v obtain ar e' where p: "processVerify demo_ext 0 ?a ?df ?e = (Ok ar, e')" and data: "ar_Data ar = [9]"
    by (fastforce simp: processVerify_def demo_New X buildResult_def Let_def)
  have produced: "produced_verdict demo_ext 0 ?a ?df ?e demo_verdict (ar_Data ar)"
    using v data by (simp add: produced_verdict_def demo_New X)
  obtain d where d: "ActionResultSigningDigest (demo_signing demo_lib) ar 114 = Inr d"
    using digest_agrees [OF demo_hash_laws] by blast
  have fields: "vi_JobId (v1_Id demo_verdict) = Some 1" "vi_EscrowAddress (v1_Id demo_verdict) = bk_this demo_block"
    "vi_ChainId (v1_Id demo_verdict) = Some 114" "ve_GetJob (xe_ve demo_ext) 0 1 = Inr demo_job"
    by (simp_all add: X demo_verdict_def run_verdict_def verdictIdentityFrom_def demo_instr_def demo_block_def demo_env_def)
  have "\<exists>j'. settleAttempt demo_lib (\<lambda>_. Some demo_verdict) (\<lambda>_ _ _ _. 3) 50 demo_block 1 (relayed ar (replicate 65 0)) demo_job =
      Inr (j', settled_transfers 50 demo_job (vo_Outcome (v1_Result demo_verdict))) \<and>
    ej_state j' = settled_state demo_block demo_job (vo_Outcome (v1_Result demo_verdict)) \<and>
    (ej_settled j' \<longleftrightarrow> vo_Outcome (v1_Result demo_verdict) = OutcomePass) \<and> ej_terms j' = ej_terms demo_job"
    by (rule signed_verdict_settles [OF p produced demo_hash_laws demo_sign_law [of _ 1] d])
      (simp_all add: fields demo_verdict_fields, simp_all add: demo_signing_def demo_block_def demo_job_def)
  with p show ?thesis by (auto simp: demo_verdict_fields settled_transfers_def demo_job_def)
qed

text \<open>A hash that separates the strings of the example.\<close>

definition demo_hashing :: ext_lib where
  "demo_hashing = demo_lib\<lparr>Keccak256 := \<lambda>bs. of_nat (length bs) * 256 + ucast (if length bs = 96 then bs ! 63 else last bs)\<rparr>"

lemma last_be_bytes: "0 < k \<Longrightarrow> last (be_bytes k n) = of_nat (n mod 256)" "be_bytes k n = [] \<longleftrightarrow> k = 0"
  by (cases k; simp)+

lemma demo_hashing_value:
  "length bs \<noteq> 96 \<Longrightarrow> Keccak256 demo_hashing bs = of_nat (length bs) * 256 + ucast (last bs)"
  "length as = 32 \<Longrightarrow> length bs = 32 \<Longrightarrow>
     Keccak256 demo_hashing (as @ be_bytes 32 n @ bs) = 24576 + ucast (of_nat (n mod 256) :: byte)"
proof -
  show "Keccak256 demo_hashing bs = of_nat (length bs) * 256 + ucast (last bs)" if "length bs \<noteq> 96"
    using that by (simp add: demo_hashing_def)
  assume l: "length as = 32" "length bs = 32"
  have "(as @ be_bytes 32 n @ bs) ! 63 = last (be_bytes 32 n)"
    using l by (simp add: nth_append last_conv_nth length_be_bytes last_be_bytes(2) del: be_bytes.simps)
  then show "Keccak256 demo_hashing (as @ be_bytes 32 n @ bs) = 24576 + ucast (of_nat (n mod 256) :: byte)"
    using l by (simp add: demo_hashing_def last_be_bytes(1) del: be_bytes.simps)
qed

lemma demo_no_collision:
  "inj_on (Keccak256 demo_hashing) (hashed_messages demo_hashing [7] 5 ''submit'' 1 (uint (114 :: u64)) \<union> hashed_messages demo_hashing [7] 5 ''submit'' 1 16)"
proof -
  let ?p = "\<lambda>c. bytes_of_bytes32 (bytes32_literal ''TEE_ACTION_RESULT'') @ be_bytes 32 (nat c) @
      bytes_of_bytes32 (actionResultHash demo_hashing [7] 5 ''submit'' 1)"
  let ?e = "\<lambda>c. 0x19 # string_bytes ''Ethereum Signed Message:'' @ [0x0A] @ string_bytes ''32'' @
      bytes_of_bytes32 (payloadHash demo_hashing c (actionResultHash demo_hashing [7] 5 ''submit'' 1))"
  let ?messages = "[[7], string_bytes ''submit'', bytes_of_bytes32 (Keccak256 demo_hashing [7]) @ bytes_of_bytes32 5 @
      bytes_of_bytes32 (Keccak256 demo_hashing (string_bytes ''submit'')) @ [1], ?p 114, ?p 16, ?e 114, ?e 16]"
  have p: "Keccak256 demo_hashing (?p c) = 24576 + ucast (of_nat (nat c mod 256) :: byte)" for c
    by (rule demo_hashing_value) simp_all
  have e: "Keccak256 demo_hashing (?e c) = 15360 +
      ucast (of_nat (unat (24576 + ucast (of_nat (nat c mod 256) :: byte) :: bytes32) mod 256) :: byte)" for c
    using p [of c] by (simp add: demo_hashing_value payloadHash_def bytes_of_bytes32_def last_be_bytes string_bytes_def del: be_bytes.simps)
  have "distinct (map (Keccak256 demo_hashing) ?messages)"
    unfolding list.map p e by (simp add: demo_hashing_value string_bytes_def)
  then have "inj_on (Keccak256 demo_hashing) (set ?messages)" by (simp only: distinct_map)
  then show ?thesis by (rule inj_on_subset) (auto simp: hashed_messages_def)
qed

theorem spike_vector_recovers_witness:
  "\<exists>v sig h h'. buildVector (demo_signing demo_hashing) 1 114 5 ''submit'' 1 [7] = Ok v \<and>
     sv_Signature v = ''0x'' @ hex_EncodeToString sig \<and> sv_EthSignedHash v = Hash_Hex h \<and>
     recoverVerdictSigner demo_hashing (\<lambda>_ _ _ _. 3) [7] 5 ''submit'' 1 114 sig = 3 \<and>
     recoverVerdictSigner demo_hashing (\<lambda>_ _ _ _. 3) [7] 5 ''submit'' 1 16 sig = recover_signature (\<lambda>_ _ _ _. 3) h' sig \<and> h' \<noteq> h"
proof -
  obtain v where v: "buildVector (demo_signing demo_hashing) 1 114 5 ''submit'' 1 [7] = Ok v"
    by (simp add: buildVector_def demo_signing_def bare_result_def Let_def)
  have "sg_PubkeyToAddress (demo_signing demo_hashing) 1 = 3" by (simp add: demo_signing_def)
  with spike_vector_recovers [OF demo_hash_laws demo_sign_law v demo_no_collision] v show ?thesis by auto
qed

end
