(* ===== verification/Inspect.thy ===== *)
theory Inspect
  imports CommandsSafety
begin

text \<open>
  The commands that only look: \<open>tools/cmd/audit-deploy\<close> and \<open>tools/cmd/query-tee\<close>. What they print is a list of
  lines, one constructor for each format string; an error before the first line is an error of the computation
  (exit status 1), and a line for standard error has a constructor of its own.
\<close>

section \<open>audit-deploy\<close>

record audit_env =
  au_node :: node_env
  au_BlockNumber :: "tick \<Rightarrow> string + u64"
  au_CodeAt :: "tick \<Rightarrow> address \<Rightarrow> string + bytes"
  au_Platforms :: "tick \<Rightarrow> string + bytes32 list"
  au_NextPublicExtensionId :: "tick \<Rightarrow> string + int"
  au_ExtensionOwner :: "tick \<Rightarrow> int \<Rightarrow> string + address"
  au_CodeHashes :: "tick \<Rightarrow> int \<Rightarrow> string + bytes32 list"
  au_KeyTypes :: "tick \<Rightarrow> int \<Rightarrow> string + bytes32 list"

record audit_flags =
  af_a :: string
  af_rpc :: string
  af_ext :: int
  af_codeHash :: string
  af_platform :: string
  af_from :: string
  af_version :: string

datatype contract_status = StError string | StZeroAddress | StNoCode | StOk nat

datatype replay =
    ReplayAbi string
  | ReplayVersion string
  | ReplayPack string
  | ReplaySucceeded
  | ReplayShort string
  | ReplayReason string
  | ReplayUnpackFailed string string string bytes
  | ReplayError string string string
  | ReplayUnknown bytes bytes

datatype audit_line =
    LineChain int u64
  | LineContract string address contract_status
  | LineBindError string
  | LineFacet address
  | LinePlatforms "string + (bytes32 \<times> string) list"
  | LineNextExtension int
  | LineExtension int
  | LineOwner "string + address"
  | LineCodeHashes "string + bytes32 list"
  | LineKeyTypes "(bytes32 \<times> string) list"
  | LineReplayHeader
  | LineReplay replay

definition bytes32ToString :: "bytes32 \<Rightarrow> string" where
  "bytes32ToString b = TrimSpace (map (\<lambda>c. char_of (unat c)) (rev (dropWhile (\<lambda>c. c = 0) (rev (bytes_of_bytes32 b)))))"

definition contract_state :: "address \<Rightarrow> string + bytes \<Rightarrow> contract_status" where
  "contract_state a code =
     (case code of Inl err \<Rightarrow> StError err
      | Inr c \<Rightarrow> if a = 0 then StZeroAddress else if length c = 0 then StNoCode else StOk (length c))"

definition audit_contract :: "audit_env \<Rightarrow> string \<Rightarrow> address \<Rightarrow> ('e, audit_line) comp" where
  "audit_contract E name a =
     handle (ask (\<lambda>t. au_CodeAt E t a)) (\<lambda>err. ret (LineContract name a (contract_state a (Inl err))))
       (\<lambda>code. ret (LineContract name a (contract_state a (Inr code))))"

text \<open>The sources whose errors the replay knows, in the order in which it tries them.\<close>

definition replay_sources :: "(string \<times> facet) list" where
  "replay_sources = [(''ExtensionManager'', ExtensionManager), (''MachineManager'', MachineManager), (''Verification'', Verification)]"

fun replay_lookup :: "node_env \<Rightarrow> (string \<times> facet) list \<Rightarrow> bytes \<Rightarrow> replay" where
  "replay_lookup N [] revertData = ReplayUnknown (take 4 revertData) revertData"
| "replay_lookup N ((name, md) # srcs) revertData =
     (case ne_Abi N md of
        Inl _ \<Rightarrow> replay_lookup N srcs revertData
      | Inr errs \<Rightarrow>
        (case find (\<lambda>eDef. take 4 (bytes_of_bytes32 (ae_ID eDef)) = take 4 revertData) errs of
           None \<Rightarrow> replay_lookup N srcs revertData
         | Some eDef \<Rightarrow>
           (case ae_Inputs eDef (drop 4 revertData) of
              Inl unpackErr \<Rightarrow> ReplayUnpackFailed name (ae_name eDef) unpackErr revertData
            | Inr args \<Rightarrow> ReplayError name (ae_name eDef) args)))"

definition replay_revert :: "node_env \<Rightarrow> rpc_err \<Rightarrow> replay" where
  "replay_revert N callErr =
     (let revertData = ExtractRevertData N callErr in
      if length revertData < 4 then ReplayShort (re_text callErr)
      else case (if take 4 revertData = [0x08, 0xc3, 0x79, 0xa0] then te_UnpackRevert N revertData else None) of
        Some reason \<Rightarrow> ReplayReason reason
      | None \<Rightarrow> replay_lookup N replay_sources revertData)"

definition replayAddTeeVersion ::
  "node_env \<Rightarrow> address \<Rightarrow> address \<Rightarrow> int \<Rightarrow> string \<Rightarrow> bytes32 \<Rightarrow> bytes32 \<Rightarrow> ('e, replay) comp" where
  "replayAddTeeVersion N to from extID version codeHash platform =
     (case ne_Abi N ExtensionManager of
        Inl err \<Rightarrow> ret (ReplayAbi err)
      | Inr _ \<Rightarrow>
        (case StringToBytes32 version of
           Inl err \<Rightarrow> ret (ReplayVersion err)
         | Inr versionBytes \<Rightarrow>
           (case ne_Pack N (AddTeeVersionTx extID versionBytes codeHash [platform]) of
              Inl err \<Rightarrow> ret (ReplayPack err)
            | Inr calldata \<Rightarrow>
              handle (ask (\<lambda>t. te_CallContract N t \<lparr>rm_From = from, rm_To = Some to, rm_Gas = 0, rm_GasPrice = None,
                         rm_Value = None, rm_Data = calldata\<rparr>))
                (\<lambda>callErr. ret (replay_revert N callErr)) (\<lambda>_. ret ReplaySucceeded))))"

text \<open>A query whose error is printed in place of its answer, and one whose error is ignored.\<close>

definition shown :: "(tick \<Rightarrow> string + 'a) \<Rightarrow> (string + 'a \<Rightarrow> 'l) \<Rightarrow> ('e, 'l list) comp" where
  "shown query line = handle (ask query) (\<lambda>err. ret [line (Inl err)]) (\<lambda>x. ret [line (Inr x)])"

definition if_known :: "(tick \<Rightarrow> string + 'a) \<Rightarrow> ('a \<Rightarrow> 'l) \<Rightarrow> ('e, 'l list) comp" where
  "if_known query line = handle (ask query) (\<lambda>err. ret []) (\<lambda>x. ret [line x])"

definition then_lines :: "('e, 'l list) comp \<Rightarrow> ('e, 'l list) comp \<Rightarrow> ('e, 'l list) comp" where
  "then_lines m n = attempt m (\<lambda>ls. attempt n (\<lambda>ls'. ret (ls @ ls')))"

definition with_text :: "bytes32 list \<Rightarrow> (bytes32 \<times> string) list" where
  "with_text hs = map (\<lambda>h. (h, bytes32ToString h)) hs"

definition audit_extension :: "audit_env \<Rightarrow> int \<Rightarrow> ('e, audit_line list) comp" where
  "audit_extension E eid =
     then_lines (ret [LineExtension eid])
     (then_lines (shown (\<lambda>t. au_ExtensionOwner E t eid) LineOwner)
     (then_lines (shown (\<lambda>t. au_CodeHashes E t eid) LineCodeHashes)
     (if_known (\<lambda>t. au_KeyTypes E t eid) (\<lambda>kt. LineKeyTypes (with_text kt)))))"

definition audit_manager :: "audit_env \<Rightarrow> audit_flags \<Rightarrow> address \<Rightarrow> (string, audit_line list) comp" where
  "audit_manager E fl manager =
     (case te_Bind (au_node E) ExtensionManager manager of
        Inl err \<Rightarrow> ret [LineBindError err]
      | Inr _ \<Rightarrow>
        then_lines (ret [LineFacet manager])
        (then_lines (shown (\<lambda>t. au_Platforms E t) (\<lambda>r. LinePlatforms (map_sum (\<lambda>e. e) with_text r)))
        (then_lines (if_known (\<lambda>t. au_NextPublicExtensionId E t) LineNextExtension)
        (then_lines (if 0 \<le> af_ext fl then audit_extension E (af_ext fl) else ret [])
        (if af_codeHash fl \<noteq> [] \<and> af_platform fl \<noteq> [] \<and> 0 \<le> af_ext fl then
           attempt (replayAddTeeVersion (au_node E) manager (te_HexToAddress (au_node E) (af_from fl)) (af_ext fl)
               (af_version fl) (te_HexToHash (au_node E) (af_codeHash fl)) (te_HexToHash (au_node E) (af_platform fl)))
             (\<lambda>r. ret [LineReplayHeader, LineReplay r])
         else ret [])))))"

definition audit_lines :: "audit_env \<Rightarrow> audit_flags \<Rightarrow> Addresses \<Rightarrow> int \<Rightarrow> u64 \<Rightarrow> (string, audit_line list) comp" where
  "audit_lines E fl addr chainID bn =
     attempt (audit_contract E ''FlareTeeManager'' (ad_FlareTeeManager addr)) (\<lambda>l1.
     attempt (audit_contract E ''FlareSystemsManager'' (ad_FlareSystemManager addr)) (\<lambda>l2.
     attempt (audit_contract E ''Fdc2Hub'' (ad_Fdc2Hub addr)) (\<lambda>l3.
     then_lines (ret [LineChain chainID bn, l1, l2, l3])
       (if ad_FlareTeeManager addr = 0 then ret [] else audit_manager E fl (ad_FlareTeeManager addr)))))"

definition audit_deploy_main :: "audit_env \<Rightarrow> audit_flags \<Rightarrow> (string, audit_line list) comp" where
  "audit_deploy_main E fl =
     attempt_wrap ''parse addresses: '' (ParseAddresses (au_node E) (af_a fl)) (\<lambda>addr.
     attempt_wrap ''dial: '' (ask (\<lambda>t. te_Dial (au_node E) t (af_rpc fl))) (\<lambda>_.
     attempt_wrap ''chainId: '' (ask (te_ChainID (au_node E))) (\<lambda>chainID.
     handle (ask (au_BlockNumber E)) (\<lambda>_. audit_lines E fl addr chainID 0) (\<lambda>bn. audit_lines E fl addr chainID bn))))"

section \<open>query-tee\<close>

record query_env =
  qe_Dial :: "tick \<Rightarrow> string \<Rightarrow> string + unit"
  qe_NewMachineManager :: "address \<Rightarrow> string + unit"
  qe_HexToAddress :: "string \<Rightarrow> address"
  qe_ActiveTeeMachines :: "tick \<Rightarrow> int \<Rightarrow> string + address list \<times> string list"
  qe_TeeMachine :: "tick \<Rightarrow> address \<Rightarrow> string + address \<times> address \<times> string"
  qe_Status :: "tick \<Rightarrow> address \<Rightarrow> string + u8"
  qe_Owner :: "tick \<Rightarrow> address \<Rightarrow> string + address"
  qe_ExtensionId :: "tick \<Rightarrow> address \<Rightarrow> string + int"
  qe_LastStatusChangeTs :: "tick \<Rightarrow> address \<Rightarrow> string + int"
  qe_InitialSigningPolicyId :: "tick \<Rightarrow> address \<Rightarrow> string + u32"

datatype query_line =
    LineActive int
  | LineActiveError string
  | LineActiveTee nat address string
  | LineNoneActive
  | LineTee address
  | LineMachine "string + address \<times> address \<times> string"
  | LineUnregistered
  | LineStatus "string + u8"
  | LineTeeOwner "string + address"
  | LineExtensionId "string + int"
  | LineLastChange "string + int"
  | LineInitialPolicy "string + u32"

text \<open>The loop over the machines indexes a second list. Lines, and whether the process panicked after them.\<close>

fun active_lines :: "nat \<Rightarrow> address list \<Rightarrow> string list \<Rightarrow> query_line list \<times> bool" where
  "active_lines i [] urls = ([], False)"
| "active_lines i (tee # tees) urls =
     (if length urls \<le> i then ([], True)
      else case active_lines (i + 1) tees urls of (ls, p) \<Rightarrow> (LineActiveTee i tee (urls ! i) # ls, p))"

definition query_active :: "query_env \<Rightarrow> int \<Rightarrow> ('e, query_line list \<times> bool) comp" where
  "query_active E ext =
     handle (ask (\<lambda>t. qe_ActiveTeeMachines E t ext))
       (\<lambda>err. ret ([LineActive ext, LineActiveError err], False))
       (\<lambda>(tees, urls). case active_lines 0 tees urls of
          (ls, True) \<Rightarrow> ret (LineActive ext # ls, True)
        | (ls, False) \<Rightarrow> ret (LineActive ext # ls @ (if tees = [] then [LineNoneActive] else []), False))"

definition query_machine :: "query_env \<Rightarrow> address \<Rightarrow> ('e, query_line list) comp" where
  "query_machine E tee =
     handle (ask (\<lambda>t. qe_TeeMachine E t tee)) (\<lambda>err. ret [LineMachine (Inl err)])
       (\<lambda>m. ret (LineMachine (Inr m) # (if fst m = 0 then [LineUnregistered] else [])))"

definition query_tee :: "query_env \<Rightarrow> string \<Rightarrow> ('e, query_line list) comp" where
  "query_tee E raw =
     (let tee = qe_HexToAddress E raw in
      then_lines (ret [LineTee tee])
      (then_lines (query_machine E tee)
      (then_lines (shown (\<lambda>t. qe_Status E t tee) LineStatus)
      (then_lines (shown (\<lambda>t. qe_Owner E t tee) LineTeeOwner)
      (then_lines (shown (\<lambda>t. qe_ExtensionId E t tee) LineExtensionId)
      (then_lines (shown (\<lambda>t. qe_LastStatusChangeTs E t tee) LineLastChange)
      (shown (\<lambda>t. qe_InitialSigningPolicyId E t tee) LineInitialPolicy)))))))"

primrec query_tees :: "query_env \<Rightarrow> string list \<Rightarrow> ('e, query_line list) comp" where
  "query_tees E [] = ret []"
| "query_tees E (raw # raws) = then_lines (query_tee E raw) (query_tees E raws)"

definition query_tee_main ::
  "query_env \<Rightarrow> string \<Rightarrow> string \<Rightarrow> int \<Rightarrow> string list \<Rightarrow> (string, query_line list \<times> bool) comp" where
  "query_tee_main E rpc reg listExt args =
     attempt_wrap ''dial: '' (ask (\<lambda>t. qe_Dial E t rpc)) (\<lambda>_.
     attempt_wrap ''bind: '' (lift (qe_NewMachineManager E (qe_HexToAddress E reg))) (\<lambda>_.
     attempt (if 0 \<le> listExt then query_active E listExt else ret ([], False)) (\<lambda>(ls, panicked).
     if panicked then ret (ls, True)
     else attempt (query_tees E args) (\<lambda>ls'. ret (ls @ ls', False)))))"

section \<open>What they show\<close>

text \<open>A text that was stored in 32 bytes is printed as it was, without surrounding blanks.\<close>

lemma bytes32ToString_StringToBytes32:
  assumes "StringToBytes32 s = Inr b" and "s = [] \<or> last s \<noteq> CHR 0x00"
  shows "bytes32ToString b = TrimSpace s"
proof -
  have len: "length s \<le> 32" and b: "b = bytes32_of_bytes (string_bytes s @ replicate (32 - length s) 0)"
    using assms(1) by (auto simp: StringToBytes32_def split: if_splits)
  have bytes: "bytes_of_bytes32 b = string_bytes s @ replicate (32 - length s) 0"
    unfolding b by (rule bytes32_of_bytes_inverse) (use len in \<open>simp add: string_bytes_def\<close>)
  have dw: "dropWhile (\<lambda>c. c = 0) (replicate n 0 @ xs) = dropWhile (\<lambda>c. c = 0) xs" for n and xs :: bytes
    by (induction n) simp_all
  have nz: "(of_nat (of_char c) :: byte) = 0 \<longleftrightarrow> c = CHR 0x00" for c
    using string_bytes_inject [of "[c]" "[CHR 0x00]"] by (simp add: string_bytes_def del: string_bytes_inject)
  have "rev (dropWhile (\<lambda>c. c = 0) (rev (bytes_of_bytes32 b))) = string_bytes s"
    using assms(2) by (cases s rule: rev_cases) (simp_all add: bytes dw nz string_bytes_def)
  then show ?thesis
    using bytes_string_inverse [of s] by (simp add: bytes32ToString_def bytes_string_def)
qed

text \<open>Computations that end with an answer, whatever fails on the way.\<close>

named_theorems answers_intros \<open>computations that always answer\<close>

definition answers :: "('w, 'e, 'a) computation \<Rightarrow> bool" where
  "answers m \<longleftrightarrow> (\<forall>w. \<exists>x w'. m w = (Inr x, w'))"

lemma answers_ret [answers_intros]: "answers (ret x)"
  by (simp add: answers_def ret_def)

lemma answers_handle [answers_intros]:
  "(\<And>e. answers (h e)) \<Longrightarrow> (\<And>x. answers (k x)) \<Longrightarrow> answers (handle m h k)"
  unfolding answers_def handle_def by (auto split: prod.split sum.split)

lemma answers_attempt [answers_intros]: "answers m \<Longrightarrow> (\<And>x. answers (k x)) \<Longrightarrow> answers (attempt m k)"
  unfolding answers_def attempt_def handle_def by (auto split: prod.split sum.split) (metis Inl_Inr_False prod.inject)

lemma answers_if [answers_intros]: "(b \<Longrightarrow> answers m) \<Longrightarrow> (\<not> b \<Longrightarrow> answers n) \<Longrightarrow> answers (if b then m else n)"
  by simp

lemma answers_case_sum [answers_intros]:
  "(\<And>e. answers (f e)) \<Longrightarrow> (\<And>x. answers (g x)) \<Longrightarrow> answers (case r of Inl e \<Rightarrow> f e | Inr x \<Rightarrow> g x)"
  by (cases r) simp_all

lemma answers_lines [answers_intros]:
  "answers (shown q l)" "answers (if_known q l')" "answers m \<Longrightarrow> answers n \<Longrightarrow> answers (then_lines m n)"
  unfolding shown_def if_known_def then_lines_def by (intro answers_intros; assumption)+

lemma answers_manager: "answers (if b then ret [] else audit_manager E fl manager)"
  unfolding audit_manager_def audit_extension_def replayAddTeeVersion_def by (intro answers_intros)

text \<open>Nor do they send or write anything.\<close>

lemma within_lines [within_intros]:
  "within (sends T) (shown q l)" "within (sends T) (if_known q l')"
  "within (sends T) m \<Longrightarrow> within (sends T) n \<Longrightarrow> within (sends T) (then_lines m n)"
  unfolding shown_def if_known_def then_lines_def by (intro within_intros; assumption)+

lemma reads_audit: "within (sends T) (audit_deploy_main E fl)"
  unfolding audit_deploy_main_def audit_lines_def audit_contract_def audit_manager_def audit_extension_def
    replayAddTeeVersion_def ParseAddresses_def
  by (intro within_intros)

lemma run_audit_contract:
  "audit_contract E name a w = (Inr (LineContract name a (contract_state a (au_CodeAt E (w_now w) a))), w\<lparr>w_now := w_now w + 1\<rparr>)"
  by (simp add: audit_contract_def comp_defs split: sum.split)

text \<open>The audit reports whatever the chain answers. It sends and writes nothing; it fails exactly when the
  address file, the connection or the chain id cannot be had, before it prints anything; and otherwise, whatever
  else fails, it prints the chain and the state of the three contracts in this order. A contract is reported as
  present exactly when its address is not zero and its code was read and is not empty; without a manager
  address nothing further is asked.\<close>

theorem audit_deploy_report:
  "case audit_deploy_main E fl w of (r, w') \<Rightarrow>
     w_sent w' = w_sent w \<and> w_files w' = w_files w \<and>
     (case ParseAddresses (au_node E) (af_a fl) w of
        (Inl e, w1) \<Rightarrow> r = Inl (''parse addresses: '' @ e)
      | (Inr addr, w1) \<Rightarrow>
        (case (te_Dial (au_node E) (w_now w1) (af_rpc fl), te_ChainID (au_node E) (w_now w1 + 1)) of
           (Inl e, _) \<Rightarrow> r = Inl (''dial: '' @ e)
         | (Inr _, Inl e) \<Rightarrow> r = Inl (''chainId: '' @ e)
         | (Inr _, Inr chainID) \<Rightarrow>
           (\<exists>bn s1 s2 s3 rest. r = Inr ([LineChain chainID bn, LineContract ''FlareTeeManager'' (ad_FlareTeeManager addr) s1,
                LineContract ''FlareSystemsManager'' (ad_FlareSystemManager addr) s2, LineContract ''Fdc2Hub'' (ad_Fdc2Hub addr) s3] @ rest) \<and>
              (\<forall>(a, s, t) \<in> {(ad_FlareTeeManager addr, s1, w_now w1 + 3), (ad_FlareSystemManager addr, s2, w_now w1 + 4),
                    (ad_Fdc2Hub addr, s3, w_now w1 + 5)}.
                 \<forall>n. s = StOk n \<longleftrightarrow> a \<noteq> 0 \<and> 0 < n \<and> (\<exists>code. au_CodeAt E t a = Inr code \<and> length code = n)) \<and>
              (ad_FlareTeeManager addr = 0 \<longrightarrow> rest = []))))"
proof -
  obtain r w' where run: "audit_deploy_main E fl w = (r, w')" by fastforce
  obtain p w1 where parse: "ParseAddresses (au_node E) (af_a fl) w = (p, w1)" by fastforce
  have same: "w_sent w' = w_sent w \<and> w_files w' = w_files w"
    using reads_unchanged [OF reads_audit run] .
  have ok: "contract_state a c = StOk n \<longleftrightarrow> a \<noteq> 0 \<and> 0 < n \<and> (\<exists>code. c = Inr code \<and> length code = n)" for a c n
    by (auto simp: contract_state_def split: sum.splits)
  show ?thesis
  proof (cases "\<exists>addr chainID u. p = Inr addr \<and> te_Dial (au_node E) (w_now w1) (af_rpc fl) = Inr u \<and>
      te_ChainID (au_node E) (w_now w1 + 1) = Inr chainID")
    case False
    with run parse same show ?thesis
      by (auto simp: audit_deploy_main_def comp_defs split: sum.splits prod.splits)
  next
    case True
    then obtain addr chainID u where t: "p = Inr addr" "te_Dial (au_node E) (w_now w1) (af_rpc fl) = Inr u"
      "te_ChainID (au_node E) (w_now w1 + 1) = Inr chainID" by blast
    let ?w = "\<lambda>n. w1\<lparr>w_now := (Suc ^^ n) (w_now w1)\<rparr>"
    obtain bn where lines: "audit_lines E fl addr chainID bn (?w 3) = (r, w')"
      using run parse t by (cases "au_BlockNumber E (w_now w1 + 2)")
        (auto simp: audit_deploy_main_def comp_defs eval_nat_numeral)
    obtain rest w2 where "(if ad_FlareTeeManager addr = 0 then ret [] else audit_manager E fl (ad_FlareTeeManager addr))
        (?w 6) = (Inr rest, w2)"
      using answers_manager unfolding answers_def by blast
    with lines t parse same run show ?thesis
      by (auto simp: audit_lines_def run_audit_contract then_lines_def attempt_def handle_def ret_def ok eval_nat_numeral
          split: if_splits)
  qed
qed

text \<open>An error of one of the sources whose selector the revert data starts with.\<close>

definition known_error :: "node_env \<Rightarrow> (string \<times> facet) list \<Rightarrow> bytes \<Rightarrow> string \<Rightarrow> abi_error \<Rightarrow> bool" where
  "known_error N srcs data name e \<longleftrightarrow> (\<exists>md errs. (name, md) \<in> set srcs \<and> ne_Abi N md = Inr errs \<and> e \<in> set errs \<and>
     take 4 (bytes_of_bytes32 (ae_ID e)) = take 4 data)"

text \<open>The error a loop over sources stops at, and what each of the two loops makes of it.\<close>

fun first_error :: "node_env \<Rightarrow> (string \<times> facet) list \<Rightarrow> bytes \<Rightarrow> (string \<times> abi_error) option" where
  "first_error N [] data = None"
| "first_error N ((name, md) # srcs) data =
     (case find (\<lambda>e. take 4 (bytes_of_bytes32 (ae_ID e)) = take 4 data) (case ne_Abi N md of Inl _ \<Rightarrow> [] | Inr errs \<Rightarrow> errs) of
        Some e \<Rightarrow> Some (name, e) | None \<Rightarrow> first_error N srcs data)"

lemma diag_lookup_first:
  "diag_lookup N srcs data =
     (case first_error N srcs data of Some (name, e) \<Rightarrow> diag_custom name e data | None \<Rightarrow> DiagUnknown (take 4 data) data)"
  by (induction N srcs data rule: first_error.induct) (auto split: sum.split option.split)

lemma replay_lookup_first:
  "replay_lookup N srcs data =
     (case first_error N srcs data of
        Some (name, e) \<Rightarrow>
          (case ae_Inputs e (drop 4 data) of
             Inl unpackErr \<Rightarrow> ReplayUnpackFailed name (ae_name e) unpackErr data | Inr args \<Rightarrow> ReplayError name (ae_name e) args)
      | None \<Rightarrow> ReplayUnknown (take 4 data) data)"
  by (induction N srcs data rule: first_error.induct) (auto split: sum.split option.split)

lemma find_SomeD: "find P xs = Some x \<Longrightarrow> x \<in> set xs \<and> P x"
  by (induction xs) (auto split: if_splits)

lemma find_NoneD: "find P xs = None \<Longrightarrow> x \<in> set xs \<Longrightarrow> \<not> P x"
  by (induction xs) (auto split: if_splits)

lemma known_error_Cons:
  "known_error N (src # srcs) data name e \<longleftrightarrow>
     (fst src = name \<and> (\<exists>errs. ne_Abi N (snd src) = Inr errs \<and> e \<in> set errs \<and> take 4 (bytes_of_bytes32 (ae_ID e)) = take 4 data)) \<or>
     known_error N srcs data name e"
  unfolding known_error_def by (cases src) auto

lemma first_error_known: "first_error N srcs data = Some (name, e) \<Longrightarrow> known_error N srcs data name e"
  by (induction N srcs data rule: first_error.induct)
    (auto simp: known_error_Cons dest!: find_SomeD split: option.splits sum.splits)

lemma first_error_None: "first_error N srcs data = None \<Longrightarrow> \<not> known_error N srcs data name e"
proof (induction N srcs data rule: first_error.induct)
  case (1 N data)
  show ?case by (simp add: known_error_def)
next
  case (2 N name' md srcs data)
  then show ?case by (auto simp: known_error_Cons dest: find_NoneD split: option.splits sum.splits)
qed

text \<open>Two runs whose map iterations visit the errors in different orders.\<close>

fun same_errors :: "string + abi_error list \<Rightarrow> string + abi_error list \<Rightarrow> bool" where
  "same_errors (Inr errs) (Inr errs') \<longleftrightarrow> mset errs = mset errs'"
| "same_errors (Inl e) (Inl e') \<longleftrightarrow> e = e'"
| "same_errors _ _ \<longleftrightarrow> False"

lemma known_error_reordered:
  assumes "\<forall>md. same_errors (ne_Abi N md) (abi md)"
  shows "known_error (N\<lparr>ne_Abi := abi\<rparr>) srcs data name e \<longleftrightarrow> known_error N srcs data name e"
proof -
  have "(\<exists>errs. abi md = Inr errs \<and> e \<in> set errs \<and> P) \<longleftrightarrow> (\<exists>errs. ne_Abi N md = Inr errs \<and> e \<in> set errs \<and> P)" for md P
    using spec [OF assms, of md] by (cases "ne_Abi N md"; cases "abi md") (auto dest: mset_eq_setD)
  then show ?thesis unfolding known_error_def by simp
qed

text \<open>A selector that belongs to one error only is looked up alike whatever the order of the iterations, and
  alike in two lists of contracts that know the same error for it.\<close>

definition one_error :: "node_env \<Rightarrow> bytes \<Rightarrow> bool" where
  "one_error N data \<longleftrightarrow> (\<forall>name e name' e'. known_error N diag_sources data name e \<longrightarrow>
     known_error N diag_sources data name' e' \<longrightarrow> name' = name \<and> e' = e)"

lemma first_error_determined:
  assumes "one_error N data" and "\<And>name e. known_error N srcs data name e \<Longrightarrow> known_error N diag_sources data name e"
    and "\<And>name e. known_error M srcs' data name e \<longleftrightarrow> known_error N srcs data name e"
  shows "first_error M srcs' data = first_error N srcs data"
proof (cases "first_error N srcs data")
  case None
  have "first_error M srcs' data = None"
    using first_error_known [of M srcs' data] first_error_None [OF None] assms(3) by (cases "first_error M srcs' data") auto
  with None show ?thesis by simp
next
  case (Some p)
  then obtain name e where p: "first_error N srcs data = Some (name, e)" by (cases p) simp
  note k = first_error_known [OF p]
  obtain name' e' where p': "first_error M srcs' data = Some (name', e')"
    using first_error_None [of M srcs' data name e] k assms(3) by (cases "first_error M srcs' data") auto
  have "known_error N srcs data name' e'" using first_error_known [OF p'] assms(3) by simp
  then show ?thesis
    using assms(1) assms(2) [OF k] assms(2) unfolding one_error_def p p' by blast
qed

lemma known_error_replay:
  "known_error N replay_sources d name e \<Longrightarrow> known_error N diag_sources d name e \<and> name \<noteq> ''Fdc2Hub''"
  "known_error N diag_sources d name e \<Longrightarrow> name = ''Fdc2Hub'' \<or> known_error N replay_sources d name e"
  by (auto simp: known_error_def replay_sources_def diag_sources_def)

lemma first_error_Fdc2Hub:
  assumes "one_error N data" and k: "known_error N diag_sources data ''Fdc2Hub'' e"
  shows "first_error N replay_sources data = None" and "first_error N diag_sources data = Some (''Fdc2Hub'', e)"
proof -
  have only: "name = ''Fdc2Hub'' \<and> e' = e" if "known_error N diag_sources data name e'" for name e'
    using assms that unfolding one_error_def by blast
  show "first_error N replay_sources data = None"
    using first_error_known [of N replay_sources data] known_error_replay(1) [of N data] only
    by (cases "first_error N replay_sources data") fastforce+
  show "first_error N diag_sources data = Some (''Fdc2Hub'', e)"
    using first_error_known [of N diag_sources data] first_error_None [of N diag_sources data] k only
    by (cases "first_error N diag_sources data") fastforce+
qed

text \<open>When a line of \<open>audit-deploy\<close> and a line of the diagnosis say the same of a revert.\<close>

fun same_report :: "diagnosis \<Rightarrow> replay \<Rightarrow> bool" where
  "same_report (DiagReason reason) (ReplayReason reason') \<longleftrightarrow> reason' = reason"
| "same_report (DiagArgsFailed src name unpackErr data) (ReplayUnpackFailed src' name' unpackErr' data') \<longleftrightarrow>
     src' = src \<and> name' = name \<and> unpackErr' = unpackErr \<and> data' = data"
| "same_report (DiagError src name args) (ReplayError src' name' args') \<longleftrightarrow> src' = src \<and> name' = name \<and> args' = args"
| "same_report (DiagUnknown selector data) (ReplayUnknown selector' data') \<longleftrightarrow> selector' = selector \<and> data' = data"
| "same_report _ _ \<longleftrightarrow> False"

lemma same_report_lookup:
  "first_error N srcs data = first_error N srcs' data \<Longrightarrow> same_report (diag_lookup N srcs data) (replay_lookup N srcs' data)"
  unfolding diag_lookup_first replay_lookup_first by (auto simp: diag_custom_def split: option.split sum.split)

text \<open>C33: Where the two revert decoders of the tools agree, and where they do not. Let the selector of the revert data
  belong to at most one error of the four contracts that the registration's diagnosis asks. Then what \<open>audit-deploy\<close>
  prints and what the diagnosis logs do not depend on the order in which Go's maps are iterated. If it is no error
  of \<open>Fdc2Hub\<close>, both say the same: the same reason, the same error with the same arguments or the same failure to
  unpack them, or both that the selector is unknown. If it is one, either both report the reason of an
  \<open>Error(string)\<close>, or the diagnosis names the error and \<open>audit-deploy\<close>, which does not ask \<open>Fdc2Hub\<close>, prints that the
  selector is unknown.\<close>

theorem revert_decoders_agree:
  assumes "4 \<le> length (ExtractRevertData N err)" and "\<forall>md. same_errors (ne_Abi N md) (abi md)"
    and "\<And>name e name' e'. known_error N diag_sources (ExtractRevertData N err) name e \<Longrightarrow>
      known_error N diag_sources (ExtractRevertData N err) name' e' \<Longrightarrow> name' = name \<and> e' = e"
  defines "data \<equiv> ExtractRevertData N err"
  shows "replay_revert (N\<lparr>ne_Abi := abi\<rparr>) err = replay_revert N err \<and> diagnose (N\<lparr>ne_Abi := abi\<rparr>) err = diagnose N err \<and>
     (if \<exists>e. known_error N diag_sources data ''Fdc2Hub'' e
      then (\<exists>reason. diagnose N err = DiagReason reason \<and> replay_revert N err = ReplayReason reason) \<or>
        (\<exists>e. known_error N diag_sources data ''Fdc2Hub'' e \<and> diagnose N err = diag_custom ''Fdc2Hub'' e data \<and>
           replay_revert N err = ReplayUnknown (take 4 data) data)
      else same_report (diagnose N err) (replay_revert N err))"
proof -
  let ?N = "N\<lparr>ne_Abi := abi\<rparr>"
  have one: "one_error N data" unfolding one_error_def data_def using assms(3) by blast
  note same = known_error_reordered [OF assms(2)]
  have first: "first_error ?N replay_sources data = first_error N replay_sources data"
      "first_error ?N diag_sources data = first_error N diag_sources data"
    by (rule first_error_determined [OF one _ same], simp add: known_error_replay(1))
      (rule first_error_determined [OF one _ same])
  have fields: "ExtractRevertData ?N err = data" "ExtractRevertData N err = data" "te_UnpackRevert ?N d = te_UnpackRevert N d" for d
    by (simp_all add: ExtractRevertData_def data_def split: option.split err_data.split)
  have orders: "replay_revert ?N err = replay_revert N err" "diagnose ?N err = diagnose N err"
    by (simp_all only: replay_revert_def diagnose_def Let_def fields diag_lookup_first replay_lookup_first first)
  define reason where "reason = (if take 4 data = [0x08, 0xc3, 0x79, 0xa0] then te_UnpackRevert N data else None)"
  have long: "data \<noteq> []" "\<not> length data < 4" using assms(1) by (auto simp: data_def)
  have decoders:
    "diagnose N err = (case reason of Some r \<Rightarrow> DiagReason r | None \<Rightarrow> diag_lookup N diag_sources data)"
    "replay_revert N err = (case reason of Some r \<Rightarrow> ReplayReason r | None \<Rightarrow> replay_lookup N replay_sources data)"
    unfolding diagnose_def replay_revert_def Let_def fields reason_def using long by simp_all
  show ?thesis
  proof (cases "\<exists>e. known_error N diag_sources data ''Fdc2Hub'' e")
    case True
    then obtain e where k: "known_error N diag_sources data ''Fdc2Hub'' e" ..
    with first_error_Fdc2Hub [OF one k] show ?thesis
      using orders unfolding decoders by (cases reason) (auto simp: diag_lookup_first replay_lookup_first)
  next
    case False
    have "first_error N replay_sources data = first_error N diag_sources data"
    proof (rule first_error_determined [OF one])
      show "known_error N replay_sources data name e \<longleftrightarrow> known_error N diag_sources data name e" for name e
        using False known_error_replay [of N data name e] by blast
    qed
    with False orders same_report_lookup [of N diag_sources data replay_sources] show ?thesis
      unfolding decoders by (cases reason) auto
  qed
qed

lemma run_shown: "shown q l v = (Inr [l (q (w_now v))], v\<lparr>w_now := w_now v + 1\<rparr>)"
  by (simp add: shown_def handle_def ask_def ret_def split: sum.split)

lemma run_query_machine:
  "query_machine E tee v = (Inr (LineMachine (qe_TeeMachine E (w_now v) tee) #
     (if \<exists>p url. qe_TeeMachine E (w_now v) tee = Inr (0, p, url) then [LineUnregistered] else [])), v\<lparr>w_now := w_now v + 1\<rparr>)"
  by (auto simp: query_machine_def handle_def ask_def ret_def split: sum.split)

text \<open>Every question is asked of every machine, and a failed one shows as the error it failed with.\<close>

lemma run_query_tee:
  "query_tee E raw w =
     (let tee = qe_HexToAddress E raw; t = w_now w; m = qe_TeeMachine E t tee in
      (Inr ([LineTee tee, LineMachine m] @ (if \<exists>p url. m = Inr (0, p, url) then [LineUnregistered] else []) @
         [LineStatus (qe_Status E (t + 1) tee), LineTeeOwner (qe_Owner E (t + 2) tee),
          LineExtensionId (qe_ExtensionId E (t + 3) tee), LineLastChange (qe_LastStatusChangeTs E (t + 4) tee),
          LineInitialPolicy (qe_InitialSigningPolicyId E (t + 5) tee)]), w\<lparr>w_now := t + 6\<rparr>))"
  by (simp add: query_tee_def then_lines_def attempt_def handle_def ret_def run_shown run_query_machine Let_def eval_nat_numeral)

text \<open>The listing of active machines panics exactly when the contract returned fewer URLs than machines.\<close>

lemma active_lines_panics: "snd (active_lines i tees urls) \<longleftrightarrow> tees \<noteq> [] \<and> length urls < i + length tees"
  by (induction i tees urls rule: active_lines.induct) (auto split: prod.split)

section \<open>Concrete audits\<close>

definition demo_audit :: audit_env where
  "demo_audit =
     \<lparr>au_node = demo_node\<lparr>te_json_Contracts := \<lambda>d. Inr [\<lparr>raw_Name = ''FlareTeeManager'', raw_ContractName = [], raw_Address = ''0xd''\<rparr>]\<rparr>,
      au_BlockNumber = (\<lambda>t. Inl ''timeout''), au_CodeAt = (\<lambda>t a. if a = 13 then Inr [1, 2] else Inr []),
      au_Platforms = (\<lambda>t. Inl ''timeout''), au_NextPublicExtensionId = (\<lambda>t. Inr 65536), au_ExtensionOwner = (\<lambda>t i. Inr 7),
      au_CodeHashes = (\<lambda>t i. Inr []), au_KeyTypes = (\<lambda>t i. Inr [])\<rparr>"

theorem audit_deploy_report_witness:
  "\<exists>ls w'. audit_deploy_main demo_audit \<lparr>af_a = ''a'', af_rpc = ''c'', af_ext = -1, af_codeHash = [], af_platform = [],
       af_from = [], af_version = []\<rparr> (demo_world 0 None) = (Inr ls, w') \<and>
     LineContract ''FlareTeeManager'' 13 (StOk 2) \<in> set ls \<and> w_sent w' = []"
proof -
  let ?fl = "\<lparr>af_a = ''a'', af_rpc = ''c'', af_ext = -1, af_codeHash = [], af_platform = [], af_from = [], af_version = []\<rparr>"
  have parse: "ParseAddresses (au_node demo_audit) ''a'' (demo_world 0 None) =
      (Inr \<lparr>ad_FlareSystemManager = 0, ad_Fdc2Hub = 0, ad_FlareTeeManager = 13\<rparr>, demo_world 1 None)"
    by (simp add: ParseAddresses_def os_ReadFile_def comp_defs demo_audit_def store_address_def fieldMap_def
        Addresses_fields_def zero_Addresses_def)
  have env: "te_Dial (au_node demo_audit) t u = Inr ()" "te_ChainID (au_node demo_audit) t = Inr 114"
    "au_CodeAt demo_audit t 13 = Inr [1, 2]" for t u
    by (simp_all add: demo_audit_def)
  obtain r w' where run: "audit_deploy_main demo_audit ?fl (demo_world 0 None) = (r, w')" by fastforce
  from audit_deploy_report [where E = demo_audit and fl = ?fl and w = "demo_world 0 None"] show ?thesis
    unfolding run by (auto simp: parse env eq_commute [of "StOk _"])
qed

definition demo_error :: "bytes \<Rightarrow> string \<Rightarrow> abi_error" where
  "demo_error selector name = \<lparr>ae_name = name, ae_ID = bytes32_of_bytes (selector @ replicate 28 0), ae_Unpack = \<lambda>d. None, ae_Inputs = \<lambda>d. Inr ''[]''\<rparr>"

lemma demo_error_selector:
  "length sel = 4 \<Longrightarrow> take 4 (bytes_of_bytes32 (ae_ID (demo_error sel name))) = sel" "ae_name (demo_error sel name) = name"
  by (simp_all add: demo_error_def bytes32_of_bytes_inverse)

theorem revert_decoders_agree_witness:
  "replay_revert (demo_node\<lparr>ne_Abi := \<lambda>md. Inr (if md = ExtensionManager then
         [demo_error [1, 2, 3, 4] ''VersionAlreadyExists'', demo_error [5, 6, 7, 8] ''OnlyOwner''] else [])\<rparr>)
       \<lparr>re_text = ''execution reverted'', re_data = Some (DataBytes [1, 2, 3, 4])\<rparr> =
     ReplayError ''ExtensionManager'' ''VersionAlreadyExists'' ''[]''"
proof -
  let ?abi = "\<lambda>md. Inr (if md = ExtensionManager then
      [demo_error [5, 6, 7, 8] ''OnlyOwner'', demo_error [1, 2, 3, 4] ''VersionAlreadyExists''] else []) :: string + abi_error list"
  let ?abi' = "\<lambda>md. Inr (if md = ExtensionManager then
      [demo_error [1, 2, 3, 4] ''VersionAlreadyExists'', demo_error [5, 6, 7, 8] ''OnlyOwner''] else []) :: string + abi_error list"
  let ?N = "demo_node\<lparr>ne_Abi := ?abi\<rparr>" and ?err = "\<lparr>re_text = ''execution reverted'', re_data = Some (DataBytes [1, 2, 3, 4])\<rparr>"
  have data: "ExtractRevertData ?N ?err = [1, 2, 3, 4]" by (simp add: ExtractRevertData_def)
  have known: "known_error ?N srcs [1, 2, 3, 4] name e \<longleftrightarrow>
      (name, ExtensionManager) \<in> set srcs \<and> e = demo_error [1, 2, 3, 4] ''VersionAlreadyExists''" for srcs name e
    by (auto simp: known_error_def demo_error_selector split: if_splits)
  have "replay_revert (?N\<lparr>ne_Abi := ?abi'\<rparr>) ?err = replay_revert ?N ?err"
    using revert_decoders_agree [of ?N ?err ?abi'] by (auto simp: data known diag_sources_def)
  moreover have "replay_revert ?N ?err = ReplayError ''ExtensionManager'' ''VersionAlreadyExists'' ''[]''"
    by (simp add: replay_revert_def data replay_sources_def demo_error_selector) (simp add: demo_error_def)
  ultimately show ?thesis by simp
qed

end
