(* ===== verification/Processes.thy ===== *)
theory Processes
  imports Inspect
begin

text \<open>
  The processes around the extension: the three programs that run it (\<open>go/cmd/main.go\<close>, \<open>go/cmd/docker\<close>,
  \<open>go/cmd/start-tee\<close>), the gateway in front of it (\<open>go/cmd/workproof-gateway\<close>) and the local proxy
  (\<open>tools/cmd/start-proxy\<close>). A start-up is a function from the process environment to what is running or how
  the process ended. The node's server and the proxy are code of other repositories: of the first only the
  ports it is given appear, of the second that it was started.
\<close>

section \<open>Environment of a process\<close>

type_synonym environ = "string \<rightharpoonup> string"

definition os_Getenv :: "environ \<Rightarrow> string \<Rightarrow> string" where
  "os_Getenv env k = (case env k of None \<Rightarrow> [] | Some v \<Rightarrow> v)"

text \<open>How a program ended, or what it is now running.\<close>

datatype 'a process = Fatal string | Panicked | Exited | Running 'a

text \<open>\<open>px_rootEnv\<close> and \<open>px_cwdEnv\<close> are the variables of the two \<open>.env\<close> files, if they can be read; \<open>px_Listen\<close> is the
  error of \<open>ListenAndServe\<close>, if it is reported by the time the starting code looks.\<close>

record process_lib =
  px_ext :: ext_env
  px_node :: node_env
  px_AddressString :: "address \<Rightarrow> string"
  px_rootEnv :: "environ option"
  px_cwdEnv :: "environ option"
  px_Listen :: "http_server \<Rightarrow> string option"
  px_FileExists :: "string \<Rightarrow> bool"
  px_Join :: "string list \<Rightarrow> string"
  px_ProxyConfig :: "string \<Rightarrow> string + string"

text \<open>\<open>godotenv.Load\<close> does not override variables that exist.\<close>

definition loadEnv :: "process_lib \<Rightarrow> environ \<Rightarrow> environ" where
  "loadEnv P env =
     (case px_rootEnv P of
        Some file \<Rightarrow> file ++ env
      | None \<Rightarrow> (case px_cwdEnv P of Some file \<Rightarrow> file ++ env | None \<Rightarrow> env))"

section \<open>start-tee\<close>

definition ExtConfigurationPort :: int where "ExtConfigurationPort = 5501"
definition ExtProxyInternalPort :: int where "ExtProxyInternalPort = 6663"
definition ExtensionServerPort :: int where "ExtensionServerPort = 7701"
definition LocalExtensionPort :: int where "LocalExtensionPort = 7702"

definition setProxyURL :: "node_env \<Rightarrow> int \<Rightarrow> int \<Rightarrow> unit tool" where
  "setProxyURL E configurationPort proxyPort =
     (let url = ''http://localhost:'' @ dec_int proxyPort in
      attempt (lift (ne_json_ProxyURL E url)) (\<lambda>body.
      let url = ''http://localhost:'' @ dec_int configurationPort @ ''/proxy'' in
      attempt (ask (\<lambda>t. te_Post E t url body)) (\<lambda>resp.
      if hr_StatusCode resp \<noteq> 200 then throw (''unexpected status code: '' @ dec_int (hr_StatusCode resp)) else ret ())))"

definition setOwnerAddress :: "process_lib \<Rightarrow> environ \<Rightarrow> address process \<times> environ" where
  "setOwnerAddress P env =
     (let N = px_node P; owner = os_Getenv env ''INITIAL_OWNER'';
          done = (\<lambda>privKey. (Running (te_HexToAddress N owner),
            env(''INITIAL_OWNER'' \<mapsto> px_AddressString P (te_PubkeyToAddress N privKey)))) in
      if owner = [] then
        (let privKeyString = os_Getenv env ''DEPLOYMENT_PRIVATE_KEY'' in
         if privKeyString = [] then
           (case te_HexToECDSA N PrvWithFunds_hex of Inl err \<Rightarrow> (Panicked, env) | Inr privKey \<Rightarrow> done privKey)
         else
           (case te_HexToECDSA N (if HasPrefix privKeyString ''0x'' \<or> HasPrefix privKeyString ''0X''
                                  then drop 2 privKeyString else privKeyString) of
              Inl err \<Rightarrow> (Fatal (''Error: '' @ err), env)
            | Inr privKey \<Rightarrow> done privKey))
      else (Running (te_HexToAddress N owner), env))"

text \<open>A running extension: the ports the node's server was given, the extension and its environment.\<close>

record running =
  rn_node_ports :: "int \<times> int \<times> int"
  rn_extension :: Extension
  rn_environ :: environ

text \<open>Starting the extension's server and looking for an early error.\<close>

definition start_server :: "process_lib \<Rightarrow> ConfigVars \<Rightarrow> int \<Rightarrow> int \<Rightarrow> Extension process" where
  "start_server P c extensionPort signPort =
     (case StartExtension (px_ext P) c extensionPort signPort of
        Ok e \<Rightarrow> (case map_option (px_Listen P) (e_Server e) of
                   Some (Some err) \<Rightarrow> Fatal (''extension server failed to start: '' @ err)
                 | _ \<Rightarrow> Running e)
      | Err err \<Rightarrow> Fatal err
      | Panic \<Rightarrow> Panicked)"

definition runExtension :: "process_lib \<Rightarrow> ConfigVars \<Rightarrow> environ \<Rightarrow> world \<Rightarrow> running process \<times> world" where
  "runExtension P c env w =
     (case start_server P c LocalExtensionPort ExtensionServerPort of
        Running e \<Rightarrow>
          (case setProxyURL (px_node P) ExtConfigurationPort ExtProxyInternalPort w of
             (Inl err, w') \<Rightarrow> (Fatal (''Error: '' @ err), w')
           | (Inr _, w') \<Rightarrow>
               (Running \<lparr>rn_node_ports = (ExtConfigurationPort, ExtensionServerPort, LocalExtensionPort),
                         rn_extension = e, rn_environ = env\<rparr>, w'))
      | Fatal err \<Rightarrow> (Fatal err, w)
      | Panicked \<Rightarrow> (Panicked, w)
      | Exited \<Rightarrow> (Exited, w))"

text \<open>The variables of package \<open>config\<close> are set by its \<open>init\<close>, before \<open>main\<close> runs.\<close>

definition start_tee_main :: "process_lib \<Rightarrow> string \<Rightarrow> environ \<Rightarrow> world \<Rightarrow> running process \<times> world" where
  "start_tee_main P extensionID env w =
     (let c = config_init (os_Getenv env); env1 = loadEnv P env in
      case setOwnerAddress P env1 of
        (Running _, env2) \<Rightarrow>
          runExtension P c (if extensionID \<noteq> [] then env2(''EXTENSION_ID'' \<mapsto> extensionID) else env2) w
      | (Fatal err, _) \<Rightarrow> (Fatal err, w)
      | (Panicked, _) \<Rightarrow> (Panicked, w)
      | (Exited, _) \<Rightarrow> (Exited, w))"

section \<open>The other entry points\<close>

definition intEnv :: "environ \<Rightarrow> string \<Rightarrow> int \<Rightarrow> int" where
  "intEnv env key fallback = (case Atoi (os_Getenv env key) of Some v \<Rightarrow> v | None \<Rightarrow> fallback)"

text \<open>What ends the wait of the container's process: a signal, or the server's error.\<close>

datatype wait_end = Signal | ServerError string

definition docker_start :: "process_lib \<Rightarrow> environ \<Rightarrow> running process" where
  "docker_start P env =
     (let c = config_init (os_Getenv env); configPort = intEnv env ''CONFIG_PORT'' 5501;
          signPort = SignPort c; extensionPort = ExtensionPort c in
      case start_server P c extensionPort signPort of
        Running e \<Rightarrow> Running \<lparr>rn_node_ports = (configPort, signPort, extensionPort), rn_extension = e, rn_environ = env\<rparr>
      | Fatal err \<Rightarrow> Fatal err
      | Panicked \<Rightarrow> Panicked
      | Exited \<Rightarrow> Exited)"

definition docker_main :: "process_lib \<Rightarrow> environ \<Rightarrow> wait_end \<Rightarrow> running process" where
  "docker_main P env ev =
     (case docker_start P env of
        Running r \<Rightarrow> (case ev of Signal \<Rightarrow> Exited | ServerError err \<Rightarrow> Fatal (''extension server error: '' @ err))
      | p \<Rightarrow> p)"

text \<open>\<open>go/cmd/main.go\<close>: a method of a nil server panics; the error of a closed server is none.\<close>

definition extension_main :: "process_lib \<Rightarrow> environ \<Rightarrow> string option \<Rightarrow> Extension process" where
  "extension_main P env serve =
     (let c = config_init (os_Getenv env); e = New (px_ext P) c (ExtensionPort c) (SignPort c) in
      case e_Server e of
        None \<Rightarrow> Panicked
      | Some srv \<Rightarrow>
        (case serve of None \<Rightarrow> Running e
         | Some err \<Rightarrow> if err \<noteq> ''http: Server closed'' then Fatal (''server: '' @ err) else Exited))"

section \<open>workproof-gateway\<close>

datatype target = ExtensionProxy | CiphertextDir

definition gateway_route :: "string \<Rightarrow> target" where
  "gateway_route path =
     (if path = ''/info'' \<or> path = ''/instruction'' \<or> HasPrefix path ''/action/'' \<or> HasPrefix path ''/wallet/'' \<or>
         HasPrefix path ''/state''
      then ExtensionProxy else CiphertextDir)"

text \<open>The gateway is given the answers of the two handlers it forwards to.\<close>

definition gateway_handler :: "(string \<Rightarrow> 'r) \<Rightarrow> (string \<Rightarrow> 'r) \<Rightarrow> string \<Rightarrow> 'r" where
  "gateway_handler rp fs path = (case gateway_route path of ExtensionProxy \<Rightarrow> rp path | CiphertextDir \<Rightarrow> fs path)"

record gateway =
  gw_listen :: string
  gw_handler :: "string \<Rightarrow> http_resp"
  gw_ReadHeaderTimeout :: int
  gw_ReadTimeout :: int
  gw_WriteTimeout :: int
  gw_IdleTimeout :: int

definition gateway_main ::
  "(string \<Rightarrow> string + 'u) \<Rightarrow> ('u \<Rightarrow> string \<Rightarrow> http_resp) \<Rightarrow> (string \<Rightarrow> string \<Rightarrow> http_resp) \<Rightarrow>
   string \<Rightarrow> string \<Rightarrow> string \<Rightarrow> gateway process" where
  "gateway_main parse reverse_proxy file_server listen proxyTarget cipherDir =
     (case parse proxyTarget of
        Inl err \<Rightarrow> Fatal (''parse proxy target: '' @ err)
      | Inr target \<Rightarrow>
        Running \<lparr>gw_listen = listen, gw_handler = gateway_handler (reverse_proxy target) (file_server cipherDir),
          gw_ReadHeaderTimeout = 5000, gw_ReadTimeout = 30000, gw_WriteTimeout = 30000, gw_IdleTimeout = 60000\<rparr>)"

section \<open>start-proxy\<close>

text \<open>\<open>root\<close> is the project root that \<open>projectRoot\<close> computes from the place of the source file.\<close>

definition findProxyConfig :: "process_lib \<Rightarrow> string \<Rightarrow> environ \<Rightarrow> string" where
  "findProxyConfig P root env =
     (let envConfig = os_Getenv env ''PROXY_CONFIG''; candidate = px_Join P [root, ''config'', ''proxy'', ''extension_proxy.toml''] in
      if envConfig \<noteq> [] then envConfig
      else if px_FileExists P candidate then candidate
      else ''./config/proxy/extension_proxy.toml'')"

definition logProxyAndTeeIds :: "process_lib \<Rightarrow> string \<Rightarrow> (address \<times> address) tool" where
  "logProxyAndTeeIds P configFile =
     attempt_wrap ''failed to read proxy config: '' (lift (px_ProxyConfig P configFile)) (\<lambda>external.
     attempt_wrap ''failed to extract teeID and proxyID: '' (GetTeeProxyID (px_node P) (''http://localhost:'' @ external)) ret)"

text \<open>What the started proxy was configured with, and the ids or the warning that were logged.\<close>

definition start_proxy_main ::
  "process_lib \<Rightarrow> string \<Rightarrow> environ \<Rightarrow> world \<Rightarrow> (string \<times> (string + address \<times> address)) \<times> world" where
  "start_proxy_main P root env w =
     (let proxyConfigFile = findProxyConfig P root (loadEnv P env) in
      case logProxyAndTeeIds P proxyConfigFile w of (r, w') \<Rightarrow> ((proxyConfigFile, r), w'))"

section \<open>What the entry points start\<close>

text \<open>The copy of \<open>SetProxyUrl\<close> in \<open>start-tee\<close> does what the tools' function does.\<close>

lemma setProxyURL_copy: "setProxyURL = SetProxyUrl"
  by (intro ext) (simp add: setProxyURL_def SetProxyUrl_def Let_def)

text \<open>The configurations on which \<open>New\<close> returns before the server exists.\<close>

definition misconfigured :: "ext_env \<Rightarrow> ConfigVars \<Rightarrow> bool" where
  "misconfigured X c \<longleftrightarrow> WorkProofRPCURL c \<noteq> [] \<and> WorkProofEscrowAddress c \<noteq> [] \<and>
     ((\<exists>err. parseRequiredAddress X ''WORKPROOF_ESCROW_ADDRESS'' (WorkProofEscrowAddress c) = Inl err) \<or>
      (\<exists>err. parseRequiredAddress X ''WORKPROOF_RANDOM_NUMBER_V2_ADDRESS'' (WorkProofRandomNumberV2Addr c) = Inl err))"

lemma StartExtension_cases:
  "StartExtension X c ep sp = (if misconfigured X c then Panic else Ok (New X c ep sp))"
  "e_Server (New X c ep sp) = None \<longleftrightarrow> misconfigured X c"
proof -
  show "StartExtension X c ep sp = (if misconfigured X c then Panic else Ok (New X c ep sp))"
    using StartExtension_panics_iff [of X c ep sp]
    by (auto simp: misconfigured_def StartExtension_def Let_def split: option.splits)
  then show "e_Server (New X c ep sp) = None \<longleftrightarrow> misconfigured X c"
    by (auto simp: StartExtension_def Let_def split: option.splits if_splits)
qed

lemma start_server_cases:
  "start_server P c ep sp = Panicked \<longleftrightarrow> misconfigured (px_ext P) c"
  "start_server P c ep sp = Running e \<longleftrightarrow>
     (\<exists>srv. e = New (px_ext P) c ep sp \<and> e_Server e = Some srv \<and> px_Listen P srv = None)"
  "start_server P c ep sp \<noteq> Exited"
  using StartExtension_cases(2) [of "px_ext P" c ep sp]
  by (auto simp: start_server_def StartExtension_cases(1) split: option.splits if_splits)

text \<open>C35: The three programs that run the extension crash on the same configurations and serve the same
  extension otherwise. Each of them panics at its start exactly when an RPC URL and an escrow address are set in the
  environment it was started in and one of the two addresses is malformed or zero (\<open>start-tee\<close> also when
  its built-in key is rejected); otherwise the extension that runs is the one of that environment, with a server, on
  the ports the node was told.\<close>

theorem extension_processes_agree:
  assumes "c = config_init (os_Getenv env)"
  shows "(extension_main P env serve = Panicked \<longleftrightarrow> misconfigured (px_ext P) c) \<and>
     (docker_main P env ev = Panicked \<longleftrightarrow> misconfigured (px_ext P) c) \<and>
     (fst (setOwnerAddress P (loadEnv P env)) = Running a \<longrightarrow>
        (fst (start_tee_main P x env w) = Panicked \<longleftrightarrow> misconfigured (px_ext P) c)) \<and>
     (\<forall>e. extension_main P env serve = Running e \<longrightarrow> e = New (px_ext P) c (ExtensionPort c) (SignPort c) \<and> e_Server e \<noteq> None) \<and>
     (\<forall>r. docker_start P env = Running r \<or> fst (start_tee_main P x env w) = Running r \<longrightarrow>
        (\<exists>configPort sp ep. rn_node_ports r = (configPort, sp, ep) \<and> rn_extension r = New (px_ext P) c ep sp \<and>
           e_Server (rn_extension r) \<noteq> None))"
proof (intro conjI)
  show "extension_main P env serve = Panicked \<longleftrightarrow> misconfigured (px_ext P) c"
    using StartExtension_cases(2) [of "px_ext P" c "ExtensionPort c" "SignPort c"]
    by (auto simp: extension_main_def Let_def assms split: option.splits)
  show "docker_main P env ev = Panicked \<longleftrightarrow> misconfigured (px_ext P) c"
    using start_server_cases(1,3) [of P c "ExtensionPort c" "SignPort c"]
    by (auto simp: docker_main_def docker_start_def Let_def assms split: process.splits wait_end.splits)
  show "fst (setOwnerAddress P (loadEnv P env)) = Running a \<longrightarrow>
      (fst (start_tee_main P x env w) = Panicked \<longleftrightarrow> misconfigured (px_ext P) c)"
    using start_server_cases(1) [of P c LocalExtensionPort ExtensionServerPort]
    by (auto simp: start_tee_main_def runExtension_def Let_def assms split: process.splits prod.splits sum.splits)
  show "\<forall>e. extension_main P env serve = Running e \<longrightarrow> e = New (px_ext P) c (ExtensionPort c) (SignPort c) \<and> e_Server e \<noteq> None"
    by (auto simp: extension_main_def Let_def assms split: option.splits if_splits)
  have "\<exists>configPort sp ep. rn_node_ports r = (configPort, sp, ep) \<and> rn_extension r = New (px_ext P) c ep sp \<and> e_Server (rn_extension r) \<noteq> None"
    if "docker_start P env = Running r" for r
    using that by (auto simp: docker_start_def start_server_cases(2) Let_def assms split: process.splits)
  moreover have "\<exists>configPort sp ep. rn_node_ports r = (configPort, sp, ep) \<and> rn_extension r = New (px_ext P) c ep sp \<and> e_Server (rn_extension r) \<noteq> None"
    if "fst (start_tee_main P x env w) = Running r" for r
    using that by (auto simp: start_tee_main_def runExtension_def start_server_cases(2) Let_def assms split: process.splits prod.splits sum.splits)
  ultimately show "\<forall>r. docker_start P env = Running r \<or> fst (start_tee_main P x env w) = Running r \<longrightarrow>
      (\<exists>configPort sp ep. rn_node_ports r = (configPort, sp, ep) \<and> rn_extension r = New (px_ext P) c ep sp \<and>
         e_Server (rn_extension r) \<noteq> None)" by blast
qed

lemma setOwnerAddress_Running:
  assumes "setOwnerAddress P env = (Running a, env')"
  shows "a = te_HexToAddress (px_node P) (os_Getenv env ''INITIAL_OWNER'')" and "k \<noteq> ''INITIAL_OWNER'' \<Longrightarrow> env' k = env k"
    and "if os_Getenv env ''INITIAL_OWNER'' \<noteq> [] then env' = env
      else \<exists>privKey. os_Getenv env' ''INITIAL_OWNER'' = px_AddressString P (te_PubkeyToAddress (px_node P) privKey) \<and>
        (\<forall>dev v. te_HexToECDSA (px_node P) PrvWithFunds_hex = Inr dev \<and>
           (\<forall>t. te_Getenv (px_node P) t ''DEPLOYMENT_PRIVATE_KEY'' = os_Getenv env ''DEPLOYMENT_PRIVATE_KEY'') \<longrightarrow>
           fst (DefaultPrivateKey (px_node P) dev v) = Inr privKey)"
  using assms
  by (auto simp: setOwnerAddress_def DefaultPrivateKey_def comp_defs os_Getenv_def Let_def split: if_splits sum.splits option.splits)

text \<open>C36: What \<open>start-tee\<close> makes of its environment. In the running process the variables are those of the
  environment and of the \<open>.env\<close> file, the extension id is the flag's, and the initial owner is the one set or else
  the account of the very key the deployment tools use by default. The extension's configuration, however,
  is that of the environment alone: the file is read after package \<open>config\<close> was initialised, so that an RPC URL
  that stands only in the file leaves the verifier off although the variable is set.\<close>

theorem start_tee_environment:
  assumes "fst (start_tee_main P x env w) = Running r"
  shows "rn_extension r = New (px_ext P) (config_init (os_Getenv env)) LocalExtensionPort ExtensionServerPort \<and>
     (os_Getenv env ''WORKPROOF_RPC_URL'' = [] \<longrightarrow> e_verifier (rn_extension r) = None) \<and>
     (\<forall>k. k \<noteq> ''INITIAL_OWNER'' \<and> k \<noteq> ''EXTENSION_ID'' \<longrightarrow> rn_environ r k = loadEnv P env k) \<and>
     (x \<noteq> [] \<longrightarrow> rn_environ r ''EXTENSION_ID'' = Some x) \<and>
     (if os_Getenv (loadEnv P env) ''INITIAL_OWNER'' \<noteq> []
      then os_Getenv (rn_environ r) ''INITIAL_OWNER'' = os_Getenv (loadEnv P env) ''INITIAL_OWNER''
      else \<exists>privKey. os_Getenv (rn_environ r) ''INITIAL_OWNER'' = px_AddressString P (te_PubkeyToAddress (px_node P) privKey) \<and>
        (\<forall>dev v. te_HexToECDSA (px_node P) PrvWithFunds_hex = Inr dev \<and>
           (\<forall>t. te_Getenv (px_node P) t ''DEPLOYMENT_PRIVATE_KEY'' = os_Getenv (loadEnv P env) ''DEPLOYMENT_PRIVATE_KEY'') \<longrightarrow>
           fst (DefaultPrivateKey (px_node P) dev v) = Inr privKey))"
proof -
  let ?c = "config_init (os_Getenv env)"
  from assms obtain a env2 where o: "setOwnerAddress P (loadEnv P env) = (Running a, env2)"
    and r: "fst (runExtension P ?c (if x \<noteq> [] then env2(''EXTENSION_ID'' \<mapsto> x) else env2) w) = Running r"
    by (auto simp: start_tee_main_def Let_def split: prod.splits process.splits)
  from r have e: "rn_extension r = New (px_ext P) ?c LocalExtensionPort ExtensionServerPort"
    and env: "rn_environ r = (if x \<noteq> [] then env2(''EXTENSION_ID'' \<mapsto> x) else env2)"
    by (auto simp: runExtension_def start_server_cases(2) split: process.splits prod.splits sum.splits)
  have "e_verifier (rn_extension r) = None" if "os_Getenv env ''WORKPROOF_RPC_URL'' = []"
    using that by (simp add: e New_def config_init_def with_server_def empty_extension_def Let_def)
  moreover have "\<forall>k. k \<noteq> ''INITIAL_OWNER'' \<and> k \<noteq> ''EXTENSION_ID'' \<longrightarrow> rn_environ r k = loadEnv P env k"
    using setOwnerAddress_Running(2) [OF o] by (simp add: env)
  moreover have "x \<noteq> [] \<longrightarrow> rn_environ r ''EXTENSION_ID'' = Some x" by (simp add: env)
  moreover have own: "os_Getenv (rn_environ r) ''INITIAL_OWNER'' = os_Getenv env2 ''INITIAL_OWNER''"
    by (simp add: env os_Getenv_def)
  ultimately show ?thesis
    using e setOwnerAddress_Running(3) [OF o] unfolding own by (cases "os_Getenv (loadEnv P env) ''INITIAL_OWNER'' \<noteq> []") simp_all
qed

section \<open>What the gateway forwards\<close>

lemma hex_EncodeToString_chars: "c \<in> set (hex_EncodeToString bs) \<Longrightarrow> \<exists>d < 16. c = hex_char d"
  by (induction bs) (auto simp: hex_EncodeToString_def hex_encode_byte_def, (blast intro: unat_byte_nibbles)+)

lemma HasPrefix_set: "HasPrefix s p \<Longrightarrow> set p \<subseteq> set s"
  unfolding HasPrefix_def by (metis set_take_subset)

text \<open>The gateway keeps apart what the extension's proxy answers and what is stored. The node's information and the
  results the tools poll for are forwarded; a ciphertext under the name \<open>workproof-phase5\<close> stores it under, the
  hexadecimal hash, is always served from the directory.\<close>

theorem gateway_separates:
  assumes "gateway_main parse rp fs listen proxyTarget dir = Running g" and "parse proxyTarget = Inr u"
  shows "gw_handler g ''/info'' = rp u ''/info'' \<and>
     gw_handler g (''/action/result/'' @ Hash_Hex i) = rp u (''/action/result/'' @ Hash_Hex i) \<and>
     gw_handler g (''/'' @ hex_EncodeToString (bytes_of_bytes32 h)) = fs dir (''/'' @ hex_EncodeToString (bytes_of_bytes32 h))"
proof -
  have g: "gw_handler g = gateway_handler (rp u) (fs dir)"
    using assms by (auto simp: gateway_main_def)
  let ?name = "hex_EncodeToString (bytes_of_bytes32 h)"
  have hexdigits: "is_hex_digit c" if "c \<in> set ?name" for c
    using hex_EncodeToString_chars [OF that] hex_char_props by auto
  have "\<not> is_hex_digit CHR ''t''" "\<not> is_hex_digit CHR ''n''"
    by (simp_all add: is_hex_digit_def is_digit_def char_in_def)
  then have no: "CHR ''t'' \<notin> set (''/'' @ ?name)" "CHR ''n'' \<notin> set (''/'' @ ?name)"
    using hexdigits by auto
  have "\<not> HasPrefix (''/'' @ ?name) p" if "CHR ''t'' \<in> set p" for p
    using HasPrefix_set [of "''/'' @ ?name" p] no(1) that by blast
  moreover have "?name \<noteq> ''info''" "?name \<noteq> ''instruction''"
    using no(2) by auto
  ultimately have "gateway_route (''/'' @ ?name) = CiphertextDir"
    by (simp add: gateway_route_def)
  then show ?thesis by (simp add: g gateway_handler_def) (simp add: gateway_route_def HasPrefix_def)
qed

section \<open>Concrete start-ups\<close>

text \<open>A machine on which the RPC URL and the owner's key stand in the \<open>.env\<close> file only.\<close>

definition demo_process :: process_lib where
  "demo_process =
     \<lparr>px_ext = demo_ext, px_node = demo_node\<lparr>te_HexToECDSA := \<lambda>h. Inr 1\<rparr>, px_AddressString = (\<lambda>a. ''0x7''),
      px_rootEnv = Some [''WORKPROOF_RPC_URL'' \<mapsto> ''http://node''], px_cwdEnv = None, px_Listen = (\<lambda>s. None),
      px_FileExists = (\<lambda>p. False), px_Join = concat, px_ProxyConfig = (\<lambda>p. Inl ''not found'')\<rparr>"

lemma demo_process_simps [simp]:
  "px_ext demo_process = demo_ext" "px_AddressString demo_process a = ''0x7''"
  "loadEnv demo_process Map.empty = [''WORKPROOF_RPC_URL'' \<mapsto> ''http://node'']"
  by (simp_all add: demo_process_def loadEnv_def)

lemma demo_config: "config_init (os_Getenv Map.empty) = config_defaults"
  by (simp add: config_init_def os_Getenv_def config_defaults_def)

lemma demo_server:
  "New demo_ext config_defaults ep sp = with_server ep empty_extension"
  "start_server demo_process config_defaults ep sp = Running (with_server ep empty_extension)"
  by (simp_all add: start_server_def StartExtension_def New_def config_defaults_def demo_process_def with_server_def)

lemma demo_start_tee: "\<exists>r w'. start_tee_main demo_process ''0x1'' Map.empty (demo_world 0 None) = (Running r, w')"
proof -
  have "setProxyURL (px_node demo_process) p q w = (Inr (), w\<lparr>w_now := w_now w + 1\<rparr>)" for p q w
    by (simp add: setProxyURL_def demo_process_def comp_defs demo_node_def)
  moreover have "\<exists>a env. setOwnerAddress demo_process [''WORKPROOF_RPC_URL'' \<mapsto> ''http://node''] = (Running a, env)"
    by (simp add: setOwnerAddress_def demo_process_def os_Getenv_def)
  ultimately show ?thesis
    by (auto simp: start_tee_main_def runExtension_def demo_config demo_server Let_def)
qed

theorem start_tee_environment_witness:
  "\<exists>r w'. start_tee_main demo_process ''0x1'' Map.empty (demo_world 0 None) = (Running r, w') \<and>
     e_verifier (rn_extension r) = None \<and> rn_environ r ''WORKPROOF_RPC_URL'' = Some ''http://node'' \<and>
     rn_environ r ''EXTENSION_ID'' = Some ''0x1'' \<and> os_Getenv (rn_environ r) ''INITIAL_OWNER'' = ''0x7''"
proof -
  obtain r w' where run: "start_tee_main demo_process ''0x1'' Map.empty (demo_world 0 None) = (Running r, w')"
    using demo_start_tee by blast
  then have "fst (start_tee_main demo_process ''0x1'' Map.empty (demo_world 0 None)) = Running r" by simp
  note t = start_tee_environment [OF this, unfolded demo_process_simps]
  have env: "os_Getenv Map.empty ''WORKPROOF_RPC_URL'' = []" "os_Getenv [''WORKPROOF_RPC_URL'' \<mapsto> ''http://node''] ''INITIAL_OWNER'' = []"
    by (simp_all add: os_Getenv_def)
  from t have "e_verifier (rn_extension r) = None" "rn_environ r ''WORKPROOF_RPC_URL'' = Some ''http://node''"
    "rn_environ r ''EXTENSION_ID'' = Some ''0x1''" "os_Getenv (rn_environ r) ''INITIAL_OWNER'' = ''0x7''"
    by (simp_all add: env demo_config demo_server(1) with_server_def empty_extension_def)
  with run show ?thesis by blast
qed

theorem extension_processes_agree_witness:
  "extension_main demo_process Map.empty None = Running (with_server 8080 empty_extension) \<and>
     docker_main demo_process Map.empty Signal \<noteq> Panicked"
proof -
  have "\<not> misconfigured demo_ext config_defaults" by (simp add: misconfigured_def config_defaults_def)
  then have "docker_main demo_process Map.empty Signal \<noteq> Panicked"
    using extension_processes_agree [OF refl, of demo_process Map.empty None Signal] by (simp add: demo_config)
  moreover have "extension_main demo_process Map.empty None = Running (with_server 8080 empty_extension)"
    by (simp add: extension_main_def demo_config demo_server with_server_def Let_def) (simp add: config_defaults_def)
  ultimately show ?thesis by blast
qed

theorem gateway_separates_witness:
  "\<exists>g. gateway_main Inr (\<lambda>u p. \<lparr>hr_StatusCode = 200, hr_Body = [], hr_ReadErr = None\<rparr>)
       (\<lambda>d p. \<lparr>hr_StatusCode = 404, hr_Body = [], hr_ReadErr = None\<rparr>) ''127.0.0.1:7790'' ''http://127.0.0.1:6674'' ''/tmp'' = Running g \<and>
     hr_StatusCode (gw_handler g ''/info'') = 200 \<and>
     hr_StatusCode (gw_handler g (''/'' @ hex_EncodeToString (bytes_of_bytes32 5))) = 404"
proof -
  let ?m = "gateway_main (Inr :: string \<Rightarrow> string + string) (\<lambda>u p. \<lparr>hr_StatusCode = 200, hr_Body = [], hr_ReadErr = None\<rparr>)
       (\<lambda>d p. \<lparr>hr_StatusCode = 404, hr_Body = [], hr_ReadErr = None\<rparr>) ''127.0.0.1:7790'' ''http://127.0.0.1:6674'' ''/tmp''"
  obtain g where g: "?m = Running g" by (simp add: gateway_main_def)
  from gateway_separates [OF g refl, of 0 5] g show ?thesis by auto
qed

end
