(* ===== verification/Spec2Isabelle.thy ===== *)
theory Spec2Isabelle
  imports Extension Checks EscrowRefinement RegistrationSafety CommandsSafety Phase5Runs Spike Processes
begin

text \<open>
  WorkProof: a verification development.

  The program pays a contractor for a smart contract when hidden tests pass. A client escrows tokens in
  \<open>contracts/WorkProofEscrow.sol\<close> together with the hash of a private test bundle; the contractor submits
  an artifact; the contract locks public randomness and dispatches the attempt to a trusted execution
  environment. There the Go extension (\<open>go/internal/extension\<close>) receives the instruction, the verifier
  (\<open>go/internal/verifier\<close>) checks it against the chain, fetches and decrypts the bundle, draws the tests from
  the randomness, runs them against the artifact through a read-only node, and returns a verdict that the
  enclave signs. Anyone may relay the signed verdict to \<open>settleAttempt\<close>, which pays the contractor, lets him
  resubmit, or keeps the money for a later refund. The deployer's tools (\<open>tools/\<close>) register the extension
  and the enclave, and check a deployment.

  Theories and what they model, in the order they build on each other:

  \<^item> \<open>Prelude\<close>: machine words, the three endings of a Go call (value, error, panic), guard chains, big-endian
    bytes, and the contracts \<open>invariant_machine\<close>, \<open>monotone_machine\<close> and \<open>forward_simulation\<close>.
  \<^item> \<open>GoLib\<close>: what the program uses of Go's standard library (hex, base64, strings, strconv, JSON strings,
    classes of IP addresses).
  \<^item> \<open>Config\<close>: \<open>go/internal/config/config.go\<close>. \<open>WorkProofTypes\<close>: \<open>go/pkg/types/workproof.go\<close>, the wire types.
  \<^item> \<open>Bundle\<close>: \<open>bundle.go\<close> and \<open>validate.go\<close>. \<open>Validate\<close> keeps the code's checks in their order. The JSON
    schema is a specification of its own, its discriminated union a datatype; \<open>Validate\<close> accepts exactly the
    bundles of the schema that are within the engine's caps and obey the code's further rules, so it is stricter
    than the schema.
  \<^item> \<open>Select\<close>: \<open>SelectVectors\<close>, the seeded shuffle, with the interface \<open>index_selector\<close>.
  \<^item> \<open>Exec\<close>: the five vector executors of \<open>vectors.go\<close> and \<open>hash.go\<close>, against the declarative meaning of a
    vector; the interface \<open>vector_executor\<close> is what the verifier's run needs.
  \<^item> \<open>Fetcher\<close>: \<open>ciphertext.go\<close>, the fetcher hardened against request forgery. State: the pinned addresses and
    the transport's idle connections; a ghost list records every connection used.
  \<^item> \<open>Decrypt\<close>: \<open>decrypt.go\<close>. \<open>Verifier\<close>: \<open>verifier.go\<close>, from the instruction to the verdict.
  \<^item> \<open>Settlement\<close>: \<open>settleAttempt\<close> with its binding checks and digest (\<open>FccVerdict.sol\<close>), and that every
    verdict of the verifier is accepted by it.
  \<^item> \<open>Extension\<close>: \<open>go/internal/extension\<close>, \<open>go/pkg/server\<close>: construction, routes, handlers, counters.
  \<^item> \<open>Spike\<close>: the digest the enclave signs (\<open>go/internal/workproof/action_result_digest.go\<close>) and \<open>go/cmd/fcc-spike\<close>,
    which writes the signed fixture of the contract's tests; with it, that a verdict of the extension signed by
    an enclave settles.
  \<^item> \<open>Simulation\<close>: \<open>go/internal/workproof/simulation.go\<close>, the repository's own laboratory of the escrow.
  \<^item> \<open>Escrow\<close>, \<open>EscrowSafety\<close>, \<open>EscrowRefinement\<close>: the whole contract, its guarantees over every history of
    calls, and that the laboratory simulates it.
  \<^item> \<open>Report\<close>, \<open>Checks\<close>: \<open>tools/pkg/validate\<close> and \<open>tools/cmd/verify-deploy\<close>.
  \<^item> \<open>Tools\<close>, \<open>Registration\<close>, \<open>RegistrationSafety\<close>, \<open>ExtensionSetup\<close>: \<open>tools/pkg/support\<close>,
    \<open>tools/pkg/fccutils\<close> and \<open>tools/pkg/utils\<close>. A tool is a computation on a world that records the
    transactions sent, the files and the time slept, so that a failed run leaves exactly what it had done.

  \<^item> \<open>Commands\<close>, \<open>CommandsSafety\<close>: the commands under \<open>tools/cmd\<close> that act on the chain (\<open>register-tee\<close>,
    \<open>allow-tee-version\<close>, \<open>set-governance\<close>, \<open>deploy-contract\<close>, \<open>deploy-workproof-escrow\<close>, \<open>register-extension\<close>,
    \<open>set-workproof-extension-id\<close>, \<open>run-test\<close>), each one computation over the libraries above.
  \<^item> \<open>Inspect\<close>: the commands that only look, \<open>audit-deploy\<close> and \<open>query-tee\<close>, the first with its replay of
    \<open>addTeeVersion\<close> and its own decoder of custom errors. \<open>Processes\<close>: the starting of the processes
    (\<open>go/cmd/main.go\<close>, \<open>docker\<close>, \<open>start-tee\<close>, \<open>workproof-gateway\<close>, \<open>start-proxy\<close>): ports, the environment they
    set and read, and what ends them.
  \<^item> \<open>Phase5\<close>, \<open>Phase5Safety\<close>, \<open>Phase5Runs\<close>: \<open>go/cmd/workproof-phase5\<close>, the command that takes a job from its
    creation to payment or refund, running on the contract of \<open>Escrow\<close>. Its world is the contract, the clock,
    the files and its own mined transactions; \<open>dx_others\<close> are the calls of other parties mined before each
    interaction, and the fate of a transaction (refused, lost, mined in some block) is a parameter. The locales
    \<open>driver_relation\<close> and \<open>driver_contract\<close> give what holds of a run from what holds of time passing and of
    one mined transaction. \<open>Phase5Runs\<close> executes whole runs: a payment, a refund, and two that go wrong.

  How state is represented. A Go struct is a record, a method a function that returns the new record; a
  Solidity call is a function from the storage to a revert or the new storage with its token transfers. Job
  histories are the runs of the relation \<open>escrow_run\<close>, laboratory histories those of \<open>sim_step\<close>, and the
  other stateful parts are folds of their operations. Errors are the left values of a sum, and Go panics a
  constructor of their own. Integers that can wrap are words; \<open>uint256\<close> values are \<open>int\<close> with the checked
  arithmetic of Solidity written out. \<open>time.Duration\<close> values are milliseconds unless a theory says otherwise (nanoseconds in \<open>Phase5\<close>,
  where \<open>Seconds\<close> rounds as the \<open>float64\<close> it is).

  What the environment is. Everything outside the sources is a field of an environment record that a
  definition takes as an argument: the Ethereum node and its contracts, name resolution and network peers, the
  clock, the file system, the enclave's node, and third-party libraries (keccak256, ABI, JCS, JSON decoding,
  ECDSA recovery). Fields that stand for services take the moment of the call (a tick), so they may answer
  differently each time and may be hostile. No theorem assumes anything of them that it does not name.

  What the lemmas show. \<open>payment_is_earned\<close> joins the components: a payment implies that the committed tests
  were run on the paid artifact and passed. The verifier's group shows when verdicts are issued, what they
  bind and that outages never decide a test; the fetcher's, that no history of fetches reaches a
  private address; the escrow's, solvency, frozen terms, refunds nobody can block and at most one payment;
  the tools', that interrupted registrations resume without repeating or losing a step, also when whole
  commands are repeated, and that a deployment is sent once, with checked arguments. \<open>signed_verdict_settles\<close> and the lemmas beside it join
  the enclave's digest to the contract's, byte for byte; the processes' group, that the ways of starting the
  extension agree on its ports and configuration. The driver's group
  shows which transactions a successful run makes, what becomes of its job and its tokens, that its bundle is
  one the enclave accepts and measures what it should, and two situations in which it loses its way.

  Termination and bounds. All loops terminate and are total functions: the redirect loop is bounded by the code's limit of three
  redirects (a measure, not fuel), selection by the number of draws, polling by the number of
  tries in the code. The driver's two waiting loops end because the clock passes their deadline: the measure
  is the time left, at most 38 rounds of 20 seconds for the randomness. No definition uses fuel.

  Not modelled, because the sources do not contain it or it decides nothing: the generated contract bindings
  (an environment's field per call), the server of the enclave's node and the proxy, whose code is in other
  repositories, the text of log messages, the delivery of signals other than as the event that ends a
  process, Solidity events, and the scaffolds in other languages. No further part of the Go program is planned.
\<close>

section \<open>From tests to payment\<close>

text \<open>A verification run in which every selected hidden test of the committed bundle passed.\<close>

definition payment_run ::
  "ext_env \<Rightarrow> tick \<Rightarrow> Action \<Rightarrow> VerifierConfig \<Rightarrow> CiphertextFetcher \<Rightarrow> WorkProofInstruction \<Rightarrow> EscrowJob \<Rightarrow> bool" where
  "payment_run X t a cfg f instr job \<longleftrightarrow>
     (\<exists>rn now b sel os h.
        identity_established cfg (xe_ve X) t [AttemptTotalTimeout] (ac_ID a) instr job rn now \<and>
        bundle_committed cfg (xe_ve X) (t + 4) instr f b \<and>
        executed_run (xe_ve X) t [AttemptTotalTimeout] instr rn b sel os h \<and>
        length sel = nat (b_SelectionCount b) \<and> distinct sel \<and>
        (\<forall>k < length sel. sel ! k < length (b_Vectors b) \<and>
           selected_passes (xe_ve X) t [AttemptTotalTimeout] instr b sel k))"

text \<open>C1: Payment is earned, end to end. Suppose the escrow pays on a result the extension produced: the
  submitted data and status are those of the VERIFY result, and the contract's decoder inverts the
  extension's encoder. Then the verifier established the identity of the very attempt being paid, for
  this escrow, chain, job and instruction; the bundle it ran is the one whose hash the job carries; the
  artifact is the one the job names, with the code the contract still sees; every one of the
  \<open>selectionCount\<close> distinct vectors drawn by the committed randomness passed; and exactly the principal
  goes to the contractor and the fee to the treasury.\<close>

theorem payment_is_earned:
  assumes "processVerify X t a df e = (Ok ar, e')"
    and "settleAttempt L decode ecrecover treasury B jid args j = Inr (j', transfers)" and "transfers \<noteq> []"
    and "sa_data args = ar_Data ar" and "sa_status args = ar_Status ar"
    and "\<And>v data. xe_EncodeVerdict X v = Inr data \<Longrightarrow> decode data = Some v"
  shows "\<exists>cfg f instr job. e_verifier e = Some (cfg, f) \<and>
     xe_DecodeInstruction X (df_OriginalMessage df) = Inr instr \<and> payment_run X t a cfg f instr job \<and>
     wi_JobId instr = Some jid \<and> ve_GetJob (xe_ve X) t jid = Inr job \<and> vc_EscrowAddress cfg = bk_this B \<and>
     uint (vc_ChainID cfg) = bk_chainid B \<and> ar_ID ar = at_instructionId (ej_current j) \<and>
     wi_SpecHash instr = jt_specHash (ej_terms j) \<and> wi_PrivateBundleHash instr = jt_privateBundleHash (ej_terms j) \<and>
     wi_ArtifactAddress instr = at_artifactAddress (ej_current j) \<and>
     wi_ArtifactBlock instr = Some (at_artifactBlock (ej_current j)) \<and>
     wi_ArtifactCodeHash instr = bk_codehash B (at_artifactAddress (ej_current j)) \<and>
     transfers = [(jt_contractor (ej_terms j), jt_principal (ej_terms j)), (treasury, jt_fee (ej_terms j))]"
proof -
  from assms(2) obtain w where ok: "settle_call_ok L decode ecrecover B args j w" and c: "checkBinding B j w jid = None"
    and r: "(j', transfers) = (let oc = vo_Outcome (v1_Result w);
                 outcome = (if oc = OutcomeFail \<or> oc = OutcomeInconclusive then oc else OutcomePass) in
             (j\<lparr>ej_state := settled_state B j outcome, ej_settled := (ej_settled j \<or> outcome = OutcomePass)\<rparr>,
              settled_transfers treasury j outcome))"
    unfolding settleAttempt_Inr_iff by blast
  have "ar_Status ar = 1" using ok assms(5) by (simp add: settle_call_ok_def)
  from processVerify_produced [OF assms(1) this] obtain v cfg f instr f' where
    v: "e_verifier e = Some (cfg, f)" "xe_DecodeInstruction X (df_OriginalMessage df) = Inr instr"
      "Verify cfg (xe_ve X) t [] (ac_ID a) instr f = (Ok v, f')" "xe_EncodeVerdict X v = Inr (ar_Data ar)"
    unfolding produced_verdict_def by blast
  have w: "w = v" using ok assms(4) assms(6) [OF v(4)] by (simp add: settle_call_ok_def)
  from Verify_verdict_bound [OF v(3)] obtain job where
    job: "wi_JobId instr = Some jid" "ve_GetJob (xe_ve X) t jid = Inr job" "verdict_bound cfg jid job v"
    using c w by (auto simp: checkBinding_def checkIdentity_def verdict_bound_def split: option.splits if_splits)
  with r w assms(3) have pass: "vo_Outcome (v1_Result v) = OutcomePass"
    and tr: "transfers = settled_transfers treasury j OutcomePass"
    by (auto simp: Let_def settled_transfers_def verdict_bound_def split: if_splits)
  have fields: "v1_Id v = verdictIdentityFrom instr (ac_ID a)" "vo_ArtifactCodeHash (v1_Result v) = wi_ArtifactCodeHash instr"
    using Verify_verdict_fields [OF v(3)] by simp_all
  have id: "checkIdentity B j (v1_Id v) jid = None" "checkOutcomeBinding B j (v1_Result v) = None"
    using c w by (simp_all add: checkBinding_def split: option.splits)
  have "job' = job" if "identity_established cfg (xe_ve X) t ctx i instr job' rn now" for ctx i job' rn now
    using that job(1,2) by (simp add: identity_established_def)
  with Verify_pass_earned [OF v(3) pass] have run: "payment_run X t a cfg f instr job"
    unfolding payment_run_def by blast
  have "ar_ID ar = ac_ID a" using assms(1) by (rule processVerify_ID)
  with id fields have "ar_ID ar = at_instructionId (ej_current j)" "wi_SpecHash instr = jt_specHash (ej_terms j)"
    "wi_PrivateBundleHash instr = jt_privateBundleHash (ej_terms j)" "wi_ArtifactAddress instr = at_artifactAddress (ej_current j)"
    "wi_ArtifactBlock instr = Some (at_artifactBlock (ej_current j))"
    "wi_ArtifactCodeHash instr = bk_codehash B (at_artifactAddress (ej_current j))"
    by (simp_all add: checkIdentity_def checkOutcomeBinding_def verdictIdentityFrom_def split: if_splits)
  moreover have "vc_EscrowAddress cfg = bk_this B" "uint (vc_ChainID cfg) = bk_chainid B"
    using id(1) job(3) by (simp_all add: checkIdentity_def verdict_bound_def split: if_splits)
  moreover have "transfers = [(jt_contractor (ej_terms j), jt_principal (ej_terms j)), (treasury, jt_fee (ej_terms j))]"
    by (simp add: tr settled_transfers_def)
  ultimately show ?thesis using v(1,2) run job(1,2) by blast
qed

text \<open>The concrete run, with an encoder that knows its verdict.\<close>

definition demo_wire :: ext_env where
  "demo_wire = demo_ext\<lparr>xe_EncodeVerdict := (\<lambda>v. if v = demo_verdict then Inr [9] else Inl ''unsupported'')\<rparr>"

theorem payment_is_earned_witness:
  "\<exists>instr job. payment_run demo_wire 0 \<lparr>ac_ID = 77, ac_SubmissionTag = ''threshold'', ac_Message = [1]\<rparr>
       demo_cfg demo_fetcher instr job \<and>
     wi_JobId instr = Some 1 \<and> wi_PrivateBundleHash instr = jt_privateBundleHash (ej_terms demo_job)"
proof -
  let ?a = "\<lparr>ac_ID = 77, ac_SubmissionTag = ''threshold'', ac_Message = [1]\<rparr>"
  let ?df = "\<lparr>df_OPType = 9, df_OPCommand = 6, df_OriginalMessage = [1]\<rparr>"
  let ?e = "New demo_ext demo_vars 8080 9000" and ?args = "demo_args\<lparr>sa_data := [9]\<rparr>"
  let ?decode = "\<lambda>d. if d = [9] then Some demo_verdict else None"
  have X: "xe_ve demo_wire = demo_env 42" "xe_DecodeInstruction demo_wire b = Inr demo_instr"
    "xe_EncodeVerdict demo_wire w = (if w = demo_verdict then Inr [9] else Inl ''unsupported'')" for b w
    by (simp_all add: demo_wire_def demo_ext_def)
  obtain f' where "Verify demo_cfg (demo_env 42) 0 [] 77 demo_instr demo_fetcher = (Ok demo_verdict, f')"
    using demo_verdict_issued by blast
  then have p: "processVerify demo_wire 0 ?a ?df ?e = (Ok (buildResult ?a ?df [9] 1 []), ?e\<lparr>e_verifier := Some (demo_cfg, f')\<rparr>)"
    by (simp add: processVerify_def demo_New X Let_def)
  have st: "settleAttempt demo_lib ?decode (\<lambda>_ _ _ _. 3) 50 demo_block 1 ?args demo_job =
      Inr (demo_job\<lparr>ej_state := settled_state demo_block demo_job OutcomePass, ej_settled := True\<rparr>,
           settled_transfers 50 demo_job OutcomePass)"
  proof -
    have "settle_call_ok demo_lib ?decode (\<lambda>_ _ _ _. 3) demo_block ?args demo_job demo_verdict"
      using demo_call_ok by (simp add: settle_call_ok_def demo_args_def demo_signer)
    then show ?thesis
      unfolding settleAttempt_Inr_iff
      by (intro exI [of _ demo_verdict]) (simp add: Let_def demo_verdict_fields demo_binding)
  qed
  have codec: "?decode data = Some v" if "xe_EncodeVerdict demo_wire v = Inr data" for v data
    using that by (simp add: X split: if_splits)
  have "settled_transfers 50 demo_job OutcomePass \<noteq> []" "sa_data ?args = ar_Data (buildResult ?a ?df [9] 1 [])"
    "sa_status ?args = ar_Status (buildResult ?a ?df [9] 1 [])"
    by (simp_all add: settled_transfers_def buildResult_def demo_args_def)
  from payment_is_earned [OF p st this codec, unfolded demo_New] show ?thesis by auto
qed

end
